(* ===== verification/Prelude.thy ===== *)
theory Prelude
  imports Main "HOL-Library.List_Lexorder" "HOL-Library.Char_ord"
begin

text \<open>
  Shared vocabulary of the development: 64-bit money arithmetic, transactions as
  state-passing functions that may fail, tables as lists of rows, and the lemma
  collections the component theories feed and use.
\<close>

named_theorems tx_simps \<open>evaluation of transactions\<close>
named_theorems tx_keeps \<open>a step relation is kept by the transaction combinators\<close>
named_theorems query_defs \<open>definitions of the database queries\<close>

subsection \<open>Signed 64-bit integers\<close>

text \<open>
  Go's \<open>int64\<close>: the values are the integers from \<open>- 2 ^ 63\<close> to \<open>2 ^ 63 - 1\<close>, and
  the result of an operation is reduced into that range.
\<close>

definition i64 :: "int \<Rightarrow> int" where
  "i64 x = (x + 2 ^ 63) mod 2 ^ 64 - 2 ^ 63"

definition is_i64 :: "int \<Rightarrow> bool" where
  "is_i64 x \<longleftrightarrow> - (2 ^ 63) \<le> x \<and> x < 2 ^ 63"

definition add64 :: "int \<Rightarrow> int \<Rightarrow> int" where
  "add64 a b = i64 (a + b)"

definition sub64 :: "int \<Rightarrow> int \<Rightarrow> int" where
  "sub64 a b = i64 (a - b)"

lemma is_i64_i64 [simp]: "is_i64 (i64 x)"
proof -
  have "0 \<le> (x + 2 ^ 63) mod 2 ^ 64" "(x + 2 ^ 63) mod 2 ^ 64 < 2 ^ 64"
    by (simp_all add: pos_mod_bound)
  then show ?thesis by (simp add: is_i64_def i64_def)
qed

lemma i64_id [simp]: "is_i64 x \<Longrightarrow> i64 x = x"
  by (simp add: is_i64_def i64_def)

lemma i64_i64 [simp]: "i64 (i64 x) = i64 x"
  by (rule i64_id) simp

lemma i64_mod: "i64 x mod 2 ^ 64 = x mod 2 ^ 64"
proof -
  have "i64 x mod 2 ^ 64 = (x + 2 ^ 63 - 2 ^ 63) mod 2 ^ 64"
    unfolding i64_def by (rule mod_diff_left_eq)
  then show ?thesis by simp
qed

lemma i64_cong: "x mod 2 ^ 64 = y mod 2 ^ 64 \<Longrightarrow> i64 x = i64 y"
  unfolding i64_def by (metis mod_add_left_eq)

lemma i64_add_left [simp]: "i64 (i64 a + b) = i64 (a + b)"
  by (rule i64_cong) (metis i64_mod mod_add_left_eq)

lemma i64_add_right [simp]: "i64 (a + i64 b) = i64 (a + b)"
  by (metis add.commute i64_add_left)

lemma i64_diff_left [simp]: "i64 (i64 a - b) = i64 (a - b)"
  by (rule i64_cong) (metis i64_mod mod_diff_left_eq)

lemma i64_diff_right [simp]: "i64 (a - i64 b) = i64 (a - b)"
  by (rule i64_cong) (metis i64_mod mod_diff_right_eq)

lemma is_i64_0 [simp]: "is_i64 0"
  by (simp add: is_i64_def)

lemma i64_0 [simp]: "i64 0 = 0"
  by simp

lemma is_i64_between: "0 \<le> x \<Longrightarrow> x \<le> y \<Longrightarrow> is_i64 y \<Longrightarrow> is_i64 x"
  by (simp add: is_i64_def)

lemma add64_id: "is_i64 (a + b) \<Longrightarrow> add64 a b = a + b"
  by (simp add: add64_def)

lemma sub64_id: "is_i64 (a - b) \<Longrightarrow> sub64 a b = a - b"
  by (simp add: sub64_def)

lemma is_i64_add64 [simp]: "is_i64 (add64 a b)"
  and is_i64_sub64 [simp]: "is_i64 (sub64 a b)"
  by (simp_all add: add64_def sub64_def)

text \<open>The conversion \<open>int32(x)\<close>.\<close>

definition i32 :: "int \<Rightarrow> int" where
  "i32 x = (x + 2 ^ 31) mod 2 ^ 32 - 2 ^ 31"

lemma i32_id [simp]: "- (2 ^ 31) \<le> x \<Longrightarrow> x < 2 ^ 31 \<Longrightarrow> i32 x = x"
  by (simp add: i32_def)

subsection \<open>Sums over rows\<close>

abbreviation sum_by :: "('a \<Rightarrow> int) \<Rightarrow> 'a list \<Rightarrow> int" where
  "sum_by f xs \<equiv> sum_list (map f xs)"

text \<open>The loop \<open>for x := range xs { acc += f(x) }\<close> on \<open>int64\<close>.\<close>

fun sum64_from :: "('a \<Rightarrow> int) \<Rightarrow> int \<Rightarrow> 'a list \<Rightarrow> int" where
  "sum64_from f acc [] = acc"
| "sum64_from f acc (x # xs) = sum64_from f (add64 acc (f x)) xs"

lemma sum64_from_eq: "is_i64 acc \<Longrightarrow> sum64_from f acc xs = i64 (acc + sum_by f xs)"
proof (induction xs arbitrary: acc)
  case Nil
  then show ?case by simp
next
  case (Cons x xs)
  then show ?case by (simp add: add64_def add.assoc)
qed

lemma sum_by_nonneg: "(\<And>x. x \<in> set xs \<Longrightarrow> 0 \<le> f x) \<Longrightarrow> 0 \<le> sum_by f xs"
  by (rule sum_list_nonneg) auto

lemma sum_by_member_le:
  "(\<And>x. x \<in> set xs \<Longrightarrow> 0 \<le> f x) \<Longrightarrow> y \<in> set xs \<Longrightarrow> f y \<le> sum_by f xs"
proof (induction xs)
  case (Cons x xs)
  have "0 \<le> sum_by f xs" using Cons.prems(1) by (intro sum_by_nonneg) simp
  with Cons show ?case by fastforce
qed simp

subsection \<open>Tables\<close>

text \<open>
  A table is the list of its rows in insertion order. \<open>UPDATE \<dots> WHERE\<close> maps the rows that
  match, \<open>DELETE \<dots> WHERE\<close> filters them out, a query that returns one row takes the first match.
\<close>

definition upd_where :: "('r \<Rightarrow> bool) \<Rightarrow> ('r \<Rightarrow> 'r) \<Rightarrow> 'r list \<Rightarrow> 'r list" where
  "upd_where P f rs = map (\<lambda>r. if P r then f r else r) rs"

definition del_where :: "('r \<Rightarrow> bool) \<Rightarrow> 'r list \<Rightarrow> 'r list" where
  "del_where P rs = filter (\<lambda>r. \<not> P r) rs"

definition count_where :: "('r \<Rightarrow> bool) \<Rightarrow> 'r list \<Rightarrow> nat" where
  "count_where P rs = length (filter P rs)"

lemma upd_where_Nil [simp]: "upd_where P f [] = []"
  by (simp add: upd_where_def)

lemma upd_where_Cons [simp]:
  "upd_where P f (r # rs) = (if P r then f r else r) # upd_where P f rs"
  by (simp add: upd_where_def)

lemma upd_where_append [simp]: "upd_where P f (xs @ ys) = upd_where P f xs @ upd_where P f ys"
  by (simp add: upd_where_def)

lemma length_upd_where [simp]: "length (upd_where P f rs) = length rs"
  by (simp add: upd_where_def)

lemma set_upd_where: "set (upd_where P f rs) = (\<lambda>r. if P r then f r else r) ` set rs"
  by (simp add: upd_where_def)

lemma upd_where_none: "(\<And>r. r \<in> set rs \<Longrightarrow> \<not> P r) \<Longrightarrow> upd_where P f rs = rs"
  by (induction rs) auto

lemma map_upd_where_same: "(\<And>r. P r \<Longrightarrow> k (f r) = k r) \<Longrightarrow> map k (upd_where P f rs) = map k rs"
  by (induction rs) auto

lemma bex_upd_where:
  "(\<And>r. Q (f r) = Q r) \<Longrightarrow> (\<exists>r \<in> set (upd_where P f rs). Q r) = (\<exists>r \<in> set rs. Q r)"
  by (auto simp: set_upd_where)

text \<open>Rows outside the \<open>WHERE\<close> clause are not touched: the base of the isolation theorems.\<close>

lemma filter_upd_where_outside:
  assumes "\<And>r. Q r \<Longrightarrow> \<not> P r" and "\<And>r. P r \<Longrightarrow> \<not> Q (f r)"
  shows "filter Q (upd_where P f rs) = filter Q rs"
  using assms by (induction rs) auto

lemma filter_upd_where:
  "(\<And>r. P r \<Longrightarrow> Q (f r) = Q r) \<Longrightarrow> filter Q (upd_where P f rs) = upd_where P f (filter Q rs)"
  by (induction rs) auto

lemma filter_del_where_outside:
  assumes "\<And>r. Q r \<Longrightarrow> \<not> P r"
  shows "filter Q (del_where P rs) = filter Q rs"
proof -
  have "(\<lambda>r. \<not> P r \<and> Q r) = Q" using assms by blast
  then show ?thesis by (simp add: del_where_def)
qed

lemma set_del_where: "set (del_where P rs) = {r \<in> set rs. \<not> P r}"
  by (simp add: del_where_def)

lemma count_where_pos: "0 < count_where P rs \<longleftrightarrow> (\<exists>r \<in> set rs. P r)"
  by (auto simp: count_where_def length_greater_0_conv filter_empty_conv)

lemma count_where_0: "count_where P rs = 0 \<longleftrightarrow> (\<forall>r \<in> set rs. \<not> P r)"
  by (auto simp: count_where_def filter_empty_conv)

lemma find_SomeD: "List.find P rs = Some r \<Longrightarrow> r \<in> set rs \<and> P r"
  by (induction rs) (auto split: if_splits)

lemma find_append: "List.find P (xs @ ys) = (case List.find P xs of None \<Rightarrow> List.find P ys | Some r \<Rightarrow> Some r)"
  by (induction xs) auto

lemma find_None_iff_all: "List.find P rs = None \<longleftrightarrow> (\<forall>r \<in> set rs. \<not> P r)"
  by (induction rs) auto

text \<open>With one row per key, the first match is the only one.\<close>

lemma find_key_unique:
  assumes "distinct (map k rs)" and "r \<in> set rs"
  shows "List.find (\<lambda>x. k x = k r) rs = Some r"
  using assms by (induction rs) (auto simp: image_iff)

lemma find_upd_where:
  "(\<And>r. Q (f r) = Q r) \<Longrightarrow>
   List.find Q (upd_where P f rs) = map_option (\<lambda>r. if P r then f r else r) (List.find Q rs)"
  by (induction rs) auto

subsection \<open>Transactions\<close>

text \<open>
  A domain function runs inside the transaction of its HTTP handler: on an error the handler
  rolls back, so the state is dropped; on success it commits the state that is returned.
\<close>

type_synonym ('s, 'e, 'a) tx = "'s \<Rightarrow> 'e + ('a \<times> 's)"

definition tx_ret :: "'a \<Rightarrow> ('s, 'e, 'a) tx" where
  "tx_ret x s = Inr (x, s)"

definition tx_fail :: "'e \<Rightarrow> ('s, 'e, 'a) tx" where
  "tx_fail e s = Inl e"

definition tx_bind :: "('s, 'e, 'a) tx \<Rightarrow> ('a \<Rightarrow> ('s, 'e, 'b) tx) \<Rightarrow> ('s, 'e, 'b) tx" where
  "tx_bind m f s = (case m s of Inl e \<Rightarrow> Inl e | Inr (x, t) \<Rightarrow> f x t)"

text \<open>A read-only query, and a query whose error the caller translates.\<close>

definition tx_read :: "('s \<Rightarrow> 'a) \<Rightarrow> ('s, 'e, 'a) tx" where
  "tx_read f s = Inr (f s, s)"

definition tx_catch :: "('e \<Rightarrow> 'e) \<Rightarrow> ('s, 'e, 'a) tx \<Rightarrow> ('s, 'e, 'a) tx" where
  "tx_catch h m s = (case m s of Inl e \<Rightarrow> Inl (h e) | Inr r \<Rightarrow> Inr r)"

text \<open>An optional value that must be present (a parse that may fail).\<close>

definition tx_some :: "'e \<Rightarrow> 'a option \<Rightarrow> ('s, 'e, 'a) tx" where
  "tx_some e x = (case x of None \<Rightarrow> tx_fail e | Some v \<Rightarrow> tx_ret v)"

definition tx_guard :: "bool \<Rightarrow> 'e \<Rightarrow> ('s, 'e, unit) tx" where
  "tx_guard b e = (if b then tx_ret () else tx_fail e)"

text \<open>\<open>for x := range xs { y, err := f(x); if err != nil { return err }; out = append(out, y) }\<close>\<close>

fun tx_map :: "('x \<Rightarrow> ('s, 'e, 'y) tx) \<Rightarrow> 'x list \<Rightarrow> ('s, 'e, 'y list) tx" where
  "tx_map f [] = tx_ret []"
| "tx_map f (x # xs) = tx_bind (f x) (\<lambda>y. tx_bind (tx_map f xs) (\<lambda>ys. tx_ret (y # ys)))"

lemma tx_ret_apply [tx_simps]: "tx_ret x s = Inr (x, s)"
  and tx_fail_apply [tx_simps]: "tx_fail e s = Inl e"
  and tx_read_apply [tx_simps]: "tx_read f s = Inr (f s, s)"
  by (simp_all add: tx_ret_def tx_fail_def tx_read_def)

lemma tx_bind_ok [tx_simps]: "m s = Inr (x, t) \<Longrightarrow> tx_bind m f s = f x t"
  and tx_bind_err [tx_simps]: "m s = Inl e \<Longrightarrow> tx_bind m f s = Inl e"
  by (simp_all add: tx_bind_def)

lemma tx_bind_ret [tx_simps]: "tx_bind (tx_ret x) f = f x"
  and tx_bind_fail [tx_simps]: "tx_bind (tx_fail e) f = tx_fail e"
  by (simp_all add: fun_eq_iff tx_bind_def tx_ret_def tx_fail_def)

lemma tx_bind_Inr: "tx_bind m f s = Inr r \<longleftrightarrow> (\<exists>x t. m s = Inr (x, t) \<and> f x t = Inr r)"
  by (auto simp: tx_bind_def split: sum.splits)

lemma tx_catch_Inr [simp]: "tx_catch h m s = Inr r \<longleftrightarrow> m s = Inr r"
  by (auto simp: tx_catch_def split: sum.splits)

lemma tx_catch_ok [tx_simps]: "m s = Inr r \<Longrightarrow> tx_catch h m s = Inr r"
  and tx_catch_err [tx_simps]: "m s = Inl e \<Longrightarrow> tx_catch h m s = Inl (h e)"
  by (simp_all add: tx_catch_def)

lemma tx_ret_Inr [simp]: "tx_ret x s = Inr r \<longleftrightarrow> r = (x, s)"
  by (auto simp: tx_ret_def)

lemma tx_fail_Inr [simp]: "tx_fail e s = Inr r \<longleftrightarrow> False"
  by (simp add: tx_fail_def)

lemma tx_read_Inr [simp]: "tx_read f s = Inr r \<longleftrightarrow> r = (f s, s)"
  by (auto simp: tx_read_def)

lemma tx_some_Inr [simp]: "tx_some e x s = Inr r \<longleftrightarrow> (\<exists>v. x = Some v \<and> r = (v, s))"
  by (auto simp: tx_some_def split: option.splits)

lemma tx_some_Some [tx_simps]: "tx_some e (Some v) = tx_ret v"
  and tx_some_None [tx_simps]: "tx_some e None = tx_fail e"
  by (simp_all add: tx_some_def)

lemma tx_guard_Inr [simp]: "tx_guard b e s = Inr r \<longleftrightarrow> b \<and> r = ((), s)"
  by (auto simp: tx_guard_def)

lemma tx_guard_True [tx_simps]: "b \<Longrightarrow> tx_guard b e = tx_ret ()"
  and tx_guard_False [tx_simps]: "\<not> b \<Longrightarrow> tx_guard b e = tx_fail e"
  by (simp_all add: tx_guard_def)

lemmas tx_inv = tx_bind_Inr

text \<open>
  A successful run is a chain of successful steps; the following rules peel it in proofs that
  walk through a handler.
\<close>

lemma tx_bindE:
  assumes "tx_bind m f s = Inr r"
  obtains x t where "m s = Inr (x, t)" and "f x t = Inr r"
  using assms by (auto simp: tx_bind_Inr)

lemma tx_map_length: "tx_map f xs s = Inr (ys, t) \<Longrightarrow> length ys = length xs"
  by (induction xs arbitrary: s ys) (auto simp: tx_inv)

subsection \<open>Step relations kept by transactions\<close>

text \<open>
  \<open>tx_rel R m\<close>: every successful run of \<open>m\<close> relates the state before and after by \<open>R\<close>.
  For a reflexive and transitive \<open>R\<close> (an invariant's preservation, a frame condition, tenant
  isolation) it is enough to prove it for each query; the locale lifts it through the combinators.
\<close>

definition tx_rel :: "('s \<Rightarrow> 's \<Rightarrow> bool) \<Rightarrow> ('s, 'e, 'a) tx \<Rightarrow> bool" where
  "tx_rel R m \<longleftrightarrow> (\<forall>s x t. m s = Inr (x, t) \<longrightarrow> R s t)"

lemma tx_relI: "(\<And>s x t. m s = Inr (x, t) \<Longrightarrow> R s t) \<Longrightarrow> tx_rel R m"
  by (auto simp: tx_rel_def)

lemma tx_relD: "tx_rel R m \<Longrightarrow> m s = Inr (x, t) \<Longrightarrow> R s t"
  by (auto simp: tx_rel_def)

lemma tx_rel_mono: "tx_rel R m \<Longrightarrow> (\<And>s t. R s t \<Longrightarrow> S s t) \<Longrightarrow> tx_rel S m"
  by (auto simp: tx_rel_def)

locale step_rel =
  fixes R :: "'s \<Rightarrow> 's \<Rightarrow> bool"
  assumes refl: "R s s"
    and trans: "R s t \<Longrightarrow> R t u \<Longrightarrow> R s u"
begin

lemma ret: "tx_rel R (tx_ret x)"
  by (simp add: tx_rel_def refl)

lemma fail: "tx_rel R (tx_fail e)"
  by (simp add: tx_rel_def)

lemma read: "tx_rel R (tx_read f)"
  by (simp add: tx_rel_def refl)

lemma some: "tx_rel R (tx_some e x)"
  by (simp add: tx_rel_def refl)

lemma guard: "tx_rel R (tx_guard b e)"
  by (simp add: tx_rel_def refl)

lemma bind: "tx_rel R m \<Longrightarrow> (\<And>x. tx_rel R (f x)) \<Longrightarrow> tx_rel R (tx_bind m f)"
  unfolding tx_rel_def tx_bind_Inr by (blast intro: trans)

lemma catch_err: "tx_rel R m \<Longrightarrow> tx_rel R (tx_catch h m)"
  by (simp add: tx_rel_def)

lemma ite: "tx_rel R m \<Longrightarrow> tx_rel R n \<Longrightarrow> tx_rel R (if b then m else n)"
  by simp

lemma mapM: "(\<And>x. tx_rel R (f x)) \<Longrightarrow> tx_rel R (tx_map f xs)"
  by (induction xs) (auto intro: ret bind)

lemmas rules = ret fail read some guard bind catch_err ite mapM

end

text \<open>The preservation of an invariant is such a relation.\<close>

definition keeps :: "('s \<Rightarrow> bool) \<Rightarrow> 's \<Rightarrow> 's \<Rightarrow> bool" where
  "keeps I s t \<longleftrightarrow> (I s \<longrightarrow> I t)"

interpretation kp: step_rel "keeps I" for I
  by unfold_locales (auto simp: keeps_def)

subsection \<open>State machines\<close>

text \<open>
  A component whose entities are in states that a step leaves as they are or moves along an edge
  of a graph: the settlements and the claims. \<open>estado k m\<close> is the state of the entity \<open>k\<close>.
\<close>

locale maquina =
  fixes arista :: "'e \<Rightarrow> 'e \<Rightarrow> bool"
    and paso :: "'m \<Rightarrow> 'm \<Rightarrow> bool"
    and estado :: "'k \<Rightarrow> 'm \<Rightarrow> 'e option"
  assumes paso_arista: "paso m m' \<Longrightarrow> estado k m = Some e \<Longrightarrow>
    \<exists>e'. estado k m' = Some e' \<and> (e' = e \<or> arista e e')"
begin

lemma camino:
  assumes "paso\<^sup>*\<^sup>* m m'" and "estado k m = Some e"
  shows "\<exists>e'. estado k m' = Some e' \<and> arista\<^sup>*\<^sup>* e e'"
  using assms
proof (induction rule: rtranclp_induct)
  case base
  then show ?case by blast
next
  case (step y z)
  then show ?case using paso_arista by (metis rtranclp.rtrancl_into_rtrancl)
qed

text \<open>A set of states that the edges do not leave is never left: a final state is final.\<close>

lemma cerrado:
  assumes "paso\<^sup>*\<^sup>* m m'" and "estado k m = Some e" and "e \<in> C"
    and "\<And>a b. a \<in> C \<Longrightarrow> arista a b \<Longrightarrow> b \<in> C"
  shows "\<exists>e' \<in> C. estado k m' = Some e'"
proof -
  obtain e' where e': "estado k m' = Some e'" "arista\<^sup>*\<^sup>* e e'" using camino[OF assms(1,2)] by blast
  from e'(2) have "e' \<in> C" by (induction rule: rtranclp_induct) (use assms(3,4) in auto)
  with e'(1) show ?thesis by blast
qed

end

text \<open>The state after an evaluated request.\<close>

lemma mapsum_Inr: "map_sum id snd x = Inr t \<Longrightarrow> \<exists>d. x = Inr (d, t)"
  by (cases x) auto

end
