(* ===== verification/Fechas.thy ===== *)
theory Fechas
  imports Prelude
begin

text \<open>
  Dates and text: \<open>time.Parse\<close> and \<open>Format\<close> with the layout \<open>2006-01-02\<close> of Go's library, the
  order of dates, and the helpers of \<open>strings\<close> that the domain packages use. A string is the
  list of its bytes; \<open>trim_space\<close> and the case conversions act on ASCII.
\<close>

subsection \<open>Decimal numbers\<close>

definition digito :: "char \<Rightarrow> bool" where
  "digito c \<longleftrightarrow> 48 \<le> (of_char c :: nat) \<and> (of_char c :: nat) \<le> 57"

definition valor :: "char \<Rightarrow> nat" where
  "valor c = of_char c - 48"

definition cifra :: "nat \<Rightarrow> char" where
  "cifra n = char_of (48 + n mod 10)"

definition num :: "string \<Rightarrow> nat" where
  "num s = foldl (\<lambda>n c. 10 * n + valor c) 0 s"

fun show_nat :: "nat \<Rightarrow> string" where
  "show_nat n = (if n < 10 then [cifra n] else show_nat (n div 10) @ [cifra n])"

declare show_nat.simps [simp del]

text \<open>\<open>%d\<close> of a signed integer, and \<open>strings.Join\<close>.\<close>

definition show_int :: "int \<Rightarrow> string" where
  "show_int n = (if n < 0 then CHR 0x2D # show_nat (nat (- n)) else show_nat (nat n))"

fun unir :: "string \<Rightarrow> string list \<Rightarrow> string" where
  "unir sep [] = []"
| "unir sep [x] = x"
| "unir sep (x # y # xs) = x @ sep @ unir sep (y # xs)"

text \<open>Padding with zeros on the left.\<close>

definition pad :: "nat \<Rightarrow> string \<Rightarrow> string" where
  "pad w s = replicate (w - length s) (CHR ''0'') @ s"

lemma of_char_cifra: "(of_char (cifra n) :: nat) = 48 + n mod 10"
proof -
  have "n mod 10 < 10" by simp
  then have "48 + n mod 10 < 256" by linarith
  then show ?thesis by (simp add: cifra_def)
qed

lemma digito_cifra [simp]: "digito (cifra n)"
proof -
  have "n mod 10 < 10" by simp
  then have "n mod 10 \<le> 9" by linarith
  then show ?thesis by (simp add: digito_def of_char_cifra)
qed

lemma valor_cifra [simp]: "valor (cifra n) = n mod 10"
  by (simp add: valor_def of_char_cifra)

lemma cifra_0: "CHR ''0'' = cifra 0"
  by code_simp

lemma num_Nil [simp]: "num [] = 0"
  by (simp add: num_def)

lemma num_snoc [simp]: "num (s @ [c]) = 10 * num s + valor c"
  by (simp add: num_def)

lemma num_Cons0 [simp]: "num (CHR ''0'' # s) = num s"
  by (simp add: num_def cifra_0)

lemma num_ceros [simp]: "num (replicate k (CHR ''0'') @ s) = num s"
  by (induction k) simp_all

lemma num_show_nat [simp]: "num (show_nat n) = n"
proof (induction n rule: show_nat.induct)
  case (1 n)
  show ?case
  proof (cases "n < 10")
    case True
    then show ?thesis by (simp add: show_nat.simps[of n] num_def)
  next
    case False
    then show ?thesis using 1 by (simp add: show_nat.simps[of n])
  qed
qed

lemma digitos_show_nat [simp]: "\<forall>c \<in> set (show_nat n). digito c"
  by (induction n rule: show_nat.induct) (subst show_nat.simps, auto)

lemma length_show_nat: "n < 10 ^ k \<Longrightarrow> 0 < k \<Longrightarrow> length (show_nat n) \<le> k"
proof (induction k arbitrary: n)
  case (Suc k)
  show ?case
  proof (cases "n < 10")
    case True
    then show ?thesis by (simp add: show_nat.simps[of n])
  next
    case False
    then have "n div 10 < 10 ^ k" "0 < k"
      using Suc.prems by (auto simp: less_mult_imp_div_less mult.commute intro: gr0I)
    with Suc.IH show ?thesis by (simp add: show_nat.simps[of n])
  qed
qed simp

lemma length_pad: "n < 10 ^ k \<Longrightarrow> 0 < k \<Longrightarrow> length (pad k (show_nat n)) = k"
  using length_show_nat[of n k] by (simp add: pad_def)

lemma num_pad [simp]: "num (pad k (show_nat n)) = n"
  by (simp add: pad_def)

lemma digitos_pad [simp]: "\<forall>c \<in> set (pad k (show_nat n)). digito c"
  by (auto simp: pad_def cifra_0)

subsection \<open>Dates\<close>

datatype fecha = Fecha (anio: nat) (mes: nat) (dia: nat)

definition bisiesto :: "nat \<Rightarrow> bool" where
  "bisiesto y \<longleftrightarrow> y mod 4 = 0 \<and> (y mod 100 \<noteq> 0 \<or> y mod 400 = 0)"

definition dias_mes :: "nat \<Rightarrow> nat \<Rightarrow> nat" where
  "dias_mes y m = (if m = 2 then (if bisiesto y then 29 else 28)
     else if m \<in> {4, 6, 9, 11} then 30 else 31)"

definition fecha_ok :: "fecha \<Rightarrow> bool" where
  "fecha_ok f \<longleftrightarrow> anio f < 10000 \<and> 1 \<le> mes f \<and> mes f \<le> 12 \<and> 1 \<le> dia f \<and>
     dia f \<le> dias_mes (anio f) (mes f)"

text \<open>\<open>t.Format("2006-01-02")\<close> and \<open>time.Parse("2006-01-02", s)\<close>.\<close>

definition format_fecha :: "fecha \<Rightarrow> string" where
  "format_fecha f = pad 4 (show_nat (anio f)) @ ''-'' @ pad 2 (show_nat (mes f)) @ ''-'' @
     pad 2 (show_nat (dia f))"

definition parse_fecha :: "string \<Rightarrow> fecha option" where
  "parse_fecha s =
     (if length s = 10 \<and> s ! 4 = CHR ''-'' \<and> s ! 7 = CHR ''-'' \<and>
         (\<forall>c \<in> set (take 4 s) \<union> set (take 2 (drop 5 s)) \<union> set (drop 8 s). digito c)
      then (let f = Fecha (num (take 4 s)) (num (take 2 (drop 5 s))) (num (drop 8 s))
            in if fecha_ok f then Some f else None)
      else None)"

text \<open>A valid date is read back from what \<open>Format\<close> writes.\<close>

lemma parse_format_fecha:
  assumes "fecha_ok f"
  shows "parse_fecha (format_fecha f) = Some f"
proof -
  obtain y m d where f: "f = Fecha y m d" by (cases f)
  define ys where "ys = pad 4 (show_nat y)"
  define ms where "ms = pad 2 (show_nat m)"
  define ds where "ds = pad 2 (show_nat d)"
  have "d \<le> 31" using assms by (auto simp: f fecha_ok_def dias_mes_def split: if_splits)
  then have len: "length ys = 4" "length ms = 2" "length ds = 2"
    using assms length_pad[of y 4] length_pad[of m 2] length_pad[of d 2]
    by (auto simp: ys_def ms_def ds_def f fecha_ok_def)
  have s: "format_fecha f = ys @ CHR ''-'' # ms @ CHR ''-'' # ds"
    by (simp add: format_fecha_def f ys_def ms_def ds_def)
  have nums: "num ys = y" "num ms = m" "num ds = d"
    by (simp_all add: ys_def ms_def ds_def)
  have digs: "\<forall>c \<in> set ys. digito c" "\<forall>c \<in> set ms. digito c" "\<forall>c \<in> set ds. digito c"
    by (simp_all add: ys_def ms_def ds_def)
  show ?thesis
    unfolding parse_fecha_def s using assms len nums digs
    by (auto simp: f nth_append)
qed

lemma parse_fecha_ok: "parse_fecha s = Some f \<Longrightarrow> fecha_ok f"
  by (auto simp: parse_fecha_def Let_def split: if_splits)

text \<open>Dates are ordered by year, month and day, as \<open>t.Before(u)\<close> and the \<open>DATE\<close> type of the database.\<close>

definition clave_fecha :: "fecha \<Rightarrow> nat list" where
  "clave_fecha f = [anio f, mes f, dia f]"

lemma clave_fecha_inj: "clave_fecha f = clave_fecha g \<longleftrightarrow> f = g"
  by (cases f; cases g) (simp add: clave_fecha_def)

instantiation fecha :: linorder
begin

definition less_eq_fecha :: "fecha \<Rightarrow> fecha \<Rightarrow> bool" where
  "less_eq_fecha f g \<longleftrightarrow> clave_fecha f \<le> clave_fecha g"

definition less_fecha :: "fecha \<Rightarrow> fecha \<Rightarrow> bool" where
  "less_fecha f g \<longleftrightarrow> clave_fecha f < clave_fecha g"

instance
proof
  fix f g h :: fecha
  show "f < g \<longleftrightarrow> f \<le> g \<and> \<not> g \<le> f"
    by (simp add: less_eq_fecha_def less_fecha_def less_le_not_le)
  show "f \<le> f" by (simp add: less_eq_fecha_def)
  show "f \<le> g \<Longrightarrow> g \<le> h \<Longrightarrow> f \<le> h" by (simp add: less_eq_fecha_def)
  show "f \<le> g \<Longrightarrow> g \<le> f \<Longrightarrow> f = g" by (simp add: less_eq_fecha_def flip: clave_fecha_inj)
  show "f \<le> g \<or> g \<le> f" by (simp add: less_eq_fecha_def linear)
qed

end

subsection \<open>Text\<close>

definition espacio :: "char \<Rightarrow> bool" where
  "espacio c \<longleftrightarrow> (of_char c :: nat) \<in> {9, 10, 11, 12, 13, 32}"

definition trim_space :: "string \<Rightarrow> string" where
  "trim_space s = rev (dropWhile espacio (rev (dropWhile espacio s)))"

definition lower_char :: "char \<Rightarrow> char" where
  "lower_char c = (let n = (of_char c :: nat) in if 65 \<le> n \<and> n \<le> 90 then char_of (n + 32) else c)"

definition upper_char :: "char \<Rightarrow> char" where
  "upper_char c = (let n = (of_char c :: nat) in if 97 \<le> n \<and> n \<le> 122 then char_of (n - 32) else c)"

abbreviation to_lower :: "string \<Rightarrow> string" where
  "to_lower \<equiv> map lower_char"

abbreviation to_upper :: "string \<Rightarrow> string" where
  "to_upper \<equiv> map upper_char"

lemma trim_space_id: "\<forall>c \<in> set s. \<not> espacio c \<Longrightarrow> trim_space s = s"
proof -
  have d: "dropWhile espacio s = s" if "\<forall>c \<in> set s. \<not> espacio c" for s
    using that by (cases s) simp_all
  assume "\<forall>c \<in> set s. \<not> espacio c"
  then show ?thesis using d[of s] d[of "rev s"] by (simp add: trim_space_def)
qed

text \<open>\<open>strings.TrimRight(s, "/")\<close>.\<close>

definition trim_barra :: "string \<Rightarrow> string" where
  "trim_barra s = rev (dropWhile (\<lambda>c. c = CHR 0x2F) (rev s))"

lemma trim_space_idem [simp]: "trim_space (trim_space s) = trim_space s"
proof -
  have h: "dropWhile P (rev (dropWhile P (rev xs))) = rev (dropWhile P (rev xs))"
    if "dropWhile P xs = xs" for P :: "char \<Rightarrow> bool" and xs
  proof (cases xs)
    case (Cons x xs')
    with that have nx: "\<not> P x" by (metis dropWhile_eq_Cons_conv)
    then show ?thesis by (simp add: Cons dropWhile_append)
  qed simp
  show ?thesis by (simp add: trim_space_def h)
qed

end
