(* ===== verification/Float64.thy ===== *)
theory Float64
  imports Prelude
begin

text \<open>
  Go's \<open>float64\<close> (IEEE 754 binary64) as far as the distribution of expenses uses it. A finite
  value is \<open>m * 2 ^ e\<close>; every operation computes the exact result as a quotient of integers
  times a power of two and rounds it once, to the nearest value with 53 significant bits
  (ties to even), with exponents from \<open>-1074\<close> and overflow to infinity. The program compares
  floats with zero only, so several pairs may stand for one value and the sign of zero is not kept.
\<close>

datatype f64 = Fin int int | Inf bool | NaN

subsection \<open>Rounding\<close>

text \<open>The number of binary digits.\<close>

fun bits :: "nat \<Rightarrow> nat" where
  "bits n = (if n = 0 then 0 else Suc (bits (n div 2)))"

declare bits.simps [simp del]

lemma bits_numeral [simp]:
  "bits 0 = 0" "bits (Suc 0) = 1"
  "bits (numeral (num.Bit0 k)) = Suc (bits (numeral k))"
  "bits (numeral (num.Bit1 k)) = Suc (bits (numeral k))"
  by (simp_all add: bits.simps[of 0] bits.simps[of "Suc 0"] bits.simps[of "numeral _"])

text \<open>\<open>n / d\<close> to the nearest integer, ties to even.\<close>

definition rne :: "int \<Rightarrow> int \<Rightarrow> int" where
  "rne n d = (let q = n div d; r = n mod d in
     if 2 * r < d \<or> (2 * r = d \<and> even q) then q else q + 1)"

text \<open>\<open>n / d\<close> to the nearest integer, ties away from zero (Go's \<open>math.Round\<close>).\<close>

definition rha :: "int \<Rightarrow> int \<Rightarrow> int" where
  "rha n d = (if 0 \<le> n then (2 * n + d) div (2 * d) else - ((2 * (- n) + d) div (2 * d)))"

definition shl :: "int \<Rightarrow> int \<Rightarrow> int" where
  "shl n k = n * 2 ^ nat k"

text \<open>
  The binary64 value nearest to \<open>(n / d) * 2 ^ k\<close>, for \<open>d > 0\<close>: \<open>lg\<close> is the exponent of the
  leading digit, \<open>e\<close> the exponent of the last of the 53 kept.
\<close>

definition fl_lg :: "int \<Rightarrow> int \<Rightarrow> int" where
  "fl_lg n d = (let l = int (bits (nat \<bar>n\<bar>)) - int (bits (nat d)) in
     if shl d l \<le> shl \<bar>n\<bar> (- l) then l else l - 1)"

definition fl_exp :: "int \<Rightarrow> int \<Rightarrow> int \<Rightarrow> int" where
  "fl_exp n d k = max (fl_lg n d + k - 52) (- 1074)"

definition fl_mant :: "int \<Rightarrow> int \<Rightarrow> int \<Rightarrow> int" where
  "fl_mant n d k = rne (shl n (k - fl_exp n d k)) (shl d (fl_exp n d k - k))"

definition fl :: "int \<Rightarrow> int \<Rightarrow> int \<Rightarrow> f64" where
  "fl n d k = (if n = 0 then Fin 0 0
     else if 1024 < int (bits (nat \<bar>fl_mant n d k\<bar>)) + fl_exp n d k then Inf (0 < n)
     else Fin (fl_mant n d k) (fl_exp n d k))"

subsection \<open>Operations\<close>

definition f_of_int :: "int \<Rightarrow> f64" where
  "f_of_int i = fl i 1 0"

fun f_add :: "f64 \<Rightarrow> f64 \<Rightarrow> f64" where
  "f_add (Fin m e) (Fin m' e') =
     (if e \<le> e' then fl (m + shl m' (e' - e)) 1 e else fl (shl m (e - e') + m') 1 e')"
| "f_add NaN y = NaN"
| "f_add x NaN = NaN"
| "f_add (Inf s) (Inf t) = (if s = t then Inf s else NaN)"
| "f_add (Inf s) y = Inf s"
| "f_add x (Inf t) = Inf t"

fun f_pos :: "f64 \<Rightarrow> bool" where
  "f_pos (Fin m e) = (0 < m)"
| "f_pos (Inf s) = s"
| "f_pos NaN = False"

fun f_neg :: "f64 \<Rightarrow> bool" where
  "f_neg (Fin m e) = (m < 0)"
| "f_neg (Inf s) = (\<not> s)"
| "f_neg NaN = False"

fun f_fin :: "f64 \<Rightarrow> bool" where
  "f_fin (Fin m e) = True"
| "f_fin x = False"

text \<open>Comparisons with zero: both \<open>x == 0\<close> and \<open>x <= 0\<close> are false on a NaN.\<close>

fun f_is0 :: "f64 \<Rightarrow> bool" where
  "f_is0 (Fin m e) = (m = 0)"
| "f_is0 (Inf s) = False"
| "f_is0 NaN = False"

definition f_le0 :: "f64 \<Rightarrow> bool" where
  "f_le0 x = (f_neg x \<or> f_is0 x)"

fun f_mul :: "f64 \<Rightarrow> f64 \<Rightarrow> f64" where
  "f_mul (Fin m e) (Fin m' e') = fl (m * m') 1 (e + e')"
| "f_mul x y = (if x = NaN \<or> y = NaN \<or> f_is0 x \<or> f_is0 y then NaN else Inf (f_neg x = f_neg y))"

fun f_div :: "f64 \<Rightarrow> f64 \<Rightarrow> f64" where
  "f_div (Fin m e) (Fin m' e') =
     (if m' = 0 then (if m = 0 then NaN else Inf (0 < m))
      else if 0 < m' then fl m m' (e - e') else fl (- m) (- m') (e - e'))"
| "f_div NaN y = NaN"
| "f_div x NaN = NaN"
| "f_div (Inf s) (Inf t) = NaN"
| "f_div (Inf s) y = Inf (s = (\<not> f_neg y))"
| "f_div x (Inf t) = Fin 0 0"

text \<open>
  \<open>int64(math.Round(x))\<close>. The conversion of a value outside the range is implementation-defined
  in Go; on amd64 it is \<open>- 2 ^ 63\<close>, also for a NaN and the infinities.
\<close>

fun f_round64 :: "f64 \<Rightarrow> int" where
  "f_round64 (Fin m e) =
     (let r = (if 0 \<le> e then shl m e else rha m (2 ^ nat (- e)))
      in if is_i64 r then r else - (2 ^ 63))"
| "f_round64 x = - (2 ^ 63)"

lemma is_i64_f_round64 [simp]: "is_i64 (f_round64 x)"
  by (cases x) (auto simp: Let_def is_i64_def)

subsection \<open>Signs\<close>

lemma shl_pos_iff [simp]: "0 < shl n k \<longleftrightarrow> 0 < n"
  and shl_0_iff [simp]: "shl n k = 0 \<longleftrightarrow> n = 0"
  and shl_neg_iff [simp]: "shl n k < 0 \<longleftrightarrow> n < 0"
  by (simp_all add: shl_def zero_less_mult_iff mult_less_0_iff)

lemma rne_nonpos:
  assumes "0 < d" and "n \<le> 0"
  shows "rne n d \<le> 0"
proof (cases "n = 0")
  case True
  with assms show ?thesis by (simp add: rne_def)
next
  case False
  with assms have "n div d < 0" by (simp add: pos_imp_zdiv_neg_iff)
  then show ?thesis by (auto simp: rne_def Let_def)
qed

lemma rne_nonneg: "0 < d \<Longrightarrow> 0 \<le> n \<Longrightarrow> 0 \<le> rne n d"
  by (auto simp: rne_def Let_def pos_imp_zdiv_nonneg_iff)

lemma fl_mant_pos: "0 < d \<Longrightarrow> 0 < fl_mant n d k \<Longrightarrow> 0 < n"
  using rne_nonpos[of "shl d (fl_exp n d k - k)" "shl n (k - fl_exp n d k)"]
  by (force simp: fl_mant_def not_less[symmetric])

lemma fl_mant_nonneg: "0 < d \<Longrightarrow> 0 \<le> n \<Longrightarrow> 0 \<le> fl_mant n d k"
  unfolding fl_mant_def by (rule rne_nonneg) (simp_all add: shl_def)

lemma fl_cases:
  obtains "n = 0" "fl n d k = Fin 0 0"
  | "n \<noteq> 0" "fl n d k = Inf (0 < n)"
  | "n \<noteq> 0" "fl n d k = Fin (fl_mant n d k) (fl_exp n d k)"
  by (metis fl_def)

lemma fl_pos: "0 < d \<Longrightarrow> f_pos (fl n d k) \<Longrightarrow> 0 < n"
  by (cases n d k rule: fl_cases) (auto dest: fl_mant_pos)

lemma fl_not_NaN [simp]: "fl n d k \<noteq> NaN"
  by (cases n d k rule: fl_cases) auto

lemma fl_not_neg: "0 < d \<Longrightarrow> 0 \<le> n \<Longrightarrow> \<not> f_neg (fl n d k)"
  by (cases n d k rule: fl_cases) (auto dest: fl_mant_nonneg[of d n k])

text \<open>A positive sum has a positive operand.\<close>

lemma f_add_pos: "f_pos (f_add x y) \<Longrightarrow> f_pos x \<or> f_pos y"
proof (induction x y rule: f_add.induct)
  case (1 m e m' e')
  then have "0 < m + shl m' (e' - e) \<or> 0 < shl m (e - e') + m'"
    by (auto intro: fl_pos[of 1] split: if_splits)
  then have "0 < m \<or> 0 < shl m' (e' - e) \<or> 0 < shl m (e - e') \<or> 0 < m'" by linarith
  then show ?case by auto
qed (auto split: if_splits)

lemma f_add_not_NaN: "f_fin x \<Longrightarrow> y \<noteq> NaN \<Longrightarrow> f_add y x \<noteq> NaN"
  by (induction y x rule: f_add.induct) (auto simp: Let_def)

lemma f_not_le0: "x \<noteq> NaN \<Longrightarrow> \<not> f_le0 x \<Longrightarrow> f_pos x"
  by (cases x) (auto simp: f_le0_def)

lemma f_pos_not_is0: "f_pos x \<Longrightarrow> \<not> f_is0 x"
  by (cases x) auto

lemma f_is0_not_pos: "f_is0 x \<Longrightarrow> \<not> f_pos x"
  by (cases x) auto

text \<open>The sum of a list of coefficients, as the loop computes it.\<close>

lemma f_sum_pos:
  "f_pos (foldl (\<lambda>s u. f_add s (c u)) x us) \<Longrightarrow> f_pos x \<or> (\<exists>u \<in> set us. f_pos (c u))"
  by (induction us arbitrary: x) (auto dest: f_add_pos)

lemma f_sum_not_NaN:
  "\<forall>u \<in> set us. f_fin (c u) \<Longrightarrow> x \<noteq> NaN \<Longrightarrow> foldl (\<lambda>s u. f_add s (c u)) x us \<noteq> NaN"
  by (induction us arbitrary: x) (auto simp: f_add_not_NaN)

text \<open>
  The rounding of a nonnegative value is nonnegative, so the share of a unit is not negative
  before it is clamped.
\<close>

lemma rha_nonneg: "0 < d \<Longrightarrow> 0 \<le> n \<Longrightarrow> 0 \<le> rha n d"
  by (simp add: rha_def pos_imp_zdiv_nonneg_iff)

text \<open>The definitions that evaluate float operations on literals by \<open>simp\<close>.\<close>

lemmas f64_eval = fl_def fl_lg_def fl_exp_def fl_mant_def shl_def rne_def rha_def f_of_int_def
  f_le0_def is_i64_def Let_def

end
