(* ===== verification/Calculo.thy ===== *)
theory Calculo
  imports Float64 "HOL-Library.Multiset"
begin

text \<open>
  \<open>internal/expensas/calculo.go\<close>: the distribution of the expenses of a period among the
  functional units (UF) of a consorcio by coefficient. The loops over \<open>unidades[i]\<close> and
  \<open>sortedUFs[i]\<close> run over the list of units, which carry their coefficient. The theorems
  characterise the shares by the closed form \<open>partes\<close> and show that nothing is lost.
\<close>

subsection \<open>Data\<close>

datatype calc_err = ErrCalculoVacio | ErrCalculoSinUFs | ErrCalculoSinCoefCero

record concepto_calculo =
  cc_concepto :: string
  cc_regla :: string
  cc_importe :: int

record uf_coef =
  uc_unidad :: string
  uc_codigo :: string
  uc_coef :: f64

record item_distribucion =
  it_concepto :: string
  it_regla :: string
  it_importe :: int

record unidad_item =
  ui_concepto :: string
  ui_importe :: int

record unidad_distribucion =
  ud_unidad :: string
  ud_codigo :: string
  ud_coef :: f64
  ud_total :: int
  ud_items :: "unidad_item list"

record distribucion =
  dr_items :: "item_distribucion list"
  dr_unidades :: "unidad_distribucion list"
  dr_total_gastos :: int
  dr_total_distribuido :: int
  dr_diferencia :: int
  dr_alcanzadas :: int
  dr_advertencias :: "string list"

subsection \<open>The code\<close>

definition coef_total :: "uf_coef list \<Rightarrow> f64" where
  "coef_total ufs = foldl (\<lambda>s u. f_add s (uc_coef u)) (Fin 0 0) ufs"

definition unidad_inicial :: "uf_coef \<Rightarrow> unidad_distribucion" where
  "unidad_inicial u = \<lparr>ud_unidad = uc_unidad u, ud_codigo = uc_codigo u, ud_coef = uc_coef u,
     ud_total = 0, ud_items = []\<rparr>"

definition advertencias :: "uf_coef list \<Rightarrow> string list" where
  "advertencias ufs = map (\<lambda>u. ''UF '' @ uc_codigo u @ '' tiene coeficiente 0, sin reparto'')
     (filter (\<lambda>u. f_is0 (uc_coef u)) ufs)"

text \<open>The share of one unit: the rounded quota, clamped to what remains.\<close>

definition cuota :: "f64 \<Rightarrow> int \<Rightarrow> int \<Rightarrow> f64 \<Rightarrow> int" where
  "cuota ct importe remain k =
     (let exact = f_mul (f_of_int importe) (f_div k ct);
          rounded = f_round64 exact;
          rounded = (if rounded < 0 then 0 else rounded)
      in if remain < rounded then remain else rounded)"

fun repartir :: "f64 \<Rightarrow> concepto_calculo \<Rightarrow> int \<Rightarrow> unidad_distribucion list
    \<Rightarrow> int \<times> unidad_distribucion list" where
  "repartir ct c remain [] = (remain, [])"
| "repartir ct c remain (u # us) =
     (if f_is0 ct \<or> f_is0 (ud_coef u)
      then (let (r, us') = repartir ct c remain us in (r, u # us'))
      else (let q = cuota ct (cc_importe c) remain (ud_coef u);
                u' = u\<lparr>ud_total := add64 (ud_total u) q,
                       ud_items := ud_items u @ [\<lparr>ui_concepto = cc_concepto c, ui_importe = q\<rparr>]\<rparr>;
                (r, us') = repartir ct c (sub64 remain q) us
            in (r, u' # us')))"

fun sumar_ultimo :: "int \<Rightarrow> unidad_item list \<Rightarrow> unidad_item list" where
  "sumar_ultimo x [] = []"
| "sumar_ultimo x [i] = [i\<lparr>ui_importe := add64 (ui_importe i) x\<rparr>]"
| "sumar_ultimo x (i # j # is) = i # sumar_ultimo x (j # is)"

text \<open>The residue goes to the first unit with a positive coefficient.\<close>

fun residuo :: "int \<Rightarrow> unidad_distribucion list \<Rightarrow> unidad_distribucion list" where
  "residuo remain [] = []"
| "residuo remain (u # us) =
     (if remain \<le> 0 then u # us
      else if f_pos (ud_coef u)
      then u\<lparr>ud_total := add64 (ud_total u) remain,
             ud_items := sumar_ultimo remain (ud_items u)\<rparr> # us
      else u # residuo remain us)"

definition repartir_concepto ::
  "f64 \<Rightarrow> unidad_distribucion list \<Rightarrow> concepto_calculo \<Rightarrow> unidad_distribucion list" where
  "repartir_concepto ct us c =
     (let (r, us') = repartir ct c (cc_importe c) us in residuo r us')"

definition item_de :: "concepto_calculo \<Rightarrow> item_distribucion" where
  "item_de c = \<lparr>it_concepto = cc_concepto c, it_regla = cc_regla c, it_importe = cc_importe c\<rparr>"

definition distribuir ::
  "concepto_calculo list \<Rightarrow> uf_coef list \<Rightarrow> calc_err + distribucion" where
  "distribuir conceptos ufs =
     (if conceptos = [] then Inl ErrCalculoVacio
      else if ufs = [] then Inl ErrCalculoSinUFs
      else (let sorted = sort_key uc_codigo ufs;
                ct = coef_total sorted
            in if f_le0 ct then Inl ErrCalculoSinCoefCero
               else (let us = foldl (repartir_concepto ct) (map unidad_inicial sorted) conceptos;
                         gastos = sum64_from cc_importe 0 conceptos;
                         dist = sum64_from ud_total 0 us
                     in Inr \<lparr>dr_items = map item_de conceptos,
                             dr_unidades = us,
                             dr_total_gastos = gastos,
                             dr_total_distribuido = dist,
                             dr_diferencia = sub64 gastos dist,
                             dr_alcanzadas = int (length (filter (\<lambda>u. 0 < ud_total u) us)),
                             dr_advertencias = advertencias sorted\<rparr>)))"

subsection \<open>The shares in closed form\<close>

text \<open>
  \<open>cuotas\<close> are the clamped rounded quotas of the units in order, \<open>partes\<close> adds the residue.
\<close>

fun cuotas :: "f64 \<Rightarrow> int \<Rightarrow> int \<Rightarrow> f64 list \<Rightarrow> int list" where
  "cuotas ct imp r [] = []"
| "cuotas ct imp r (k # ks) =
     (if f_is0 k then 0 # cuotas ct imp r ks
      else (let q = cuota ct imp r k in q # cuotas ct imp (r - q) ks))"

fun con_residuo :: "int \<Rightarrow> f64 list \<Rightarrow> int list \<Rightarrow> int list" where
  "con_residuo r (k # ks) (x # xs) =
     (if r \<le> 0 then x # xs else if f_pos k then (x + r) # xs else x # con_residuo r ks xs)"
| "con_residuo r ks xs = xs"

definition partes :: "f64 \<Rightarrow> int \<Rightarrow> f64 list \<Rightarrow> int list" where
  "partes ct imp ks = (let qs = cuotas ct imp imp ks in con_residuo (imp - sum_list qs) ks qs)"

definition pagar :: "concepto_calculo \<Rightarrow> unidad_distribucion \<Rightarrow> int \<Rightarrow> unidad_distribucion" where
  "pagar c u x = (if f_is0 (ud_coef u) then u
     else u\<lparr>ud_total := add64 (ud_total u) x,
            ud_items := ud_items u @ [\<lparr>ui_concepto = cc_concepto c, ui_importe = x\<rparr>]\<rparr>)"

text \<open>What a share can be: within zero and what remains, or all of a negative remainder.\<close>

lemma cuota_bounds:
  "0 \<le> r \<Longrightarrow> 0 \<le> cuota ct imp r k \<and> cuota ct imp r k \<le> r"
  "r < 0 \<Longrightarrow> cuota ct imp r k = r"
  by (auto simp: cuota_def Let_def)

lemma is_i64_cuota: "is_i64 r \<Longrightarrow> is_i64 (cuota ct imp r k) \<and> is_i64 (r - cuota ct imp r k)"
  using cuota_bounds[of r ct imp k] by (cases "0 \<le> r") (auto simp: is_i64_def)

lemma length_cuotas [simp]: "length (cuotas ct imp r ks) = length ks"
  by (induction ks arbitrary: r) (auto simp: Let_def)

lemma length_con_residuo [simp]: "length (con_residuo r ks xs) = length xs"
  by (induction r ks xs rule: con_residuo.induct) auto

lemma length_partes [simp]: "length (partes ct imp ks) = length ks"
  by (simp add: partes_def Let_def)

lemma repartir_eq:
  "is_i64 r \<Longrightarrow> \<not> f_is0 ct \<Longrightarrow>
   repartir ct c r us =
     (r - sum_list (cuotas ct (cc_importe c) r (map ud_coef us)),
      map2 (pagar c) us (cuotas ct (cc_importe c) r (map ud_coef us)))"
  by (induction us arbitrary: r)
    (auto simp: pagar_def Let_def is_i64_cuota sub64_id)

lemma sumar_ultimo_snoc: "sumar_ultimo x (is @ [i]) = is @ [i\<lparr>ui_importe := add64 (ui_importe i) x\<rparr>]"
proof (induction "is")
  case (Cons a "is")
  then show ?case by (cases "is") auto
qed simp

text \<open>What the shares leave of a remainder is zero if it was negative, else within the remainder.\<close>

lemma cuotas_resto:
  "0 \<le> r \<Longrightarrow> 0 \<le> r - sum_list (cuotas ct imp r ks) \<and> sum_list (cuotas ct imp r ks) \<ge> 0"
proof (induction ks arbitrary: r)
  case (Cons k ks)
  let ?q = "cuota ct imp r k"
  have "0 \<le> ?q" "?q \<le> r" using cuota_bounds(1)[OF Cons.prems, of ct imp k] by auto
  then show ?case using Cons.IH[of r] Cons.IH[of "r - ?q"] Cons.prems
    by (auto simp: Let_def)
qed simp

lemma cuotas_resto_neg:
  "r < 0 \<Longrightarrow> \<exists>k \<in> set ks. f_pos k \<Longrightarrow> r - sum_list (cuotas ct imp r ks) = 0"
proof (induction ks)
  case (Cons k ks)
  have "sum_list (cuotas ct imp 0 ks) = 0" using cuotas_resto[of 0 ct imp ks] by simp
  with Cons show ?case by (auto simp: Let_def cuota_bounds(2) dest: f_pos_not_is0)
qed simp

lemma cuotas_in:
  "0 \<le> r \<Longrightarrow> x \<in> set (cuotas ct imp r ks) \<Longrightarrow> 0 \<le> x \<and> x \<le> r"
proof (induction ks arbitrary: r)
  case (Cons k ks)
  show ?case
    using Cons.prems cuota_bounds(1)[OF Cons.prems(1), of ct imp k] Cons.IH[of r]
      Cons.IH[of "r - cuota ct imp r k"]
    by (auto simp: Let_def split: if_splits)
qed simp

lemma sum_con_residuo:
  "0 \<le> r \<Longrightarrow> \<exists>k \<in> set ks. f_pos k \<Longrightarrow> length xs = length ks \<Longrightarrow>
   sum_list (con_residuo r ks xs) = sum_list xs + r"
  by (induction r ks xs rule: con_residuo.induct) auto

lemma residuo_pagar:
  "is_i64 r \<Longrightarrow> length xs = length us \<Longrightarrow> (\<And>x. x \<in> set xs \<Longrightarrow> 0 < r \<Longrightarrow> is_i64 (x + r)) \<Longrightarrow>
   residuo r (map2 (pagar c) us xs) = map2 (pagar c) us (con_residuo r (map ud_coef us) xs)"
proof (induction us arbitrary: xs)
  case (Cons u us)
  then obtain x xs' where xs: "xs = x # xs'" by (cases xs) auto
  with Cons show ?case
    by (auto simp: pagar_def sumar_ultimo_snoc add64_def add.assoc dest: f_pos_not_is0)
qed simp

text \<open>The shares of a concept add up to its amount, whatever its sign.\<close>

lemma sum_partes:
  assumes "\<exists>k \<in> set ks. f_pos k"
  shows "sum_list (partes ct imp ks) = imp"
proof (cases "0 \<le> imp")
  case True
  with assms cuotas_resto[OF True, of ct imp ks] show ?thesis
    by (simp add: partes_def Let_def sum_con_residuo)
next
  case False
  then have "imp - sum_list (cuotas ct imp imp ks) = 0"
    using cuotas_resto_neg[OF _ assms, of imp ct imp] by simp
  then have "partes ct imp ks = cuotas ct imp imp ks"
    by (cases "(0::int, ks, cuotas ct imp imp ks)" rule: con_residuo.cases)
      (auto simp: partes_def Let_def)
  with \<open>imp - sum_list (cuotas ct imp imp ks) = 0\<close> show ?thesis by simp
qed

lemma con_residuo_in:
  "x \<in> set (con_residuo r ks xs) \<Longrightarrow> x \<in> set xs \<or> (0 < r \<and> (\<exists>y \<in> set xs. x = y + r))"
  by (induction r ks xs rule: con_residuo.induct) (auto split: if_splits)

lemma partes_bounds:
  assumes "0 \<le> imp" and "x \<in> set (partes ct imp ks)"
  shows "0 \<le> x \<and> x \<le> imp"
proof -
  let ?qs = "cuotas ct imp imp ks"
  have q: "0 \<le> y \<and> y \<le> imp" if "y \<in> set ?qs" for y
    using cuotas_in[OF assms(1) that] .
  have le: "y \<le> sum_list ?qs" if "y \<in> set ?qs" for y
    using sum_by_member_le[of ?qs id y] q that by simp
  from con_residuo_in[of x "imp - sum_list ?qs" ks ?qs] assms(2) show ?thesis
    using q le by (force simp: partes_def Let_def)
qed

lemma cuotas_cero: "i < length ks \<Longrightarrow> f_is0 (ks ! i) \<Longrightarrow> cuotas ct imp r ks ! i = 0"
proof (induction ks arbitrary: i r)
  case (Cons k ks)
  then show ?case by (cases i) (auto simp: Let_def)
qed simp

lemma con_residuo_cero:
  "length xs = length ks \<Longrightarrow> i < length ks \<Longrightarrow> \<not> f_pos (ks ! i) \<Longrightarrow> con_residuo r ks xs ! i = xs ! i"
proof (induction r ks xs arbitrary: i rule: con_residuo.induct)
  case (1 r k ks x xs)
  then show ?case by (cases i) auto
qed auto

lemma partes_cero: "i < length ks \<Longrightarrow> f_is0 (ks ! i) \<Longrightarrow> partes ct imp ks ! i = 0"
  by (simp add: partes_def Let_def con_residuo_cero cuotas_cero f_is0_not_pos)

lemma repartir_concepto_eq:
  assumes "is_i64 (cc_importe c)" and "\<not> f_is0 ct" and "\<exists>u \<in> set us. f_pos (ud_coef u)"
  shows "repartir_concepto ct us c =
    map2 (pagar c) us (partes ct (cc_importe c) (map ud_coef us))"
proof -
  let ?imp = "cc_importe c" and ?ks = "map ud_coef us"
  let ?qs = "cuotas ct ?imp ?imp ?ks"
  let ?r = "?imp - sum_list ?qs"
  have pos: "\<exists>k \<in> set ?ks. f_pos k" using assms(3) by auto
  have r: "is_i64 ?r \<and> (\<forall>x \<in> set ?qs. 0 < ?r \<longrightarrow> is_i64 (x + ?r))"
  proof (cases "0 \<le> ?imp")
    case True
    have "0 \<le> x \<and> x \<le> sum_list ?qs" if "x \<in> set ?qs" for x
      using cuotas_in[OF True] sum_by_member_le[of ?qs id x] that by simp
    with cuotas_resto[OF True, of ct ?imp ?ks] assms(1) show ?thesis
      by (fastforce simp: is_i64_def)
  next
    case False
    then show ?thesis using cuotas_resto_neg[OF _ pos, of ?imp ct ?imp] by simp
  qed
  then show ?thesis
    using repartir_eq[OF assms(1,2), of c us] residuo_pagar[of ?r ?qs us c]
    by (simp add: repartir_concepto_def partes_def Let_def)
qed

subsection \<open>All concepts\<close>

lemma pagar_coef [simp]: "ud_coef (pagar c u x) = ud_coef u"
  and pagar_codigo [simp]: "ud_codigo (pagar c u x) = ud_codigo u"
  and pagar_unidad [simp]: "ud_unidad (pagar c u x) = ud_unidad u"
  by (simp_all add: pagar_def)

lemma map2_pagar_same:
  "(\<And>u x. f (pagar c u x) = f u) \<Longrightarrow> length xs = length us \<Longrightarrow>
   map f (map2 (pagar c) us xs) = map f us"
  by (induction us xs rule: list_induct2') auto

text \<open>The state of the units after the concepts, unit by unit.\<close>

definition importes :: "f64 \<Rightarrow> f64 list \<Rightarrow> nat \<Rightarrow> concepto_calculo \<Rightarrow> int" where
  "importes ct ks i c = partes ct (cc_importe c) ks ! i"

definition pagos :: "f64 \<Rightarrow> f64 list \<Rightarrow> nat \<Rightarrow> concepto_calculo list \<Rightarrow> unidad_distribucion
    \<Rightarrow> unidad_distribucion" where
  "pagos ct ks i cs u = foldl (\<lambda>u c. pagar c u (importes ct ks i c)) u cs"

lemma pagos_simp:
  "pagos ct ks i cs u = (if f_is0 (ud_coef u) then u else
     u\<lparr>ud_total := sum64_from (importes ct ks i) (ud_total u) cs,
       ud_items := ud_items u @
         map (\<lambda>c. \<lparr>ui_concepto = cc_concepto c, ui_importe = importes ct ks i c\<rparr>) cs\<rparr>)"
  unfolding pagos_def by (induction cs arbitrary: u) (auto simp: pagar_def)

lemma conceptos_eq:
  assumes "\<forall>c \<in> set cs. is_i64 (cc_importe c)" and "\<not> f_is0 ct"
    and "\<exists>u \<in> set us. f_pos (ud_coef u)"
  shows "foldl (repartir_concepto ct) us cs =
    map (\<lambda>i. pagos ct (map ud_coef us) i cs (us ! i)) [0..<length us]"
  using assms
proof (induction cs arbitrary: us)
  case Nil
  then show ?case by (simp add: pagos_def map_nth)
next
  case (Cons c cs)
  let ?ps = "partes ct (cc_importe c) (map ud_coef us)"
  let ?us' = "map2 (pagar c) us ?ps"
  have eq: "repartir_concepto ct us c = ?us'"
    using Cons.prems by (intro repartir_concepto_eq) auto
  have ks: "map ud_coef ?us' = map ud_coef us" by (rule map2_pagar_same) simp_all
  then have "ud_coef ` set ?us' = ud_coef ` set us"
    by (metis set_map)
  then have "\<exists>u \<in> set ?us'. f_pos (ud_coef u)"
    using Cons.prems(3) by (metis (no_types, lifting) image_iff)
  then have "foldl (repartir_concepto ct) ?us' cs =
      map (\<lambda>i. pagos ct (map ud_coef us) i cs (?us' ! i)) [0..<length ?us']"
    using Cons.IH[of ?us'] Cons.prems ks by simp
  then show ?case
    unfolding foldl_Cons eq by (simp add: pagos_def importes_def)
qed

lemma sum_map2_pagar:
  "length xs = length us \<Longrightarrow> (\<And>i. i < length us \<Longrightarrow> f_is0 (ud_coef (us ! i)) \<Longrightarrow> xs ! i = 0) \<Longrightarrow>
   i64 (sum_by ud_total (map2 (pagar c) us xs)) = i64 (sum_by ud_total us + sum_list xs)"
proof (induction us arbitrary: xs)
  case (Cons u us)
  then obtain x xs' where xs: "xs = x # xs'" by (cases xs) auto
  have "xs' ! i = 0" if "i < length us" "f_is0 (ud_coef (us ! i))" for i
    using Cons.prems(2)[of "Suc i"] that by (simp add: xs)
  then have IH: "i64 (sum_by ud_total (map2 (pagar c) us xs')) = i64 (sum_by ud_total us + sum_list xs')"
    using Cons.IH[of xs'] Cons.prems(1) xs by simp
  have u: "i64 (ud_total (pagar c u x)) = i64 (ud_total u + x)"
    using Cons.prems(2)[of 0] by (auto simp: pagar_def add64_def xs)
  have "i64 (sum_by ud_total (map2 (pagar c) (u # us) xs)) =
      i64 (i64 (ud_total (pagar c u x)) + i64 (sum_by ud_total (map2 (pagar c) us xs')))"
    by (simp add: xs)
  also have "\<dots> = i64 (ud_total u + x + (sum_by ud_total us + sum_list xs'))"
    unfolding u IH by simp
  finally show ?case by (simp add: xs algebra_simps)
qed simp

lemma sum_repartir_concepto:
  assumes "is_i64 (cc_importe c)" and "\<not> f_is0 ct" and "\<exists>u \<in> set us. f_pos (ud_coef u)"
  shows "i64 (sum_by ud_total (repartir_concepto ct us c)) =
    i64 (sum_by ud_total us + cc_importe c)"
proof -
  have pos: "\<exists>k \<in> set (map ud_coef us). f_pos k" using assms(3) by auto
  show ?thesis
    unfolding repartir_concepto_eq[OF assms]
    using sum_map2_pagar[of "partes ct (cc_importe c) (map ud_coef us)" us c]
    by (simp add: partes_cero sum_partes[OF pos])
qed

lemma sum_conceptos:
  assumes "\<forall>c \<in> set cs. is_i64 (cc_importe c)" and "\<not> f_is0 ct"
    and "\<exists>u \<in> set us. f_pos (ud_coef u)"
  shows "i64 (sum_by ud_total (foldl (repartir_concepto ct) us cs)) =
    i64 (sum_by ud_total us + sum_by cc_importe cs)"
  using assms
proof (induction cs arbitrary: us)
  case (Cons c cs)
  have eq: "repartir_concepto ct us c = map2 (pagar c) us (partes ct (cc_importe c) (map ud_coef us))"
    using Cons.prems by (intro repartir_concepto_eq) auto
  have "ud_coef ` set (repartir_concepto ct us c) = ud_coef ` set us"
    unfolding eq by (metis length_map length_partes map2_pagar_same pagar_coef set_map)
  then have pos: "\<exists>u \<in> set (repartir_concepto ct us c). f_pos (ud_coef u)"
    using Cons.prems(3) by (metis (no_types, lifting) image_iff)
  have "i64 (sum_by ud_total (foldl (repartir_concepto ct) us (c # cs))) =
      i64 (i64 (sum_by ud_total (repartir_concepto ct us c)) + sum_by cc_importe cs)"
    using Cons.IH[OF _ Cons.prems(2) pos] Cons.prems(1) by simp
  then show ?case
    using sum_repartir_concepto[of c ct us] Cons.prems by (simp add: add.assoc)
qed simp

text \<open>A successful distribution, spelt out.\<close>

lemma distribuir_Inr:
  assumes "distribuir cs ufs = Inr r" and "\<forall>u \<in> set ufs. f_fin (uc_coef u)"
  obtains us ct where
    "us = map unidad_inicial (sort_key uc_codigo ufs)"
    "ct = coef_total (sort_key uc_codigo ufs)"
    "\<not> f_is0 ct" "\<exists>u \<in> set us. f_pos (ud_coef u)"
    "dr_unidades r = foldl (repartir_concepto ct) us cs"
    "dr_items r = map item_de cs"
    "dr_total_gastos r = sum64_from cc_importe 0 cs"
    "dr_total_distribuido r = sum64_from ud_total 0 (dr_unidades r)"
    "dr_diferencia r = sub64 (dr_total_gastos r) (dr_total_distribuido r)"
proof -
  let ?ufs = "sort_key uc_codigo ufs"
  let ?ct = "coef_total ?ufs"
  have n0: "\<not> f_le0 ?ct" using assms(1) by (auto simp: distribuir_def Let_def split: if_splits)
  have "?ct \<noteq> NaN"
    unfolding coef_total_def using assms(2) by (intro f_sum_not_NaN) simp_all
  then have pos: "f_pos ?ct" using n0 by (rule f_not_le0)
  then have "\<exists>u \<in> set ?ufs. f_pos (uc_coef u)"
    unfolding coef_total_def using f_sum_pos[of uc_coef "Fin 0 0" ?ufs] by simp
  then have ex: "\<exists>u \<in> set (map unidad_inicial ?ufs). f_pos (ud_coef u)"
    by (auto simp: unidad_inicial_def)
  show ?thesis
    using assms(1) that[OF HOL.refl HOL.refl f_pos_not_is0[OF pos] ex]
    by (auto simp: distribuir_def Let_def split: if_splits)
qed

lemma total_inicial: "sum_by ud_total (map unidad_inicial ufs) = 0"
  by (induction ufs) (simp_all add: unidad_inicial_def)

lemma distribuir_totales:
  assumes "distribuir cs ufs = Inr r"
    and "\<forall>c \<in> set cs. is_i64 (cc_importe c)"
    and "\<forall>u \<in> set ufs. f_fin (uc_coef u)"
  shows "dr_diferencia r = 0 \<and> dr_total_distribuido r = dr_total_gastos r
    \<and> dr_total_gastos r = i64 (sum_by cc_importe cs)"
proof -
  obtain us ct where
    us: "us = map unidad_inicial (sort_key uc_codigo ufs)" and
    ct: "\<not> f_is0 ct" "\<exists>u \<in> set us. f_pos (ud_coef u)" and
    r: "dr_unidades r = foldl (repartir_concepto ct) us cs"
      "dr_total_gastos r = sum64_from cc_importe 0 cs"
      "dr_total_distribuido r = sum64_from ud_total 0 (dr_unidades r)"
      "dr_diferencia r = sub64 (dr_total_gastos r) (dr_total_distribuido r)"
    using assms(1,3) by (rule distribuir_Inr)
  have "i64 (sum_by ud_total (dr_unidades r)) = i64 (sum_by cc_importe cs)"
    using sum_conceptos[OF assms(2) ct] total_inicial[of "sort_key uc_codigo ufs"]
    by (simp add: r(1) us del: map_map)
  then show ?thesis using r(2-) by (simp add: sum64_from_eq sub64_def)
qed


text \<open>The units of a successful distribution, one by one.\<close>

lemma distribuir_unidad:
  assumes "distribuir cs ufs = Inr r"
    and "\<forall>c \<in> set cs. is_i64 (cc_importe c)"
    and "\<forall>u \<in> set ufs. f_fin (uc_coef u)"
  obtains ct ks where "ks = map uc_coef (sort_key uc_codigo ufs)"
    and "\<exists>k \<in> set ks. f_pos k"
    and "dr_unidades r = map (\<lambda>i. pagos ct ks i cs (unidad_inicial (sort_key uc_codigo ufs ! i)))
      [0..<length ks]"
proof -
  let ?ufs = "sort_key uc_codigo ufs"
  obtain us ct where
    us: "us = map unidad_inicial ?ufs" and
    ct: "\<not> f_is0 ct" "\<exists>u \<in> set us. f_pos (ud_coef u)" and
    r: "dr_unidades r = foldl (repartir_concepto ct) us cs"
    using assms(1,3) by (rule distribuir_Inr)
  have ks: "map ud_coef us = map uc_coef ?ufs" by (simp add: us unidad_inicial_def)
  have "\<exists>k \<in> set (map uc_coef ?ufs). f_pos k"
    unfolding ks[symmetric] using ct(2) by auto
  moreover have "dr_unidades r = map (\<lambda>i. pagos ct (map uc_coef ?ufs) i cs (unidad_inicial (?ufs ! i)))
      [0..<length (map uc_coef ?ufs)]"
    unfolding r conceptos_eq[OF assms(2) ct] ks by (simp add: us cong: map_cong)
  ultimately show ?thesis using that by blast
qed

text \<open>
  Concept by concept: the items of the units with a coefficient other than zero add up to
  the amount of the concept exactly, with no wrap-around, none of them is negative or exceeds it, and
  a unit's total is the sum of its items. A unit with coefficient zero gets no item.
\<close>

theorem distribuir_por_concepto:
  assumes "distribuir cs ufs = Inr r"
    and "\<forall>c \<in> set cs. is_i64 (cc_importe c)"
    and "\<forall>u \<in> set ufs. f_fin (uc_coef u)"
  shows "(\<forall>j < length cs.
      sum_by (\<lambda>u. ui_importe (ud_items u ! j)) (filter (\<lambda>u. \<not> f_is0 (ud_coef u)) (dr_unidades r))
        = cc_importe (cs ! j) \<and>
      (\<forall>u \<in> set (dr_unidades r). \<not> f_is0 (ud_coef u) \<and> 0 \<le> cc_importe (cs ! j) \<longrightarrow>
        0 \<le> ui_importe (ud_items u ! j) \<and> ui_importe (ud_items u ! j) \<le> cc_importe (cs ! j)))
    \<and> (\<forall>u \<in> set (dr_unidades r). ud_total u = i64 (sum_by ui_importe (ud_items u)) \<and>
        map ui_concepto (ud_items u) = (if f_is0 (ud_coef u) then [] else map cc_concepto cs))"
proof -
  obtain ct ks where ks: "ks = map uc_coef (sort_key uc_codigo ufs)"
    and pos: "\<exists>k \<in> set ks. f_pos k"
    and us: "dr_unidades r = map (\<lambda>i. pagos ct ks i cs (unidad_inicial (sort_key uc_codigo ufs ! i)))
      [0..<length ks]"
    using assms by (rule distribuir_unidad)
  define u where "u i = pagos ct ks i cs (unidad_inicial (sort_key uc_codigo ufs ! i))" for i
  have coef: "ud_coef (u i) = ks ! i" if "i < length ks" for i
    using that by (simp add: u_def pagos_simp unidad_inicial_def ks)
  have item: "ui_importe (ud_items (u i) ! j) = partes ct (cc_importe (cs ! j)) ks ! i"
    if "i < length ks" "j < length cs" "\<not> f_is0 (ks ! i)" for i j
    using that by (simp add: u_def pagos_simp unidad_inicial_def ks importes_def)
  have "sum_by (\<lambda>v. ui_importe (ud_items v ! j)) (filter (\<lambda>v. \<not> f_is0 (ud_coef v)) (dr_unidades r))
      = cc_importe (cs ! j)" if j: "j < length cs" for j
  proof -
    let ?p = "partes ct (cc_importe (cs ! j)) ks"
    have "sum_by (\<lambda>v. ui_importe (ud_items v ! j)) (filter (\<lambda>v. \<not> f_is0 (ud_coef v)) (dr_unidades r))
        = sum_by (\<lambda>i. if \<not> f_is0 (ud_coef (u i)) then ui_importe (ud_items (u i) ! j) else 0) [0..<length ks]"
      unfolding us u_def[symmetric] by (simp add: sum_list_map_filter' filter_map comp_def if_distrib)
    also have "\<dots> = sum_by (\<lambda>i. ?p ! i) [0..<length ks]"
      by (intro arg_cong[of _ _ sum_list] map_cong) (auto simp: coef item j partes_cero)
    also have "\<dots> = sum_list ?p" by (metis length_partes map_nth)
    finally show ?thesis by (simp add: sum_partes[OF pos])
  qed
  moreover have "0 \<le> ui_importe (ud_items v ! j) \<and> ui_importe (ud_items v ! j) \<le> cc_importe (cs ! j)"
    if "j < length cs" "v \<in> set (dr_unidades r)" "\<not> f_is0 (ud_coef v) \<and> 0 \<le> cc_importe (cs ! j)" for j v
    using that by (auto simp: us u_def[symmetric] coef item intro!: partes_bounds[of _ _ ct ks])
  moreover have "ud_total v = i64 (sum_by ui_importe (ud_items v)) \<and>
      map ui_concepto (ud_items v) = (if f_is0 (ud_coef v) then [] else map cc_concepto cs)"
    if "v \<in> set (dr_unidades r)" for v
    using that by (auto simp: us pagos_simp unidad_inicial_def sum64_from_eq comp_def)
  ultimately show ?thesis by blast
qed

text \<open>
  The result does not depend on the order in which the units are read: any two orders of units
  with distinct codes give the same distribution, warnings included.
\<close>

theorem distribuir_orden:
  assumes "mset ufs = mset ufs'" and "distinct (map uc_codigo ufs)"
  shows "distribuir cs ufs = distribuir cs ufs'"
proof -
  have "inj_on uc_codigo (set ufs)" using assms(2) by (simp add: distinct_map)
  then have "sort_key uc_codigo ufs = sort_key uc_codigo ufs'"
    using assms(1) by (intro sort_key_inj_key_eq) auto
  moreover have "ufs = [] \<longleftrightarrow> ufs' = []" using assms(1) by (metis mset_zero_iff)
  ultimately show ?thesis by (simp add: distribuir_def)
qed

subsection \<open>A concrete distribution\<close>

text \<open>Six cents among four units with the same coefficient 25.\<close>

definition ejemplo_conceptos :: "concepto_calculo list" where
  "ejemplo_conceptos = [\<lparr>cc_concepto = ''gastos'', cc_regla = ''coeficiente'', cc_importe = 6\<rparr>]"

definition ejemplo_uf :: "string \<Rightarrow> uf_coef" where
  "ejemplo_uf c = \<lparr>uc_unidad = ''u'' @ c, uc_codigo = c, uc_coef = Fin 25 0\<rparr>"

definition ejemplo_ufs :: "uf_coef list" where
  "ejemplo_ufs = map ejemplo_uf [''1'', ''2'', ''3'', ''4'']"

definition ejemplo_distribucion :: distribucion where
  "ejemplo_distribucion = projr (distribuir ejemplo_conceptos ejemplo_ufs)"

lemma ejemplo_no_vacio: "ejemplo_ufs \<noteq> []" "ejemplo_conceptos \<noteq> []"
  by (simp_all add: ejemplo_ufs_def ejemplo_conceptos_def)

lemma ejemplo_sort: "sort_key uc_codigo ejemplo_ufs = ejemplo_ufs"
  by (simp add: ejemplo_ufs_def ejemplo_uf_def)

lemma ejemplo_total: "coef_total ejemplo_ufs = Fin 7036874417766400 (- 46)"
  by (simp add: ejemplo_ufs_def ejemplo_uf_def coef_total_def f64_eval)

lemma ejemplo_cuota: "cuota (Fin 7036874417766400 (- 46)) 6 r (Fin 25 0) = min r 2"
  by (simp add: cuota_def f64_eval)

lemma ejemplo_ok: "distribuir ejemplo_conceptos ejemplo_ufs = Inr ejemplo_distribucion"
  by (simp add: ejemplo_distribucion_def distribuir_def ejemplo_sort ejemplo_total f_le0_def
      ejemplo_no_vacio Let_def)

lemma ejemplo_repartir:
  "map ud_total (foldl (repartir_concepto (Fin 7036874417766400 (- 46)))
     (map unidad_inicial ejemplo_ufs) ejemplo_conceptos) = [2, 2, 2, 0]"
  by (simp add: ejemplo_ufs_def ejemplo_uf_def ejemplo_conceptos_def repartir_concepto_def
      unidad_inicial_def ejemplo_cuota add64_def sub64_def is_i64_def Let_def cong: let_weak_cong)

lemma ejemplo_totales: "map ud_total (dr_unidades ejemplo_distribucion) = [2, 2, 2, 0]"
  using ejemplo_repartir
  by (simp add: ejemplo_distribucion_def distribuir_def ejemplo_sort ejemplo_total f_le0_def Let_def
      ejemplo_no_vacio)

lemma ejemplo_hyps:
  "(\<forall>c \<in> set ejemplo_conceptos. is_i64 (cc_importe c)) \<and> (\<forall>u \<in> set ejemplo_ufs. f_fin (uc_coef u))"
  by (simp add: ejemplo_conceptos_def ejemplo_ufs_def ejemplo_uf_def is_i64_def)


theorem distribuir_por_concepto_witness:
  "sum_by (\<lambda>u. ui_importe (ud_items u ! 0))
     (filter (\<lambda>u. \<not> f_is0 (ud_coef u)) (dr_unidades ejemplo_distribucion)) = 6"
  using distribuir_por_concepto[OF ejemplo_ok] ejemplo_hyps
  by (simp add: ejemplo_conceptos_def)

theorem distribuir_orden_witness:
  "distribuir ejemplo_conceptos (rev ejemplo_ufs) = distribuir ejemplo_conceptos ejemplo_ufs"
  by (rule distribuir_orden) (simp_all add: ejemplo_ufs_def ejemplo_uf_def)

subsection \<open>Largest remainder\<close>

text \<open>
  The rule of ADR-0006, which the comment of \<open>Distribuir\<close> refers to, for integer coefficients:
  every unit gets the floor of its quota, and the cents that are left go one by one to the units
  with the largest remainder, earlier codes first.
\<close>

definition mayor_resto :: "int \<Rightarrow> int list \<Rightarrow> int list" where
  "mayor_resto imp ws =
     (let base = map (\<lambda>w. imp * w div sum_list ws) ws;
          resto = (\<lambda>i. imp * (ws ! i) mod sum_list ws);
          ganan = take (nat (imp - sum_list base)) (sort_key (\<lambda>i. - resto i) [0..<length ws])
      in map (\<lambda>i. base ! i + (if i \<in> set ganan then 1 else 0)) [0..<length ws])"

text \<open>
  The code does not implement the rule of ADR-0006: with six cents for four equal units the
  rule gives 2, 2, 1, 1, and the code 2, 2, 2, 0: it rounds every quota to the nearest cent and
  clamps it to what is left, so the last unit by code pays nothing.
\<close>

theorem distribuir_no_es_mayor_resto:
  "\<exists>r. distribuir ejemplo_conceptos ejemplo_ufs = Inr r \<and>
     map ud_total (dr_unidades r) = [2, 2, 2, 0] \<and>
     map uc_coef ejemplo_ufs = map (\<lambda>w. Fin w 0) [25, 25, 25, 25] \<and>
     mayor_resto 6 [25, 25, 25, 25] = [2, 2, 1, 1]"
proof -
  have "mayor_resto 6 [25, 25, 25, 25] = [2, 2, 1, 1]" by code_simp
  then show ?thesis using ejemplo_ok ejemplo_totales
    by (auto simp: ejemplo_ufs_def ejemplo_uf_def)
qed

end
