(* ===== verification/Modelo.thy ===== *)
theory Modelo
  imports Fechas Calculo
begin

text \<open>
  The data model: the rows of \<open>internal/database/gen/models.go\<close>, the tables of the database, the
  environment of a request (the tenant that row-level security sees, the clock, and the functions
  of third-party code: pgx's parsers, PostgreSQL's generators and the hash) and the errors.
  A nullable column is an option, a UUID a natural number, an \<open>int64\<close> an integer in range.
  Foreign keys to tenants and users are not checked: both come from the authenticated request.
\<close>

type_synonym uuid = nat
type_synonym ts = nat

subsection \<open>Errors\<close>

text \<open>
  The errors of pgx (no rows, and the constraint classes of PostgreSQL, a unique violation with the
  name of its constraint) and the sentinel errors of the domain packages.
\<close>

datatype dom_err =
    ErrConsorcioNotFound | ErrConsorcioInvalid | ErrDuplicateName
  | ErrUnidadNotFound | ErrUnidadInvalid | ErrDuplicateCodigo | ErrDuplicateDocumento | ErrVinculoInvalid
  | ErrProveedorNotFound | ErrProveedorInvalid | ErrProveedorDuplicateCuit
  | ErrGastoInvalid | ErrGastoNotFound | ErrConceptoInvalid | ErrConceptoNotFound | ErrConceptoDuplicate
  | ErrImportInvalid | ErrImportJobNotFound | ErrImportJobEstado
  | ErrNotificacionNotFound | ErrLimiteInvalido string
  | ErrPersonaNotFound | ErrUsuarioNotFound | ErrVinculoInvalido | ErrUsuarioYaVinculado | ErrSinVinculo
  | ErrDocumentoInvalid | ErrDocumentoTooLarge | ErrDocumentoNotFound | ErrDocumentoCuarentena
  | ErrStorageUnavailable | ErrCursorInvalido

text \<open>
  \<open>PgRls\<close> is the violation of a policy of row-level security, \<open>PgAborted\<close> the answer to a statement
  in a transaction that has failed already, \<open>Panico\<close> a panic (\<open>uuid.MustParse\<close>).
\<close>

datatype err =
    PgNoRows | PgUnique string | PgCheck | PgForeignKey | PgRange | PgNotNull | ErrJson
  | ErrLiquidacionNotFound | ErrLiquidacionInvalid | ErrLiquidacionTransicionInvalida
  | ErrLiquidacionConflict | ErrLiquidacionVersionMismatch
  | ErrLiquidacionSinGastos | ErrLiquidacionSinUFs | ErrCalculo calc_err | ErrIdempotencyConflict
  | ErrChargeNotFound | ErrCargoInvalido
  | ErrCobranzaInvalid | ErrCobranzaNotFound | ErrCobranzaDuplicateReferencia | ErrPSP
  | ErrInvalidTransition | ErrInvalidID | ErrTexto string
  | ErrInvalidCredentials | ErrUserDisabled | ErrTooManyAttempts | ErrInvalidRefreshToken
  | ErrRefreshTokenExpired | ErrRefreshTokenReused | ErrMembershipNotFound | ErrMembershipInactive
  | ErrInvalidMfaCode | ErrInvalidMFAToken | ErrMFANotRequired
  | PgRls | PgAborted | Panico | Dom dom_err

subsection \<open>Rows\<close>

record consorcio =
  co_tenant :: uuid
  co_id :: uuid
  co_nombre :: string
  co_cuit :: "string option"
  co_domicilio :: "string option"
  co_tipo :: string
  co_estado :: string
  co_config :: string
  co_created :: ts
  co_updated :: ts

record unidad =
  u_tenant :: uuid
  u_consorcio :: uuid
  u_id :: uuid
  u_codigo :: string
  u_tipo :: string
  u_superficie :: "int option"
  u_coeficiente :: int
  u_estado :: string
  u_created :: ts
  u_updated :: ts

record gasto =
  g_tenant :: uuid
  g_consorcio :: uuid
  g_id :: uuid
  g_concepto :: uuid
  g_proveedor :: "uuid option"
  g_comprobante :: "string option"
  g_importe :: int
  g_fecha :: fecha
  g_estado :: string
  g_documento :: "uuid option"
  g_created :: ts
  g_updated :: ts

record liquidacion =
  l_tenant :: uuid
  l_consorcio :: uuid
  l_id :: uuid
  l_periodo :: string
  l_v1 :: fecha
  l_v2 :: "fecha option"
  l_estado :: string
  l_version :: int
  l_total_gastos :: int
  l_total_distribuido :: int
  l_alcanzadas :: int
  l_created :: ts
  l_updated :: ts

record liq_gasto =
  lg_tenant :: uuid
  lg_liquidacion :: uuid
  lg_gasto :: uuid
  lg_concepto :: uuid
  lg_importe :: int
  lg_created :: ts

record liq_item =
  li_tenant :: uuid
  li_liquidacion :: uuid
  li_concepto :: uuid
  li_regla :: string
  li_importe :: int
  li_created :: ts

record liq_unidad =
  lu_tenant :: uuid
  lu_liquidacion :: uuid
  lu_unidad :: uuid
  lu_codigo :: string
  lu_coeficiente :: int
  lu_total :: int
  lu_created :: ts

record liq_unidad_item =
  lx_tenant :: uuid
  lx_liquidacion :: uuid
  lx_unidad :: uuid
  lx_concepto :: uuid
  lx_importe :: int
  lx_created :: ts

record charge =
  c_tenant :: uuid
  c_unidad :: uuid
  c_id :: uuid
  c_liquidacion :: "uuid option"
  c_concepto :: string
  c_due :: fecha
  c_total :: int
  c_saldo :: int
  c_created :: ts

record account_entry =
  e_tenant :: uuid
  e_unidad :: uuid
  e_id :: uuid
  e_tipo :: string
  e_fecha :: fecha
  e_debit :: int
  e_credit :: int
  e_currency :: string
  e_referencia :: "string option"
  e_reversa :: "uuid option"
  e_charge :: "uuid option"
  e_created :: ts

record payment =
  p_tenant :: uuid
  p_unidad :: uuid
  p_id :: uuid
  p_fecha :: fecha
  p_canal :: string
  p_importe :: int
  p_referencia :: "string option"
  p_estado :: string
  p_idem_key :: string
  p_motivo :: "string option"
  p_created_by :: uuid
  p_created :: ts
  p_psp_provider :: "string option"
  p_psp_preference :: "string option"
  p_psp_url :: "string option"

record payment_allocation =
  a_tenant :: uuid
  a_payment :: uuid
  a_charge :: uuid
  a_amount :: int
  a_created_by :: uuid
  a_created :: ts

record psp_intent =
  i_tenant :: uuid
  i_id :: uuid
  i_payment :: uuid
  i_provider :: string
  i_preference :: string
  i_status :: string
  i_created :: ts
  i_updated :: ts

record liquidacion_payload =
  op_liquidacion :: string
  op_periodo :: string
  op_consorcio :: string

record comunicado_payload =
  oc_comunicado :: string
  oc_consorcio :: string
  oc_titulo :: string
  oc_cuerpo :: string
  oc_destinatarios :: int

text \<open>The JSON payload of an event, as the struct it is marshalled from.\<close>

datatype payload = PLiquidacion liquidacion_payload | PComunicado comunicado_payload

record outbox_event =
  ob_tenant :: uuid
  ob_id :: uuid
  ob_correlation :: string
  ob_type :: string
  ob_payload :: payload
  ob_estado :: string
  ob_intentos :: int
  ob_last_error :: string
  ob_next :: ts
  ob_created :: ts
  ob_updated :: ts

record documento =
  do_tenant :: uuid
  do_id :: uuid
  do_consorcio :: "uuid option"
  do_owner_type :: "string option"
  do_owner :: "uuid option"
  do_tipo :: string
  do_nombre :: string
  do_key :: string
  do_mime :: "string option"
  do_size :: int
  do_sha256 :: string
  do_antivirus :: string
  do_created :: ts
  do_updated :: ts

record reclamo =
  r_tenant :: uuid
  r_consorcio :: uuid
  r_unidad :: uuid
  r_id :: uuid
  r_categoria :: string
  r_texto :: string
  r_estado :: string
  r_responsable :: "uuid option"
  r_sla :: "ts option"
  r_created_by :: "uuid option"
  r_created :: ts
  r_updated :: ts

record reclamo_mensaje =
  rm_tenant :: uuid
  rm_reclamo :: uuid
  rm_id :: uuid
  rm_texto :: string
  rm_adjunto :: "uuid option"
  rm_created_by :: "uuid option"
  rm_created :: ts

record reclamo_transicion =
  rt_tenant :: uuid
  rt_reclamo :: uuid
  rt_id :: uuid
  rt_accion :: string
  rt_motivo :: "string option"
  rt_from :: string
  rt_to :: string
  rt_responsable :: "uuid option"
  rt_created_by :: "uuid option"
  rt_created :: ts

text \<open>
  Percentages are integers of 1/100 (\<open>NUMERIC(5,2)\<close>), the columns \<open>filas\<close> and \<open>errores\<close> of an import
  the structs they are marshalled from (\<open>internal/consorcios/imports.go\<close>).
\<close>

record persona =
  pe_tenant :: uuid
  pe_id :: uuid
  pe_nombre :: string
  pe_documento :: "string option"
  pe_email :: "string option"
  pe_telefono :: "string option"
  pe_user :: "uuid option"
  pe_created :: ts
  pe_updated :: ts

record vinculo =
  v_tenant :: uuid
  v_id :: uuid
  v_unidad :: uuid
  v_persona :: uuid
  v_vinculo :: string
  v_porcentaje :: "int option"
  v_from :: fecha
  v_to :: "fecha option"
  v_created :: ts

record proveedor =
  pv_tenant :: uuid
  pv_consorcio :: uuid
  pv_id :: uuid
  pv_cuit :: string
  pv_razon :: string
  pv_nombre :: "string option"
  pv_email :: "string option"
  pv_telefono :: "string option"
  pv_estado :: string
  pv_created :: ts
  pv_updated :: ts

record concepto =
  cp_tenant :: uuid
  cp_consorcio :: "uuid option"
  cp_id :: uuid
  cp_nombre :: string
  cp_categoria :: string
  cp_regla :: string
  cp_created :: ts
  cp_updated :: ts

record comunicado =
  cm_tenant :: uuid
  cm_consorcio :: uuid
  cm_id :: uuid
  cm_titulo :: string
  cm_cuerpo :: string
  cm_scope :: string
  cm_destinatarios :: int
  cm_estado :: string
  cm_publicado :: "ts option"
  cm_created :: ts
  cm_updated :: ts

record notificacion =
  n_tenant :: uuid
  n_id :: uuid
  n_user :: uuid
  n_tipo :: string
  n_titulo :: string
  n_cuerpo :: string
  n_recurso_type :: string
  n_recurso :: "uuid option"
  n_leida :: "ts option"
  n_created :: ts

record fila_import =
  fi_fila :: int
  fi_codigo :: string
  fi_tipo :: string
  fi_superficie :: "f64 option"
  fi_coeficiente :: string
  fi_nombre :: string
  fi_documento :: "string option"
  fi_email :: "string option"
  fi_telefono :: "string option"
  fi_vinculo :: string
  fi_porcentaje :: "string option"
  fi_valida :: bool

record import_error =
  ie_fila :: int
  ie_campos :: "(string \<times> string) list"

record import_job =
  ij_tenant :: uuid
  ij_consorcio :: uuid
  ij_id :: uuid
  ij_estado :: string
  ij_modo :: string
  ij_plantilla :: string
  ij_total :: int
  ij_filas :: "fila_import list"
  ij_errores :: "import_error list"
  ij_creados :: int
  ij_actualizados :: int
  ij_rechazados :: int
  ij_url :: "string option"
  ij_created :: ts
  ij_updated :: ts

record audit_event =
  au_id :: uuid
  au_tenant :: "uuid option"
  au_actor :: "uuid option"
  au_membership :: "uuid option"
  au_accion :: string
  au_recurso_type :: string
  au_recurso :: "string option"
  au_request :: "string option"
  au_ip :: "string option"
  au_agent :: "string option"
  au_diff :: "string option"
  au_created :: ts

subsection \<open>Identity\<close>

record user =
  us_id :: uuid
  us_email :: string
  us_hash :: string
  us_name :: string
  us_status :: string
  us_mfa :: bool
  us_created :: ts
  us_updated :: ts
  us_secret :: "string option"

record tenant_row =
  te_id :: uuid
  te_name :: string
  te_slug :: string
  te_tax :: "string option"
  te_status :: string
  te_plan :: string
  te_timezone :: string
  te_currency :: string
  te_created :: ts
  te_updated :: ts

record membership_row =
  m_id :: uuid
  m_user :: uuid
  m_tenant :: uuid
  m_status :: string
  m_created :: ts

record role_row =
  ro_id :: uuid
  ro_code :: string
  ro_label :: string

record membership_role =
  mr_id :: uuid
  mr_membership :: uuid
  mr_role :: uuid

record role_scope =
  rs_id :: uuid
  rs_membership_role :: uuid
  rs_type :: string
  rs_scope :: uuid

record session =
  se_id :: uuid
  se_user :: uuid
  se_membership :: uuid
  se_key :: uuid
  se_expires :: ts
  se_revoked :: "ts option"
  se_created :: ts
  se_last_used :: "ts option"

record refresh_token =
  tk_id :: uuid
  tk_session :: uuid
  tk_user :: uuid
  tk_hash :: string
  tk_family :: uuid
  tk_expires :: ts
  tk_revoked :: "ts option"
  tk_created :: ts

record login_attempt =
  at_id :: uuid
  at_email :: string
  at_ip :: string
  at_source :: string
  at_success :: bool
  at_created :: ts

text \<open>The tables of the identity of the users, which are not of one tenant.\<close>

record ident_db =
  users :: "user list"
  tenants :: "tenant_row list"
  memberships :: "membership_row list"
  roles :: "role_row list"
  membership_roles :: "membership_role list"
  role_scopes :: "role_scope list"
  sessions :: "session list"
  refresh_tokens :: "refresh_token list"
  login_attempts :: "login_attempt list"
  id_seq :: nat

subsection \<open>Responses\<close>

record liquidacion_dto =
  ld_id :: string
  ld_consorcio :: string
  ld_periodo :: string
  ld_v1 :: string
  ld_v2 :: "string option"
  ld_estado :: string
  ld_version :: int
  ld_total_gastos :: int
  ld_total_distribuido :: int
  ld_alcanzadas :: int
  ld_created :: ts
  ld_updated :: ts

record money_dto =
  md_amount :: int
  md_currency :: string

record cobranza_dto =
  cd_id :: string
  cd_unidad :: string
  cd_fecha :: string
  cd_canal :: string
  cd_importe :: money_dto
  cd_referencia :: "string option"
  cd_estado :: string
  cd_saldo_a_favor :: int
  cd_psp_provider :: "string option"
  cd_psp_preference :: "string option"
  cd_psp_url :: "string option"
  cd_created :: ts

record comunicado_dto =
  cmd_id :: string
  cmd_titulo :: string
  cmd_estado :: string
  cmd_destinatarios :: int

record import_dto =
  ijd_id :: string
  ijd_estado :: string
  ijd_total :: int
  ijd_creados :: int
  ijd_actualizados :: int
  ijd_rechazados :: int
  ijd_errores :: "import_error list"
  ijd_url :: "string option"

text \<open>
  The column \<open>response_json\<close>: the empty object a key is reserved with, or the DTO that was
  marshalled into it. \<open>json.Unmarshal\<close> of the empty object leaves the zero value of the DTO.
\<close>

datatype respuesta = RVacia | RLiquidacion liquidacion_dto | RCobranza cobranza_dto
  | RComunicado comunicado_dto | RImport import_dto

record idempotency_key =
  k_id :: uuid
  k_tenant :: uuid
  k_key :: string
  k_scope :: string
  k_hash :: string
  k_response :: respuesta
  k_created :: ts

subsection \<open>The environment of a request\<close>

text \<open>
  Third-party code is a parameter: \<open>uuid_parse\<close>, \<open>uuid_show\<close> and \<open>date_scan\<close> are pgx's
  \<open>UUID.Scan\<close>, \<open>UUID.String\<close> and \<open>Date.Scan\<close>, \<open>uuid_google\<close> is google/uuid's \<open>Parse\<close>, \<open>num_float\<close> and \<open>float_num\<close> its conversions
  between \<open>NUMERIC\<close> (here the integer number of 1e-8 units) and \<open>float64\<close>, \<open>uuid_gen\<close> is the
  database's \<open>gen_random_uuid()\<close> on the counter of the state, \<open>sha_hex\<close> the hash in hexadecimal,
  \<open>sql_lower\<close> the database's \<open>lower()\<close>, which depends on its locale.
  The clock of the database is \<open>ahora\<close>, the one of the process \<open>reloj\<close>, both in microseconds;
  \<open>hoy\<close> is the date of both, which run in UTC. \<open>usuario\<close> is \<open>app.current_user_id()\<close>.
\<close>

record env =
  tenant :: uuid
  usuario :: "uuid option"
  ahora :: ts
  reloj :: ts
  hoy :: fecha
  uuid_parse :: "string \<Rightarrow> uuid option"
  uuid_google :: "string \<Rightarrow> uuid option"
  uuid_show :: "uuid \<Rightarrow> string"
  uuid_gen :: "nat \<Rightarrow> uuid"
  date_scan :: "string \<Rightarrow> fecha option"
  num_float :: "int \<Rightarrow> f64"
  float_num :: "f64 \<Rightarrow> int"
  sha_hex :: "string \<Rightarrow> string"
  sql_lower :: "string \<Rightarrow> string"

text \<open>
  The documented behaviour of pgx that the theorems use: a UUID and a date are read back from what
  is written, the parser ignores no part of the date, and the text of a UUID has no white space.
\<close>

definition env_ok :: "env \<Rightarrow> bool" where
  "env_ok ev \<longleftrightarrow> (\<forall>u. uuid_parse ev (uuid_show ev u) = Some u) \<and>
     (\<forall>u. uuid_google ev (uuid_show ev u) = Some u) \<and>
     (\<forall>s f. parse_fecha s = Some f \<longrightarrow> date_scan ev s = Some f) \<and>
     (\<forall>u. uuid_show ev u \<noteq> '''' \<and> (\<forall>c \<in> set (uuid_show ev u). \<not> espacio c))"

lemma env_ok_uuid [simp]: "env_ok ev \<Longrightarrow> uuid_parse ev (uuid_show ev u) = Some u"
  and env_ok_date: "env_ok ev \<Longrightarrow> parse_fecha s = Some f \<Longrightarrow> date_scan ev s = Some f"
  by (simp_all add: env_ok_def)

lemma trim_uuid [simp]: "env_ok ev \<Longrightarrow> trim_space (uuid_show ev u) = uuid_show ev u"
  by (rule trim_space_id) (simp add: env_ok_def)

lemma uuid_show_inj: "env_ok ev \<Longrightarrow> uuid_show ev u = uuid_show ev v \<longleftrightarrow> u = v"
  by (metis env_ok_uuid option.inject)

lemma date_scan_format: "env_ok ev \<Longrightarrow> fecha_ok f \<Longrightarrow> date_scan ev (format_fecha f) = Some f"
  by (simp add: env_ok_date parse_format_fecha)

subsection \<open>The database\<close>

record db =
  consorcios :: "consorcio list"
  unidades :: "unidad list"
  gastos :: "gasto list"
  liquidaciones :: "liquidacion list"
  liq_gastos :: "liq_gasto list"
  liq_items :: "liq_item list"
  liq_unidades :: "liq_unidad list"
  liq_unidad_items :: "liq_unidad_item list"
  charges :: "charge list"
  entries :: "account_entry list"
  payments :: "payment list"
  allocations :: "payment_allocation list"
  psp_intents :: "psp_intent list"
  outbox :: "outbox_event list"
  documentos :: "documento list"
  reclamos :: "reclamo list"
  rec_mensajes :: "reclamo_mensaje list"
  rec_transiciones :: "reclamo_transicion list"
  personas :: "persona list"
  vinculos :: "vinculo list"
  proveedores :: "proveedor list"
  conceptos :: "concepto list"
  comunicados :: "comunicado list"
  notificaciones :: "notificacion list"
  import_jobs :: "import_job list"
  audit :: "audit_event list"
  ident :: ident_db
  idem_keys :: "idempotency_key list"
  seq :: nat

type_synonym 'a query = "(db, err, 'a) tx"

text \<open>\<open>gen_random_uuid()\<close>: a fresh identifier.\<close>

definition nuevo_uuid :: "env \<Rightarrow> uuid query" where
  "nuevo_uuid ev s = Inr (uuid_gen ev (seq s), s\<lparr>seq := Suc (seq s)\<rparr>)"

text \<open>A query that returns one row.\<close>

definition tx_row :: "('s \<Rightarrow> 'r option) \<Rightarrow> ('s, err, 'r) tx" where
  "tx_row f s = (case f s of None \<Rightarrow> Inl PgNoRows | Some r \<Rightarrow> Inr (r, s))"

lemma tx_row_Inr [simp]: "tx_row f s = Inr r \<longleftrightarrow> (\<exists>v. f s = Some v \<and> r = (v, s))"
  by (auto simp: tx_row_def split: option.splits)

lemma nuevo_uuid_Inr [simp]:
  "nuevo_uuid ev s = Inr r \<longleftrightarrow> r = (uuid_gen ev (seq s), s\<lparr>seq := Suc (seq s)\<rparr>)"
  by (auto simp: nuevo_uuid_def)

text \<open>
  \<open>INSERT \<dots> RETURNING\<close>: the checks of the table, its unique constraints (\<open>clash\<close> names the one
  that is violated) and its foreign keys, in PostgreSQL's order, then the new row at the end.
\<close>

definition tx_insert :: "('r \<Rightarrow> bool) \<Rightarrow> ('s \<Rightarrow> 'r \<Rightarrow> string option) \<Rightarrow> ('s \<Rightarrow> 'r \<Rightarrow> bool) \<Rightarrow>
    (('r list \<Rightarrow> 'r list) \<Rightarrow> 's \<Rightarrow> 's) \<Rightarrow> 'r \<Rightarrow> ('s, err, 'r) tx" where
  "tx_insert check clash fk upd r s =
     (if \<not> check r then Inl PgCheck
      else case clash s r of
        Some c \<Rightarrow> Inl (PgUnique c)
      | None \<Rightarrow> if \<not> fk s r then Inl PgForeignKey else Inr (r, upd (\<lambda>rs. rs @ [r]) s))"

lemma tx_insert_Inr [simp]:
  "tx_insert check clash fk upd r s = Inr x \<longleftrightarrow>
   check r \<and> clash s r = None \<and> fk s r \<and> x = (r, upd (\<lambda>rs. rs @ [r]) s)"
  by (auto simp: tx_insert_def split: option.splits)

text \<open>
  \<open>UPDATE \<dots> WHERE P\<close>: the number of rows affected; an updated row that violates a check of the
  table fails the statement.
\<close>

definition tx_update :: "('r \<Rightarrow> bool) \<Rightarrow> ('r \<Rightarrow> 'r) \<Rightarrow> ('r \<Rightarrow> bool) \<Rightarrow> ('s \<Rightarrow> 'r list) \<Rightarrow>
    (('r list \<Rightarrow> 'r list) \<Rightarrow> 's \<Rightarrow> 's) \<Rightarrow> ('s, err, int) tx" where
  "tx_update P f check tbl upd s =
     (if \<exists>r \<in> set (tbl s). P r \<and> \<not> check (f r) then Inl PgCheck
      else Inr (int (count_where P (tbl s)), upd (upd_where P f) s))"

lemma tx_update_Inr [simp]:
  "tx_update P f check tbl upd s = Inr x \<longleftrightarrow>
   (\<forall>r \<in> set (tbl s). P r \<longrightarrow> check (f r)) \<and>
   x = (int (count_where P (tbl s)), upd (upd_where P f) s)"
  by (auto simp: tx_update_def)

text \<open>\<open>DELETE \<dots> WHERE P\<close>.\<close>

definition tx_delete :: "('r \<Rightarrow> bool) \<Rightarrow> ('s \<Rightarrow> 'r list) \<Rightarrow>
    (('r list \<Rightarrow> 'r list) \<Rightarrow> 's \<Rightarrow> 's) \<Rightarrow> ('s, err, int) tx" where
  "tx_delete P tbl upd s = Inr (int (count_where P (tbl s)), upd (del_where P) s)"

lemma tx_delete_Inr [simp]:
  "tx_delete P tbl upd s = Inr x \<longleftrightarrow> x = (int (count_where P (tbl s)), upd (del_where P) s)"
  by (auto simp: tx_delete_def)

definition tx_exec :: "('s, err, 'a) tx \<Rightarrow> ('s, err, unit) tx" where
  "tx_exec m = tx_bind m (\<lambda>_. tx_ret ())"

lemma tx_exec_Inr [simp]: "tx_exec m s = Inr r \<longleftrightarrow> (\<exists>x t. m s = Inr (x, t) \<and> r = ((), t))"
  by (auto simp: tx_exec_def tx_inv)

definition unidad_existe :: "env \<Rightarrow> uuid \<Rightarrow> db \<Rightarrow> bool" where
  "unidad_existe ev u s \<longleftrightarrow> (\<exists>r \<in> set (unidades s). u_tenant r = tenant ev \<and> u_id r = u)"

definition consorcio_existe :: "env \<Rightarrow> uuid \<Rightarrow> db \<Rightarrow> bool" where
  "consorcio_existe ev cid s \<longleftrightarrow> (\<exists>c \<in> set (consorcios s). co_tenant c = tenant ev \<and> co_id c = cid)"

text \<open>The number of runes of a UTF-8 text: the bytes that do not continue a sequence.\<close>

definition runas :: "string \<Rightarrow> nat" where
  "runas t = length (filter (\<lambda>c. \<not> (128 \<le> (of_char c :: nat) \<and> (of_char c :: nat) < 192)) t)"

text \<open>
  A query of one row whose absence is no error, and \<open>UPDATE \<dots> RETURNING\<close> of the row that \<open>P\<close> finds.
\<close>

definition tx_opt :: "('s, err, 'a) tx \<Rightarrow> ('s, err, 'a option) tx" where
  "tx_opt m s = (case m s of Inl e \<Rightarrow> if e = PgNoRows then Inr (None, s) else Inl e
     | Inr (x, t) \<Rightarrow> Inr (Some x, t))"

definition tx_update_row :: "('r \<Rightarrow> bool) \<Rightarrow> ('r \<Rightarrow> 'r) \<Rightarrow> ('r \<Rightarrow> bool) \<Rightarrow> ('s \<Rightarrow> 'r \<Rightarrow> string option) \<Rightarrow>
    ('s \<Rightarrow> 'r list) \<Rightarrow> (('r list \<Rightarrow> 'r list) \<Rightarrow> 's \<Rightarrow> 's) \<Rightarrow> ('s, err, 'r) tx" where
  "tx_update_row P f check clash tbl upd s = (case List.find P (tbl s) of None \<Rightarrow> Inl PgNoRows
     | Some r \<Rightarrow> if \<not> check (f r) then Inl PgCheck
         else case clash s (f r) of Some c \<Rightarrow> Inl (PgUnique c)
         | None \<Rightarrow> Inr (f r, upd (upd_where P f) s))"

lemma tx_opt_row [simp]: "tx_opt (tx_row f) s = Inr (f s, s)"
  by (simp add: tx_opt_def tx_row_def split: option.split)

lemma tx_update_row_Inr [simp]:
  "tx_update_row P f check clash tbl upd s = Inr x \<longleftrightarrow>
   (\<exists>r. List.find P (tbl s) = Some r \<and> check (f r) \<and> clash s (f r) = None \<and> x = (f r, upd (upd_where P f) s))"
  by (auto simp: tx_update_row_def split: option.splits)

text \<open>\<open>errors.Is(err, pgx.ErrNoRows)\<close> translated into a domain error.\<close>

definition no_rows_as :: "err \<Rightarrow> err \<Rightarrow> err" where
  "no_rows_as e x = (if x = PgNoRows then e else x)"

subsection \<open>Tenant isolation\<close>

text \<open>
  The rows of the other tenants: a request must leave them as they are. The relation is reflexive
  and transitive, so it lifts from the queries to every handler.
\<close>

definition ajenas :: "env \<Rightarrow> db \<Rightarrow> db" where
  "ajenas ev s = \<lparr>
     consorcios = filter (\<lambda>r. co_tenant r \<noteq> tenant ev) (consorcios s),
     unidades = filter (\<lambda>r. u_tenant r \<noteq> tenant ev) (unidades s),
     gastos = filter (\<lambda>r. g_tenant r \<noteq> tenant ev) (gastos s),
     liquidaciones = filter (\<lambda>r. l_tenant r \<noteq> tenant ev) (liquidaciones s),
     liq_gastos = filter (\<lambda>r. lg_tenant r \<noteq> tenant ev) (liq_gastos s),
     liq_items = filter (\<lambda>r. li_tenant r \<noteq> tenant ev) (liq_items s),
     liq_unidades = filter (\<lambda>r. lu_tenant r \<noteq> tenant ev) (liq_unidades s),
     liq_unidad_items = filter (\<lambda>r. lx_tenant r \<noteq> tenant ev) (liq_unidad_items s),
     charges = filter (\<lambda>r. c_tenant r \<noteq> tenant ev) (charges s),
     entries = filter (\<lambda>r. e_tenant r \<noteq> tenant ev) (entries s),
     payments = filter (\<lambda>r. p_tenant r \<noteq> tenant ev) (payments s),
     allocations = filter (\<lambda>r. a_tenant r \<noteq> tenant ev) (allocations s),
     psp_intents = filter (\<lambda>r. i_tenant r \<noteq> tenant ev) (psp_intents s),
     outbox = filter (\<lambda>r. ob_tenant r \<noteq> tenant ev) (outbox s),
     documentos = filter (\<lambda>r. do_tenant r \<noteq> tenant ev) (documentos s),
     reclamos = filter (\<lambda>r. r_tenant r \<noteq> tenant ev) (reclamos s),
     rec_mensajes = filter (\<lambda>r. rm_tenant r \<noteq> tenant ev) (rec_mensajes s),
     rec_transiciones = filter (\<lambda>r. rt_tenant r \<noteq> tenant ev) (rec_transiciones s),
     personas = filter (\<lambda>r. pe_tenant r \<noteq> tenant ev) (personas s),
     vinculos = filter (\<lambda>r. v_tenant r \<noteq> tenant ev) (vinculos s),
     proveedores = filter (\<lambda>r. pv_tenant r \<noteq> tenant ev) (proveedores s),
     conceptos = filter (\<lambda>r. cp_tenant r \<noteq> tenant ev) (conceptos s),
     comunicados = filter (\<lambda>r. cm_tenant r \<noteq> tenant ev) (comunicados s),
     notificaciones = filter (\<lambda>r. n_tenant r \<noteq> tenant ev) (notificaciones s),
     import_jobs = filter (\<lambda>r. ij_tenant r \<noteq> tenant ev) (import_jobs s),
     audit = filter (\<lambda>r. au_tenant r \<noteq> Some (tenant ev)) (audit s),
     ident = ident s,
     idem_keys = filter (\<lambda>r. k_tenant r \<noteq> tenant ev) (idem_keys s),
     seq = 0\<rparr>"

definition aislado :: "env \<Rightarrow> db \<Rightarrow> db \<Rightarrow> bool" where
  "aislado ev s t \<longleftrightarrow> ajenas ev t = ajenas ev s"

interpretation ais: step_rel "aislado ev" for ev
  by unfold_locales (simp_all add: aislado_def)

lemma rel_row: "(\<And>s. R s s) \<Longrightarrow> tx_rel R (tx_row f)"
  by (auto simp: tx_rel_def)

lemma rel_exec: "tx_rel R m \<Longrightarrow> tx_rel R (tx_exec m)"
  by (auto simp: tx_rel_def)

lemma rel_uuid: "(\<And>s n. R s (s\<lparr>seq := n\<rparr>)) \<Longrightarrow> tx_rel R (nuevo_uuid ev)"
  by (auto simp: tx_rel_def)

lemma rel_insert: "(\<And>s. R s (upd (\<lambda>rs. rs @ [r]) s)) \<Longrightarrow> tx_rel R (tx_insert check clash fk upd r)"
  by (auto simp: tx_rel_def)

lemma rel_update: "(\<And>s. R s (upd (upd_where P f) s)) \<Longrightarrow> tx_rel R (tx_update P f check tbl upd)"
  by (auto simp: tx_rel_def)

lemma rel_delete: "(\<And>s. R s (upd (del_where P) s)) \<Longrightarrow> tx_rel R (tx_delete P tbl upd)"
  by (auto simp: tx_rel_def)

lemma rel_opt: "tx_rel R m \<Longrightarrow> (\<And>s. R s s) \<Longrightarrow> tx_rel R (tx_opt m)"
  by (auto simp: tx_rel_def tx_opt_def split: sum.splits if_splits)

lemma rel_update_row: "(\<And>s. R s (upd (upd_where P f) s)) \<Longrightarrow> tx_rel R (tx_update_row P f check clash tbl upd)"
  by (auto simp: tx_rel_def)

lemmas rel_queries = rel_update_row rel_row rel_exec rel_uuid rel_insert rel_update rel_delete

lemma aislado_refl [simp]: "aislado ev s s"
  by (simp add: aislado_def)

lemma aislado_seq [simp]: "aislado ev s (s\<lparr>seq := n\<rparr>)"
  by (simp add: aislado_def ajenas_def)

subsection \<open>A concrete environment\<close>

text \<open>
  The environment and the database of the witnesses: identifiers are written in decimal, and the
  tenant 1 has a consorcio with two units.
\<close>

definition ejemplo_env :: env where
  "ejemplo_env = \<lparr>tenant = 1, usuario = Some 7, ahora = 100, reloj = 100, hoy = Fecha 2026 3 15,
     uuid_parse = (\<lambda>s. if s \<noteq> [] \<and> list_all digito s then Some (num s) else None),
     uuid_google = (\<lambda>s. if s \<noteq> [] \<and> list_all digito s then Some (num s) else None),
     uuid_show = show_nat, uuid_gen = (\<lambda>n. 1000 + n), date_scan = parse_fecha,
     num_float = (\<lambda>n. case fl n 100000000 0 of Fin m e \<Rightarrow> Fin m e | _ \<Rightarrow> Fin 0 0),
     float_num = (\<lambda>x. case x of Fin m e \<Rightarrow> rne (shl (m * 100000000) e) (shl 1 (- e)) | _ \<Rightarrow> 0),
     sha_hex = id, sql_lower = map lower_char\<rparr>"

lemma show_nat_not_Nil [simp]: "show_nat n \<noteq> []"
  by (simp add: show_nat.simps[of n])

lemma ejemplo_env_ok: "env_ok ejemplo_env"
proof -
  have "\<not> espacio c" if "c \<in> set (show_nat n)" for c n
    using that digitos_show_nat[of n] by (fastforce simp: espacio_def digito_def list_all_iff)
  then show ?thesis by (simp add: env_ok_def ejemplo_env_def list_all_iff)
qed

definition ejemplo_unidad :: "uuid \<Rightarrow> string \<Rightarrow> unidad" where
  "ejemplo_unidad i c = \<lparr>u_tenant = 1, u_consorcio = 10, u_id = i, u_codigo = c,
     u_tipo = ''departamento'', u_superficie = None, u_coeficiente = 50, u_estado = ''activa'',
     u_created = 1, u_updated = 1\<rparr>"

definition ejemplo_ident :: ident_db where
  "ejemplo_ident = \<lparr>
     users = [\<lparr>us_id = 7, us_email = ''ana@x'', us_hash = ''h'', us_name = ''Ana'', us_status = ''active'',
       us_mfa = False, us_created = 1, us_updated = 1, us_secret = None\<rparr>],
     tenants = [\<lparr>te_id = 1, te_name = ''T'', te_slug = ''t'', te_tax = None, te_status = ''active'', te_plan = ''free'',
       te_timezone = ''UTC'', te_currency = ''ARS'', te_created = 1, te_updated = 1\<rparr>],
     memberships = [\<lparr>m_id = 5, m_user = 7, m_tenant = 1, m_status = ''active'', m_created = 1\<rparr>],
     roles = [\<lparr>ro_id = 3, ro_code = ''tesorero'', ro_label = ''Tesorero''\<rparr>],
     membership_roles = [\<lparr>mr_id = 4, mr_membership = 5, mr_role = 3\<rparr>], role_scopes = [], sessions = [],
     refresh_tokens = [], login_attempts = [], id_seq = 0\<rparr>"

definition ejemplo_db :: db where
  "ejemplo_db = \<lparr>
     consorcios = [\<lparr>co_tenant = 1, co_id = 10, co_nombre = ''Edificio'', co_cuit = None,
       co_domicilio = None, co_tipo = ''edificio'', co_estado = ''activo'', co_config = ''{}'',
       co_created = 1, co_updated = 1\<rparr>],
     unidades = [ejemplo_unidad 21 ''A'', ejemplo_unidad 22 ''B''],
     gastos = [], liquidaciones = [], liq_gastos = [], liq_items = [], liq_unidades = [],
     liq_unidad_items = [], charges = [], entries = [], payments = [], allocations = [],
     psp_intents = [], outbox = [], documentos = [], reclamos = [], rec_mensajes = [],
     rec_transiciones = [], personas = [], vinculos = [], proveedores = [], conceptos = [], comunicados = [],
     notificaciones = [], import_jobs = [], audit = [], ident = ejemplo_ident, idem_keys = [], seq = 0\<rparr>"

lemma ejemplo_env_simps [simp]:
  "tenant ejemplo_env = 1" "ahora ejemplo_env = 100" "usuario ejemplo_env = Some 7" "reloj ejemplo_env = 100"
 "hoy ejemplo_env = Fecha 2026 3 15"
  "uuid_show ejemplo_env = show_nat" "uuid_gen ejemplo_env n = 1000 + n"
  "date_scan ejemplo_env = parse_fecha" "sha_hex ejemplo_env x = x"
  "num_float ejemplo_env k = (case fl k 100000000 0 of Fin m e \<Rightarrow> Fin m e | _ \<Rightarrow> Fin 0 0)"
  by (simp_all add: ejemplo_env_def)

lemma ejemplo_uuid:
  "uuid_parse ejemplo_env s = (if s \<noteq> [] \<and> list_all digito s then Some (num s) else None)"
  by (simp add: ejemplo_env_def)

lemmas digitos_eval = digito_def num_def valor_def

lemmas fecha_eval = parse_fecha_def fecha_ok_def dias_mes_def

text \<open>The definitions that evaluate a handler on a concrete state by \<open>simp\<close>.\<close>

lemmas tx_eval = tx_bind_def tx_ret_def tx_fail_def tx_read_def tx_some_def tx_guard_def
  tx_catch_def tx_insert_def tx_update_def tx_delete_def tx_exec_def tx_row_def nuevo_uuid_def

end
