(* ===== verification/LiqConsultas.thy ===== *)
theory LiqConsultas
  imports Modelo
begin

text \<open>
  The queries of \<open>internal/database/gen/liquidaciones.sql.go\<close>, and those of \<open>gastos.sql.go\<close>,
  \<open>ufs.sql.go\<close> and \<open>comunicaciones.sql.go\<close> that the settlement of expenses uses. Every statement is
  restricted to the tenant of the request. \<open>ORDER BY a, b, c\<close> is three stable sorts.
\<close>

subsection \<open>Expenses, units and events\<close>

text \<open>\<open>to_char(fecha, 'YYYY-MM')\<close>.\<close>

definition mes_de :: "fecha \<Rightarrow> string" where
  "mes_de f = pad 4 (show_nat (anio f)) @ ''-'' @ pad 2 (show_nat (mes f))"

definition list_gastos :: "env \<Rightarrow> uuid \<Rightarrow> string \<Rightarrow> uuid option \<Rightarrow> gasto list query" where
  "list_gastos ev cid m prov = tx_read (\<lambda>s.
     rev (sort_key g_fecha (sort_key g_created (sort_key g_id
       (filter (\<lambda>g. g_tenant g = tenant ev \<and> g_consorcio g = cid \<and>
          (m = '''' \<or> mes_de (g_fecha g) = m) \<and> (prov = None \<or> g_proveedor g = prov)) (gastos s))))))"

definition list_unidades :: "env \<Rightarrow> uuid \<Rightarrow> string \<Rightarrow> unidad list query" where
  "list_unidades ev cid estado = tx_read (\<lambda>s.
     sort_key u_codigo (sort_key u_id
       (filter (\<lambda>u. u_tenant u = tenant ev \<and> u_consorcio u = cid \<and>
          (estado = '''' \<or> u_estado u = estado)) (unidades s))))"

definition get_unidad :: "env \<Rightarrow> uuid \<Rightarrow> uuid \<Rightarrow> unidad query" where
  "get_unidad ev cid uid = tx_row (\<lambda>s.
     List.find (\<lambda>u. u_tenant u = tenant ev \<and> u_consorcio u = cid \<and> u_id u = uid) (unidades s))"

definition insert_outbox_event :: "env \<Rightarrow> string \<Rightarrow> string \<Rightarrow> payload \<Rightarrow> outbox_event query" where
  "insert_outbox_event ev correlation type payload =
     tx_bind (nuevo_uuid ev) (\<lambda>oid. tx_insert (\<lambda>_. True)
       (\<lambda>s r. if \<exists>x \<in> set (outbox s). ob_tenant x = ob_tenant r \<and> ob_id x = ob_id r
              then Some ''outbox_events_pkey'' else None)
       (\<lambda>_ _. True) outbox_update
       \<lparr>ob_tenant = tenant ev, ob_id = oid, ob_correlation = correlation, ob_type = type,
        ob_payload = payload, ob_estado = ''pendiente'', ob_intentos = 0, ob_last_error = '''',
        ob_next = ahora ev, ob_created = ahora ev, ob_updated = ahora ev\<rparr>)"

subsection \<open>Settlements\<close>

definition liq_activa :: "string \<Rightarrow> bool" where
  "liq_activa e \<longleftrightarrow> e \<notin> {''anulada'', ''cerrada''}"

definition liq_estados :: "string set" where
  "liq_estados = {''borrador'', ''calculada'', ''confirmada'', ''publicada'', ''cerrada'', ''anulada''}"

definition periodo_ok :: "string \<Rightarrow> bool" where
  "periodo_ok p \<longleftrightarrow> length p = 6 \<and> list_all digito p"

definition liq_check :: "liquidacion \<Rightarrow> bool" where
  "liq_check l \<longleftrightarrow> periodo_ok (l_periodo l) \<and> l_estado l \<in> liq_estados \<and> 1 \<le> l_version l \<and>
     (case l_v2 l of None \<Rightarrow> True | Some v2 \<Rightarrow> l_v1 l \<le> v2)"

text \<open>\<open>version + 1\<close> on an \<open>INT\<close> column fails when it overflows.\<close>

definition liq_desborda :: "(liquidacion \<Rightarrow> bool) \<Rightarrow> db \<Rightarrow> bool" where
  "liq_desborda P s \<longleftrightarrow> (\<exists>l \<in> set (liquidaciones s). P l \<and> l_version l = 2 ^ 31 - 1)"

definition liq_mover :: "env \<Rightarrow> (liquidacion \<Rightarrow> bool) \<Rightarrow> string \<Rightarrow> int query" where
  "liq_mover ev P nuevo s =
     (if liq_desborda P s then Inl PgRange
      else tx_update P (\<lambda>l. l\<lparr>l_estado := nuevo, l_version := l_version l + 1, l_updated := ahora ev\<rparr>)
             liq_check liquidaciones liquidaciones_update s)"

definition anular_liquidacion_q :: "env \<Rightarrow> uuid \<Rightarrow> string \<Rightarrow> int \<Rightarrow> int query" where
  "anular_liquidacion_q ev lid actual version =
     liq_mover ev (\<lambda>l. l_tenant l = tenant ev \<and> l_id l = lid \<and> l_estado l = actual \<and>
       l_version l = version) ''anulada''"

definition transition_liquidacion_q ::
  "env \<Rightarrow> string \<Rightarrow> uuid \<Rightarrow> uuid \<Rightarrow> string \<Rightarrow> int \<Rightarrow> int query" where
  "transition_liquidacion_q ev nuevo cid lid actual version =
     liq_mover ev (\<lambda>l. l_tenant l = tenant ev \<and> l_consorcio l = cid \<and> l_id l = lid \<and>
       l_estado l = actual \<and> l_version l = version) nuevo"

text \<open>
  The insert of a draft: \<open>ON CONFLICT\<close> on the partial index of active settlements does nothing and
  returns no row.
\<close>

definition create_liquidacion_q ::
  "env \<Rightarrow> uuid \<Rightarrow> string \<Rightarrow> fecha \<Rightarrow> fecha option \<Rightarrow> liquidacion query" where
  "create_liquidacion_q ev cid periodo v1 v2 =
     tx_bind (nuevo_uuid ev) (\<lambda>lid.
     let l = \<lparr>l_tenant = tenant ev, l_consorcio = cid, l_id = lid, l_periodo = periodo, l_v1 = v1,
              l_v2 = v2, l_estado = ''borrador'', l_version = 1, l_total_gastos = 0,
              l_total_distribuido = 0, l_alcanzadas = 0, l_created = ahora ev,
              l_updated = ahora ev\<rparr> in
     tx_bind (tx_guard (liq_check l) PgCheck) (\<lambda>_.
     tx_bind (tx_read (\<lambda>s. \<exists>x \<in> set (liquidaciones s). l_tenant x = tenant ev \<and>
        l_consorcio x = cid \<and> l_periodo x = periodo \<and> liq_activa (l_estado x))) (\<lambda>existe.
       if existe then tx_fail PgNoRows
       else tx_insert liq_check
         (\<lambda>s r. if \<exists>x \<in> set (liquidaciones s). l_tenant x = l_tenant r \<and> l_id x = l_id r
                then Some ''liquidaciones_pkey'' else None)
         (\<lambda>s r. \<exists>c \<in> set (consorcios s). co_tenant c = tenant ev \<and> co_id c = cid)
         liquidaciones_update l)))"

definition delete_liquidacion_gastos :: "env \<Rightarrow> uuid \<Rightarrow> unit query" where
  "delete_liquidacion_gastos ev lid = tx_exec (tx_delete
     (\<lambda>r. lg_tenant r = tenant ev \<and> lg_liquidacion r = lid) liq_gastos liq_gastos_update)"

definition delete_liquidacion_items :: "env \<Rightarrow> uuid \<Rightarrow> unit query" where
  "delete_liquidacion_items ev lid = tx_exec (tx_delete
     (\<lambda>r. li_tenant r = tenant ev \<and> li_liquidacion r = lid) liq_items liq_items_update)"

text \<open>The items of the units go with their unit (\<open>ON DELETE CASCADE\<close>).\<close>

definition delete_liquidacion_unidades :: "env \<Rightarrow> uuid \<Rightarrow> unit query" where
  "delete_liquidacion_unidades ev lid =
     tx_bind (tx_delete (\<lambda>r. lx_tenant r = tenant ev \<and> lx_liquidacion r = lid)
       liq_unidad_items liq_unidad_items_update) (\<lambda>_.
     tx_exec (tx_delete (\<lambda>r. lu_tenant r = tenant ev \<and> lu_liquidacion r = lid)
       liq_unidades liq_unidades_update))"

definition get_liquidacion_q :: "env \<Rightarrow> uuid \<Rightarrow> uuid \<Rightarrow> liquidacion query" where
  "get_liquidacion_q ev cid lid = tx_row (\<lambda>s. List.find
     (\<lambda>l. l_tenant l = tenant ev \<and> l_consorcio l = cid \<and> l_id l = lid) (liquidaciones s))"

definition get_liquidacion_gastos :: "env \<Rightarrow> uuid \<Rightarrow> liq_gasto list query" where
  "get_liquidacion_gastos ev lid = tx_read (\<lambda>s.
     filter (\<lambda>r. lg_tenant r = tenant ev \<and> lg_liquidacion r = lid) (liq_gastos s))"

definition get_liquidacion_items :: "env \<Rightarrow> uuid \<Rightarrow> liq_item list query" where
  "get_liquidacion_items ev lid = tx_read (\<lambda>s.
     filter (\<lambda>r. li_tenant r = tenant ev \<and> li_liquidacion r = lid) (liq_items s))"

definition get_liquidacion_unidad_items :: "env \<Rightarrow> uuid \<Rightarrow> liq_unidad_item list query" where
  "get_liquidacion_unidad_items ev lid = tx_read (\<lambda>s.
     filter (\<lambda>r. lx_tenant r = tenant ev \<and> lx_liquidacion r = lid) (liq_unidad_items s))"

definition get_liquidacion_unidades :: "env \<Rightarrow> uuid \<Rightarrow> liq_unidad list query" where
  "get_liquidacion_unidades ev lid = tx_read (\<lambda>s.
     filter (\<lambda>r. lu_tenant r = tenant ev \<and> lu_liquidacion r = lid) (liq_unidades s))"

definition liq_existe :: "env \<Rightarrow> uuid \<Rightarrow> db \<Rightarrow> bool" where
  "liq_existe ev lid s \<longleftrightarrow> (\<exists>l \<in> set (liquidaciones s). l_tenant l = tenant ev \<and> l_id l = lid)"

definition insert_liquidacion_gasto :: "env \<Rightarrow> uuid \<Rightarrow> uuid \<Rightarrow> uuid \<Rightarrow> int \<Rightarrow> unit query" where
  "insert_liquidacion_gasto ev lid gid concepto importe = tx_exec (tx_insert
     (\<lambda>r. 0 < lg_importe r)
     (\<lambda>s r. if \<exists>x \<in> set (liq_gastos s). lg_tenant x = tenant ev \<and> lg_liquidacion x = lid \<and> lg_gasto x = gid
            then Some ''liquidacion_gastos_pkey'' else None)
     (\<lambda>s _. liq_existe ev lid s) liq_gastos_update
     \<lparr>lg_tenant = tenant ev, lg_liquidacion = lid, lg_gasto = gid, lg_concepto = concepto,
      lg_importe = importe, lg_created = ahora ev\<rparr>)"

definition insert_liquidacion_item :: "env \<Rightarrow> uuid \<Rightarrow> uuid \<Rightarrow> string \<Rightarrow> int \<Rightarrow> unit query" where
  "insert_liquidacion_item ev lid concepto regla importe = tx_exec (tx_insert
     (\<lambda>r. 0 \<le> li_importe r)
     (\<lambda>s r. if \<exists>x \<in> set (liq_items s). li_tenant x = tenant ev \<and> li_liquidacion x = lid \<and> li_concepto x = concepto
            then Some ''liquidacion_items_pkey'' else None)
     (\<lambda>s _. liq_existe ev lid s) liq_items_update
     \<lparr>li_tenant = tenant ev, li_liquidacion = lid, li_concepto = concepto, li_regla = regla,
      li_importe = importe, li_created = ahora ev\<rparr>)"

definition insert_liquidacion_unidad ::
  "env \<Rightarrow> uuid \<Rightarrow> uuid \<Rightarrow> string \<Rightarrow> int \<Rightarrow> int \<Rightarrow> unit query" where
  "insert_liquidacion_unidad ev lid uid codigo coef tot = tx_exec (tx_insert
     (\<lambda>r. 0 \<le> lu_coeficiente r \<and> 0 \<le> lu_total r)
     (\<lambda>s r. if \<exists>x \<in> set (liq_unidades s). lu_tenant x = tenant ev \<and> lu_liquidacion x = lid \<and> lu_unidad x = uid
            then Some ''liquidacion_unidades_pkey'' else None)
     (\<lambda>s _. liq_existe ev lid s) liq_unidades_update
     \<lparr>lu_tenant = tenant ev, lu_liquidacion = lid, lu_unidad = uid, lu_codigo = codigo,
      lu_coeficiente = coef, lu_total = tot, lu_created = ahora ev\<rparr>)"

definition insert_liquidacion_unidad_item ::
  "env \<Rightarrow> uuid \<Rightarrow> uuid \<Rightarrow> uuid \<Rightarrow> int \<Rightarrow> unit query" where
  "insert_liquidacion_unidad_item ev lid uid concepto importe = tx_exec (tx_insert
     (\<lambda>r. 0 \<le> lx_importe r)
     (\<lambda>s r. if \<exists>x \<in> set (liq_unidad_items s). lx_tenant x = tenant ev \<and> lx_liquidacion x = lid \<and>
                 lx_unidad x = uid \<and> lx_concepto x = concepto
            then Some ''liquidacion_unidad_items_pkey'' else None)
     (\<lambda>s _. \<exists>x \<in> set (liq_unidades s). lu_tenant x = tenant ev \<and> lu_liquidacion x = lid \<and> lu_unidad x = uid)
     liq_unidad_items_update
     \<lparr>lx_tenant = tenant ev, lx_liquidacion = lid, lx_unidad = uid, lx_concepto = concepto,
      lx_importe = importe, lx_created = ahora ev\<rparr>)"

definition list_liquidaciones_q :: "env \<Rightarrow> uuid \<Rightarrow> string \<Rightarrow> string \<Rightarrow> liquidacion list query" where
  "list_liquidaciones_q ev cid periodo estado = tx_read (\<lambda>s.
     rev (sort_key l_periodo (sort_key l_created (sort_key l_id
       (filter (\<lambda>l. l_tenant l = tenant ev \<and> l_consorcio l = cid \<and>
          (periodo = '''' \<or> l_periodo l = periodo) \<and> (estado = '''' \<or> l_estado l = estado))
        (liquidaciones s))))))"

definition update_liquidacion_calculo :: "env \<Rightarrow> int \<Rightarrow> int \<Rightarrow> int \<Rightarrow> uuid \<Rightarrow> unit query" where
  "update_liquidacion_calculo ev gas dist alc lid = tx_exec (tx_update
     (\<lambda>l. l_tenant l = tenant ev \<and> l_id l = lid)
     (\<lambda>l. l\<lparr>l_total_gastos := gas, l_total_distribuido := dist, l_alcanzadas := alc,
           l_updated := ahora ev\<rparr>) liq_check liquidaciones liquidaciones_update)"

definition update_liquidacion_vencimientos ::
  "env \<Rightarrow> fecha \<Rightarrow> fecha option \<Rightarrow> uuid \<Rightarrow> uuid \<Rightarrow> int \<Rightarrow> unit query" where
  "update_liquidacion_vencimientos ev v1 v2 cid lid version = tx_exec (tx_update
     (\<lambda>l. l_tenant l = tenant ev \<and> l_consorcio l = cid \<and> l_id l = lid \<and>
          l_estado l = ''borrador'' \<and> l_version l = version)
     (\<lambda>l. l\<lparr>l_v1 := v1, l_v2 := v2, l_updated := ahora ev\<rparr>) liq_check
     liquidaciones liquidaciones_update)"

subsection \<open>What the updates do\<close>

lemma liq_mover_Inr:
  "liq_mover ev P nuevo s = Inr (n, t) \<longleftrightarrow> \<not> liq_desborda P s \<and>
   (\<forall>l \<in> set (liquidaciones s). P l \<longrightarrow> liq_check
      (l\<lparr>l_estado := nuevo, l_version := l_version l + 1, l_updated := ahora ev\<rparr>)) \<and>
   n = int (count_where P (liquidaciones s)) \<and>
   t = liquidaciones_update (upd_where P
      (\<lambda>l. l\<lparr>l_estado := nuevo, l_version := l_version l + 1, l_updated := ahora ev\<rparr>)) s"
  by (auto simp: liq_mover_def)

subsection \<open>Tenant isolation\<close>

lemma ais_reads:
  "tx_rel (aislado ev) (list_gastos ev a b c)" "tx_rel (aislado ev) (list_unidades ev a b)"
  "tx_rel (aislado ev) (get_unidad ev a d)" "tx_rel (aislado ev) (get_liquidacion_q ev a d)"
  "tx_rel (aislado ev) (get_liquidacion_unidades ev a)"
  "tx_rel (aislado ev) (list_liquidaciones_q ev a b e)"
  unfolding list_gastos_def list_unidades_def get_unidad_def get_liquidacion_q_def
    get_liquidacion_unidades_def list_liquidaciones_q_def
  by (rule ais.rules rel_row aislado_refl)+

lemma ais_outbox: "tx_rel (aislado ev) (insert_outbox_event ev a b c)"
  unfolding insert_outbox_event_def
  by (intro ais.bind rel_uuid rel_insert) (simp_all add: aislado_def ajenas_def)

lemma ais_create_q: "tx_rel (aislado ev) (create_liquidacion_q ev a b c d)"
  unfolding create_liquidacion_q_def Let_def
  by (intro ais.rules rel_uuid rel_insert) (simp_all add: aislado_def ajenas_def)

lemma ais_mover: "(\<And>l. P l \<Longrightarrow> l_tenant l = tenant ev) \<Longrightarrow> tx_rel (aislado ev) (liq_mover ev P nuevo)"
  by (rule tx_relI) (auto simp: liq_mover_Inr aislado_def ajenas_def intro!: filter_upd_where_outside)

lemma ais_moves:
  "tx_rel (aislado ev) (anular_liquidacion_q ev a b c)"
  "tx_rel (aislado ev) (transition_liquidacion_q ev n a d b c)"
  unfolding anular_liquidacion_q_def transition_liquidacion_q_def by (auto intro!: ais_mover)

lemma ais_deletes:
  "tx_rel (aislado ev) (delete_liquidacion_gastos ev a)"
  "tx_rel (aislado ev) (delete_liquidacion_items ev a)"
  "tx_rel (aislado ev) (delete_liquidacion_unidades ev a)"
  unfolding delete_liquidacion_gastos_def delete_liquidacion_items_def delete_liquidacion_unidades_def
  by (intro ais.rules rel_exec rel_delete;
      simp add: aislado_def ajenas_def; rule filter_del_where_outside; simp)+

lemma ais_inserts:
  "tx_rel (aislado ev) (insert_liquidacion_gasto ev a b c d)"
  "tx_rel (aislado ev) (insert_liquidacion_item ev a b e d)"
  "tx_rel (aislado ev) (insert_liquidacion_unidad ev a b e d f)"
  unfolding insert_liquidacion_gasto_def insert_liquidacion_item_def insert_liquidacion_unidad_def
  by (intro rel_exec rel_insert; simp add: aislado_def ajenas_def)+

lemma ais_updates:
  "tx_rel (aislado ev) (update_liquidacion_calculo ev x y z a)"
  "tx_rel (aislado ev) (update_liquidacion_vencimientos ev f g a b x)"
  unfolding update_liquidacion_calculo_def update_liquidacion_vencimientos_def
  by (intro rel_exec rel_update;
      simp add: aislado_def ajenas_def; rule filter_upd_where_outside; simp)+

lemmas ais_liq = ais_reads ais_outbox ais_create_q ais_moves ais_deletes ais_inserts ais_updates

end
