(* ===== verification/CuentaCorriente.thy ===== *)
theory CuentaCorriente
  imports Modelo
begin

text \<open>
  \<open>internal/cuenta_corriente\<close> and its queries \<open>internal/database/gen/cuenta_corriente.sql.go\<close>:
  the charges of the units, the ledger of account entries that goes with them, and the overdue
  balances. The invariant is that the ledger nets, charge by charge, to the open balance.
\<close>

subsection \<open>Queries\<close>

definition charge_check :: "charge \<Rightarrow> bool" where
  "charge_check c \<longleftrightarrow> 0 < c_total c \<and> 0 \<le> c_saldo c \<and> c_saldo c \<le> c_total c"

definition entry_check :: "account_entry \<Rightarrow> bool" where
  "entry_check e \<longleftrightarrow> e_tipo e \<in> {''cargo'', ''reversa'', ''credito''} \<and>
     (0 < e_debit e \<and> e_credit e = 0 \<or> 0 < e_credit e \<and> e_debit e = 0)"

definition get_charge :: "env \<Rightarrow> uuid \<Rightarrow> charge query" where
  "get_charge ev cid =
     tx_row (\<lambda>s. List.find (\<lambda>c. c_tenant c = tenant ev \<and> c_id c = cid) (charges s))"

definition get_charges_by_liquidacion :: "env \<Rightarrow> uuid \<Rightarrow> charge list query" where
  "get_charges_by_liquidacion ev lid =
     tx_read (\<lambda>s. filter (\<lambda>c. c_tenant c = tenant ev \<and> c_liquidacion c = Some lid) (charges s))"

definition get_entries_by_unidad :: "env \<Rightarrow> uuid \<Rightarrow> account_entry list query" where
  "get_entries_by_unidad ev uid = tx_read (\<lambda>s. sort_key e_created (sort_key e_id
     (filter (\<lambda>e. e_tenant e = tenant ev \<and> e_unidad e = uid) (entries s))))"

definition insert_account_entry :: "env \<Rightarrow> uuid \<Rightarrow> string \<Rightarrow> fecha \<Rightarrow> int \<Rightarrow> int \<Rightarrow> string
    \<Rightarrow> string option \<Rightarrow> uuid option \<Rightarrow> uuid option \<Rightarrow> account_entry query" where
  "insert_account_entry ev uid tipo fecha debit credit currency referencia reversa cargo =
     tx_bind (nuevo_uuid ev) (\<lambda>eid. tx_insert entry_check
       (\<lambda>s r. if \<exists>x \<in> set (entries s). e_tenant x = e_tenant r \<and> e_id x = e_id r
              then Some ''account_entries_pkey'' else None)
       (\<lambda>s r. unidad_existe ev (e_unidad r) s) entries_update
       \<lparr>e_tenant = tenant ev, e_unidad = uid, e_id = eid, e_tipo = tipo, e_fecha = fecha,
        e_debit = debit, e_credit = credit, e_currency = currency, e_referencia = referencia,
        e_reversa = reversa, e_charge = cargo, e_created = ahora ev\<rparr>)"

definition insert_charge :: "env \<Rightarrow> uuid \<Rightarrow> uuid option \<Rightarrow> string \<Rightarrow> fecha \<Rightarrow> int \<Rightarrow> int
    \<Rightarrow> charge query" where
  "insert_charge ev uid lid concepto due tot saldo =
     tx_bind (nuevo_uuid ev) (\<lambda>cid. tx_insert charge_check
       (\<lambda>s r. if \<exists>x \<in> set (charges s). c_tenant x = c_tenant r \<and> c_id x = c_id r
              then Some ''charges_pkey'' else None)
       (\<lambda>s r. unidad_existe ev (c_unidad r) s) charges_update
       \<lparr>c_tenant = tenant ev, c_unidad = uid, c_id = cid, c_liquidacion = lid,
        c_concepto = concepto, c_due = due, c_total = tot, c_saldo = saldo,
        c_created = ahora ev\<rparr>)"

record morosidad_row =
  mr_unidad :: uuid
  mr_codigo :: string
  mr_saldo :: int
  mr_cantidad :: int
  mr_desde :: fecha

text \<open>
  \<open>JOIN unidades \<dots> GROUP BY u.id, u.codigo\<close>: one row per unit of the consorcio that has an overdue
  charge, and the cast of the sum to \<open>BIGINT\<close> that fails out of range.
\<close>

definition vencido :: "env \<Rightarrow> uuid \<Rightarrow> charge \<Rightarrow> bool" where
  "vencido ev uid c \<longleftrightarrow> c_tenant c = tenant ev \<and> c_unidad c = uid \<and> c_due c < hoy ev \<and> 0 < c_saldo c"

definition morosidad_de :: "env \<Rightarrow> db \<Rightarrow> unidad \<Rightarrow> morosidad_row" where
  "morosidad_de ev s u = (let cs = filter (vencido ev (u_id u)) (charges s) in
     \<lparr>mr_unidad = u_id u, mr_codigo = u_codigo u, mr_saldo = sum_by c_saldo cs,
      mr_cantidad = int (length cs), mr_desde = Min (set (map c_due cs))\<rparr>)"

definition list_morosidad_q :: "env \<Rightarrow> uuid \<Rightarrow> morosidad_row list query" where
  "list_morosidad_q ev cid s =
     (let us = filter (\<lambda>u. u_tenant u = tenant ev \<and> u_consorcio u = cid \<and>
                 (\<exists>c \<in> set (charges s). vencido ev (u_id u) c)) (unidades s);
          rows = map (morosidad_de ev s) us
      in if \<exists>r \<in> set rows. \<not> is_i64 (mr_saldo r) then Inl PgRange
         else Inr (sort_key (\<lambda>r. - mr_saldo r) (sort_key mr_codigo rows), s))"

definition update_charge_saldo :: "env \<Rightarrow> int \<Rightarrow> uuid \<Rightarrow> unit query" where
  "update_charge_saldo ev saldo cid = tx_exec (tx_update
     (\<lambda>c. c_tenant c = tenant ev \<and> c_id c = cid) (\<lambda>c. c\<lparr>c_saldo := saldo\<rparr>)
     charge_check charges charges_update)"

subsection \<open>Data of the package\<close>

record charge_dto =
  chd_id :: string
  chd_unidad :: string
  chd_liquidacion :: "string option"
  chd_concepto :: string
  chd_due :: string
  chd_total :: int
  chd_saldo :: int

record account_entry_dto =
  aed_id :: string
  aed_unidad :: string
  aed_tipo :: string
  aed_fecha :: string
  aed_debit :: int
  aed_credit :: int
  aed_currency :: string
  aed_referencia :: "string option"

record unidad_cobro =
  uco_unidad :: string
  uco_concepto :: string
  uco_due :: string
  uco_total :: int
  uco_liquidacion :: "string option"

record morosidad_dto =
  mo_unidad :: string
  mo_codigo :: string
  mo_saldo :: int
  mo_cantidad :: int
  mo_desde :: string

definition charge_dto_de :: "env \<Rightarrow> charge \<Rightarrow> charge_dto" where
  "charge_dto_de ev c = \<lparr>chd_id = uuid_show ev (c_id c), chd_unidad = uuid_show ev (c_unidad c),
     chd_liquidacion = map_option (uuid_show ev) (c_liquidacion c), chd_concepto = c_concepto c,
     chd_due = format_fecha (c_due c), chd_total = c_total c, chd_saldo = c_saldo c\<rparr>"

definition account_entry_dto_de :: "env \<Rightarrow> account_entry \<Rightarrow> account_entry_dto" where
  "account_entry_dto_de ev e = \<lparr>aed_id = uuid_show ev (e_id e),
     aed_unidad = uuid_show ev (e_unidad e), aed_tipo = e_tipo e,
     aed_fecha = format_fecha (e_fecha e), aed_debit = e_debit e, aed_credit = e_credit e,
     aed_currency = e_currency e, aed_referencia = e_referencia e\<rparr>"

definition morosidad_dto_de :: "env \<Rightarrow> morosidad_row \<Rightarrow> morosidad_dto" where
  "morosidad_dto_de ev r = \<lparr>mo_unidad = uuid_show ev (mr_unidad r), mo_codigo = mr_codigo r,
     mo_saldo = mr_saldo r, mo_cantidad = mr_cantidad r, mo_desde = format_fecha (mr_desde r)\<rparr>"

subsection \<open>Operations\<close>

definition parse_liquidacion_id :: "env \<Rightarrow> string option \<Rightarrow> uuid option option" where
  "parse_liquidacion_id ev l =
     (case l of None \<Rightarrow> Some None | Some x \<Rightarrow> map_option Some (uuid_parse ev x))"

definition crear_cargo :: "env \<Rightarrow> string \<Rightarrow> unidad_cobro \<Rightarrow> (charge_dto \<times> account_entry_dto) query" where
  "crear_cargo ev currency u =
     tx_bind (tx_some ErrCargoInvalido (uuid_parse ev (uco_unidad u))) (\<lambda>uid.
     tx_bind (tx_some ErrCargoInvalido (parse_liquidacion_id ev (uco_liquidacion u))) (\<lambda>lid.
     tx_bind (tx_some ErrCargoInvalido (date_scan ev (uco_due u))) (\<lambda>due.
     tx_bind (insert_charge ev uid lid (uco_concepto u) due (uco_total u) (uco_total u)) (\<lambda>ch.
     tx_bind (insert_account_entry ev uid ''cargo'' due (uco_total u) 0 currency None None
        (Some (c_id ch))) (\<lambda>en.
     tx_ret (charge_dto_de ev ch, account_entry_dto_de ev en))))))"

definition create_cargos :: "env \<Rightarrow> unidad_cobro list \<Rightarrow> string
    \<Rightarrow> (charge_dto list \<times> account_entry_dto list) query" where
  "create_cargos ev us currency =
     tx_bind (tx_map (crear_cargo ev currency) us) (\<lambda>rs. tx_ret (map fst rs, map snd rs))"

definition revertir_cargo :: "env \<Rightarrow> string \<Rightarrow> string \<Rightarrow> string \<Rightarrow> account_entry_dto query" where
  "revertir_cargo ev charge_id unidad_id currency =
     tx_bind (tx_some ErrChargeNotFound (uuid_parse ev charge_id)) (\<lambda>cid.
     tx_bind (tx_catch (no_rows_as ErrChargeNotFound) (get_charge ev cid)) (\<lambda>ch.
     let uid = (case uuid_parse ev unidad_id of None \<Rightarrow> c_unidad ch | Some u \<Rightarrow> u) in
     tx_bind (update_charge_saldo ev 0 (c_id ch)) (\<lambda>_.
     tx_bind (insert_account_entry ev uid ''reversa'' (c_due ch) 0 (c_total ch) currency
        (Some (''reversa de cargo '' @ charge_id)) None (Some (c_id ch))) (\<lambda>en.
     tx_ret (account_entry_dto_de ev en)))))"

definition list_entries_by_unidad :: "env \<Rightarrow> string \<Rightarrow> account_entry_dto list query" where
  "list_entries_by_unidad ev unidad_id =
     tx_bind (tx_some ErrCargoInvalido (uuid_parse ev unidad_id)) (\<lambda>uid.
     tx_bind (get_entries_by_unidad ev uid) (\<lambda>es.
     tx_ret (map (account_entry_dto_de ev) es)))"

definition list_morosidad :: "env \<Rightarrow> string \<Rightarrow> morosidad_dto list query" where
  "list_morosidad ev consorcio_id =
     tx_bind (tx_some ErrCargoInvalido (uuid_parse ev (trim_space consorcio_id))) (\<lambda>cid.
     tx_bind (list_morosidad_q ev cid) (\<lambda>rows.
     tx_ret (map (morosidad_dto_de ev) rows)))"

subsection \<open>What a new charge is\<close>

text \<open>The row and the ledger entry that correspond to a unit of the batch.\<close>

definition cargo_de :: "env \<Rightarrow> unidad_cobro \<Rightarrow> charge \<Rightarrow> bool" where
  "cargo_de ev u c \<longleftrightarrow> c_tenant c = tenant ev \<and> uuid_parse ev (uco_unidad u) = Some (c_unidad c) \<and>
     parse_liquidacion_id ev (uco_liquidacion u) = Some (c_liquidacion c) \<and>
     c_concepto c = uco_concepto u \<and> date_scan ev (uco_due u) = Some (c_due c) \<and>
     c_total c = uco_total u \<and> c_saldo c = uco_total u \<and> 0 < c_total c"

definition asiento_de :: "env \<Rightarrow> string \<Rightarrow> charge \<Rightarrow> account_entry \<Rightarrow> bool" where
  "asiento_de ev currency c e \<longleftrightarrow> e_tenant e = tenant ev \<and> e_unidad e = c_unidad c \<and>
     e_tipo e = ''cargo'' \<and> e_fecha e = c_due c \<and> e_debit e = c_total c \<and> e_credit e = 0 \<and>
     e_currency e = currency \<and> e_charge e = Some (c_id c)"

lemma insert_charge_Inr:
  assumes "insert_charge ev uid lid concepto due tot saldo s = Inr (c, t)"
  shows "c_tenant c = tenant ev \<and> c_unidad c = uid \<and> c_liquidacion c = lid \<and>
    c_concepto c = concepto \<and> c_due c = due \<and> c_total c = tot \<and> c_saldo c = saldo \<and>
    c_created c = ahora ev \<and> charge_check c \<and> unidad_existe ev uid s \<and>
    (\<forall>x \<in> set (charges s). c_tenant x = tenant ev \<longrightarrow> c_id x \<noteq> c_id c) \<and>
    t = s\<lparr>charges := charges s @ [c], seq := seq s + 1\<rparr>"
  using assms by (auto simp: insert_charge_def tx_inv unidad_existe_def split: if_splits)

lemma insert_account_entry_Inr:
  assumes "insert_account_entry ev uid tipo fe debit credit currency ref rv cargo s = Inr (e, t)"
  shows "e_tenant e = tenant ev \<and> e_unidad e = uid \<and> e_tipo e = tipo \<and> e_fecha e = fe \<and>
    e_debit e = debit \<and> e_credit e = credit \<and> e_currency e = currency \<and> e_referencia e = ref \<and>
    e_charge e = cargo \<and> entry_check e \<and>
    t = s\<lparr>entries := entries s @ [e], seq := seq s + 1\<rparr>"
  using assms by (auto simp: insert_account_entry_def tx_inv split: if_splits)

lemma crear_cargo_Inr:
  assumes "crear_cargo ev currency u s = Inr ((cd, ed), t)"
  obtains c e where "cargo_de ev u c" "asiento_de ev currency c e"
    "cd = charge_dto_de ev c" "ed = account_entry_dto_de ev e"
    "\<forall>x \<in> set (charges s). c_tenant x = tenant ev \<longrightarrow> c_id x \<noteq> c_id c"
    "t = s\<lparr>charges := charges s @ [c], entries := entries s @ [e], seq := seq s + 2\<rparr>"
proof -
  obtain uid lid due c s' e where
    p: "uuid_parse ev (uco_unidad u) = Some uid" "parse_liquidacion_id ev (uco_liquidacion u) = Some lid"
      "date_scan ev (uco_due u) = Some due" and
    c: "insert_charge ev uid lid (uco_concepto u) due (uco_total u) (uco_total u) s = Inr (c, s')" and
    e: "insert_account_entry ev uid ''cargo'' due (uco_total u) 0 currency None None
      (Some (c_id c)) s' = Inr (e, t)" and
    d: "cd = charge_dto_de ev c" "ed = account_entry_dto_de ev e"
    using assms by (auto simp: crear_cargo_def tx_inv)
  note c' = insert_charge_Inr[OF c] and e' = insert_account_entry_Inr[OF e]
  show ?thesis
    by (rule that[of c e]) (use p c' e' d in \<open>simp_all add: cargo_de_def asiento_de_def charge_check_def\<close>)
qed

text \<open>The whole batch: one charge and one entry per unit, in order, and nothing else changes.\<close>

lemma create_cargos_map:
  assumes "tx_map (crear_cargo ev currency) us s = Inr (rs, t)"
  shows "\<exists>cs es. list_all2 (cargo_de ev) us cs \<and> list_all2 (asiento_de ev currency) cs es \<and>
    rs = zip (map (charge_dto_de ev) cs) (map (account_entry_dto_de ev) es) \<and>
    t = s\<lparr>charges := charges s @ cs, entries := entries s @ es, seq := seq s + 2 * length us\<rparr>"
  using assms
proof (induction us arbitrary: s rs)
  case Nil
  then show ?case by simp
next
  case (Cons u us)
  then obtain cd ed s' rs' where 1: "crear_cargo ev currency u s = Inr ((cd, ed), s')"
    and 2: "tx_map (crear_cargo ev currency) us s' = Inr (rs', t)" and rs: "rs = (cd, ed) # rs'"
    by (auto simp: tx_inv)
  from 1 obtain c e where c: "cargo_de ev u c" "asiento_de ev currency c e"
    "cd = charge_dto_de ev c" "ed = account_entry_dto_de ev e"
    "s' = s\<lparr>charges := charges s @ [c], entries := entries s @ [e], seq := seq s + 2\<rparr>"
    by (rule crear_cargo_Inr)
  from Cons.IH[OF 2] obtain cs es where "list_all2 (cargo_de ev) us cs"
    "list_all2 (asiento_de ev currency) cs es"
    "rs' = zip (map (charge_dto_de ev) cs) (map (account_entry_dto_de ev) es)"
    "t = s'\<lparr>charges := charges s' @ cs, entries := entries s' @ es, seq := seq s' + 2 * length us\<rparr>"
    by blast
  with c rs show ?case
    by (intro exI[of _ "c # cs"] exI[of _ "e # es"]) simp
qed

lemma create_cargos_Inr:
  assumes "create_cargos ev us currency s = Inr ((cds, eds), t)"
  shows "\<exists>cs es. list_all2 (cargo_de ev) us cs \<and> list_all2 (asiento_de ev currency) cs es \<and>
    cds = map (charge_dto_de ev) cs \<and> eds = map (account_entry_dto_de ev) es \<and>
    t = s\<lparr>charges := charges s @ cs, entries := entries s @ es, seq := seq s + 2 * length us\<rparr> \<and>
    sum_by c_total cs = sum_by uco_total us \<and> sum_by e_debit es = sum_by uco_total us"
proof -
  obtain rs where rs: "tx_map (crear_cargo ev currency) us s = Inr (rs, t)"
    "cds = map fst rs" "eds = map snd rs"
    using assms by (auto simp: create_cargos_def tx_inv)
  from create_cargos_map[OF rs(1)] obtain cs es where
    *: "list_all2 (cargo_de ev) us cs" "list_all2 (asiento_de ev currency) cs es"
      "rs = zip (map (charge_dto_de ev) cs) (map (account_entry_dto_de ev) es)"
      "t = s\<lparr>charges := charges s @ cs, entries := entries s @ es, seq := seq s + 2 * length us\<rparr>"
    by blast
  have "length cs = length es" using *(2) by (rule list_all2_lengthD)
  moreover have "map c_total cs = map uco_total us"
    using *(1) by (induction rule: list_all2_induct) (auto simp: cargo_de_def)
  moreover have "map e_debit es = map c_total cs"
    using *(2) by (induction rule: list_all2_induct) (auto simp: asiento_de_def)
  ultimately show ?thesis using * rs(2,3)
    by (intro exI[of _ cs] exI[of _ es]) simp
qed

text \<open>
  A batch of charges: on success there is exactly one new charge per unit of the batch, in
  order, with the open balance equal to the total, and one 'cargo' entry per charge that debits the
  total on the due date; the rest of the database is the same.
\<close>

theorem create_cargos_ok:
  assumes "create_cargos ev us currency s = Inr ((cds, eds), t)"
  shows "\<exists>cs es. list_all2 (cargo_de ev) us cs \<and> list_all2 (asiento_de ev currency) cs es \<and>
    cds = map (charge_dto_de ev) cs \<and> eds = map (account_entry_dto_de ev) es \<and>
    t = s\<lparr>charges := charges s @ cs, entries := entries s @ es, seq := seq s + 2 * length us\<rparr> \<and>
    sum_by c_total cs = sum_by uco_total us \<and> sum_by e_debit es = sum_by uco_total us"
  using assms by (rule create_cargos_Inr)

subsection \<open>The ledger agrees with the balances\<close>

definition mis_cargos :: "env \<Rightarrow> db \<Rightarrow> charge list" where
  "mis_cargos ev s = filter (\<lambda>c. c_tenant c = tenant ev) (charges s)"

definition asientos :: "env \<Rightarrow> db \<Rightarrow> uuid \<Rightarrow> account_entry list" where
  "asientos ev s cid = filter (\<lambda>e. e_tenant e = tenant ev \<and> e_charge e = Some cid) (entries s)"

text \<open>What the ledger says of a charge: debits less credits.\<close>

definition neto :: "env \<Rightarrow> db \<Rightarrow> uuid \<Rightarrow> int" where
  "neto ev s cid = sum_by (\<lambda>e. e_debit e - e_credit e) (asientos ev s cid)"

text \<open>
  The invariant: identifiers are unique, an entry refers to a charge that exists, and every charge
  is open with its whole total or closed, with the ledger netting to its balance.
\<close>

definition libro_ok :: "env \<Rightarrow> db \<Rightarrow> bool" where
  "libro_ok ev s \<longleftrightarrow> distinct (map c_id (mis_cargos ev s)) \<and>
     (\<forall>e \<in> set (entries s). e_tenant e = tenant ev \<longrightarrow>
        (\<forall>k. e_charge e = Some k \<longrightarrow> k \<in> c_id ` set (mis_cargos ev s))) \<and>
     (\<forall>c \<in> set (mis_cargos ev s). 0 < c_total c \<and> (c_saldo c = c_total c \<or> c_saldo c = 0) \<and>
        neto ev s (c_id c) = c_saldo c)"

lemma libro_okD:
  assumes "libro_ok ev s" and "c \<in> set (mis_cargos ev s)"
  shows "0 < c_total c" "c_saldo c = c_total c \<or> c_saldo c = 0" "neto ev s (c_id c) = c_saldo c"
  using assms by (auto simp: libro_ok_def)

lemma asientos_fresh:
  "libro_ok ev s \<Longrightarrow> k \<notin> c_id ` set (mis_cargos ev s) \<Longrightarrow> asientos ev s k = []"
  by (auto simp: libro_ok_def asientos_def filter_empty_conv)

lemma libro_crear:
  assumes ok: "libro_ok ev s" and c: "cargo_de ev u c" and e: "asiento_de ev currency c e"
    and fresh: "\<forall>x \<in> set (charges s). c_tenant x = tenant ev \<longrightarrow> c_id x \<noteq> c_id c"
  shows "libro_ok ev (s\<lparr>charges := charges s @ [c], entries := entries s @ [e], seq := n\<rparr>)"
    (is "libro_ok ev ?t")
proof -
  have mc: "mis_cargos ev ?t = mis_cargos ev s @ [c]"
    using c by (simp add: mis_cargos_def cargo_de_def)
  have nc: "c_id c \<notin> c_id ` set (mis_cargos ev s)"
    using fresh by (auto simp: mis_cargos_def)
  have as: "asientos ev ?t k = asientos ev s k @ (if k = c_id c then [e] else [])" for k
    using e by (auto simp: asientos_def asiento_de_def)
  have "neto ev ?t (c_id c) = c_total c"
    using e by (simp add: neto_def as asientos_fresh[OF ok nc] asiento_de_def)
  moreover have "neto ev ?t (c_id x) = neto ev s (c_id x)" if "x \<in> set (mis_cargos ev s)" for x
  proof -
    have "c_id x \<noteq> c_id c" using nc imageI[OF that, of c_id] by metis
    then show ?thesis by (simp add: neto_def as)
  qed
  ultimately show ?thesis
    using ok c e nc unfolding libro_ok_def mc
    by (auto simp: cargo_de_def asiento_de_def)
qed

lemma crear_cargo_libro: "tx_rel (keeps (libro_ok ev)) (crear_cargo ev currency u)"
proof (rule tx_relI)
  fix s x t assume *: "crear_cargo ev currency u s = Inr (x, t)"
  obtain cd ed where x: "x = (cd, ed)" by (cases x)
  show "keeps (libro_ok ev) s t"
    using crear_cargo_Inr[OF *[unfolded x]] libro_crear unfolding keeps_def by metis
qed

lemma create_cargos_libro: "tx_rel (keeps (libro_ok ev)) (create_cargos ev us currency)"
  unfolding create_cargos_def by (intro kp.rules crear_cargo_libro)

text \<open>The reversal of a charge, spelt out.\<close>

lemma revertir_cargo_Inr:
  assumes "revertir_cargo ev chid uid currency s = Inr (d, t)"
  obtains c e where "uuid_parse ev chid = Some (c_id c)" "c \<in> set (mis_cargos ev s)"
    "e_tenant e = tenant ev" "e_charge e = Some (c_id c)" "e_debit e = 0" "e_credit e = c_total c"
    "e_tipo e = ''reversa''" "d = account_entry_dto_de ev e"
    "t = s\<lparr>charges := upd_where (\<lambda>x. c_tenant x = tenant ev \<and> c_id x = c_id c) (\<lambda>x. x\<lparr>c_saldo := 0\<rparr>)
           (charges s), entries := entries s @ [e], seq := seq s + 1\<rparr>"
proof -
  define tbl where "tbl s' = charges s'" for s' :: db
  obtain cid c u s' e where
    p: "uuid_parse ev chid = Some cid" and
    g: "List.find (\<lambda>c. c_tenant c = tenant ev \<and> c_id c = cid) (charges s) = Some c" and
    up: "update_charge_saldo ev 0 (c_id c) s = Inr ((), s')" and
    e: "insert_account_entry ev u ''reversa'' (c_due c) 0 (c_total c) currency
        (Some (''reversa de cargo '' @ chid)) None (Some (c_id c)) s' = Inr (e, t)" and
    d: "d = account_entry_dto_de ev e"
    using assms by (auto simp: revertir_cargo_def get_charge_def tx_inv Let_def)
  have s': "s' = s\<lparr>charges := upd_where (\<lambda>x. c_tenant x = tenant ev \<and> c_id x = c_id c)
      (\<lambda>x. x\<lparr>c_saldo := 0\<rparr>) (charges s)\<rparr>"
    using up by (simp add: update_charge_saldo_def)
  have c: "c \<in> set (charges s)" "c_tenant c = tenant ev" "c_id c = cid"
    using find_SomeD[OF g] by auto
  show ?thesis
    by (rule that[of c e]) (use p c d s' insert_account_entry_Inr[OF e] in
      \<open>simp_all add: mis_cargos_def\<close>)
qed

lemma revertir_cargo_cierra:
  assumes run: "revertir_cargo ev chid uid currency s = Inr (d, t)"
    and ok: "libro_ok ev s"
    and abierto: "\<forall>c \<in> set (mis_cargos ev s). uuid_parse ev chid = Some (c_id c) \<longrightarrow> 0 < c_saldo c"
  shows "libro_ok ev t \<and>
    (\<forall>c \<in> set (mis_cargos ev t). uuid_parse ev chid = Some (c_id c) \<longrightarrow>
       c_saldo c = 0 \<and> neto ev t (c_id c) = 0)"
proof -
  obtain c e where c: "uuid_parse ev chid = Some (c_id c)" "c \<in> set (mis_cargos ev s)" and
    e: "e_tenant e = tenant ev" "e_charge e = Some (c_id c)" "e_debit e = 0" "e_credit e = c_total c" and
    t: "t = s\<lparr>charges := upd_where (\<lambda>x. c_tenant x = tenant ev \<and> c_id x = c_id c)
           (\<lambda>x. x\<lparr>c_saldo := 0\<rparr>) (charges s), entries := entries s @ [e], seq := seq s + 1\<rparr>"
    using run by (rule revertir_cargo_Inr)
  have mc: "mis_cargos ev t = upd_where (\<lambda>x. c_tenant x = tenant ev \<and> c_id x = c_id c)
      (\<lambda>x. x\<lparr>c_saldo := 0\<rparr>) (mis_cargos ev s)"
    by (simp add: t mis_cargos_def filter_upd_where)
  have ids: "map c_id (mis_cargos ev t) = map c_id (mis_cargos ev s)"
    unfolding mc by (rule map_upd_where_same) simp
  then have idset: "c_id ` set (mis_cargos ev t) = c_id ` set (mis_cargos ev s)"
    by (metis set_map)
  have mine: "c_tenant x = tenant ev" if "x \<in> set (mis_cargos ev s)" for x
    using that by (simp add: mis_cargos_def)
  have as: "asientos ev t k = asientos ev s k @ (if k = c_id c then [e] else [])" for k
    using e by (auto simp: asientos_def t)
  have "neto ev s (c_id c) = c_total c"
    using libro_okD[OF ok c(2)] abierto c by force
  then have n0: "neto ev t (c_id c) = 0" using e by (simp add: neto_def as)
  have n1: "neto ev t k = neto ev s k" if "k \<noteq> c_id c" for k
    using that by (simp add: neto_def as)
  have row: "0 < c_total y \<and> (c_saldo y = c_total y \<or> c_saldo y = 0) \<and> neto ev t (c_id y) = c_saldo y \<and>
      (c_id y = c_id c \<longrightarrow> c_saldo y = 0)"
    if "y \<in> set (mis_cargos ev t)" for y
  proof -
    from that obtain x where x: "x \<in> set (mis_cargos ev s)"
      and "y = (if c_tenant x = tenant ev \<and> c_id x = c_id c then x\<lparr>c_saldo := 0\<rparr> else x)"
      unfolding mc set_upd_where by blast
    then have "y = (if c_id x = c_id c then x\<lparr>c_saldo := 0\<rparr> else x)" using mine[OF x] by simp
    then show ?thesis using libro_okD[OF ok x] n0 n1 by (cases "c_id x = c_id c") auto
  qed
  have "k \<in> c_id ` set (mis_cargos ev t)"
    if "x \<in> set (entries t)" "e_tenant x = tenant ev" "e_charge x = Some k" for x k
    unfolding idset using that ok c(2) e(2) by (auto simp: t libro_ok_def)
  then have "libro_ok ev t"
    using ok row unfolding libro_ok_def ids by blast
  then show ?thesis using row n0 c(1) by auto
qed

text \<open>
  A reversal closes the charge and keeps the ledger in agreement, provided the charge is
  still open: it is the guard that \<open>AnularLiquidacion\<close> has before it calls \<open>RevertirCargo\<close>.
\<close>

theorem revertir_cargo_libro:
  assumes run: "revertir_cargo ev chid uid currency s = Inr (d, t)"
    and ok: "libro_ok ev s"
    and abierto: "\<forall>c \<in> set (mis_cargos ev s). uuid_parse ev chid = Some (c_id c) \<longrightarrow> 0 < c_saldo c"
  shows "libro_ok ev t \<and>
    (\<forall>c \<in> set (mis_cargos ev t). uuid_parse ev chid = Some (c_id c) \<longrightarrow>
       c_saldo c = 0 \<and> neto ev t (c_id c) = 0)"
  using assms by (rule revertir_cargo_cierra)

subsection \<open>Overdue balances\<close>

lemma sum_pos: "xs \<noteq> [] \<Longrightarrow> \<forall>x \<in> set xs. 0 < f x \<Longrightarrow> 0 < sum_by f xs" for f :: "'a \<Rightarrow> int"
proof (induction xs)
  case (Cons x xs)
  then have "0 \<le> sum_by f xs" by (intro sum_by_nonneg) (auto intro: less_imp_le)
  with Cons show ?case by simp
qed simp

text \<open>
  The report of overdue units: it changes nothing, its rows are in descending order of the
  overdue balance, every row has a positive balance and a due date before today, and the units of
  the report are exactly the units of the consorcio with an overdue charge.
\<close>

theorem list_morosidad_ok:
  assumes "list_morosidad ev consorcio s = Inr (dtos, t)"
  shows "t = s \<and> (\<exists>cid rows. uuid_parse ev (trim_space consorcio) = Some cid \<and>
    dtos = map (morosidad_dto_de ev) rows \<and> sorted (map (\<lambda>r. - mr_saldo r) rows) \<and>
    (\<forall>r \<in> set rows. 0 < mr_saldo r \<and> 0 < mr_cantidad r \<and> mr_desde r < hoy ev) \<and>
    mr_unidad ` set rows = {c_unidad c | c u. c \<in> set (charges s) \<and> u \<in> set (unidades s) \<and>
      u_tenant u = tenant ev \<and> u_consorcio u = cid \<and> vencido ev (u_id u) c})"
proof -
  obtain cid rows where p: "uuid_parse ev (trim_space consorcio) = Some cid"
    "list_morosidad_q ev cid s = Inr (rows, t)" "dtos = map (morosidad_dto_de ev) rows"
    using assms by (auto simp: list_morosidad_def tx_inv)
  define us where "us = filter (\<lambda>u. u_tenant u = tenant ev \<and> u_consorcio u = cid \<and>
      (\<exists>c \<in> set (charges s). vencido ev (u_id u) c)) (unidades s)"
  have t: "t = s" and rows: "rows = sort_key (\<lambda>r. - mr_saldo r) (sort_key mr_codigo
      (map (morosidad_de ev s) us))"
    using p(2) by (auto simp: list_morosidad_q_def Let_def us_def split: if_splits)
  have set_rows: "set rows = morosidad_de ev s ` set us" by (simp add: rows)
  have row: "0 < mr_saldo r \<and> 0 < mr_cantidad r \<and> mr_desde r < hoy ev" if r: "r \<in> set rows" for r
  proof -
    obtain u where u: "u \<in> set us" "r = morosidad_de ev s u" using r set_rows by auto
    define cs where "cs = filter (vencido ev (u_id u)) (charges s)"
    have cs: "cs \<noteq> []" "\<forall>c \<in> set cs. vencido ev (u_id u) c"
      using u(1) by (auto simp: cs_def us_def filter_empty_conv)
    then have "Min (set (map c_due cs)) \<in> set (map c_due cs)" by (intro Min_in) auto
    then have "Min (set (map c_due cs)) < hoy ev" using cs(2) by (auto simp: vencido_def)
    moreover have "0 < sum_by c_saldo cs" using cs by (intro sum_pos) (auto simp: vencido_def)
    ultimately show ?thesis using cs(1) by (simp add: u(2) morosidad_de_def Let_def cs_def[symmetric])
  qed
  have "mr_unidad ` set rows = u_id ` set us"
    by (simp add: set_rows image_image morosidad_de_def Let_def)
  also have "\<dots> = {c_unidad c | c u. c \<in> set (charges s) \<and> u \<in> set (unidades s) \<and>
      u_tenant u = tenant ev \<and> u_consorcio u = cid \<and> vencido ev (u_id u) c}"
    by (auto simp: us_def vencido_def image_iff) metis+
  finally show ?thesis
    using p t row by (intro conjI exI[of _ cid] exI[of _ rows]) (simp_all add: rows)
qed

subsection \<open>Tenant isolation\<close>

lemma ais_get_charge: "tx_rel (aislado ev) (get_charge ev c)"
  unfolding get_charge_def by (rule rel_row) simp

lemma ais_get_charges: "tx_rel (aislado ev) (get_charges_by_liquidacion ev l)"
  unfolding get_charges_by_liquidacion_def by (rule ais.rules)

lemma ais_insert_charge: "tx_rel (aislado ev) (insert_charge ev a b c d e f)"
  unfolding insert_charge_def
  by (intro ais.bind rel_uuid rel_insert) (simp_all add: aislado_def ajenas_def)

lemma ais_insert_entry: "tx_rel (aislado ev) (insert_account_entry ev a b c d e f g h i)"
  unfolding insert_account_entry_def
  by (intro ais.bind rel_uuid rel_insert) (simp_all add: aislado_def ajenas_def)

lemma ais_update_charge_saldo: "tx_rel (aislado ev) (update_charge_saldo ev x c)"
  unfolding update_charge_saldo_def
  by (intro rel_exec rel_update) (auto simp: aislado_def ajenas_def intro!: filter_upd_where_outside)

lemmas ais_cc = ais_get_charge ais_get_charges ais_insert_charge ais_insert_entry
  ais_update_charge_saldo

lemma ais_create_cargos: "tx_rel (aislado ev) (create_cargos ev us currency)"
  unfolding create_cargos_def crear_cargo_def by (intro ais.rules ais_cc)

lemma ais_revertir_cargo: "tx_rel (aislado ev) (revertir_cargo ev a b currency)"
  unfolding revertir_cargo_def Let_def by (intro ais.rules ais_cc)

subsection \<open>Witnesses\<close>

lemmas cc_eval = create_cargos_def crear_cargo_def insert_charge_def insert_account_entry_def
  parse_liquidacion_id_def charge_check_def entry_check_def unidad_existe_def
  revertir_cargo_def get_charge_def update_charge_saldo_def

definition ejemplo_cobro :: unidad_cobro where
  "ejemplo_cobro = \<lparr>uco_unidad = ''21'', uco_concepto = ''Expensa 202602'',
     uco_due = ''2026-03-10'', uco_total = 1500, uco_liquidacion = None\<rparr>"

text \<open>The database after one charge of 15.00 to the unit 21.\<close>

definition ejemplo_cargo :: charge where
  "ejemplo_cargo = \<lparr>c_tenant = 1, c_unidad = 21, c_id = 1000, c_liquidacion = None,
     c_concepto = ''Expensa 202602'', c_due = Fecha 2026 3 10, c_total = 1500, c_saldo = 1500,
     c_created = 100\<rparr>"

definition ejemplo_asiento :: account_entry where
  "ejemplo_asiento = \<lparr>e_tenant = 1, e_unidad = 21, e_id = 1001, e_tipo = ''cargo'',
     e_fecha = Fecha 2026 3 10, e_debit = 1500, e_credit = 0, e_currency = ''ARS'',
     e_referencia = None, e_reversa = None, e_charge = Some 1000, e_created = 100\<rparr>"

definition ejemplo_db2 :: db where
  "ejemplo_db2 = ejemplo_db\<lparr>charges := [ejemplo_cargo], entries := [ejemplo_asiento], seq := 2\<rparr>"

lemma ejemplo_fecha: "parse_fecha ''2026-03-10'' = Some (Fecha 2026 3 10)"
  by (simp add: fecha_eval digitos_eval)

lemma ejemplo_create_cargos:
  "create_cargos ejemplo_env [ejemplo_cobro] ''ARS'' ejemplo_db =
     Inr (([charge_dto_de ejemplo_env ejemplo_cargo],
           [account_entry_dto_de ejemplo_env ejemplo_asiento]), ejemplo_db2)"
  by (simp add: cc_eval tx_eval ejemplo_cobro_def ejemplo_uuid digitos_eval ejemplo_fecha
      ejemplo_db_def ejemplo_unidad_def ejemplo_cargo_def ejemplo_asiento_def ejemplo_db2_def)

theorem create_cargos_ok_witness:
  "\<exists>cs es. list_all2 (cargo_de ejemplo_env) [ejemplo_cobro] cs \<and>
     ejemplo_db2 = ejemplo_db\<lparr>charges := charges ejemplo_db @ cs,
       entries := entries ejemplo_db @ es, seq := seq ejemplo_db + 2 * length [ejemplo_cobro]\<rparr> \<and>
     sum_by c_total cs = sum_by uco_total [ejemplo_cobro]"
  using create_cargos_ok[OF ejemplo_create_cargos] by blast

lemma ejemplo_db2_libro: "libro_ok ejemplo_env ejemplo_db2"
  by (simp add: libro_ok_def mis_cargos_def neto_def asientos_def ejemplo_db2_def ejemplo_cargo_def
      ejemplo_asiento_def)

lemma ejemplo_revertir:
  "\<exists>d t. revertir_cargo ejemplo_env ''1000'' ''21'' ''ARS'' ejemplo_db2 = Inr (d, t)"
  by (simp add: cc_eval tx_eval ejemplo_uuid digitos_eval ejemplo_db2_def ejemplo_db_def
      ejemplo_unidad_def ejemplo_cargo_def ejemplo_asiento_def)

theorem revertir_cargo_libro_witness:
  "\<exists>d t. revertir_cargo ejemplo_env ''1000'' ''21'' ''ARS'' ejemplo_db2 = Inr (d, t) \<and>
     libro_ok ejemplo_env t"
proof -
  obtain d t where r: "revertir_cargo ejemplo_env ''1000'' ''21'' ''ARS'' ejemplo_db2 = Inr (d, t)"
    using ejemplo_revertir by blast
  show ?thesis
    using revertir_cargo_libro[OF r ejemplo_db2_libro] r
    by (simp add: mis_cargos_def ejemplo_db2_def ejemplo_cargo_def)
qed

lemma ejemplo_morosidad:
  obtains dtos where "list_morosidad ejemplo_env ''10'' ejemplo_db2 = Inr (dtos, ejemplo_db2)"
proof -
  have "trim_space ''10'' = ''10''" by code_simp
  then show thesis
    by (intro that) (simp add: list_morosidad_def list_morosidad_q_def tx_eval ejemplo_uuid
        digitos_eval ejemplo_db2_def ejemplo_db_def ejemplo_unidad_def ejemplo_cargo_def
        vencido_def morosidad_de_def is_i64_def Let_def less_fecha_def clave_fecha_def)
qed

theorem list_morosidad_ok_witness:
  "\<exists>dtos rows. list_morosidad ejemplo_env ''10'' ejemplo_db2 = Inr (dtos, ejemplo_db2) \<and>
     dtos = map (morosidad_dto_de ejemplo_env) rows"
proof -
  obtain dtos where m: "list_morosidad ejemplo_env ''10'' ejemplo_db2 = Inr (dtos, ejemplo_db2)"
    by (rule ejemplo_morosidad)
  show ?thesis using list_morosidad_ok[OF m] m by blast
qed

end
