(* ===== verification/Idempotencia.thy ===== *)
theory Idempotencia
  imports Modelo
begin

text \<open>
  The idempotency keys (\<open>internal/database/gen/idempotency.sql.go\<close>) and the protocol that the
  packages \<open>expensas\<close> and \<open>cobranzas\<close> follow with them: reserve the key before the mutation, save
  the response after it, answer a repeated request with the saved response. The protocol is proved
  in a locale from the laws of a key store, which the queries satisfy.
\<close>

subsection \<open>The interface\<close>

text \<open>
  \<open>entry k s\<close> is what the store holds for a key: the hash of the request and the response.
\<close>

locale idem_store =
  fixes ins :: "'k \<Rightarrow> 'h \<Rightarrow> 'r \<Rightarrow> ('s, 'e, int) tx"
    and get :: "'k \<Rightarrow> ('s, 'e, 'row) tx"
    and upd :: "'k \<Rightarrow> 'r \<Rightarrow> ('s, 'e, unit) tx"
    and hash_of :: "'row \<Rightarrow> 'h"
    and resp_of :: "'row \<Rightarrow> 'r"
    and entry :: "'k \<Rightarrow> 's \<Rightarrow> ('h \<times> 'r) option"
  assumes ins_new: "entry k s = None \<Longrightarrow> ins k h r s = Inr (n, t) \<Longrightarrow> n = 1 \<and> entry k t = Some (h, r)"
    and ins_old: "entry k s = Some v \<Longrightarrow> \<exists>t. ins k h r s = Inr (0, t) \<and> (\<forall>k'. entry k' t = entry k' s)"
    and ins_other: "ins k h r s = Inr (n, t) \<Longrightarrow> k' \<noteq> k \<Longrightarrow> entry k' t = entry k' s"
    and get_some: "entry k s = Some (h, r) \<Longrightarrow>
      \<exists>row. get k s = Inr (row, s) \<and> hash_of row = h \<and> resp_of row = r"
    and upd_some: "entry k s = Some (h, r) \<Longrightarrow> \<exists>t. upd k r' s = Inr ((), t) \<and> entry k t = Some (h, r')"
    and upd_other: "upd k r' s = Inr (x, t) \<Longrightarrow> k' \<noteq> k \<Longrightarrow> entry k' t = entry k' s"
begin

text \<open>What the client does with a key, for a reader of responses and the errors it raises.\<close>

abbreviation reservar ::
  "('r \<Rightarrow> 'd option) \<Rightarrow> 'e \<Rightarrow> 'e \<Rightarrow> 'r \<Rightarrow> 'k \<Rightarrow> 'h \<Rightarrow> ('s, 'e, 'd option) tx" where
  "reservar leer conflicto mal vacia k h \<equiv>
     tx_bind (ins k h vacia) (\<lambda>n. if n = 0
       then tx_bind (get k) (\<lambda>row. if hash_of row \<noteq> h then tx_fail conflicto
              else tx_bind (tx_some mal (leer (resp_of row))) (\<lambda>d. tx_ret (Some d)))
       else tx_ret None)"

text \<open>A key that is held: the same request gets the response, another request the conflict.\<close>

lemma reservar_hit:
  assumes "entry k s = Some (h, r)" and "leer r = Some d"
  shows "\<exists>t. reservar leer conflicto mal vacia k h s = Inr (Some d, t) \<and>
    (\<forall>k'. entry k' t = entry k' s)"
proof -
  obtain t where t: "ins k h vacia s = Inr (0, t)" "\<forall>k'. entry k' t = entry k' s"
    using ins_old[OF assms(1)] by blast
  moreover obtain row where "get k t = Inr (row, t)" "hash_of row = h" "resp_of row = r"
    using get_some[of k t h r] t(2) assms(1) by auto
  ultimately show ?thesis using assms(2) by (auto simp: tx_bind_def tx_some_def tx_ret_def)
qed

lemma reservar_conflicto:
  assumes "entry k s = Some (h', r)" and "h' \<noteq> h"
  shows "reservar leer conflicto mal vacia k h s = Inl conflicto"
proof -
  obtain t where t: "ins k h vacia s = Inr (0, t)" "\<forall>k'. entry k' t = entry k' s"
    using ins_old[OF assms(1)] by blast
  moreover obtain row where "get k t = Inr (row, t)" "hash_of row = h'" "resp_of row = r"
    using get_some[of k t h' r] t(2) assms(1) by auto
  ultimately show ?thesis using assms(2) by (auto simp: tx_bind_def tx_fail_def)
qed

lemma reservar_Some:
  assumes "reservar leer conflicto mal vacia k h s = Inr (Some d, t)"
  shows "\<exists>r. entry k s = Some (h, r) \<and> leer r = Some d \<and> (\<forall>k'. entry k' t = entry k' s)"
proof (cases "entry k s")
  case None
  obtain n s' where n: "ins k h vacia s = Inr (n, s')"
    "(if n = 0 then tx_bind (get k) (\<lambda>row. if hash_of row \<noteq> h then tx_fail conflicto
        else tx_bind (tx_some mal (leer (resp_of row))) (\<lambda>d. tx_ret (Some d)))
      else tx_ret None) s' = Inr (Some d, t)"
    using assms by (auto simp: tx_inv)
  then show ?thesis using ins_new[OF None n(1)] by simp
next
  case (Some v)
  then obtain s' where s': "ins k h vacia s = Inr (0, s')" "\<forall>k'. entry k' s' = entry k' s"
    using ins_old by blast
  obtain h' r where v: "v = (h', r)" by (cases v)
  obtain row where row: "get k s' = Inr (row, s')" "hash_of row = h'" "resp_of row = r"
    using get_some[of k s' h' r] s'(2) Some v by auto
  then show ?thesis using assms s' Some v by (auto simp: tx_inv split: if_splits)
qed

lemma reservar_miss:
  assumes "reservar leer conflicto mal vacia k h s = Inr (None, t)"
  shows "entry k s = None \<and> entry k t = Some (h, vacia)"
proof (cases "entry k s")
  case None
  then show ?thesis using assms ins_new by (auto simp: tx_inv split: if_splits)
next
  case (Some v)
  then obtain s' where "ins k h vacia s = Inr (0, s')" using ins_old by blast
  then show ?thesis using assms by (auto simp: tx_inv split: if_splits)
qed

text \<open>
  Replay: after a request that reserved its key, and saved its response, the same key and hash
  is answered with that response in every later state that keeps the entry.
\<close>

lemma replay:
  assumes "reservar leer conflicto mal vacia k h s = Inr (None, s1)"
    and "entry k s2 = entry k s1" and "upd k r s2 = Inr (x, s3)"
    and "entry k s4 = entry k s3" and "leer r = Some d"
  shows "\<exists>t. reservar leer conflicto mal vacia k h s4 = Inr (Some d, t) \<and>
    (\<forall>k'. entry k' t = entry k' s4)"
proof -
  have "entry k s3 = Some (h, r)"
    using reservar_miss[OF assms(1)] upd_some[of k s2 h vacia r] assms(2,3) by auto
  with assms(4,5) show ?thesis by (intro reservar_hit) simp_all
qed

end

subsection \<open>Queries\<close>

definition clave :: "env \<Rightarrow> string \<Rightarrow> string \<Rightarrow> idempotency_key \<Rightarrow> bool" where
  "clave ev scope key r \<longleftrightarrow> k_tenant r = tenant ev \<and> k_scope r = scope \<and> k_key r = key"

definition get_idempotency_key :: "env \<Rightarrow> string \<Rightarrow> string \<Rightarrow> idempotency_key query" where
  "get_idempotency_key ev scope key = tx_row (\<lambda>s. List.find (clave ev scope key) (idem_keys s))"

text \<open>\<open>ON CONFLICT (tenant_id, scope, idempotency_key) DO NOTHING\<close>; the result is the row count.\<close>

definition insert_idempotency_key ::
  "env \<Rightarrow> string \<Rightarrow> string \<Rightarrow> string \<Rightarrow> respuesta \<Rightarrow> int query" where
  "insert_idempotency_key ev key scope hash resp =
     tx_bind (nuevo_uuid ev) (\<lambda>kid.
     tx_bind (tx_read (\<lambda>s. List.find (clave ev scope key) (idem_keys s))) (\<lambda>old.
       if old \<noteq> None then tx_ret 0
       else tx_bind (tx_insert (\<lambda>_. True)
              (\<lambda>s r. if \<exists>x \<in> set (idem_keys s). k_id x = k_id r
                     then Some ''idempotency_keys_pkey'' else None)
              (\<lambda>_ _. True) idem_keys_update
              \<lparr>k_id = kid, k_tenant = tenant ev, k_key = key, k_scope = scope, k_hash = hash,
               k_response = resp, k_created = ahora ev\<rparr>) (\<lambda>_. tx_ret 1)))"

definition update_idempotency_key :: "env \<Rightarrow> respuesta \<Rightarrow> string \<Rightarrow> string \<Rightarrow> unit query" where
  "update_idempotency_key ev resp scope key = tx_exec (tx_update (clave ev scope key)
     (\<lambda>r. r\<lparr>k_response := resp\<rparr>) (\<lambda>_. True) idem_keys idem_keys_update)"

definition registro :: "env \<Rightarrow> string \<times> string \<Rightarrow> db \<Rightarrow> (string \<times> respuesta) option" where
  "registro ev k s = map_option (\<lambda>r. (k_hash r, k_response r))
     (List.find (clave ev (fst k) (snd k)) (idem_keys s))"

text \<open>The queries are a key store, for the keys (scope, key) of the tenant.\<close>

interpretation claves: idem_store
  "\<lambda>k h r. insert_idempotency_key ev (snd k) (fst k) h r"
  "\<lambda>k. get_idempotency_key ev (fst k) (snd k)"
  "\<lambda>k r. update_idempotency_key ev r (fst k) (snd k)"
  k_hash k_response "registro ev" for ev
proof (unfold_locales, goal_cases)
  case (1 k s h r n t)
  then show ?case
    by (auto simp: registro_def insert_idempotency_key_def tx_inv find_append clave_def
        split: if_splits option.splits)
next
  case (2 k s v h r)
  then show ?case
    by (auto simp: registro_def insert_idempotency_key_def tx_bind_def nuevo_uuid_def tx_read_def
        tx_ret_def)
next
  case (3 k h r s n t k')
  then have "\<not> clave ev (fst k') (snd k') r" if "k_scope r = fst k" "k_key r = snd k" for r
    using that by (cases k; cases k') (auto simp: clave_def)
  with 3 show ?case
    by (auto simp: registro_def insert_idempotency_key_def tx_inv find_append
        split: if_splits option.splits)
next
  case (4 k s h r)
  then show ?case by (auto simp: registro_def get_idempotency_key_def tx_row_def)
next
  case (5 k s h r r')
  then obtain z where z: "List.find (clave ev (fst k) (snd k)) (idem_keys s) = Some z" "k_hash z = h"
    by (auto simp: registro_def)
  have cl: "clave ev (fst k) (snd k) z" using find_SomeD[OF z(1)] by simp
  have up: "clave ev a b (x\<lparr>k_response := r'\<rparr>) = clave ev a b x" for a b x
    by (simp add: clave_def)
  show ?case
    by (simp add: registro_def update_idempotency_key_def tx_exec_def tx_bind_def tx_update_def
        tx_ret_def find_upd_where up z cl)
next
  case (6 k r' s x t k')
  have "List.find (clave ev (fst k') (snd k')) (upd_where (clave ev (fst k) (snd k)) f rs)
      = List.find (clave ev (fst k') (snd k')) rs"
    if "\<And>r. clave ev (fst k') (snd k') (f r) = clave ev (fst k') (snd k') r" for f rs
    using 6(2) that by (cases k; cases k'; induction rs) (auto simp: clave_def)
  with 6(1) show ?case
    by (simp add: registro_def update_idempotency_key_def clave_def)
qed

subsection \<open>The protocol of the code\<close>

text \<open>
  \<open>stampIdempotency\<close>: both packages have the same function but for the hash and the type of the
  response. The result is the cached response, if the key was held.
\<close>

definition stamp_clave :: "env \<Rightarrow> (respuesta \<Rightarrow> 'd option) \<Rightarrow> string \<Rightarrow> string \<Rightarrow> string
    \<Rightarrow> 'd option query" where
  "stamp_clave ev leer scope hash key =
     tx_bind (insert_idempotency_key ev key scope hash RVacia) (\<lambda>inserted.
       if inserted = 0
       then tx_bind (get_idempotency_key ev scope key) (\<lambda>existing.
              if k_hash existing \<noteq> hash then tx_fail ErrIdempotencyConflict
              else tx_bind (tx_some ErrJson (leer (k_response existing))) (\<lambda>d. tx_ret (Some d)))
       else tx_ret None)"

lemma stamp_reservar:
  "stamp_clave ev leer scope hash key =
   claves.reservar ev leer ErrIdempotencyConflict ErrJson RVacia (scope, key) hash"
  unfolding stamp_clave_def fst_conv snd_conv by (rule refl)

lemma stamp_hit:
  "registro ev (scope, key) s = Some (hash, r) \<Longrightarrow> leer r = Some d \<Longrightarrow>
   \<exists>t. stamp_clave ev leer scope hash key s = Inr (Some d, t) \<and> (\<forall>k. registro ev k t = registro ev k s)"
  unfolding stamp_reservar by (rule claves.reservar_hit)

lemma stamp_conflicto:
  "registro ev (scope, key) s = Some (hash', r) \<Longrightarrow> hash' \<noteq> hash \<Longrightarrow>
   stamp_clave ev leer scope hash key s = Inl ErrIdempotencyConflict"
  unfolding stamp_reservar by (rule claves.reservar_conflicto)

lemma stamp_miss:
  "stamp_clave ev leer scope hash key s = Inr (None, t) \<Longrightarrow>
   registro ev (scope, key) s = None \<and> registro ev (scope, key) t = Some (hash, RVacia)"
  unfolding stamp_reservar by (rule claves.reservar_miss)

lemma stamp_Some:
  "stamp_clave ev leer scope hash key s = Inr (Some d, t) \<Longrightarrow>
   \<exists>r. registro ev (scope, key) s = Some (hash, r) \<and> leer r = Some d \<and> (\<forall>k. registro ev k t = registro ev k s)"
  unfolding stamp_reservar by (rule claves.reservar_Some)

text \<open>The response that is saved is the response of the repetitions.\<close>

lemma save_registro:
  assumes "registro ev (scope, key) s = Some (hash, r)" and "update_idempotency_key ev resp scope key s = Inr (x, t)"
  shows "registro ev (scope, key) t = Some (hash, resp)"
  using claves.upd_some[OF assms(1), of resp] assms(2) by auto

lemma registro_cong: "idem_keys t = idem_keys s \<Longrightarrow> registro ev k t = registro ev k s"
  by (simp add: registro_def)

text \<open>Stamping and saving touch the table of keys only.\<close>

definition solo_claves :: "db \<Rightarrow> db \<Rightarrow> bool" where
  "solo_claves s t \<longleftrightarrow> t\<lparr>idem_keys := [], seq := 0\<rparr> = s\<lparr>idem_keys := [], seq := 0\<rparr>"

interpretation sk: step_rel solo_claves
  by unfold_locales (auto simp: solo_claves_def)

lemma solo_claves_insert: "tx_rel solo_claves (insert_idempotency_key ev a b c d)"
  unfolding insert_idempotency_key_def
  by (intro sk.rules rel_uuid rel_insert) (simp_all add: solo_claves_def)

lemma solo_claves_update: "tx_rel solo_claves (update_idempotency_key ev r a b)"
  unfolding update_idempotency_key_def
  by (intro rel_exec rel_update) (simp add: solo_claves_def)

lemma solo_claves_get: "tx_rel solo_claves (get_idempotency_key ev a b)"
  unfolding get_idempotency_key_def by (rule rel_row) (simp add: solo_claves_def)

lemma solo_claves_stamp: "tx_rel solo_claves (stamp_clave ev leer scope hash key)"
  unfolding stamp_clave_def
  by (intro sk.rules solo_claves_insert solo_claves_get)

lemma ais_insert_key: "tx_rel (aislado ev) (insert_idempotency_key ev a b c d)"
  unfolding insert_idempotency_key_def
  by (intro ais.rules rel_uuid rel_insert) (simp_all add: aislado_def ajenas_def)

lemma ais_update_key: "tx_rel (aislado ev) (update_idempotency_key ev r a b)"
  unfolding update_idempotency_key_def
  by (intro rel_exec rel_update)
    (auto simp: aislado_def ajenas_def clave_def intro!: filter_upd_where_outside)

lemma ais_get_key: "tx_rel (aislado ev) (get_idempotency_key ev a b)"
  unfolding get_idempotency_key_def by (rule rel_row) simp

lemma ais_stamp: "tx_rel (aislado ev) (stamp_clave ev leer scope hash key)"
  unfolding stamp_clave_def by (intro ais.rules ais_insert_key ais_get_key)

end
