(* ===== verification/Liquidaciones.thy ===== *)
theory Liquidaciones
  imports LiqConsultas CuentaCorriente Idempotencia
begin

text \<open>
  The settlement of a period's expenses: \<open>internal/expensas/liquidacion.go\<close> (validation, draft,
  reads, due dates, the table of transitions) and \<open>internal/expensas/transiciones.go\<close> (calculate,
  confirm, publish, annul). A handler runs in the transaction of its request.
\<close>

subsection \<open>Validation and transitions\<close>

definition valid_transitions :: "string \<Rightarrow> string set option" where
  "valid_transitions e =
     (if e = ''borrador'' then Some {''calculada'', ''anulada''}
      else if e = ''calculada'' then Some {''borrador'', ''confirmada'', ''anulada''}
      else if e = ''confirmada'' then Some {''publicada'', ''anulada''}
      else if e = ''publicada'' then Some {''cerrada''}
      else None)"

definition can_transition :: "string \<Rightarrow> string \<Rightarrow> bool" where
  "can_transition from to = (case valid_transitions from of None \<Rightarrow> False | Some ts \<Rightarrow> to \<in> ts)"

definition validate_periodo :: "string \<Rightarrow> unit query" where
  "validate_periodo p = tx_guard (periodo_ok p) ErrLiquidacionInvalid"

definition validate_vencimientos :: "string \<Rightarrow> string option \<Rightarrow> unit query" where
  "validate_vencimientos v1 v2 =
     tx_bind (tx_some ErrLiquidacionInvalid (parse_fecha v1)) (\<lambda>t1.
       case v2 of None \<Rightarrow> tx_ret ()
       | Some v \<Rightarrow> tx_bind (tx_some ErrLiquidacionInvalid (parse_fecha v)) (\<lambda>t2.
           tx_guard (\<not> t2 < t1) ErrLiquidacionInvalid))"

subsection \<open>Drafts and reads\<close>

definition liquidacion_dto_de :: "env \<Rightarrow> liquidacion \<Rightarrow> liquidacion_dto" where
  "liquidacion_dto_de ev r = \<lparr>ld_id = uuid_show ev (l_id r),
     ld_consorcio = uuid_show ev (l_consorcio r), ld_periodo = l_periodo r,
     ld_v1 = format_fecha (l_v1 r), ld_v2 = map_option format_fecha (l_v2 r),
     ld_estado = l_estado r, ld_version = l_version r, ld_total_gastos = l_total_gastos r,
     ld_total_distribuido = l_total_distribuido r, ld_alcanzadas = l_alcanzadas r,
     ld_created = l_created r, ld_updated = l_updated r\<rparr>"

definition scan_opt :: "env \<Rightarrow> string option \<Rightarrow> fecha option query" where
  "scan_opt ev v = (case v of None \<Rightarrow> tx_ret None
     | Some x \<Rightarrow> tx_bind (tx_some ErrLiquidacionInvalid (date_scan ev x)) (\<lambda>d. tx_ret (Some d)))"

definition create_liquidacion ::
  "env \<Rightarrow> string \<Rightarrow> string \<Rightarrow> string \<Rightarrow> string option \<Rightarrow> liquidacion_dto query" where
  "create_liquidacion ev consorcio periodo v1 v2 =
     tx_bind (validate_periodo periodo) (\<lambda>_.
     tx_bind (validate_vencimientos v1 v2) (\<lambda>_.
     tx_bind (tx_some ErrLiquidacionInvalid (uuid_parse ev consorcio)) (\<lambda>cid.
     tx_bind (tx_some ErrLiquidacionInvalid (date_scan ev v1)) (\<lambda>d1.
     tx_bind (scan_opt ev v2) (\<lambda>d2.
     tx_bind (tx_catch (no_rows_as ErrLiquidacionConflict)
        (create_liquidacion_q ev cid periodo d1 d2)) (\<lambda>row.
     tx_ret (liquidacion_dto_de ev row)))))))"

definition get_liquidacion :: "env \<Rightarrow> string \<Rightarrow> string \<Rightarrow> liquidacion_dto query" where
  "get_liquidacion ev consorcio i =
     tx_bind (tx_some ErrLiquidacionInvalid (uuid_parse ev consorcio)) (\<lambda>cid.
     tx_bind (tx_some ErrLiquidacionNotFound (uuid_parse ev i)) (\<lambda>lid.
     tx_bind (tx_catch (no_rows_as ErrLiquidacionNotFound) (get_liquidacion_q ev cid lid)) (\<lambda>row.
     tx_ret (liquidacion_dto_de ev row))))"

definition list_liquidaciones :: "env \<Rightarrow> string \<Rightarrow> string \<Rightarrow> string \<Rightarrow> liquidacion_dto list query" where
  "list_liquidaciones ev consorcio periodo estado =
     tx_bind (tx_some ErrLiquidacionInvalid (uuid_parse ev consorcio)) (\<lambda>cid.
     tx_bind (list_liquidaciones_q ev cid periodo estado) (\<lambda>rows.
     tx_ret (map (liquidacion_dto_de ev) rows)))"

definition update_vencimientos ::
  "env \<Rightarrow> string \<Rightarrow> string \<Rightarrow> string \<Rightarrow> string option \<Rightarrow> int \<Rightarrow> unit query" where
  "update_vencimientos ev consorcio i v1 v2 version =
     tx_bind (validate_vencimientos v1 v2) (\<lambda>_.
     tx_bind (tx_some ErrLiquidacionInvalid (uuid_parse ev consorcio)) (\<lambda>cid.
     tx_bind (tx_some ErrLiquidacionNotFound (uuid_parse ev i)) (\<lambda>lid.
     tx_bind (tx_some ErrLiquidacionInvalid (date_scan ev v1)) (\<lambda>d1.
     tx_bind (scan_opt ev v2) (\<lambda>d2.
     update_liquidacion_vencimientos ev d1 d2 cid lid (i32 version))))))"

definition transition_estado ::
  "env \<Rightarrow> string \<Rightarrow> string \<Rightarrow> string \<Rightarrow> string \<Rightarrow> int \<Rightarrow> unit query" where
  "transition_estado ev consorcio i current next version =
     tx_bind (tx_guard (can_transition current next) ErrLiquidacionTransicionInvalida) (\<lambda>_.
     tx_bind (tx_some ErrLiquidacionInvalid (uuid_parse ev consorcio)) (\<lambda>cid.
     tx_bind (tx_some ErrLiquidacionNotFound (uuid_parse ev i)) (\<lambda>lid.
     tx_bind (transition_liquidacion_q ev next cid lid current (i32 version)) (\<lambda>n.
     tx_guard (n \<noteq> 0) ErrLiquidacionVersionMismatch))))"

subsection \<open>Concepts and units of a calculation\<close>

text \<open>
  \<open>agruparConceptos\<close>: one concept per identifier, in order of first appearance, with the sum of
  the amounts. The index map of the code is the search by key in the list.
\<close>

definition acumular :: "env \<Rightarrow> concepto_calculo list \<Rightarrow> gasto \<Rightarrow> concepto_calculo list" where
  "acumular ev out g = (let key = uuid_show ev (g_concepto g) in
     if \<exists>c \<in> set out. cc_concepto c = key
     then upd_where (\<lambda>c. cc_concepto c = key) (\<lambda>c. c\<lparr>cc_importe := add64 (cc_importe c) (g_importe g)\<rparr>) out
     else out @ [\<lparr>cc_concepto = key, cc_regla = ''coeficiente'', cc_importe = g_importe g\<rparr>])"

definition agrupar_conceptos :: "env \<Rightarrow> gasto list \<Rightarrow> concepto_calculo list" where
  "agrupar_conceptos ev gs = foldl (acumular ev) [] gs"

definition to_unidad_cobro :: "liq_unidad list \<Rightarrow> env \<Rightarrow> string \<Rightarrow> string \<Rightarrow> string \<Rightarrow> unidad_cobro list" where
  "to_unidad_cobro rows ev periodo liq v1 =
     map (\<lambda>r. \<lparr>uco_unidad = uuid_show ev (lu_unidad r), uco_concepto = ''Expensa '' @ periodo,
               uco_due = v1, uco_total = lu_total r, uco_liquidacion = Some liq\<rparr>)
       (filter (\<lambda>r. 0 < lu_total r) rows)"

definition uf_de :: "env \<Rightarrow> unidad \<Rightarrow> uf_coef" where
  "uf_de ev u = \<lparr>uc_unidad = uuid_show ev (u_id u), uc_codigo = u_codigo u,
     uc_coef = num_float ev (u_coeficiente u)\<rparr>"

subsection \<open>Idempotency\<close>

definition dto_cero :: liquidacion_dto where
  "dto_cero = \<lparr>ld_id = '''', ld_consorcio = '''', ld_periodo = '''', ld_v1 = '''', ld_v2 = None,
     ld_estado = '''', ld_version = 0, ld_total_gastos = 0, ld_total_distribuido = 0,
     ld_alcanzadas = 0, ld_created = 0, ld_updated = 0\<rparr>"

text \<open>
  \<open>json.Unmarshal\<close> into a \<open>LiquidacionDTO\<close>. The scopes keep the responses of the two packages
  apart, so the last case is not reached.
\<close>

fun leer_liquidacion :: "respuesta \<Rightarrow> liquidacion_dto option" where
  "leer_liquidacion RVacia = Some dto_cero"
| "leer_liquidacion (RLiquidacion d) = Some d"
| "leer_liquidacion _ = None"

definition stamp_liq :: "env \<Rightarrow> string \<Rightarrow> string \<Rightarrow> string \<Rightarrow> liquidacion_dto option query" where
  "stamp_liq ev scope liq key =
     stamp_clave ev leer_liquidacion scope (sha_hex ev (liq @ ''|'' @ key)) key"

text \<open>\<open>if idemKey != "" { \<dots> }\<close> of the handlers.\<close>

definition stamp_si :: "env \<Rightarrow> string \<Rightarrow> string \<Rightarrow> string \<Rightarrow> liquidacion_dto option query" where
  "stamp_si ev scope liq key = (if key \<noteq> '''' then stamp_liq ev scope liq key else tx_ret None)"

definition save_liq :: "env \<Rightarrow> string \<Rightarrow> string \<Rightarrow> liquidacion_dto \<Rightarrow> unit query" where
  "save_liq ev scope key dto = (if key = '''' then tx_ret ()
     else update_idempotency_key ev (RLiquidacion dto) scope key)"

subsection \<open>Handlers\<close>

text \<open>The end of every transition: the compare-and-swap on state and version, the answer, the save.\<close>

definition transicionar :: "env \<Rightarrow> string \<Rightarrow> uuid \<Rightarrow> uuid \<Rightarrow> string \<Rightarrow> string \<Rightarrow> int
    \<Rightarrow> string \<Rightarrow> string \<Rightarrow> string \<Rightarrow> liquidacion_dto query" where
  "transicionar ev nuevo cid lid actual scope version consorcio liq key =
     tx_bind (transition_liquidacion_q ev nuevo cid lid actual (i32 version)) (\<lambda>n.
     tx_bind (tx_guard (n \<noteq> 0) ErrLiquidacionVersionMismatch) (\<lambda>_.
     tx_bind (get_liquidacion ev consorcio liq) (\<lambda>dto.
     tx_bind (save_liq ev scope key dto) (\<lambda>_. tx_ret dto))))"

definition dist_query :: "calc_err + distribucion \<Rightarrow> distribucion query" where
  "dist_query r = (case r of Inl e \<Rightarrow> tx_fail (ErrCalculo e) | Inr d \<Rightarrow> tx_ret d)"

text \<open>The snapshot of a calculation: the previous one goes, the new one is written row by row.\<close>

definition guardar_snapshot :: "env \<Rightarrow> uuid \<Rightarrow> gasto list \<Rightarrow> distribucion \<Rightarrow> unit query" where
  "guardar_snapshot ev lid registrados result =
     tx_bind (delete_liquidacion_gastos ev lid) (\<lambda>_.
     tx_bind (delete_liquidacion_items ev lid) (\<lambda>_.
     tx_bind (delete_liquidacion_unidades ev lid) (\<lambda>_.
     tx_bind (tx_map (\<lambda>g. insert_liquidacion_gasto ev lid (g_id g) (g_concepto g) (g_importe g))
        registrados) (\<lambda>_.
     tx_bind (tx_map (\<lambda>i. tx_bind (tx_some PgNotNull (uuid_parse ev (it_concepto i))) (\<lambda>c.
        insert_liquidacion_item ev lid c (it_regla i) (it_importe i))) (dr_items result)) (\<lambda>_.
     tx_bind (tx_map (\<lambda>u. tx_bind (tx_some PgNotNull (uuid_parse ev (ud_unidad u))) (\<lambda>uid.
        insert_liquidacion_unidad ev lid uid (ud_codigo u) (float_num ev (ud_coef u)) (ud_total u)))
        (dr_unidades result)) (\<lambda>_.
     update_liquidacion_calculo ev (dr_total_gastos result) (dr_total_distribuido result)
        (i32 (dr_alcanzadas result)) lid))))))"

definition calcular_liquidacion ::
  "env \<Rightarrow> string \<Rightarrow> string \<Rightarrow> int \<Rightarrow> string \<Rightarrow> liquidacion_dto query" where
  "calcular_liquidacion ev consorcio liqid version key =
     tx_bind (tx_some ErrLiquidacionInvalid (uuid_parse ev consorcio)) (\<lambda>cid.
     tx_bind (tx_some ErrLiquidacionNotFound (uuid_parse ev liqid)) (\<lambda>lid.
     tx_bind (get_liquidacion ev consorcio liqid) (\<lambda>liq.
     tx_bind (tx_guard (ld_estado liq = ''borrador'' \<or> ld_estado liq = ''calculada'')
        ErrLiquidacionTransicionInvalida) (\<lambda>_.
     tx_bind (list_gastos ev cid (take 4 (ld_periodo liq) @ ''-'' @ drop 4 (ld_periodo liq)) None) (\<lambda>rows.
     let registrados = filter (\<lambda>g. g_estado g = ''registrado'') rows in
     tx_bind (tx_guard (registrados \<noteq> []) ErrLiquidacionSinGastos) (\<lambda>_.
     tx_bind (list_unidades ev cid ''activa'') (\<lambda>ufs.
     tx_bind (tx_guard (ufs \<noteq> []) ErrLiquidacionSinUFs) (\<lambda>_.
     tx_bind (stamp_si ev ''expensas.calcular'' liqid key) (\<lambda>hit.
     case hit of Some cached \<Rightarrow> tx_ret cached
     | None \<Rightarrow>
       tx_bind (dist_query (distribuir (agrupar_conceptos ev registrados) (map (uf_de ev) ufs))) (\<lambda>result.
       tx_bind (guardar_snapshot ev lid registrados result) (\<lambda>_.
       transicionar ev ''calculada'' cid lid (ld_estado liq) ''expensas.calcular'' version
         consorcio liqid key)))))))))))"

definition confirmar_liquidacion ::
  "env \<Rightarrow> string \<Rightarrow> string \<Rightarrow> int \<Rightarrow> string \<Rightarrow> liquidacion_dto query" where
  "confirmar_liquidacion ev consorcio liqid version key =
     tx_bind (tx_some ErrLiquidacionInvalid (uuid_parse ev consorcio)) (\<lambda>cid.
     tx_bind (tx_some ErrLiquidacionNotFound (uuid_parse ev liqid)) (\<lambda>lid.
     tx_bind (get_liquidacion ev consorcio liqid) (\<lambda>liq.
     tx_bind (tx_guard (ld_estado liq = ''calculada'') ErrLiquidacionTransicionInvalida) (\<lambda>_.
     tx_bind (stamp_si ev ''expensas.confirmar'' liqid key) (\<lambda>hit.
     case hit of Some cached \<Rightarrow> tx_ret cached
     | None \<Rightarrow>
       tx_bind (get_liquidacion_unidades ev lid) (\<lambda>preview.
       tx_bind (create_cargos ev (to_unidad_cobro preview ev (ld_periodo liq) liqid (ld_v1 liq)) ''ARS'') (\<lambda>_.
       transicionar ev ''confirmada'' cid lid (ld_estado liq) ''expensas.confirmar'' version
         consorcio liqid key)))))))"

definition publicar_liquidacion ::
  "env \<Rightarrow> string \<Rightarrow> string \<Rightarrow> int \<Rightarrow> string \<Rightarrow> liquidacion_dto query" where
  "publicar_liquidacion ev consorcio liqid version key =
     tx_bind (tx_some ErrLiquidacionInvalid (uuid_parse ev consorcio)) (\<lambda>cid.
     tx_bind (tx_some ErrLiquidacionNotFound (uuid_parse ev liqid)) (\<lambda>lid.
     tx_bind (get_liquidacion ev consorcio liqid) (\<lambda>liq.
     tx_bind (tx_guard (ld_estado liq = ''confirmada'') ErrLiquidacionTransicionInvalida) (\<lambda>_.
     tx_bind (stamp_si ev ''expensas.publicar'' liqid key) (\<lambda>hit.
     case hit of Some cached \<Rightarrow> tx_ret cached
     | None \<Rightarrow>
       tx_bind (insert_outbox_event ev (uuid_show ev lid) ''liquidacion.publicada''
          (PLiquidacion \<lparr>op_liquidacion = liqid, op_periodo = ld_periodo liq, op_consorcio = consorcio\<rparr>)) (\<lambda>_.
       transicionar ev ''publicada'' cid lid (ld_estado liq) ''expensas.publicar'' version
         consorcio liqid key))))))"

text \<open>The reversal of the charges that are still open.\<close>

definition revertir_abiertos :: "env \<Rightarrow> uuid \<Rightarrow> unit query" where
  "revertir_abiertos ev lid =
     tx_bind (get_charges_by_liquidacion ev lid) (\<lambda>cs.
     tx_bind (tx_map (\<lambda>ch. if 0 < c_saldo ch
         then tx_bind (revertir_cargo ev (uuid_show ev (c_id ch)) (uuid_show ev (c_unidad ch)) ''ARS'')
                (\<lambda>_. tx_ret ())
         else tx_ret ()) cs) (\<lambda>_. tx_ret ()))"

definition anular_liquidacion ::
  "env \<Rightarrow> string \<Rightarrow> string \<Rightarrow> int \<Rightarrow> string \<Rightarrow> liquidacion_dto query" where
  "anular_liquidacion ev consorcio liqid version motivo =
     tx_bind (tx_some ErrLiquidacionInvalid (uuid_parse ev consorcio)) (\<lambda>cid.
     tx_bind (tx_some ErrLiquidacionNotFound (uuid_parse ev liqid)) (\<lambda>lid.
     tx_bind (get_liquidacion ev consorcio liqid) (\<lambda>liq.
     tx_bind (tx_guard (\<not> (ld_estado liq = ''publicada'' \<or> ld_estado liq = ''anulada'' \<or>
        ld_estado liq = ''cerrada'')) ErrLiquidacionTransicionInvalida) (\<lambda>_.
     tx_bind (if ld_estado liq = ''confirmada'' \<or> ld_estado liq = ''publicada''
        then revertir_abiertos ev lid else tx_ret ()) (\<lambda>_.
     tx_bind (anular_liquidacion_q ev lid (ld_estado liq) (i32 version)) (\<lambda>n.
     tx_bind (tx_guard (n \<noteq> 0) ErrLiquidacionVersionMismatch) (\<lambda>_.
     get_liquidacion ev consorcio liqid)))))))"

subsection \<open>Tenant isolation of the handlers\<close>

lemma ais_stamp_si: "tx_rel (aislado ev) (stamp_si ev scope liq key)"
  unfolding stamp_si_def stamp_liq_def by (intro ais.rules ais_stamp)

lemma ais_save_liq: "tx_rel (aislado ev) (save_liq ev scope key dto)"
  unfolding save_liq_def by (intro ais.rules ais_update_key)

lemma ais_get_liquidacion: "tx_rel (aislado ev) (get_liquidacion ev a b)"
  unfolding get_liquidacion_def by (intro ais.rules ais_liq)

lemma ais_transicionar: "tx_rel (aislado ev) (transicionar ev n a b c sc v co l k)"
  unfolding transicionar_def by (intro ais.rules ais_liq ais_get_liquidacion ais_save_liq)

lemma ais_dist: "tx_rel (aislado ev) (dist_query r)"
  unfolding dist_query_def by (cases r) (simp_all add: ais.rules)

lemma ais_snapshot: "tx_rel (aislado ev) (guardar_snapshot ev lid gs r)"
  unfolding guardar_snapshot_def by (intro ais.rules ais_liq)

lemma ais_hit: "(\<And>d. tx_rel (aislado ev) (f d)) \<Longrightarrow> tx_rel (aislado ev) m \<Longrightarrow>
    tx_rel (aislado ev) (case hit of Some d \<Rightarrow> f d | None \<Rightarrow> m)"
  by (cases hit) simp_all

lemma ais_scan_opt: "tx_rel (aislado ev) (scan_opt ev v)"
  unfolding scan_opt_def by (cases v) (simp_all add: ais.rules)

lemma ais_validate_p: "tx_rel (aislado ev) (validate_periodo p)"
  unfolding validate_periodo_def by (rule ais.rules)

lemma ais_validate_v: "tx_rel (aislado ev) (validate_vencimientos v1 v2)"
  unfolding validate_vencimientos_def by (cases v2; simp; intro ais.rules)

lemmas ais_liq_ops = ais_liq ais_stamp_si ais_save_liq ais_get_liquidacion ais_transicionar ais_dist
  ais_snapshot ais_hit ais_create_cargos ais_revertir_cargo ais_get_charges ais_scan_opt ais_validate_p ais_validate_v

text \<open>
  No operation of the settlements touches a row of another tenant, whatever its arguments
  and whether or not it is a replay of an idempotent request.
\<close>

theorem liquidaciones_aisladas:
  "tx_rel (aislado ev) (create_liquidacion ev co p v1 v2) \<and>
   tx_rel (aislado ev) (update_vencimientos ev co l v1 v2 n) \<and>
   tx_rel (aislado ev) (transition_estado ev co l e1 e2 n) \<and>
   tx_rel (aislado ev) (calcular_liquidacion ev co l n key) \<and>
   tx_rel (aislado ev) (confirmar_liquidacion ev co l n key) \<and>
   tx_rel (aislado ev) (publicar_liquidacion ev co l n key) \<and>
   tx_rel (aislado ev) (anular_liquidacion ev co l n motivo)"
  unfolding create_liquidacion_def update_vencimientos_def transition_estado_def
    calcular_liquidacion_def confirmar_liquidacion_def publicar_liquidacion_def
    anular_liquidacion_def revertir_abiertos_def Let_def
  by (intro conjI ais.rules ais_liq_ops)

end
