(* ===== verification/LiqInvariante.thy ===== *)
theory LiqInvariante
  imports Liquidaciones
begin

text \<open>
  The invariant of the settlements and its preservation by every operation: one active settlement
  per period, totals that agree with the snapshot, charges that agree with the snapshot once
  confirmed, and no open charge once annulled. The reachable states are those of the step relation
  \<open>liq_paso\<close>, one rule per operation.
\<close>

subsection \<open>Grouping of the expenses by concept\<close>

definition importe_de :: "env \<Rightarrow> string \<Rightarrow> gasto list \<Rightarrow> int" where
  "importe_de ev key gs = sum_by g_importe (filter (\<lambda>g. uuid_show ev (g_concepto g) = key) gs)"

lemma acumular_keys:
  "map cc_concepto (acumular ev out g) = (if uuid_show ev (g_concepto g) \<in> set (map cc_concepto out)
     then map cc_concepto out else map cc_concepto out @ [uuid_show ev (g_concepto g)])"
proof (cases "uuid_show ev (g_concepto g) \<in> set (map cc_concepto out)")
  case True
  then have "\<exists>c \<in> set out. cc_concepto c = uuid_show ev (g_concepto g)" by auto
  then show ?thesis using True by (simp add: acumular_def Let_def map_upd_where_same)
next
  case False
  then have "\<not> (\<exists>c \<in> set out. cc_concepto c = uuid_show ev (g_concepto g))"
    by (metis image_eqI list.set_map)
  then show ?thesis using False by (simp add: acumular_def Let_def)
qed

definition agrupa :: "env \<Rightarrow> gasto list \<Rightarrow> concepto_calculo list \<Rightarrow> bool" where
  "agrupa ev gs out \<longleftrightarrow> distinct (map cc_concepto out) \<and>
     set (map cc_concepto out) = (\<lambda>g. uuid_show ev (g_concepto g)) ` set gs \<and>
     (\<forall>c \<in> set out. cc_importe c = i64 (importe_de ev (cc_concepto c) gs) \<and> cc_regla c = ''coeficiente'')"

lemma acumular_agrupa:
  assumes "agrupa ev gs out" and "is_i64 (g_importe g)"
  shows "agrupa ev (gs @ [g]) (acumular ev out g)"
proof -
  let ?k = "uuid_show ev (g_concepto g)"
  have imp: "importe_de ev k (gs @ [g]) = importe_de ev k gs + (if ?k = k then g_importe g else 0)" for k
    by (simp add: importe_de_def)
  have z: "importe_de ev ?k gs = 0" if "?k \<notin> set (map cc_concepto out)"
  proof -
    have "?k \<notin> (\<lambda>g. uuid_show ev (g_concepto g)) ` set gs"
      using that assms(1) by (simp add: agrupa_def)
    then have "\<forall>h \<in> set gs. uuid_show ev (g_concepto h) \<noteq> ?k" by (metis image_eqI)
    then have "filter (\<lambda>h. uuid_show ev (g_concepto h) = ?k) gs = []"
      by (simp add: filter_empty_conv)
    then show ?thesis by (simp add: importe_de_def)
  qed
  have "cc_importe c = i64 (importe_de ev (cc_concepto c) (gs @ [g])) \<and> cc_regla c = ''coeficiente''"
    if c: "c \<in> set (acumular ev out g)" for c
  proof (cases "\<exists>c \<in> set out. cc_concepto c = ?k")
    case True
    then obtain d where d: "d \<in> set out"
      "c = (if cc_concepto d = ?k then d\<lparr>cc_importe := add64 (cc_importe d) (g_importe g)\<rparr> else d)"
      using c by (auto simp: acumular_def Let_def set_upd_where)
    then show ?thesis using assms(1) by (auto simp: agrupa_def imp add64_def)
  next
    case False
    then have n: "?k \<notin> set (map cc_concepto out)" by auto
    with False c have "c \<in> set out \<or>
      c = \<lparr>cc_concepto = ?k, cc_regla = ''coeficiente'', cc_importe = g_importe g\<rparr>"
      by (auto simp: acumular_def Let_def)
    then show ?thesis using assms n z[OF n] by (auto simp: agrupa_def imp)
  qed
  moreover have "distinct (map cc_concepto (acumular ev out g))"
    "set (map cc_concepto (acumular ev out g)) = (\<lambda>g. uuid_show ev (g_concepto g)) ` set (gs @ [g])"
    using assms(1) unfolding acumular_keys by (auto simp: agrupa_def)
  ultimately show ?thesis unfolding agrupa_def by blast
qed

lemma agrupar_agrupa: "\<forall>g \<in> set gs. is_i64 (g_importe g) \<Longrightarrow> agrupa ev gs (agrupar_conceptos ev gs)"
proof (induction gs rule: rev_induct)
  case Nil
  then show ?case by (simp add: agrupar_conceptos_def agrupa_def)
next
  case (snoc g gs)
  then show ?case using acumular_agrupa[of ev gs "agrupar_conceptos ev gs" g]
    by (simp add: agrupar_conceptos_def)
qed

lemma agrupar_i64:
  "\<forall>g \<in> set gs. is_i64 (g_importe g) \<Longrightarrow> c \<in> set (agrupar_conceptos ev gs) \<Longrightarrow> is_i64 (cc_importe c)"
  using agrupar_agrupa[of gs ev] by (auto simp: agrupa_def)

text \<open>
  The grouping of the expenses: one concept per identifier that occurs, each with the sum of
  the amounts of its expenses in \<open>int64\<close>.
\<close>

theorem agrupar_conceptos_ok:
  assumes "\<forall>g \<in> set gs. is_i64 (g_importe g)"
  shows "distinct (map cc_concepto (agrupar_conceptos ev gs)) \<and>
    set (map cc_concepto (agrupar_conceptos ev gs)) = (\<lambda>g. uuid_show ev (g_concepto g)) ` set gs \<and>
    (\<forall>c \<in> set (agrupar_conceptos ev gs). cc_importe c =
       i64 (sum_by g_importe (filter (\<lambda>g. uuid_show ev (g_concepto g) = cc_concepto c) gs)))"
  using agrupar_agrupa[OF assms, of ev] by (simp add: agrupa_def importe_de_def)

subsection \<open>The invariant\<close>

definition mis_liqs :: "env \<Rightarrow> db \<Rightarrow> liquidacion list" where
  "mis_liqs ev s = filter (\<lambda>l. l_tenant l = tenant ev) (liquidaciones s)"

definition snap :: "env \<Rightarrow> liq_unidad list \<Rightarrow> uuid \<Rightarrow> liq_unidad list" where
  "snap ev us lid = filter (\<lambda>r. lu_tenant r = tenant ev \<and> lu_liquidacion r = lid) us"

definition carg :: "env \<Rightarrow> charge list \<Rightarrow> uuid \<Rightarrow> charge list" where
  "carg ev cs lid = filter (\<lambda>c. c_tenant c = tenant ev \<and> c_liquidacion c = Some lid) cs"

text \<open>
  What holds of a settlement: its totals agree with each other and with the snapshot; it has no
  charges before it is confirmed, the charges of the snapshot while confirmed or published, and
  no open charge once annulled.
\<close>

definition fila_ok :: "env \<Rightarrow> liq_unidad list \<Rightarrow> charge list \<Rightarrow> liquidacion \<Rightarrow> bool" where
  "fila_ok ev us cs l \<longleftrightarrow> l_estado l \<in> liq_estados \<and> l_total_gastos l = l_total_distribuido l \<and>
     i64 (sum_by lu_total (snap ev us (l_id l))) = l_total_distribuido l \<and>
     (l_estado l \<in> {''borrador'', ''calculada''} \<longrightarrow> carg ev cs (l_id l) = []) \<and>
     (l_estado l \<in> {''confirmada'', ''publicada''} \<longrightarrow>
        sum_by c_total (carg ev cs (l_id l)) = sum_by lu_total (snap ev us (l_id l))) \<and>
     (l_estado l = ''anulada'' \<longrightarrow> (\<forall>c \<in> set (carg ev cs (l_id l)). c_saldo c = 0))"

definition clave_periodo :: "liquidacion \<Rightarrow> uuid \<times> string" where
  "clave_periodo l = (l_consorcio l, l_periodo l)"

definition activas :: "env \<Rightarrow> db \<Rightarrow> liquidacion list" where
  "activas ev s = filter (\<lambda>l. liq_activa (l_estado l)) (mis_liqs ev s)"

definition unidades_ok :: "env \<Rightarrow> uuid set \<Rightarrow> liq_unidad list \<Rightarrow> bool" where
  "unidades_ok ev ids us \<longleftrightarrow> (\<forall>r \<in> set us. lu_tenant r = tenant ev \<longrightarrow>
     lu_liquidacion r \<in> ids \<and> 0 \<le> lu_total r)"

definition cargos_ok :: "env \<Rightarrow> uuid set \<Rightarrow> charge list \<Rightarrow> bool" where
  "cargos_ok ev ids cs \<longleftrightarrow> (\<forall>c \<in> set cs. c_tenant c = tenant ev \<longrightarrow>
     0 \<le> c_saldo c \<and> (\<forall>k. c_liquidacion c = Some k \<longrightarrow> k \<in> ids))"

definition liq_ok :: "env \<Rightarrow> db \<Rightarrow> bool" where
  "liq_ok ev s \<longleftrightarrow> distinct (map l_id (mis_liqs ev s)) \<and>
     distinct (map clave_periodo (activas ev s)) \<and>
     (\<forall>l \<in> set (mis_liqs ev s). fila_ok ev (liq_unidades s) (charges s) l) \<and>
     unidades_ok ev (l_id ` set (mis_liqs ev s)) (liq_unidades s) \<and>
     cargos_ok ev (l_id ` set (mis_liqs ev s)) (charges s) \<and>
     (\<forall>g \<in> set (gastos s). is_i64 (g_importe g))"

lemma distinct_activas:
  assumes "distinct (map k (filter A rs))" and "\<And>r. P r \<Longrightarrow> k (f r) = k r"
    and "\<And>r. P r \<Longrightarrow> A (f r) \<Longrightarrow> A r"
  shows "distinct (map k (filter A (upd_where P f rs)))"
proof -
  have sub: "k ` {r \<in> set (upd_where P f rs). A r} \<subseteq> k ` {r \<in> set rs. A r}" for rs
    using assms(2,3) by (fastforce simp: set_upd_where image_iff)
  show ?thesis using assms(1)
  proof (induction rs)
    case (Cons r rs)
    have "k x \<notin> k ` {r \<in> set (upd_where P f rs). A r}" if "k x \<notin> k ` {r \<in> set rs. A r}" for x
      using sub[of rs] that by blast
    with Cons assms(2,3) show ?case by (auto split: if_splits)
  qed simp
qed

text \<open>An update of rows that keeps their keys, with the tables of snapshots and charges as they are after it.\<close>

lemma liq_ok_upd:
  assumes ok: "liq_ok ev s"
    and t: "liquidaciones t = upd_where P f (liquidaciones s)" "gastos t = gastos s"
    and P: "\<And>l. P l \<Longrightarrow> l_tenant l = tenant ev"
    and f: "\<And>l. l_tenant (f l) = l_tenant l \<and> l_id (f l) = l_id l \<and> clave_periodo (f l) = clave_periodo l"
    and A: "\<And>l. P l \<Longrightarrow> liq_activa (l_estado (f l)) \<Longrightarrow> liq_activa (l_estado l)"
    and fila: "\<And>l. l \<in> set (mis_liqs ev s) \<Longrightarrow>
      fila_ok ev (liq_unidades t) (charges t) (if P l then f l else l)"
    and us: "unidades_ok ev (l_id ` set (mis_liqs ev s)) (liq_unidades t)"
    and cs: "cargos_ok ev (l_id ` set (mis_liqs ev s)) (charges t)"
  shows "liq_ok ev t"
proof -
  have m: "mis_liqs ev t = upd_where P f (mis_liqs ev s)"
    unfolding mis_liqs_def t by (rule filter_upd_where) (simp add: f)
  have ids: "map l_id (mis_liqs ev t) = map l_id (mis_liqs ev s)"
    unfolding m by (rule map_upd_where_same) (simp add: f)
  then have idset: "l_id ` set (mis_liqs ev t) = l_id ` set (mis_liqs ev s)"
    by (metis set_map)
  have "distinct (map clave_periodo (activas ev t))"
    unfolding activas_def m
    by (rule distinct_activas) (use ok f A in \<open>auto simp: liq_ok_def activas_def\<close>)
  moreover have "fila_ok ev (liq_unidades t) (charges t) l" if lt: "l \<in> set (mis_liqs ev t)" for l
  proof -
    obtain x where "x \<in> set (mis_liqs ev s)" "l = (if P x then f x else x)"
      using lt unfolding m set_upd_where by blast
    then show ?thesis using fila[of x] by simp
  qed
  ultimately show ?thesis using ok us cs unfolding liq_ok_def ids idset t(2) by simp
qed

lemma solo_clavesD:
  assumes "solo_claves s t"
  shows "liquidaciones t = liquidaciones s" "liq_unidades t = liq_unidades s" "charges t = charges s"
    "gastos t = gastos s" "entries t = entries s" "unidades t = unidades s" "payments t = payments s"
    "allocations t = allocations s" "psp_intents t = psp_intents s" "outbox t = outbox s"
proof -
  have *: "f (t\<lparr>idem_keys := [], seq := 0\<rparr>) = f (s\<lparr>idem_keys := [], seq := 0\<rparr>)" for f :: "db \<Rightarrow> 'z"
    using assms by (simp add: solo_claves_def)
  show "liquidaciones t = liquidaciones s" using *[of liquidaciones] by simp
  show "liq_unidades t = liq_unidades s" using *[of liq_unidades] by simp
  show "charges t = charges s" using *[of charges] by simp
  show "gastos t = gastos s" using *[of gastos] by simp
  show "entries t = entries s" using *[of entries] by simp
  show "unidades t = unidades s" using *[of unidades] by simp
  show "payments t = payments s" using *[of payments] by simp
  show "allocations t = allocations s" using *[of allocations] by simp
  show "psp_intents t = psp_intents s" using *[of psp_intents] by simp
  show "outbox t = outbox s" using *[of outbox] by simp
qed

lemma liq_ok_cong:
  assumes "liquidaciones t = liquidaciones s" "liq_unidades t = liq_unidades s"
    "charges t = charges s" "gastos t = gastos s"
  shows "liq_ok ev t = liq_ok ev s"
  using assms by (simp add: liq_ok_def mis_liqs_def activas_def)

lemma liq_ok_solo: "solo_claves s t \<Longrightarrow> liq_ok ev t = liq_ok ev s"
  by (rule liq_ok_cong) (simp_all add: solo_clavesD)

subsection \<open>The steps of the handlers\<close>

lemma get_liquidacion_Inr:
  assumes "get_liquidacion ev co li s = Inr (dto, t)"
  obtains cid lid row where "t = s" "uuid_parse ev co = Some cid" "uuid_parse ev li = Some lid"
    "row \<in> set (mis_liqs ev s)" "l_consorcio row = cid" "l_id row = lid"
    "dto = liquidacion_dto_de ev row"
    "List.find (\<lambda>l. l_tenant l = tenant ev \<and> l_consorcio l = cid \<and> l_id l = lid) (liquidaciones s) = Some row"
proof -
  obtain cid lid row where *: "t = s" "uuid_parse ev co = Some cid" "uuid_parse ev li = Some lid"
    "dto = liquidacion_dto_de ev row"
    "List.find (\<lambda>l. l_tenant l = tenant ev \<and> l_consorcio l = cid \<and> l_id l = lid) (liquidaciones s) = Some row"
    using assms by (auto simp: get_liquidacion_def get_liquidacion_q_def tx_inv)
  show ?thesis
    by (rule that[of cid lid row]) (use * find_SomeD[OF *(5)] in \<open>auto simp: mis_liqs_def\<close>)
qed

lemma fila_unica:
  assumes "liq_ok ev s" "l \<in> set (mis_liqs ev s)" "x \<in> set (mis_liqs ev s)" "l_id x = l_id l"
  shows "x = l"
  using assms by (auto simp: liq_ok_def distinct_map inj_on_def)

text \<open>The compare-and-swap of a transition.\<close>

definition en_estado :: "env \<Rightarrow> uuid \<Rightarrow> string \<Rightarrow> int \<Rightarrow> liquidacion \<Rightarrow> bool" where
  "en_estado ev lid actual version l \<longleftrightarrow> l_tenant l = tenant ev \<and> l_id l = lid \<and>
     l_estado l = actual \<and> l_version l = version"

definition movida :: "env \<Rightarrow> string \<Rightarrow> liquidacion \<Rightarrow> liquidacion" where
  "movida ev nuevo l = l\<lparr>l_estado := nuevo, l_version := l_version l + 1, l_updated := ahora ev\<rparr>"

lemma liq_mover_movida:
  "liq_mover ev P nuevo s = Inr (n, t) \<Longrightarrow>
   n = int (count_where P (liquidaciones s)) \<and>
   t = s\<lparr>liquidaciones := upd_where P (movida ev nuevo) (liquidaciones s)\<rparr>"
  by (simp add: liq_mover_Inr movida_def[abs_def])

lemma mover_ok:
  assumes ok: "liq_ok ev s"
    and mv: "liq_mover ev P nuevo s = Inr (n, t)"
    and P: "\<And>l. P l \<Longrightarrow> l_tenant l = tenant ev \<and> liq_activa (l_estado l)"
    and fila: "\<And>l. l \<in> set (mis_liqs ev s) \<Longrightarrow> P l \<Longrightarrow>
      fila_ok ev (liq_unidades s) (charges s) (movida ev nuevo l)"
  shows "liq_ok ev t"
proof -
  have t: "t = s\<lparr>liquidaciones := upd_where P (movida ev nuevo) (liquidaciones s)\<rparr>"
    using liq_mover_movida[OF mv] by simp
  show ?thesis
    by (rule liq_ok_upd[OF ok, of t P "movida ev nuevo"])
      (use ok fila P in \<open>auto simp: t movida_def clave_periodo_def liq_ok_def\<close>)
qed

lemma transicionar_Inr:
  assumes "transicionar ev nuevo cid lid actual scope version co li key s = Inr (dto, t)"
  obtains n s1 where
    "transition_liquidacion_q ev nuevo cid lid actual (i32 version) s = Inr (n, s1)" "n \<noteq> 0"
    "solo_claves s1 t" "\<exists>u. get_liquidacion ev co li s1 = Inr (dto, u)"
proof -
  obtain n s1 s2 where
    1: "transition_liquidacion_q ev nuevo cid lid actual (i32 version) s = Inr (n, s1)" "n \<noteq> 0" and
    2: "get_liquidacion ev co li s1 = Inr (dto, s2)" and
    3: "save_liq ev scope key dto s2 = Inr ((), t)"
    using assms by (auto simp: transicionar_def tx_inv)
  have "s2 = s1" using 2 by (rule get_liquidacion_Inr) simp
  moreover have "solo_claves s2 t"
    using 3 tx_relD[OF solo_claves_update] sk.refl by (auto simp: save_liq_def split: if_splits)
  ultimately show ?thesis using that 1 2 by blast
qed

lemma stamp_si_solo: "stamp_si ev scope li key s = Inr (hit, t) \<Longrightarrow> solo_claves s t"
  using tx_relD[OF solo_claves_stamp] sk.refl
  by (auto simp: stamp_si_def stamp_liq_def split: if_splits)

lemma transition_ok:
  assumes ok: "liq_ok ev s"
    and mv: "transition_liquidacion_q ev nuevo cid lid actual v s = Inr (n, t)"
    and act: "liq_activa actual"
    and fila: "\<And>l. l \<in> set (mis_liqs ev s) \<Longrightarrow> l_id l = lid \<Longrightarrow> l_estado l = actual \<Longrightarrow>
      fila_ok ev (liq_unidades s) (charges s) (movida ev nuevo l)"
  shows "liq_ok ev t"
  using mover_ok[OF ok mv[unfolded transition_liquidacion_q_def]] act fila by auto

subsection \<open>Drafts\<close>

lemma create_liquidacion_q_Inr:
  assumes "create_liquidacion_q ev cid periodo v1 v2 s = Inr (l, t)"
  shows "l_tenant l = tenant ev \<and> l_consorcio l = cid \<and> l_periodo l = periodo \<and> l_v1 l = v1 \<and>
    l_v2 l = v2 \<and> l_estado l = ''borrador'' \<and> l_version l = 1 \<and> l_total_gastos l = 0 \<and>
    l_total_distribuido l = 0 \<and>
    (\<forall>x \<in> set (mis_liqs ev s). l_id x \<noteq> l_id l \<and>
       (liq_activa (l_estado x) \<longrightarrow> clave_periodo x \<noteq> clave_periodo l)) \<and>
    t = s\<lparr>liquidaciones := liquidaciones s @ [l], seq := seq s + 1\<rparr>"
  using assms
  by (auto simp: create_liquidacion_q_def tx_inv Let_def mis_liqs_def clave_periodo_def split: if_splits)

lemma snap_fresh: "unidades_ok ev ids us \<Longrightarrow> k \<notin> ids \<Longrightarrow> snap ev us k = []"
  by (auto simp: snap_def filter_empty_conv unidades_ok_def)

lemma carg_fresh: "cargos_ok ev ids cs \<Longrightarrow> k \<notin> ids \<Longrightarrow> carg ev cs k = []"
  by (auto simp: carg_def filter_empty_conv cargos_ok_def)

lemma liq_ok_crear:
  assumes ok: "liq_ok ev s" and c: "create_liquidacion_q ev cid periodo v1 v2 s = Inr (l, t)"
  shows "liq_ok ev t"
proof -
  note l = create_liquidacion_q_Inr[OF c]
  have m: "mis_liqs ev t = mis_liqs ev s @ [l]" using l by (simp add: mis_liqs_def)
  have a: "activas ev t = activas ev s @ [l]"
    unfolding activas_def m using l by (simp add: liq_activa_def)
  have new: "l_id l \<notin> l_id ` set (mis_liqs ev s)" using l by auto
  have "snap ev (liq_unidades s) (l_id l) = []" "carg ev (charges s) (l_id l) = []"
    using ok snap_fresh[OF _ new] carg_fresh[OF _ new] by (simp_all add: liq_ok_def)
  then have "fila_ok ev (liq_unidades s) (charges s) l" using l by (simp add: fila_ok_def liq_estados_def)
  moreover have "clave_periodo l \<notin> clave_periodo ` set (activas ev s)"
    using l by (auto simp: activas_def)
  moreover have "liq_unidades t = liq_unidades s" "charges t = charges s" "gastos t = gastos s"
    using l by simp_all
  ultimately show ?thesis
    using ok new unfolding liq_ok_def m a
    by (auto simp: unidades_ok_def cargos_ok_def)
qed

lemma create_keeps: "tx_rel (keeps (liq_ok ev)) (create_liquidacion ev co p v1 v2)"
proof (rule tx_relI)
  fix s x t assume r: "create_liquidacion ev co p v1 v2 s = Inr (x, t)"
  have v: "validate_vencimientos v1 v2 s = Inr (u, s') \<Longrightarrow> s' = s" for u s'
    by (cases v2) (auto simp: validate_vencimientos_def tx_inv)
  have o: "scan_opt ev v2 s = Inr (u, s') \<Longrightarrow> s' = s" for u s'
    by (cases v2) (auto simp: scan_opt_def tx_inv)
  obtain cid d1 d2 l where "create_liquidacion_q ev cid p d1 d2 s = Inr (l, t)"
    using r v o by (fastforce simp: create_liquidacion_def validate_periodo_def tx_inv)
  then show "keeps (liq_ok ev) s t" unfolding keeps_def using liq_ok_crear by blast
qed

lemma update_venc_keeps: "tx_rel (keeps (liq_ok ev)) (update_liquidacion_vencimientos ev d1 d2 cid lid v)"
proof (rule tx_relI)
  fix s x t assume r: "update_liquidacion_vencimientos ev d1 d2 cid lid v s = Inr (x, t)"
  let ?P = "\<lambda>l. l_tenant l = tenant ev \<and> l_consorcio l = cid \<and> l_id l = lid \<and>
    l_estado l = ''borrador'' \<and> l_version l = v"
  let ?f = "\<lambda>l. l\<lparr>l_v1 := d1, l_v2 := d2, l_updated := ahora ev\<rparr>"
  have t: "t = liquidaciones_update (upd_where ?P ?f) s"
    using r by (simp add: update_liquidacion_vencimientos_def)
  show "keeps (liq_ok ev) s t" unfolding keeps_def
  proof
    assume ok: "liq_ok ev s"
    show "liq_ok ev t"
      by (rule liq_ok_upd[OF ok, of t ?P ?f])
        (use ok in \<open>auto simp: t clave_periodo_def liq_ok_def fila_ok_def\<close>)
  qed
qed

lemma validate_v_keeps: "tx_rel (keeps I) (validate_vencimientos v1 v2)"
  unfolding validate_vencimientos_def by (cases v2; simp; intro kp.rules)

lemma scan_opt_keeps: "tx_rel (keeps I) (scan_opt ev v)"
  unfolding scan_opt_def by (cases v; simp; intro kp.rules)

lemma vencimientos_keeps: "tx_rel (keeps (liq_ok ev)) (update_vencimientos ev co l v1 v2 n)"
  unfolding update_vencimientos_def
  by (intro kp.rules update_venc_keeps validate_v_keeps scan_opt_keeps)

subsection \<open>The snapshot\<close>

text \<open>Statements on the other tables leave those of the invariant as they are.\<close>

definition marco :: "db \<Rightarrow> db \<Rightarrow> bool" where
  "marco s t \<longleftrightarrow> liquidaciones t = liquidaciones s \<and> liq_unidades t = liq_unidades s \<and>
     charges t = charges s \<and> gastos t = gastos s"

interpretation mc: step_rel marco
  by unfold_locales (simp_all add: marco_def)

lemma marco_otros:
  "tx_rel marco (delete_liquidacion_gastos ev lid)" "tx_rel marco (delete_liquidacion_items ev lid)"
  "tx_rel marco (insert_liquidacion_gasto ev lid a b n)"
  "tx_rel marco (insert_liquidacion_item ev lid a r n)"
  "tx_rel marco (tx_delete P liq_unidad_items liq_unidad_items_update)"
  unfolding delete_liquidacion_gastos_def delete_liquidacion_items_def
    insert_liquidacion_gasto_def insert_liquidacion_item_def
  by (intro rel_exec rel_delete rel_insert; simp add: marco_def)+

lemma insert_unidad_Inr:
  "insert_liquidacion_unidad ev lid uid cod k tot s = Inr (x, t) \<Longrightarrow>
   \<exists>r. lu_tenant r = tenant ev \<and> lu_liquidacion r = lid \<and> lu_total r = tot \<and> 0 \<le> lu_total r \<and>
     lu_unidad r = uid \<and> t = s\<lparr>liq_unidades := liq_unidades s @ [r]\<rparr>"
  by (rule exI[of _ "\<lparr>lu_tenant = tenant ev, lu_liquidacion = lid, lu_unidad = uid, lu_codigo = cod,
      lu_coeficiente = k, lu_total = tot, lu_created = ahora ev\<rparr>"])
    (auto simp: insert_liquidacion_unidad_def)

lemma insert_unidades_map:
  assumes "tx_map (\<lambda>u. tx_bind (tx_some PgNotNull (uuid_parse ev (ud_unidad u))) (\<lambda>uid.
      insert_liquidacion_unidad ev lid uid (ud_codigo u) (float_num ev (ud_coef u)) (ud_total u))) us s
    = Inr (x, t)"
  shows "\<exists>new. (\<forall>r \<in> set new. lu_tenant r = tenant ev \<and> lu_liquidacion r = lid \<and> 0 \<le> lu_total r) \<and>
    map lu_total new = map ud_total us \<and> t = s\<lparr>liq_unidades := liq_unidades s @ new\<rparr>"
  using assms
proof (induction us arbitrary: s x)
  case Nil
  then show ?case by simp
next
  case (Cons u us)
  then obtain uid s1 x1 where
    1: "insert_liquidacion_unidad ev lid uid (ud_codigo u) (float_num ev (ud_coef u)) (ud_total u) s = Inr ((), s1)" and
    2: "tx_map (\<lambda>u. tx_bind (tx_some PgNotNull (uuid_parse ev (ud_unidad u))) (\<lambda>uid.
      insert_liquidacion_unidad ev lid uid (ud_codigo u) (float_num ev (ud_coef u)) (ud_total u))) us s1
      = Inr (x1, t)"
    by (auto simp: tx_inv)
  from insert_unidad_Inr[OF 1] obtain r where r: "lu_tenant r = tenant ev \<and> lu_liquidacion r = lid \<and>
      lu_total r = ud_total u \<and> 0 \<le> lu_total r" "s1 = s\<lparr>liq_unidades := liq_unidades s @ [r]\<rparr>"
    by blast
  from Cons.IH[OF 2] obtain new where
    "\<forall>r \<in> set new. lu_tenant r = tenant ev \<and> lu_liquidacion r = lid \<and> 0 \<le> lu_total r"
    "map lu_total new = map ud_total us" "t = s1\<lparr>liq_unidades := liq_unidades s1 @ new\<rparr>"
    by blast
  with r show ?case by (intro exI[of _ "r # new"]) simp
qed

definition con_totales :: "env \<Rightarrow> distribucion \<Rightarrow> liquidacion \<Rightarrow> liquidacion" where
  "con_totales ev d l = l\<lparr>l_total_gastos := dr_total_gastos d,
     l_total_distribuido := dr_total_distribuido d, l_alcanzadas := i32 (dr_alcanzadas d),
     l_updated := ahora ev\<rparr>"

lemma guardar_snapshot_Inr:
  assumes "guardar_snapshot ev lid gs d s = Inr (x, t)"
  obtains new where
    "\<forall>r \<in> set new. lu_tenant r = tenant ev \<and> lu_liquidacion r = lid \<and> 0 \<le> lu_total r"
    "map lu_total new = map ud_total (dr_unidades d)"
    "liq_unidades t = del_where (\<lambda>r. lu_tenant r = tenant ev \<and> lu_liquidacion r = lid) (liq_unidades s) @ new"
    "liquidaciones t = upd_where (\<lambda>l. l_tenant l = tenant ev \<and> l_id l = lid) (con_totales ev d) (liquidaciones s)"
    "charges t = charges s" "gastos t = gastos s"
proof -
  obtain s1 s2 s3 s4 s5 s6 r1 r2 r3 where
    1: "delete_liquidacion_gastos ev lid s = Inr ((), s1)" and
    2: "delete_liquidacion_items ev lid s1 = Inr ((), s2)" and
    3: "delete_liquidacion_unidades ev lid s2 = Inr ((), s3)" and
    4: "tx_map (\<lambda>g. insert_liquidacion_gasto ev lid (g_id g) (g_concepto g) (g_importe g)) gs s3 = Inr (r1, s4)" and
    5: "tx_map (\<lambda>i. tx_bind (tx_some PgNotNull (uuid_parse ev (it_concepto i))) (\<lambda>c.
        insert_liquidacion_item ev lid c (it_regla i) (it_importe i))) (dr_items d) s4 = Inr (r2, s5)" and
    6: "tx_map (\<lambda>u. tx_bind (tx_some PgNotNull (uuid_parse ev (ud_unidad u))) (\<lambda>uid.
        insert_liquidacion_unidad ev lid uid (ud_codigo u) (float_num ev (ud_coef u)) (ud_total u)))
        (dr_unidades d) s5 = Inr (r3, s6)" and
    7: "update_liquidacion_calculo ev (dr_total_gastos d) (dr_total_distribuido d)
        (i32 (dr_alcanzadas d)) lid s6 = Inr (x, t)"
    using assms by (auto simp: guardar_snapshot_def tx_inv)
  have m12: "marco s s2" using tx_relD[OF marco_otros(1) 1] tx_relD[OF marco_otros(2) 2] mc.trans by blast
  have m35: "marco s3 s5"
    using tx_relD[OF mc.mapM[OF marco_otros(3)] 4]
      tx_relD[OF mc.mapM[OF mc.bind[OF mc.some marco_otros(4)]] 5] mc.trans by blast
  have s3: "s3 = liq_unidades_update (del_where (\<lambda>r. lu_tenant r = tenant ev \<and> lu_liquidacion r = lid))
      (liq_unidad_items_update (del_where (\<lambda>r. lx_tenant r = tenant ev \<and> lx_liquidacion r = lid)) s2)"
    using 3 unfolding delete_liquidacion_unidades_def by (auto simp: tx_inv)
  obtain new where new: "\<forall>r \<in> set new. lu_tenant r = tenant ev \<and> lu_liquidacion r = lid \<and> 0 \<le> lu_total r"
    "map lu_total new = map ud_total (dr_unidades d)" "s6 = s5\<lparr>liq_unidades := liq_unidades s5 @ new\<rparr>"
    using insert_unidades_map[OF 6] by blast
  have t: "t = liquidaciones_update (upd_where (\<lambda>l. l_tenant l = tenant ev \<and> l_id l = lid) (con_totales ev d)) s6"
    using 7 by (simp add: update_liquidacion_calculo_def con_totales_def[abs_def])
  show ?thesis
    by (rule that[of new]) (use new t s3 m12 m35 in \<open>auto simp: marco_def\<close>)
qed

text \<open>A recalculation keeps the invariant: the totals are those of a distribution that loses nothing.\<close>

lemma snapshot_ok:
  assumes ok: "liq_ok ev s" and r: "guardar_snapshot ev lid gs d s = Inr (x, t)"
    and l: "l \<in> set (mis_liqs ev s)" "l_id l = lid" "l_estado l \<in> {''borrador'', ''calculada''}"
    and d: "dr_total_distribuido d = dr_total_gastos d"
      "dr_total_distribuido d = sum64_from ud_total 0 (dr_unidades d)"
  shows "liq_ok ev t"
proof -
  obtain new where
    new: "\<forall>r \<in> set new. lu_tenant r = tenant ev \<and> lu_liquidacion r = lid \<and> 0 \<le> lu_total r"
      "map lu_total new = map ud_total (dr_unidades d)" and
    t: "liq_unidades t = del_where (\<lambda>r. lu_tenant r = tenant ev \<and> lu_liquidacion r = lid) (liq_unidades s) @ new"
      "liquidaciones t = upd_where (\<lambda>l. l_tenant l = tenant ev \<and> l_id l = lid) (con_totales ev d) (liquidaciones s)"
      "charges t = charges s" "gastos t = gastos s"
    using r by (rule guardar_snapshot_Inr)
  have snap_lid: "snap ev (liq_unidades t) lid = new"
    using new(1) by (auto simp: t snap_def del_where_def filter_empty_conv filter_id_conv)
  have snap_other: "snap ev (liq_unidades t) k = snap ev (liq_unidades s) k" if "k \<noteq> lid" for k
    using new(1) that by (auto simp: t snap_def del_where_def filter_empty_conv intro!: filter_cong)
  have tot: "i64 (sum_by lu_total new) = dr_total_distribuido d"
    by (simp add: new(2) d(2) sum64_from_eq)
  show ?thesis
  proof (rule liq_ok_upd[OF ok t(2,4)])
    fix x assume x: "x \<in> set (mis_liqs ev s)"
    have fx: "fila_ok ev (liq_unidades s) (charges s) x" using ok x by (simp add: liq_ok_def)
    show "fila_ok ev (liq_unidades t) (charges t)
        (if l_tenant x = tenant ev \<and> l_id x = lid then con_totales ev d x else x)"
    proof (cases "l_id x = lid")
      case True
      then have "x = l" using fila_unica[OF ok l(1) x] l(2) by simp
      then show ?thesis using True l x fx tot d(1)
        by (auto simp: fila_ok_def con_totales_def snap_lid t(3) mis_liqs_def)
    next
      case False
      then show ?thesis using fx by (simp add: fila_ok_def snap_other t(3))
    qed
  next
    show "unidades_ok ev (l_id ` set (mis_liqs ev s)) (liq_unidades t)"
      using ok new(1) l by (auto simp: t liq_ok_def unidades_ok_def set_del_where)
  next
    show "cargos_ok ev (l_id ` set (mis_liqs ev s)) (charges t)"
      using ok by (simp add: t(3) liq_ok_def)
  qed (auto simp: con_totales_def clave_periodo_def)
qed

subsection \<open>Calculation\<close>

definition env_finito :: "env \<Rightarrow> bool" where
  "env_finito ev \<longleftrightarrow> (\<forall>k. f_fin (num_float ev k))"

lemma dist_Inr:
  assumes "distribuir cs ufs = Inr d" and "\<forall>c \<in> set cs. is_i64 (cc_importe c)"
    and "\<forall>u \<in> set ufs. f_fin (uc_coef u)"
  shows "dr_total_distribuido d = dr_total_gastos d \<and>
    dr_total_distribuido d = sum64_from ud_total 0 (dr_unidades d)"
proof -
  have "dr_total_distribuido d = sum64_from ud_total 0 (dr_unidades d)"
    using assms(1,3) by (rule distribuir_Inr) simp
  with distribuir_totales[OF assms] show ?thesis by simp
qed

text \<open>A calculation that is not a replay, spelt out.\<close>

lemma calcular_Inr:
  assumes run: "calcular_liquidacion ev co li version key s = Inr (dto, t)"
    and ok: "liq_ok ev s" and fin: "env_finito ev"
  obtains "solo_claves s t"
  | cid lid row s1 s2 s3 gs d n where
    "row \<in> set (mis_liqs ev s)" "l_id row = lid" "l_estado row \<in> {''borrador'', ''calculada''}"
    "solo_claves s s1" "guardar_snapshot ev lid gs d s1 = Inr ((), s2)"
    "dr_total_distribuido d = dr_total_gastos d"
    "dr_total_distribuido d = sum64_from ud_total 0 (dr_unidades d)"
    "transition_liquidacion_q ev ''calculada'' cid lid (l_estado row) (i32 version) s2 = Inr (n, s3)"
    "n \<noteq> 0" "solo_claves s3 t" "\<exists>u. get_liquidacion ev co li s3 = Inr (dto, u)"
proof -
  obtain cid lid liq s0 rows ufs hit s1 where
    u: "uuid_parse ev co = Some cid" "uuid_parse ev li = Some lid" and
    g: "get_liquidacion ev co li s = Inr (liq, s0)" and
    e: "ld_estado liq = ''borrador'' \<or> ld_estado liq = ''calculada''" and
    rows: "list_gastos ev cid (take 4 (ld_periodo liq) @ ''-'' @ drop 4 (ld_periodo liq)) None s0 = Inr (rows, s0)" and
    st: "stamp_si ev ''expensas.calcular'' li key s0 = Inr (hit, s1)" and
    rest: "(case hit of Some cached \<Rightarrow> tx_ret cached | None \<Rightarrow>
       tx_bind (dist_query (distribuir (agrupar_conceptos ev (filter (\<lambda>g. g_estado g = ''registrado'') rows))
          (map (uf_de ev) ufs))) (\<lambda>result.
       tx_bind (guardar_snapshot ev lid (filter (\<lambda>g. g_estado g = ''registrado'') rows) result) (\<lambda>_.
       transicionar ev ''calculada'' cid lid (ld_estado liq) ''expensas.calcular'' version co li key))) s1
       = Inr (dto, t)"
    using run by (auto simp: calcular_liquidacion_def tx_inv Let_def list_gastos_def list_unidades_def)
  obtain row where s0: "s0 = s" and row: "row \<in> set (mis_liqs ev s)" "l_id row = lid"
    "liq = liquidacion_dto_de ev row"
    using g by (rule get_liquidacion_Inr) (use u in auto)
  have so: "solo_claves s s1" using stamp_si_solo[OF st] s0 by simp
  show ?thesis
  proof (cases hit)
    case (Some c)
    then show ?thesis using rest so that(1) by simp
  next
    case None
    let ?gs = "filter (\<lambda>g. g_estado g = ''registrado'') rows"
    have "set rows \<subseteq> set (gastos s)" using rows by (auto simp: list_gastos_def s0)
    then have i: "\<forall>g \<in> set ?gs. is_i64 (g_importe g)" using ok by (auto simp: liq_ok_def)
    obtain d s2 where
      d: "distribuir (agrupar_conceptos ev ?gs) (map (uf_de ev) ufs) = Inr d" and
      sn: "guardar_snapshot ev lid ?gs d s1 = Inr ((), s2)" and
      tr: "transicionar ev ''calculada'' cid lid (ld_estado liq) ''expensas.calcular'' version co li key s2 = Inr (dto, t)"
      using rest None by (auto simp: dist_query_def tx_inv split: sum.splits)
    have dd: "dr_total_distribuido d = dr_total_gastos d \<and>
        dr_total_distribuido d = sum64_from ud_total 0 (dr_unidades d)"
      by (rule dist_Inr[OF d]) (use agrupar_i64[OF i] fin in \<open>auto simp: env_finito_def uf_de_def\<close>)
    have st: "ld_estado liq = l_estado row" by (simp add: row(3) liquidacion_dto_de_def)
    from tr obtain n s3 where
      "transition_liquidacion_q ev ''calculada'' cid lid (ld_estado liq) (i32 version) s2 = Inr (n, s3)"
      "n \<noteq> 0" "solo_claves s3 t" "\<exists>u. get_liquidacion ev co li s3 = Inr (dto, u)"
      by (rule transicionar_Inr)
    then show ?thesis using that(2)[OF row(1,2) _ so sn] dd e unfolding st by blast
  qed
qed

lemma carg_nil: "liq_ok ev s \<Longrightarrow> l \<in> set (mis_liqs ev s) \<Longrightarrow>
  l_estado l \<in> {''borrador'', ''calculada''} \<Longrightarrow> carg ev (charges s) (l_id l) = []"
  by (auto simp: liq_ok_def fila_ok_def)

lemma mis_liqs_solo: "solo_claves s t \<Longrightarrow> mis_liqs ev t = mis_liqs ev s"
  by (simp add: mis_liqs_def solo_clavesD)

lemma calcular_ok:
  assumes "calcular_liquidacion ev co li version key s = Inr (dto, t)"
    and ok: "liq_ok ev s" and "env_finito ev"
  shows "liq_ok ev t"
  using assms
proof (rule calcular_Inr)
  assume "solo_claves s t"
  then show ?thesis using ok liq_ok_solo by blast
next
  fix cid lid row s1 s2 s3 gs d n
  assume row: "row \<in> set (mis_liqs ev s)" "l_id row = lid" "l_estado row \<in> {''borrador'', ''calculada''}"
    and so: "solo_claves s s1" "solo_claves s3 t"
    and sn: "guardar_snapshot ev lid gs d s1 = Inr ((), s2)"
    and d: "dr_total_distribuido d = dr_total_gastos d"
      "dr_total_distribuido d = sum64_from ud_total 0 (dr_unidades d)"
    and tr: "transition_liquidacion_q ev ''calculada'' cid lid (l_estado row) (i32 version) s2 = Inr (n, s3)"
  have ok1: "liq_ok ev s1" using ok liq_ok_solo[OF so(1)] by simp
  have row1: "row \<in> set (mis_liqs ev s1)" using row(1) mis_liqs_solo[OF so(1)] by simp
  have ok2: "liq_ok ev s2" by (rule snapshot_ok[OF ok1 sn row1 row(2,3) d])
  have "liq_ok ev s3"
  proof (rule transition_ok[OF ok2 tr])
    show "liq_activa (l_estado row)" using row(3) by (auto simp: liq_activa_def)
    fix l assume l: "l \<in> set (mis_liqs ev s2)" "l_id l = lid" "l_estado l = l_estado row"
    have "fila_ok ev (liq_unidades s2) (charges s2) l" using ok2 l(1) by (simp add: liq_ok_def)
    moreover have "carg ev (charges s2) (l_id l) = []"
      using carg_nil[OF ok2 l(1)] l(3) row(3) by simp
    ultimately show "fila_ok ev (liq_unidades s2) (charges s2) (movida ev ''calculada'' l)"
      by (simp add: fila_ok_def movida_def liq_estados_def)
  qed
  then show ?thesis using liq_ok_solo[OF so(2)] by simp
qed

subsection \<open>Confirmation\<close>

lemma cargos_unidades:
  assumes "list_all2 (cargo_de ev) (to_unidad_cobro rows ev p li v1) cs" and "uuid_parse ev li = Some lid"
  shows "\<forall>c \<in> set cs. c_tenant c = tenant ev \<and> c_liquidacion c = Some lid \<and> 0 \<le> c_saldo c"
proof
  fix c assume "c \<in> set cs"
  then obtain u where "u \<in> set (to_unidad_cobro rows ev p li v1)" "cargo_de ev u c"
    using assms(1) by (metis in_set_conv_nth list_all2_conv_all_nth nth_mem)
  then show "c_tenant c = tenant ev \<and> c_liquidacion c = Some lid \<and> 0 \<le> c_saldo c"
    using assms(2) by (auto simp: to_unidad_cobro_def cargo_de_def parse_liquidacion_id_def)
qed

lemma sum_positivos: "\<forall>r \<in> set rows. 0 \<le> f r \<Longrightarrow> sum_by f (filter (\<lambda>r. 0 < f r) rows) = sum_by f rows"
  for f :: "'r \<Rightarrow> int"
  by (induction rows) auto

lemma sum_unidad_cobro:
  "\<forall>r \<in> set rows. 0 \<le> lu_total r \<Longrightarrow>
   sum_by uco_total (to_unidad_cobro rows ev p li v1) = sum_by lu_total rows"
  using sum_positivos[of rows lu_total] by (simp add: to_unidad_cobro_def comp_def)

lemma confirmar_Inr:
  assumes run: "confirmar_liquidacion ev co li version key s = Inr (dto, t)"
  obtains "solo_claves s t"
  | cid lid row s1 s2 s3 cs n where
    "row \<in> set (mis_liqs ev s)" "l_id row = lid" "l_estado row = ''calculada''"
    "solo_claves s s1"
    "s2 = s1\<lparr>charges := charges s1 @ cs, entries := entries s2, seq := seq s2\<rparr>"
    "\<forall>c \<in> set cs. c_tenant c = tenant ev \<and> c_liquidacion c = Some lid \<and> 0 \<le> c_saldo c"
    "sum_by c_total cs = sum_by uco_total (to_unidad_cobro (snap ev (liq_unidades s1) lid) ev
       (l_periodo row) li (format_fecha (l_v1 row)))"
    "tx_rel (keeps (libro_ok ev)) (create_cargos ev (to_unidad_cobro (snap ev (liq_unidades s1) lid) ev
       (l_periodo row) li (format_fecha (l_v1 row))) ''ARS'')"
    "\<exists>r. create_cargos ev (to_unidad_cobro (snap ev (liq_unidades s1) lid) ev
       (l_periodo row) li (format_fecha (l_v1 row))) ''ARS'' s1 = Inr (r, s2)"
    "transition_liquidacion_q ev ''confirmada'' cid lid ''calculada'' (i32 version) s2 = Inr (n, s3)"
    "n \<noteq> 0" "solo_claves s3 t" "\<exists>u. get_liquidacion ev co li s3 = Inr (dto, u)"
proof -
  obtain cid lid liq s0 hit s1 where
    u: "uuid_parse ev co = Some cid" "uuid_parse ev li = Some lid" and
    g: "get_liquidacion ev co li s = Inr (liq, s0)" and
    e: "ld_estado liq = ''calculada''" and
    st: "stamp_si ev ''expensas.confirmar'' li key s0 = Inr (hit, s1)" and
    rest: "(case hit of Some cached \<Rightarrow> tx_ret cached | None \<Rightarrow>
       tx_bind (get_liquidacion_unidades ev lid) (\<lambda>preview.
       tx_bind (create_cargos ev (to_unidad_cobro preview ev (ld_periodo liq) li (ld_v1 liq)) ''ARS'') (\<lambda>_.
       transicionar ev ''confirmada'' cid lid (ld_estado liq) ''expensas.confirmar'' version co li key))) s1
       = Inr (dto, t)"
    using run by (auto simp: confirmar_liquidacion_def tx_inv)
  obtain row where s0: "s0 = s" and row: "row \<in> set (mis_liqs ev s)" "l_id row = lid"
    "liq = liquidacion_dto_de ev row"
    using g by (rule get_liquidacion_Inr) (use u in auto)
  have so: "solo_claves s s1" using stamp_si_solo[OF st] s0 by simp
  show ?thesis
  proof (cases hit)
    case (Some c)
    then show ?thesis using rest so that(1) by simp
  next
    case None
    have l: "ld_periodo liq = l_periodo row" "ld_v1 liq = format_fecha (l_v1 row)" "ld_estado liq = l_estado row"
      by (simp_all add: row(3) liquidacion_dto_de_def)
    let ?us = "to_unidad_cobro (snap ev (liq_unidades s1) lid) ev (l_periodo row) li (format_fecha (l_v1 row))"
    obtain cds eds s2 where
      cc: "create_cargos ev ?us ''ARS'' s1 = Inr ((cds, eds), s2)" and
      tr: "transicionar ev ''confirmada'' cid lid (ld_estado liq) ''expensas.confirmar'' version co li key s2 = Inr (dto, t)"
      using rest None by (auto simp: tx_inv get_liquidacion_unidades_def snap_def l)
    obtain cs es where cs: "list_all2 (cargo_de ev) ?us cs"
      "s2 = s1\<lparr>charges := charges s1 @ cs, entries := entries s1 @ es, seq := seq s1 + 2 * length ?us\<rparr>"
      "sum_by c_total cs = sum_by uco_total ?us"
      using create_cargos_Inr[OF cc] by blast
    from tr obtain n s3 where
      t: "transition_liquidacion_q ev ''confirmada'' cid lid ''calculada'' (i32 version) s2 = Inr (n, s3)"
      "n \<noteq> 0" "solo_claves s3 t" "\<exists>u. get_liquidacion ev co li s3 = Inr (dto, u)"
      unfolding e by (rule transicionar_Inr)
    show ?thesis
      by (rule that(2)[OF row(1,2) _ so _ cargos_unidades[OF cs(1) u(2)] cs(3) create_cargos_libro _ t])
        (use e l cs(2) cc in auto)
  qed
qed

lemma transition_mueve:
  assumes ok: "liq_ok ev s" and row: "row \<in> set (mis_liqs ev s)" "l_id row = lid"
    and tr: "transition_liquidacion_q ev nuevo cid lid actual v s = Inr (n, t)" and n: "n \<noteq> 0"
  shows "l_consorcio row = cid \<and> l_estado row = actual \<and> l_version row = v"
proof -
  let ?P = "\<lambda>l. l_tenant l = tenant ev \<and> l_consorcio l = cid \<and> l_id l = lid \<and> l_estado l = actual \<and> l_version l = v"
  have "n = int (count_where ?P (liquidaciones s))"
    using liq_mover_movida[OF tr[unfolded transition_liquidacion_q_def]] by simp
  then have "0 < count_where ?P (liquidaciones s)" using n by simp
  then obtain l where l: "l \<in> set (liquidaciones s)" "?P l" by (auto simp: count_where_pos)
  then have "l \<in> set (mis_liqs ev s)" by (simp add: mis_liqs_def)
  then have "l = row" using fila_unica[OF ok row(1)] l(2) row(2) by simp
  then show ?thesis using l(2) by simp
qed

lemma confirmar_ok:
  assumes "confirmar_liquidacion ev co li version key s = Inr (dto, t)" and ok: "liq_ok ev s"
  shows "liq_ok ev t"
  using assms(1)
proof (rule confirmar_Inr)
  assume "solo_claves s t"
  then show ?thesis using ok liq_ok_solo by blast
next
  fix cid lid :: uuid and row :: liquidacion and s1 s2 s3 :: db and cs :: "charge list" and n :: int
  let ?us = "to_unidad_cobro (snap ev (liq_unidades s1) lid) ev (l_periodo row) li (format_fecha (l_v1 row))"
  let ?P = "\<lambda>l. l_tenant l = tenant ev \<and> l_consorcio l = cid \<and> l_id l = lid \<and>
    l_estado l = ''calculada'' \<and> l_version l = i32 version"
  assume row: "row \<in> set (mis_liqs ev s)" "l_id row = lid" "l_estado row = ''calculada''"
    and so: "solo_claves s s1" "solo_claves s3 t"
    and s2: "s2 = s1\<lparr>charges := charges s1 @ cs, entries := entries s2, seq := seq s2\<rparr>"
    and cs: "\<forall>c \<in> set cs. c_tenant c = tenant ev \<and> c_liquidacion c = Some lid \<and> 0 \<le> c_saldo c"
    and sum: "sum_by c_total cs = sum_by uco_total ?us"
    and tr: "transition_liquidacion_q ev ''confirmada'' cid lid ''calculada'' (i32 version) s2 = Inr (n, s3)"
    and n: "n \<noteq> 0"
  have ok1: "liq_ok ev s1" using ok liq_ok_solo[OF so(1)] by simp
  have row1: "row \<in> set (mis_liqs ev s1)" using row(1) mis_liqs_solo[OF so(1)] by simp
  have eq: "liquidaciones s2 = liquidaciones s1" "liq_unidades s2 = liq_unidades s1"
    "gastos s2 = gastos s1" "charges s2 = charges s1 @ cs"
    by (subst s2, simp)+
  have s3: "s3 = s2\<lparr>liquidaciones := upd_where ?P (movida ev ''confirmada'') (liquidaciones s2)\<rparr>"
    using liq_mover_movida[OF tr[unfolded transition_liquidacion_q_def]] by simp
  have n3: "n = int (count_where ?P (liquidaciones s1))"
    using liq_mover_movida[OF tr[unfolded transition_liquidacion_q_def]] eq by simp
  have Prow: "?P row"
  proof -
    have "0 < count_where ?P (liquidaciones s1)" using n n3 by simp
    then obtain l where l: "l \<in> set (liquidaciones s1)" "?P l" by (auto simp: count_where_pos)
    then have "l \<in> set (mis_liqs ev s1)" by (simp add: mis_liqs_def)
    then have "l = row" using fila_unica[OF ok1 row1] l(2) row(2) by simp
    then show ?thesis using l(2) by simp
  qed
  have nn: "\<forall>r \<in> set (snap ev (liq_unidades s1) lid). 0 \<le> lu_total r"
    using ok1 by (auto simp: liq_ok_def unidades_ok_def snap_def)
  have carg_new: "carg ev (charges s2) k = carg ev (charges s1) k @ (if k = lid then cs else [])" for k
    using cs by (auto simp: carg_def eq filter_empty_conv filter_id_conv)
  have "liq_ok ev s3"
  proof (rule liq_ok_upd[OF ok1])
    show "liquidaciones s3 = upd_where ?P (movida ev ''confirmada'') (liquidaciones s1)"
      by (simp add: s3 eq)
    show "gastos s3 = gastos s1" by (simp add: s3 eq)
    show "unidades_ok ev (l_id ` set (mis_liqs ev s1)) (liq_unidades s3)"
      using ok1 by (simp add: s3 eq liq_ok_def)
    show "cargos_ok ev (l_id ` set (mis_liqs ev s1)) (charges s3)"
      using ok1 cs row1 row(2) by (auto simp: s3 eq liq_ok_def cargos_ok_def)
    fix x assume x: "x \<in> set (mis_liqs ev s1)"
    have fx: "fila_ok ev (liq_unidades s1) (charges s1) x" using ok1 x by (simp add: liq_ok_def)
    show "fila_ok ev (liq_unidades s3) (charges s3) (if ?P x then movida ev ''confirmada'' x else x)"
    proof (cases "l_id x = lid")
      case True
      then have xr: "x = row" using fila_unica[OF ok1 row1 x] row(2) by simp
      have "carg ev (charges s1) lid = []" using carg_nil[OF ok1 row1] row by simp
      then show ?thesis using fx Prow True xr sum sum_unidad_cobro[OF nn, of ev "l_periodo row" li "format_fecha (l_v1 row)"]
        by (simp add: fila_ok_def s3 movida_def carg_new eq(2) liq_estados_def)
    next
      case False
      then show ?thesis using fx by (simp add: fila_ok_def s3 eq(2) carg_new)
    qed
  qed (auto simp: movida_def clave_periodo_def liq_activa_def)
  then show ?thesis using liq_ok_solo[OF so(2)] by simp
qed

subsection \<open>Publication\<close>

lemma publicar_Inr:
  assumes run: "publicar_liquidacion ev co li version key s = Inr (dto, t)"
  obtains "solo_claves s t"
  | cid lid row s1 s2 s3 ob n where
    "row \<in> set (mis_liqs ev s)" "l_id row = lid" "l_estado row = ''confirmada''"
    "solo_claves s s1" "s2 = s1\<lparr>outbox := outbox s1 @ [ob], seq := seq s1 + 1\<rparr>"
    "ob_tenant ob = tenant ev" "ob_type ob = ''liquidacion.publicada''" "ob_estado ob = ''pendiente''"
    "ob_payload ob = PLiquidacion \<lparr>op_liquidacion = li, op_periodo = l_periodo row, op_consorcio = co\<rparr>"
    "transition_liquidacion_q ev ''publicada'' cid lid ''confirmada'' (i32 version) s2 = Inr (n, s3)"
    "n \<noteq> 0" "solo_claves s3 t" "\<exists>u. get_liquidacion ev co li s3 = Inr (dto, u)"
proof -
  obtain cid lid liq s0 hit s1 where
    u: "uuid_parse ev co = Some cid" "uuid_parse ev li = Some lid" and
    g: "get_liquidacion ev co li s = Inr (liq, s0)" and
    e: "ld_estado liq = ''confirmada''" and
    st: "stamp_si ev ''expensas.publicar'' li key s0 = Inr (hit, s1)" and
    rest: "(case hit of Some cached \<Rightarrow> tx_ret cached | None \<Rightarrow>
       tx_bind (insert_outbox_event ev (uuid_show ev lid) ''liquidacion.publicada''
          (PLiquidacion \<lparr>op_liquidacion = li, op_periodo = ld_periodo liq, op_consorcio = co\<rparr>)) (\<lambda>_.
       transicionar ev ''publicada'' cid lid (ld_estado liq) ''expensas.publicar'' version co li key)) s1
       = Inr (dto, t)"
    using run by (auto simp: publicar_liquidacion_def tx_inv)
  obtain row where s0: "s0 = s" and row: "row \<in> set (mis_liqs ev s)" "l_id row = lid"
    "liq = liquidacion_dto_de ev row"
    using g by (rule get_liquidacion_Inr) (use u in auto)
  have so: "solo_claves s s1" using stamp_si_solo[OF st] s0 by simp
  show ?thesis
  proof (cases hit)
    case (Some c)
    then show ?thesis using rest so that(1) by simp
  next
    case None
    have l: "ld_periodo liq = l_periodo row" "ld_estado liq = l_estado row"
      by (simp_all add: row(3) liquidacion_dto_de_def)
    obtain ob s2 where
      ob: "insert_outbox_event ev (uuid_show ev lid) ''liquidacion.publicada''
          (PLiquidacion \<lparr>op_liquidacion = li, op_periodo = l_periodo row, op_consorcio = co\<rparr>) s1 = Inr (ob, s2)" and
      tr: "transicionar ev ''publicada'' cid lid (ld_estado liq) ''expensas.publicar'' version co li key s2 = Inr (dto, t)"
      using rest None by (auto simp: tx_inv l)
    from tr obtain n s3 where
      t: "transition_liquidacion_q ev ''publicada'' cid lid ''confirmada'' (i32 version) s2 = Inr (n, s3)"
      "n \<noteq> 0" "solo_claves s3 t" "\<exists>u. get_liquidacion ev co li s3 = Inr (dto, u)"
      unfolding e by (rule transicionar_Inr)
    have obf: "s2 = s1\<lparr>outbox := outbox s1 @ [ob], seq := seq s1 + 1\<rparr> \<and> ob_tenant ob = tenant ev \<and>
        ob_type ob = ''liquidacion.publicada'' \<and> ob_estado ob = ''pendiente'' \<and>
        ob_payload ob = PLiquidacion \<lparr>op_liquidacion = li, op_periodo = l_periodo row, op_consorcio = co\<rparr>"
      using ob by (auto simp: insert_outbox_event_def tx_inv split: if_splits)
    show ?thesis
      by (rule that(2)[OF row(1,2) _ so _ _ _ _ _ t]) (use e l obf in auto)
  qed
qed

lemma publicar_ok:
  assumes "publicar_liquidacion ev co li version key s = Inr (dto, t)" and ok: "liq_ok ev s"
  shows "liq_ok ev t"
  using assms(1)
proof (rule publicar_Inr)
  assume "solo_claves s t"
  then show ?thesis using ok liq_ok_solo by blast
next
  fix cid lid :: uuid and row :: liquidacion and s1 s2 s3 :: db and ob :: outbox_event and n :: int
  assume so: "solo_claves s s1" "solo_claves s3 t"
    and s2: "s2 = s1\<lparr>outbox := outbox s1 @ [ob], seq := seq s1 + 1\<rparr>"
    and tr: "transition_liquidacion_q ev ''publicada'' cid lid ''confirmada'' (i32 version) s2 = Inr (n, s3)"
  have "liq_ok ev s1" using ok liq_ok_solo[OF so(1)] by simp
  then have ok2: "liq_ok ev s2" using liq_ok_cong[of s2 s1 ev] by (simp add: s2)
  have "liq_ok ev s3"
  proof (rule transition_ok[OF ok2 tr])
    fix l assume l: "l \<in> set (mis_liqs ev s2)" "l_estado l = ''confirmada''"
    have "fila_ok ev (liq_unidades s2) (charges s2) l" using ok2 l(1) by (simp add: liq_ok_def)
    then show "fila_ok ev (liq_unidades s2) (charges s2) (movida ev ''publicada'' l)"
      using l(2) by (simp add: fila_ok_def movida_def liq_estados_def)
  qed (simp add: liq_activa_def)
  then show ?thesis using liq_ok_solo[OF so(2)] by simp
qed

subsection \<open>Annulment\<close>

definition cerrar :: "env \<Rightarrow> uuid set \<Rightarrow> charge list \<Rightarrow> charge list" where
  "cerrar ev S cs = upd_where (\<lambda>c. c_tenant c = tenant ev \<and> c_id c \<in> S) (\<lambda>c. c\<lparr>c_saldo := 0\<rparr>) cs"

lemma cerrar_cerrar: "cerrar ev S (cerrar ev T cs) = cerrar ev (T \<union> S) cs"
  unfolding cerrar_def by (induction cs) auto

lemma cerrar_vacio: "cerrar ev {} cs = cs"
  unfolding cerrar_def by (rule upd_where_none) simp

lemma carg_cerrar: "carg ev (cerrar ev S cs) k = cerrar ev S (carg ev cs k)"
  unfolding carg_def cerrar_def by (rule filter_upd_where) simp

lemma total_cerrar: "sum_by c_total (cerrar ev S cs) = sum_by c_total cs"
proof -
  have "map c_total (cerrar ev S cs) = map c_total cs"
    unfolding cerrar_def by (rule map_upd_where_same) simp
  then show ?thesis by simp
qed

lemma cerrar_Nil [simp]: "cerrar ev S [] = []"
  by (simp add: cerrar_def)

lemma saldo_cerrar: "\<forall>d \<in> set cs. c_saldo d = 0 \<Longrightarrow> \<forall>c \<in> set (cerrar ev S cs). c_saldo c = 0"
  by (auto simp: cerrar_def set_upd_where)

definition sin_asientos :: "db \<Rightarrow> db" where
  "sin_asientos s = s\<lparr>charges := [], entries := [], seq := 0\<rparr>"

text \<open>The reversal of the open charges of a list that is part of the table.\<close>

lemma revertir_lista:
  assumes "tx_map (\<lambda>ch. if 0 < c_saldo ch
         then tx_bind (revertir_cargo ev (uuid_show ev (c_id ch)) (uuid_show ev (c_unidad ch)) ''ARS'')
                (\<lambda>_. tx_ret ())
         else tx_ret ()) cs s = Inr (x, t)"
    and "env_ok ev" and "libro_ok ev s" and "set cs \<subseteq> set (mis_cargos ev s)" and "distinct (map c_id cs)"
  shows "libro_ok ev t \<and> sin_asientos t = sin_asientos s \<and>
    charges t = cerrar ev (c_id ` {c \<in> set cs. 0 < c_saldo c}) (charges s)"
  using assms(1,3-)
proof (induction cs arbitrary: s x)
  case Nil
  then show ?case by (simp add: cerrar_vacio)
next
  case (Cons ch cs)
  show ?case
  proof (cases "0 < c_saldo ch")
    case False
    then have "{c \<in> set (ch # cs). 0 < c_saldo c} = {c \<in> set cs. 0 < c_saldo c}" by auto
    then show ?thesis using Cons.IH[of s] Cons.prems False by (auto simp: tx_inv)
  next
    case True
    then obtain d s1 x1 where
      1: "revertir_cargo ev (uuid_show ev (c_id ch)) (uuid_show ev (c_unidad ch)) ''ARS'' s = Inr (d, s1)" and
      2: "tx_map (\<lambda>ch. if 0 < c_saldo ch
         then tx_bind (revertir_cargo ev (uuid_show ev (c_id ch)) (uuid_show ev (c_unidad ch)) ''ARS'')
                (\<lambda>_. tx_ret ())
         else tx_ret ()) cs s1 = Inr (x1, t)"
      using Cons.prems(1) by (auto simp: tx_inv)
    have mine: "ch \<in> set (mis_cargos ev s)" using Cons.prems(3) by simp
    have uniq: "c = ch" if "c \<in> set (mis_cargos ev s)" "c_id c = c_id ch" for c
      using Cons.prems(2) that mine by (auto simp: libro_ok_def distinct_map inj_on_def)
    have l1: "libro_ok ev s1"
      using revertir_cargo_cierra[OF 1 Cons.prems(2)] uniq True assms(2) by fastforce
    obtain e where s1: "s1 = s\<lparr>charges := cerrar ev {c_id ch} (charges s), entries := entries s @ [e], seq := seq s + 1\<rparr>"
      using 1 by (rule revertir_cargo_Inr) (use assms(2) in \<open>auto simp: cerrar_def\<close>)
    have sub: "set cs \<subseteq> set (mis_cargos ev s1)"
    proof
      fix c assume c: "c \<in> set cs"
      then have "c_id c \<noteq> c_id ch" using Cons.prems(4)
        by (metis distinct.simps(2) image_eqI list.set_map list.simps(9))
      moreover have "c \<in> set (mis_cargos ev s)" using Cons.prems(3) c by auto
      ultimately show "c \<in> set (mis_cargos ev s1)"
        by (auto simp: mis_cargos_def s1 cerrar_def set_upd_where image_iff intro!: bexI[of _ c])
    qed
    have "c_id ` {c \<in> set (ch # cs). 0 < c_saldo c} = {c_id ch} \<union> c_id ` {c \<in> set cs. 0 < c_saldo c}"
      using True by auto
    then show ?thesis
      using Cons.IH[OF 2 l1 sub] Cons.prems(4) by (simp add: s1 cerrar_cerrar sin_asientos_def)
  qed
qed

text \<open>The whole system: the settlements and the ledger.\<close>

definition sistema_ok :: "env \<Rightarrow> db \<Rightarrow> bool" where
  "sistema_ok ev s \<longleftrightarrow> liq_ok ev s \<and> libro_ok ev s"

lemma sin_asientosD:
  assumes "sin_asientos t = sin_asientos s"
  shows "liquidaciones t = liquidaciones s" "liq_unidades t = liq_unidades s" "gastos t = gastos s"
proof -
  have *: "f (sin_asientos t) = f (sin_asientos s)" for f :: "db \<Rightarrow> 'z" using assms by simp
  show "liquidaciones t = liquidaciones s" using *[of liquidaciones] by (simp add: sin_asientos_def)
  show "liq_unidades t = liq_unidades s" using *[of liq_unidades] by (simp add: sin_asientos_def)
  show "gastos t = gastos s" using *[of gastos] by (simp add: sin_asientos_def)
qed

lemma anular_Inr:
  assumes run: "anular_liquidacion ev co li version motivo s = Inr (dto, t)"
    and ok: "sistema_ok ev s" and env: "env_ok ev"
  obtains lid row s1 n S where
    "row \<in> set (mis_liqs ev s)" "l_id row = lid"
    "l_estado row \<notin> {''publicada'', ''anulada'', ''cerrada''}"
    "libro_ok ev s1" "sin_asientos s1 = sin_asientos s" "charges s1 = cerrar ev S (charges s)"
    "l_estado row = ''confirmada'' \<longrightarrow>
       S = c_id ` {c \<in> set (carg ev (charges s) lid). 0 < c_saldo c}"
    "l_estado row \<noteq> ''confirmada'' \<longrightarrow> S = {}"
    "anular_liquidacion_q ev lid (l_estado row) (i32 version) s1 = Inr (n, t)" "n \<noteq> 0"
    "get_liquidacion ev co li t = Inr (dto, t)"
proof -
  obtain cid lid liq s0 s1 n t' where
    u: "uuid_parse ev co = Some cid" "uuid_parse ev li = Some lid" and
    g: "get_liquidacion ev co li s = Inr (liq, s0)" and
    e: "ld_estado liq \<notin> {''publicada'', ''anulada'', ''cerrada''}" and
    rv: "(if ld_estado liq = ''confirmada'' \<or> ld_estado liq = ''publicada''
        then revertir_abiertos ev lid else tx_ret ()) s0 = Inr ((), s1)" and
    an: "anular_liquidacion_q ev lid (ld_estado liq) (i32 version) s1 = Inr (n, t')" "n \<noteq> 0" and
    g2: "get_liquidacion ev co li t' = Inr (dto, t)"
    using run by (auto simp: anular_liquidacion_def tx_inv)
  obtain row where s0: "s0 = s" and row: "row \<in> set (mis_liqs ev s)" "l_id row = lid"
    "liq = liquidacion_dto_de ev row"
    using g by (rule get_liquidacion_Inr) (use u in auto)
  have t': "t' = t" using g2 by (rule get_liquidacion_Inr) simp
  have st: "ld_estado liq = l_estado row" by (simp add: row(3) liquidacion_dto_de_def)
  have lib: "libro_ok ev s" using ok by (simp add: sistema_ok_def)
  show ?thesis
  proof (cases "l_estado row = ''confirmada''")
    case True
    then obtain x where x: "tx_map (\<lambda>ch. if 0 < c_saldo ch
         then tx_bind (revertir_cargo ev (uuid_show ev (c_id ch)) (uuid_show ev (c_unidad ch)) ''ARS'')
                (\<lambda>_. tx_ret ())
         else tx_ret ()) (carg ev (charges s) lid) s = Inr (x, s1)"
      using rv by (auto simp: st s0 revertir_abiertos_def get_charges_by_liquidacion_def carg_def tx_inv)
    have sub: "set (carg ev (charges s) lid) \<subseteq> set (mis_cargos ev s)"
      by (auto simp: carg_def mis_cargos_def)
    have "carg ev (charges s) lid = filter (\<lambda>c. c_liquidacion c = Some lid) (mis_cargos ev s)"
      by (auto simp: carg_def mis_cargos_def intro!: filter_cong)
    then have dis: "distinct (map c_id (carg ev (charges s) lid))"
      using lib by (simp add: libro_ok_def distinct_map_filter)
    note r = revertir_lista[OF x env lib sub dis]
    show ?thesis
      by (rule that[OF row(1,2), of s1 "c_id ` {c \<in> set (carg ev (charges s) lid). 0 < c_saldo c}" n])
        (use r True an g2 t' st e in auto)
  next
    case False
    then have "s1 = s" using rv e by (auto simp: st s0)
    then show ?thesis
      by (intro that[OF row(1,2), of s1 "{}" n]) (use False an g2 t' st e lib in \<open>auto simp: cerrar_vacio\<close>)
  qed
qed

lemma libro_cong: "charges t = charges s \<Longrightarrow> entries t = entries s \<Longrightarrow> libro_ok ev t = libro_ok ev s"
  by (simp add: libro_ok_def mis_cargos_def neto_def asientos_def)

lemma libro_mover: "liq_mover ev P nuevo s = Inr (n, t) \<Longrightarrow> libro_ok ev t = libro_ok ev s"
  by (rule libro_cong) (auto dest!: liq_mover_movida)

lemma anular_ok:
  assumes run: "anular_liquidacion ev co li version motivo s = Inr (dto, t)"
    and ok: "sistema_ok ev s" and env: "env_ok ev"
  shows "sistema_ok ev t"
  using run ok env
proof (rule anular_Inr)
  fix lid :: uuid and row :: liquidacion and s1 :: db and n :: int and S
  let ?P = "\<lambda>l. l_tenant l = tenant ev \<and> l_id l = lid \<and> l_estado l = l_estado row \<and>
    l_version l = i32 version"
  assume row: "row \<in> set (mis_liqs ev s)" "l_id row = lid"
      "l_estado row \<notin> {''publicada'', ''anulada'', ''cerrada''}"
    and lib: "libro_ok ev s1" and fr: "sin_asientos s1 = sin_asientos s"
    and ch: "charges s1 = cerrar ev S (charges s)"
    and S: "l_estado row = ''confirmada'' \<longrightarrow> S = c_id ` {c \<in> set (carg ev (charges s) lid). 0 < c_saldo c}"
      "l_estado row \<noteq> ''confirmada'' \<longrightarrow> S = {}"
    and an: "anular_liquidacion_q ev lid (l_estado row) (i32 version) s1 = Inr (n, t)"
  note eq = sin_asientosD[OF fr]
  have lok: "liq_ok ev s" using ok by (simp add: sistema_ok_def)
  have t: "t = s1\<lparr>liquidaciones := upd_where ?P (movida ev ''anulada'') (liquidaciones s1)\<rparr>"
    using liq_mover_movida[OF an[unfolded anular_liquidacion_q_def]] by simp
  have "liq_ok ev t"
  proof (rule liq_ok_upd[OF lok])
    show "liquidaciones t = upd_where ?P (movida ev ''anulada'') (liquidaciones s)"
      "gastos t = gastos s" by (simp_all add: t eq)
    show "unidades_ok ev (l_id ` set (mis_liqs ev s)) (liq_unidades t)"
      using lok by (simp add: t eq liq_ok_def)
    show "cargos_ok ev (l_id ` set (mis_liqs ev s)) (charges t)"
      using lok by (auto simp: t ch cerrar_def set_upd_where liq_ok_def cargos_ok_def)
    fix x assume x: "x \<in> set (mis_liqs ev s)"
    have fx: "fila_ok ev (liq_unidades s) (charges s) x" using lok x by (simp add: liq_ok_def)
    have cerradas: "c_saldo c = 0" if cc: "c \<in> set (cerrar ev S (carg ev (charges s) lid))" for c
    proof (cases "l_estado row = ''confirmada''")
      case True
      obtain d where d: "d \<in> set (carg ev (charges s) lid)"
        "c = (if c_tenant d = tenant ev \<and> c_id d \<in> S then d\<lparr>c_saldo := 0\<rparr> else d)"
        using cc unfolding cerrar_def set_upd_where by blast
      have "c_tenant d = tenant ev" "0 \<le> c_saldo d"
        using d(1) lok by (auto simp: carg_def liq_ok_def cargos_ok_def)
      moreover have "c_id d \<in> S" if "0 < c_saldo d" using that True S(1) d(1) by auto
      ultimately show ?thesis using d(2) by (cases "0 < c_saldo d") auto
    next
      case False
      have "l_estado row \<in> liq_estados" using lok row(1) by (auto simp: liq_ok_def fila_ok_def)
      then have "l_estado row \<in> {''borrador'', ''calculada''}"
        using False row(3) by (auto simp: liq_estados_def)
      then have "carg ev (charges s) lid = []" using carg_nil[OF lok row(1)] row(2) by simp
      then show ?thesis using cc by (simp add: cerrar_def)
    qed
    show "fila_ok ev (liq_unidades t) (charges t) (if ?P x then movida ev ''anulada'' x else x)"
    proof (cases "l_id x = lid")
      case True
      then have "x = row" using fila_unica[OF lok row(1) x] row(2) by simp
      then show ?thesis using fx True cerradas S row
        by (auto simp: fila_ok_def movida_def t eq(2) ch carg_cerrar total_cerrar cerrar_vacio liq_estados_def)
    next
      case False
      then show ?thesis using fx saldo_cerrar[of "carg ev (charges s) (l_id x)" ev S]
        by (simp add: fila_ok_def t eq(2) ch carg_cerrar total_cerrar)
    qed
  qed (use row(3) in \<open>auto simp: movida_def clave_periodo_def liq_activa_def\<close>)
  moreover have "libro_ok ev t"
    using lib libro_mover[OF an[unfolded anular_liquidacion_q_def]] by simp
  ultimately show ?thesis by (simp add: sistema_ok_def)
qed

end
