(* ===== verification/LiqCiclo.thy ===== *)
theory LiqCiclo
  imports LiqInvariante
begin

text \<open>
  The life cycle of the settlements: the step relation of the operations, the reachable states and
  their invariant, and the abstract life cycle (state and version of every settlement) that the
  operations refine.
\<close>

subsection \<open>The ledger under the operations\<close>

definition mismos_cargos :: "db \<Rightarrow> db \<Rightarrow> bool" where
  "mismos_cargos s t \<longleftrightarrow> charges t = charges s \<and> entries t = entries s"

interpretation mg: step_rel mismos_cargos
  by unfold_locales (simp_all add: mismos_cargos_def)

lemma libro_de_mismos: "tx_rel mismos_cargos m \<Longrightarrow> tx_rel (keeps (libro_ok ev)) m"
  by (erule tx_rel_mono) (metis keeps_def libro_cong mismos_cargos_def)

lemma mg_solo: "tx_rel solo_claves m \<Longrightarrow> tx_rel mismos_cargos m"
  by (erule tx_rel_mono) (auto simp: mismos_cargos_def solo_clavesD)

lemma mg_mover: "tx_rel mismos_cargos (liq_mover ev P n)"
  by (rule tx_relI) (auto dest!: liq_mover_movida simp: mismos_cargos_def)

lemma mg_queries:
  "tx_rel mismos_cargos (list_gastos ev a b c)" "tx_rel mismos_cargos (list_unidades ev a b)"
  "tx_rel mismos_cargos (get_liquidacion_q ev a d)"
  "tx_rel mismos_cargos (get_liquidacion_unidades ev a)"
  unfolding list_gastos_def list_unidades_def get_liquidacion_q_def get_liquidacion_unidades_def
  by (rule mg.rules rel_row mg.refl)+

lemma mg_writes:
  "tx_rel mismos_cargos (insert_outbox_event ev r r' pl)"
  "tx_rel mismos_cargos (create_liquidacion_q ev a b v w)"
  "tx_rel mismos_cargos (delete_liquidacion_gastos ev a)"
  "tx_rel mismos_cargos (delete_liquidacion_items ev a)"
  "tx_rel mismos_cargos (delete_liquidacion_unidades ev a)"
  "tx_rel mismos_cargos (insert_liquidacion_gasto ev a g c n)"
  "tx_rel mismos_cargos (insert_liquidacion_item ev a c x n)"
  "tx_rel mismos_cargos (insert_liquidacion_unidad ev a c x n m)"
  "tx_rel mismos_cargos (update_liquidacion_calculo ev n m k a)"
  "tx_rel mismos_cargos (update_liquidacion_vencimientos ev v w a c n)"
  unfolding insert_outbox_event_def create_liquidacion_q_def delete_liquidacion_gastos_def
    delete_liquidacion_items_def delete_liquidacion_unidades_def insert_liquidacion_gasto_def
    insert_liquidacion_item_def insert_liquidacion_unidad_def update_liquidacion_calculo_def
    update_liquidacion_vencimientos_def Let_def
  by (intro mg.rules rel_uuid rel_insert rel_exec rel_delete rel_update; simp add: mismos_cargos_def)+

lemma mg_ops:
  "tx_rel mismos_cargos (get_liquidacion ev co li)"
  "tx_rel mismos_cargos (stamp_si ev scope li key)"
  "tx_rel mismos_cargos (transicionar ev n cid lid e scope v co li key)"
  "tx_rel mismos_cargos (guardar_snapshot ev lid gs d)"
  unfolding get_liquidacion_def stamp_si_def stamp_liq_def transicionar_def save_liq_def
    guardar_snapshot_def transition_liquidacion_q_def
  by (intro mg.rules mg_queries mg_writes mg_mover mg_solo solo_claves_stamp solo_claves_update)+

lemma kp_hit: "tx_rel (keeps I) m \<Longrightarrow>
    tx_rel (keeps I) (case hit of Some d \<Rightarrow> tx_ret d | None \<Rightarrow> m)"
  by (cases hit) (simp_all add: kp.ret)

lemma kp_dist: "tx_rel (keeps I) (dist_query r)"
  unfolding dist_query_def by (cases r) (simp_all add: kp.rules)

lemmas kp_libro = libro_de_mismos[OF mg_queries(1)] libro_de_mismos[OF mg_queries(2)]
  libro_de_mismos[OF mg_queries(3)] libro_de_mismos[OF mg_queries(4)]
  libro_de_mismos[OF mg_writes(1)] libro_de_mismos[OF mg_writes(2)] libro_de_mismos[OF mg_writes(10)]
  libro_de_mismos[OF mg_ops(1)] libro_de_mismos[OF mg_ops(2)] libro_de_mismos[OF mg_ops(3)]
  libro_de_mismos[OF mg_ops(4)] create_cargos_libro kp_hit kp_dist validate_v_keeps scan_opt_keeps

lemma libro_ops:
  "tx_rel (keeps (libro_ok ev)) (create_liquidacion ev co p v1 v2)"
  "tx_rel (keeps (libro_ok ev)) (update_vencimientos ev co l v1 v2 n)"
  "tx_rel (keeps (libro_ok ev)) (calcular_liquidacion ev co l n key)"
  "tx_rel (keeps (libro_ok ev)) (confirmar_liquidacion ev co l n key)"
  "tx_rel (keeps (libro_ok ev)) (publicar_liquidacion ev co l n key)"
  unfolding create_liquidacion_def update_vencimientos_def calcular_liquidacion_def
    confirmar_liquidacion_def publicar_liquidacion_def validate_periodo_def Let_def
  by (intro kp.rules kp_libro)+

subsection \<open>Reachable states\<close>

inductive liq_paso :: "env \<Rightarrow> db \<Rightarrow> db \<Rightarrow> bool" for ev where
  crear: "create_liquidacion ev co p v1 v2 s = Inr (d, t) \<Longrightarrow> liq_paso ev s t"
| vencimientos: "update_vencimientos ev co li v1 v2 n s = Inr (x, t) \<Longrightarrow> liq_paso ev s t"
| calcular: "calcular_liquidacion ev co li n key s = Inr (d, t) \<Longrightarrow> liq_paso ev s t"
| confirmar: "confirmar_liquidacion ev co li n key s = Inr (d, t) \<Longrightarrow> liq_paso ev s t"
| publicar: "publicar_liquidacion ev co li n key s = Inr (d, t) \<Longrightarrow> liq_paso ev s t"
| anular: "anular_liquidacion ev co li n motivo s = Inr (d, t) \<Longrightarrow> liq_paso ev s t"

lemma paso_ok:
  assumes "liq_paso ev s t" and "sistema_ok ev s" and "env_ok ev" and "env_finito ev"
  shows "sistema_ok ev t"
  using assms(1)
proof cases
  case (anular co li n motivo d)
  then show ?thesis using anular_ok assms(2,3) by blast
next
  case (crear co p v1 v2 d)
  then show ?thesis using assms(2) tx_relD[OF create_keeps crear] tx_relD[OF libro_ops(1) crear]
    by (auto simp: sistema_ok_def keeps_def)
next
  case (vencimientos co li v1 v2 n x)
  then show ?thesis
    using assms(2) tx_relD[OF vencimientos_keeps vencimientos] tx_relD[OF libro_ops(2) vencimientos]
    by (auto simp: sistema_ok_def keeps_def)
next
  case (calcular co li n key d)
  then show ?thesis using assms(2,4) calcular_ok[OF calcular] tx_relD[OF libro_ops(3) calcular]
    by (auto simp: sistema_ok_def keeps_def)
next
  case (confirmar co li n key d)
  then show ?thesis using assms(2) confirmar_ok[OF confirmar] tx_relD[OF libro_ops(4) confirmar]
    by (auto simp: sistema_ok_def keeps_def)
next
  case (publicar co li n key d)
  then show ?thesis using assms(2) publicar_ok[OF publicar] tx_relD[OF libro_ops(5) publicar]
    by (auto simp: sistema_ok_def keeps_def)
qed

text \<open>The states from which a tenant starts: no settlement and no charge yet.\<close>

definition inicial :: "env \<Rightarrow> db \<Rightarrow> bool" where
  "inicial ev s \<longleftrightarrow> mis_liqs ev s = [] \<and> (\<forall>r \<in> set (liq_unidades s). lu_tenant r \<noteq> tenant ev) \<and>
     mis_cargos ev s = [] \<and> (\<forall>e \<in> set (entries s). e_tenant e \<noteq> tenant ev) \<and>
     (\<forall>g \<in> set (gastos s). is_i64 (g_importe g))"

lemma inicial_ok: "inicial ev s \<Longrightarrow> sistema_ok ev s"
  by (auto simp: inicial_def sistema_ok_def liq_ok_def libro_ok_def activas_def unidades_ok_def
      cargos_ok_def mis_cargos_def filter_empty_conv)

definition alcanza :: "env \<Rightarrow> db \<Rightarrow> db \<Rightarrow> bool" where
  "alcanza ev = (liq_paso ev)\<^sup>*\<^sup>*"

lemma alcanza_ok:
  assumes "alcanza ev s t" and "inicial ev s" and "env_ok ev" and "env_finito ev"
  shows "sistema_ok ev t"
  using assms(1) unfolding alcanza_def
  by (induction rule: rtranclp_induct) (use assms paso_ok inicial_ok in auto)

subsection \<open>What holds in every reachable state\<close>

text \<open>
  C3. There is at most one active settlement per consorcio and period.
\<close>

theorem una_activa_por_periodo:
  assumes "alcanza ev s t" and "inicial ev s" and "env_ok ev" and "env_finito ev"
    and "l \<in> set (mis_liqs ev t)" and "l' \<in> set (mis_liqs ev t)"
    and "liq_activa (l_estado l)" and "liq_activa (l_estado l')"
    and "l_consorcio l = l_consorcio l'" and "l_periodo l = l_periodo l'"
  shows "l = l'"
proof -
  have "distinct (map clave_periodo (activas ev t))"
    using alcanza_ok[OF assms(1-4)] by (simp add: sistema_ok_def liq_ok_def)
  moreover have "l \<in> set (activas ev t)" "l' \<in> set (activas ev t)"
    using assms(5-8) by (simp_all add: activas_def)
  moreover have "clave_periodo l = clave_periodo l'" using assms(9,10) by (simp add: clave_periodo_def)
  ultimately show ?thesis by (auto simp: distinct_map inj_on_def)
qed

text \<open>
  C1. The money of a confirmed or published settlement adds up: its charges total its snapshot,
  which is the distributed total that it stores, which is the total of its expenses.
\<close>

theorem cargos_cuadran:
  assumes "alcanza ev s t" and "inicial ev s" and "env_ok ev" and "env_finito ev"
    and "l \<in> set (mis_liqs ev t)" and "l_estado l \<in> {''confirmada'', ''publicada''}"
  shows "sum_by c_total (carg ev (charges t) (l_id l)) = sum_by lu_total (snap ev (liq_unidades t) (l_id l)) \<and>
    i64 (sum_by c_total (carg ev (charges t) (l_id l))) = l_total_distribuido l \<and>
    l_total_distribuido l = l_total_gastos l"
proof -
  have "fila_ok ev (liq_unidades t) (charges t) l"
    using alcanza_ok[OF assms(1-4)] assms(5) by (simp add: sistema_ok_def liq_ok_def)
  then show ?thesis using assms(6) by (auto simp: fila_ok_def)
qed

text \<open>
  C12. An annulled settlement leaves no debt: every one of its charges has no open balance, and its
  entries in the ledger cancel out.
\<close>

theorem anulada_sin_deuda:
  assumes "alcanza ev s t" and "inicial ev s" and "env_ok ev" and "env_finito ev"
    and "l \<in> set (mis_liqs ev t)" and "l_estado l = ''anulada''" and "c \<in> set (carg ev (charges t) (l_id l))"
  shows "c_saldo c = 0 \<and> neto ev t (c_id c) = 0"
proof -
  have ok: "liq_ok ev t" "libro_ok ev t"
    using alcanza_ok[OF assms(1-4)] by (simp_all add: sistema_ok_def)
  have "fila_ok ev (liq_unidades t) (charges t) l" using ok(1) assms(5) by (simp add: liq_ok_def)
  then have "c_saldo c = 0" using assms(6,7) by (auto simp: fila_ok_def)
  moreover have "c \<in> set (mis_cargos ev t)" using assms(7) by (auto simp: carg_def mis_cargos_def)
  ultimately show ?thesis using libro_okD(3)[OF ok(2)] by simp
qed

subsection \<open>The abstract life cycle\<close>

definition abs_liq :: "env \<Rightarrow> db \<Rightarrow> uuid \<Rightarrow> (string \<times> int) option" where
  "abs_liq ev s lid = map_option (\<lambda>l. (l_estado l, l_version l))
     (List.find (\<lambda>l. l_id l = lid) (mis_liqs ev s))"

definition arista_liq :: "string \<Rightarrow> string \<Rightarrow> bool" where
  "arista_liq e e' \<longleftrightarrow> (e, e') \<in> {(''borrador'', ''calculada''), (''calculada'', ''calculada''),
     (''calculada'', ''confirmada''), (''confirmada'', ''publicada''), (''borrador'', ''anulada''),
     (''calculada'', ''anulada''), (''confirmada'', ''anulada'')}"

inductive ciclo :: "(uuid \<Rightarrow> (string \<times> int) option) \<Rightarrow> (uuid \<Rightarrow> (string \<times> int) option) \<Rightarrow> bool" where
  igual: "ciclo m m"
| nueva: "m lid = None \<Longrightarrow> ciclo m (m(lid \<mapsto> (''borrador'', 1)))"
| avanza: "m lid = Some (e, v) \<Longrightarrow> arista_liq e e' \<Longrightarrow> ciclo m (m(lid \<mapsto> (e', v + 1)))"

inductive_cases cicloE: "ciclo m m'"

lemma abs_fila:
  assumes "liq_ok ev s" and "row \<in> set (mis_liqs ev s)"
  shows "abs_liq ev s (l_id row) = Some (l_estado row, l_version row)"
  using assms find_key_unique[of l_id "mis_liqs ev s" row] by (simp add: abs_liq_def liq_ok_def)

lemma abs_cong: "mis_liqs ev t = mis_liqs ev s \<Longrightarrow> abs_liq ev t = abs_liq ev s"
  by (simp add: abs_liq_def[abs_def])

lemma abs_upd:
  assumes "liquidaciones t = upd_where P f (liquidaciones s)"
    and "\<And>l. l_tenant (f l) = l_tenant l \<and> l_id (f l) = l_id l"
  shows "abs_liq ev t k = map_option (\<lambda>l. (\<lambda>l. (l_estado l, l_version l)) (if P l then f l else l))
    (List.find (\<lambda>l. l_id l = k) (mis_liqs ev s))"
proof -
  have "mis_liqs ev t = upd_where P f (mis_liqs ev s)"
    unfolding mis_liqs_def assms(1) by (rule filter_upd_where) (simp add: assms(2))
  then show ?thesis by (simp add: abs_liq_def find_upd_where assms(2) option.map_comp comp_def)
qed

lemma abs_mover:
  assumes ok: "liq_ok ev s" and row: "row \<in> set (mis_liqs ev s)" "P row"
    and mv: "liq_mover ev P nuevo s = Inr (n, t)" and P: "\<And>l. P l \<Longrightarrow> l_id l = l_id row"
  shows "abs_liq ev t = (abs_liq ev s)(l_id row \<mapsto> (nuevo, l_version row + 1))"
proof
  fix k
  have t: "liquidaciones t = upd_where P (movida ev nuevo) (liquidaciones s)"
    using liq_mover_movida[OF mv] by simp
  have a: "abs_liq ev t k = map_option (\<lambda>l. (\<lambda>l. (l_estado l, l_version l)) (if P l then movida ev nuevo l else l))
      (List.find (\<lambda>l. l_id l = k) (mis_liqs ev s))"
    by (rule abs_upd[OF t]) (simp add: movida_def)
  show "abs_liq ev t k = ((abs_liq ev s)(l_id row \<mapsto> (nuevo, l_version row + 1))) k"
  proof (cases "k = l_id row")
    case True
    have "List.find (\<lambda>l. l_id l = k) (mis_liqs ev s) = Some row"
      using ok row(1) find_key_unique[of l_id "mis_liqs ev s" row] by (simp add: True liq_ok_def)
    then show ?thesis using row(2) by (simp add: a[unfolded True] True movida_def)
  next
    case False
    have "\<not> P l" if "List.find (\<lambda>l. l_id l = k) (mis_liqs ev s) = Some l" for l
      using find_SomeD[OF that] P False by auto
    then show ?thesis using False
      by (cases "List.find (\<lambda>l. l_id l = k) (mis_liqs ev s)")
        (simp_all add: a abs_liq_def[of ev s])
  qed
qed

lemma abs_transition:
  assumes ok: "liq_ok ev s" and row: "row \<in> set (mis_liqs ev s)"
    and tr: "transition_liquidacion_q ev nuevo cid (l_id row) actual v s = Inr (n, t)" and n: "n \<noteq> 0"
  shows "l_estado row = actual" "l_version row = v"
    "abs_liq ev t = (abs_liq ev s)(l_id row \<mapsto> (nuevo, v + 1))"
proof -
  have m: "l_consorcio row = cid \<and> l_estado row = actual \<and> l_version row = v"
    by (rule transition_mueve[OF ok row _ tr n]) simp
  then show "l_estado row = actual" "l_version row = v" by simp_all
  have "l_tenant row = tenant ev" using row by (simp add: mis_liqs_def)
  then show "abs_liq ev t = (abs_liq ev s)(l_id row \<mapsto> (nuevo, v + 1))"
    using abs_mover[OF ok row _ tr[unfolded transition_liquidacion_q_def]] m by simp
qed

lemma abs_solo: "solo_claves s t \<Longrightarrow> abs_liq ev t = abs_liq ev s"
  by (rule abs_cong) (rule mis_liqs_solo)

text \<open>Every operation is a step of the life cycle.\<close>

lemma crear_refina:
  assumes "create_liquidacion ev co p v1 v2 s = Inr (d, t)"
  shows "ciclo (abs_liq ev s) (abs_liq ev t)"
proof -
  have v: "validate_vencimientos v1 v2 s = Inr (u, s') \<Longrightarrow> s' = s" for u s'
    by (cases v2) (auto simp: validate_vencimientos_def tx_inv)
  have o: "scan_opt ev v2 s = Inr (u, s') \<Longrightarrow> s' = s" for u s'
    by (cases v2) (auto simp: scan_opt_def tx_inv)
  obtain cid d1 d2 l where "create_liquidacion_q ev cid p d1 d2 s = Inr (l, t)"
    using assms v o by (fastforce simp: create_liquidacion_def validate_periodo_def tx_inv)
  note l = create_liquidacion_q_Inr[OF this]
  have m: "mis_liqs ev t = mis_liqs ev s @ [l]" using l by (simp add: mis_liqs_def)
  have n: "List.find (\<lambda>x. l_id x = l_id l) (mis_liqs ev s) = None"
    using l by (auto simp: find_None_iff_all)
  have e: "l_estado l = ''borrador''" "l_version l = 1" using l by simp_all
  have "abs_liq ev t = (abs_liq ev s)(l_id l \<mapsto> (''borrador'', 1))"
    by (rule ext) (auto simp: abs_liq_def m find_append e n split: option.splits)
  then show ?thesis using n by (simp add: ciclo.nueva abs_liq_def)
qed

lemma vencimientos_refina:
  assumes "update_vencimientos ev co li v1 v2 n s = Inr (x, t)"
  shows "ciclo (abs_liq ev s) (abs_liq ev t)"
proof -
  have v: "validate_vencimientos v1 v2 s = Inr (u, s') \<Longrightarrow> s' = s" for u s'
    by (cases v2) (auto simp: validate_vencimientos_def tx_inv)
  have o: "scan_opt ev v2 s = Inr (u, s') \<Longrightarrow> s' = s" for u s'
    by (cases v2) (auto simp: scan_opt_def tx_inv)
  obtain d1 d2 cid lid where "update_liquidacion_vencimientos ev d1 d2 cid lid (i32 n) s = Inr (x, t)"
    using assms v o by (fastforce simp: update_vencimientos_def tx_inv)
  then obtain P where "liquidaciones t = upd_where P (\<lambda>l. l\<lparr>l_v1 := d1, l_v2 := d2, l_updated := ahora ev\<rparr>) (liquidaciones s)"
    by (auto simp: update_liquidacion_vencimientos_def)
  from abs_upd[OF this] have "abs_liq ev t = abs_liq ev s"
    by (intro ext) (auto simp: abs_liq_def intro!: arg_cong2[of _ _ _ _ map_option])
  then show ?thesis by (simp add: ciclo.igual)
qed

lemma transition_refina:
  assumes "liq_ok ev s" "row \<in> set (mis_liqs ev s)"
    and "transition_liquidacion_q ev nuevo cid (l_id row) actual v s = Inr (n, t)" "n \<noteq> 0"
    and "arista_liq actual nuevo"
  shows "ciclo (abs_liq ev s) (abs_liq ev t)"
  using abs_transition[OF assms(1-4)] abs_fila[OF assms(1,2)] assms(5) by (auto intro: ciclo.avanza)

lemma calcular_refina:
  assumes run: "calcular_liquidacion ev co li version key s = Inr (dto, t)"
    and ok: "liq_ok ev s" and fin: "env_finito ev"
  shows "ciclo (abs_liq ev s) (abs_liq ev t)"
  using run ok fin
proof (rule calcular_Inr)
  assume "solo_claves s t"
  then show ?thesis using abs_solo ciclo.igual by metis
next
  fix cid lid :: uuid and row :: liquidacion and s1 s2 s3 :: db and gs d and n :: int
  assume row: "row \<in> set (mis_liqs ev s)" "l_id row = lid" "l_estado row \<in> {''borrador'', ''calculada''}"
    and so: "solo_claves s s1" "solo_claves s3 t"
    and sn: "guardar_snapshot ev lid gs d s1 = Inr ((), s2)"
    and d: "dr_total_distribuido d = dr_total_gastos d"
      "dr_total_distribuido d = sum64_from ud_total 0 (dr_unidades d)"
    and tr: "transition_liquidacion_q ev ''calculada'' cid lid (l_estado row) (i32 version) s2 = Inr (n, s3)" "n \<noteq> 0"
  have ok1: "liq_ok ev s1" using ok liq_ok_solo[OF so(1)] by simp
  have row1: "row \<in> set (mis_liqs ev s1)" using row(1) mis_liqs_solo[OF so(1)] by simp
  have ok2: "liq_ok ev s2" by (rule snapshot_ok[OF ok1 sn row1 row(2,3) d])
  have l2: "liquidaciones s2 = upd_where (\<lambda>l. l_tenant l = tenant ev \<and> l_id l = lid) (con_totales ev d) (liquidaciones s1)"
    using sn by (rule guardar_snapshot_Inr)
  have a2: "abs_liq ev s2 = abs_liq ev s1"
    using abs_upd[OF l2] by (intro ext)
      (auto simp: abs_liq_def con_totales_def intro!: arg_cong2[of _ _ _ _ map_option])
  have "mis_liqs ev s2 = upd_where (\<lambda>l. l_tenant l = tenant ev \<and> l_id l = lid) (con_totales ev d) (mis_liqs ev s1)"
    unfolding mis_liqs_def l2 by (rule filter_upd_where) (simp add: con_totales_def)
  moreover have "l_tenant row = tenant ev" using row(1) by (simp add: mis_liqs_def)
  ultimately have row2: "con_totales ev d row \<in> set (mis_liqs ev s2)"
    using row1 row(2) by (force simp: set_upd_where)
  have "ciclo (abs_liq ev s2) (abs_liq ev s3)"
    by (rule transition_refina[OF ok2 row2 _ tr(2)])
      (use tr(1) row in \<open>auto simp: con_totales_def arista_liq_def\<close>)
  then show ?thesis using a2 abs_solo[OF so(1)] abs_solo[OF so(2)] by simp
qed

lemma confirmar_refina:
  assumes run: "confirmar_liquidacion ev co li version key s = Inr (dto, t)" and ok: "liq_ok ev s"
  shows "ciclo (abs_liq ev s) (abs_liq ev t)"
  using run
proof (rule confirmar_Inr)
  assume "solo_claves s t"
  then show ?thesis using abs_solo ciclo.igual by metis
next
  fix cid lid :: uuid and row :: liquidacion and s1 s2 s3 :: db and cs :: "charge list" and n :: int
  assume row: "row \<in> set (mis_liqs ev s)" "l_id row = lid"
    and so: "solo_claves s s1" "solo_claves s3 t"
    and s2: "s2 = s1\<lparr>charges := charges s1 @ cs, entries := entries s2, seq := seq s2\<rparr>"
    and tr: "transition_liquidacion_q ev ''confirmada'' cid lid ''calculada'' (i32 version) s2 = Inr (n, s3)" "n \<noteq> 0"
  define P where "P l \<longleftrightarrow> l_tenant l = tenant ev \<and> l_consorcio l = cid \<and> l_id l = lid \<and>
    l_estado l = ''calculada'' \<and> l_version l = i32 version" for l :: liquidacion
  have mv: "liq_mover ev P ''confirmada'' s2 = Inr (n, s3)"
    using tr(1) by (simp add: transition_liquidacion_q_def P_def[abs_def])
  have ok1: "liq_ok ev s1" using ok liq_ok_solo[OF so(1)] by simp
  have l2: "liquidaciones s2 = liquidaciones s1" by (subst s2) simp
  have row1: "row \<in> set (mis_liqs ev s1)" using row(1) mis_liqs_solo[OF so(1)] by simp
  have "0 < count_where P (liquidaciones s1)" using liq_mover_movida[OF mv] tr(2) l2 by simp
  then obtain l where l: "l \<in> set (liquidaciones s1)" "P l" by (auto simp: count_where_pos)
  then have lm: "l \<in> set (mis_liqs ev s1)" by (simp add: mis_liqs_def P_def)
  have lid: "l_id l = lid" using l(2) by (simp add: P_def)
  obtain s3' where mv1: "liq_mover ev P ''confirmada'' s1 = Inr (n, s3')" and l3: "liquidaciones s3' = liquidaciones s3"
    using mv l2 by (auto simp: liq_mover_Inr liq_desborda_def)
  have "abs_liq ev s3' = (abs_liq ev s1)(lid \<mapsto> (''confirmada'', l_version l + 1))"
    using abs_mover[OF ok1 lm l(2) mv1] by (simp add: lid P_def)
  moreover have "abs_liq ev s3 = abs_liq ev s3'" by (rule abs_cong) (simp add: mis_liqs_def l3)
  moreover have "abs_liq ev s1 lid = Some (''calculada'', l_version l)"
    using abs_fila[OF ok1 lm] l(2) by (simp add: P_def)
  ultimately have "ciclo (abs_liq ev s1) (abs_liq ev s3)"
    by (simp add: ciclo.avanza arista_liq_def)
  then show ?thesis using abs_solo[OF so(1)] abs_solo[OF so(2)] by simp
qed

lemma publicar_refina:
  assumes run: "publicar_liquidacion ev co li version key s = Inr (dto, t)" and ok: "liq_ok ev s"
  shows "ciclo (abs_liq ev s) (abs_liq ev t)"
  using run
proof (rule publicar_Inr)
  assume "solo_claves s t"
  then show ?thesis using abs_solo ciclo.igual by metis
next
  fix cid lid :: uuid and row :: liquidacion and s1 s2 s3 :: db and ob :: outbox_event and n :: int
  assume row: "row \<in> set (mis_liqs ev s)" "l_id row = lid"
    and so: "solo_claves s s1" "solo_claves s3 t"
    and s2: "s2 = s1\<lparr>outbox := outbox s1 @ [ob], seq := seq s1 + 1\<rparr>"
    and tr: "transition_liquidacion_q ev ''publicada'' cid lid ''confirmada'' (i32 version) s2 = Inr (n, s3)" "n \<noteq> 0"
  have "liq_ok ev s1" using ok liq_ok_solo[OF so(1)] by simp
  then have ok2: "liq_ok ev s2" using liq_ok_cong[of s2 s1 ev] by (simp add: s2)
  have m2: "mis_liqs ev s2 = mis_liqs ev s" using mis_liqs_solo[OF so(1)] by (simp add: s2 mis_liqs_def)
  have "ciclo (abs_liq ev s2) (abs_liq ev s3)"
    by (rule transition_refina[OF ok2 row(1)[folded m2] tr(1)[folded row(2)] tr(2)])
      (simp add: arista_liq_def)
  then show ?thesis using abs_cong[OF m2] abs_solo[OF so(2)] by simp
qed

lemma anular_refina:
  assumes run: "anular_liquidacion ev co li version motivo s = Inr (dto, t)"
    and ok: "sistema_ok ev s" and env: "env_ok ev"
  shows "ciclo (abs_liq ev s) (abs_liq ev t)"
  using run ok env
proof (rule anular_Inr)
  fix lid :: uuid and row :: liquidacion and s1 :: db and n :: int and S :: "uuid set"
  assume row: "row \<in> set (mis_liqs ev s)" "l_id row = lid"
      "l_estado row \<notin> {''publicada'', ''anulada'', ''cerrada''}"
    and fr: "sin_asientos s1 = sin_asientos s"
    and an: "anular_liquidacion_q ev lid (l_estado row) (i32 version) s1 = Inr (n, t)" "n \<noteq> 0"
  define P where "P l \<longleftrightarrow> l_tenant l = tenant ev \<and> l_id l = lid \<and> l_estado l = l_estado row \<and>
    l_version l = i32 version" for l :: liquidacion
  note eq = sin_asientosD[OF fr]
  have lok: "liq_ok ev s" using ok by (simp add: sistema_ok_def)
  have mv: "liq_mover ev P ''anulada'' s1 = Inr (n, t)"
    using an(1) by (simp add: anular_liquidacion_q_def P_def[abs_def])
  obtain t' where mv1: "liq_mover ev P ''anulada'' s = Inr (n, t')" and lt: "liquidaciones t' = liquidaciones t"
    using mv eq by (auto simp: liq_mover_Inr liq_desborda_def)
  have "0 < count_where P (liquidaciones s)" using liq_mover_movida[OF mv1] an(2) by simp
  then obtain l where l: "l \<in> set (liquidaciones s)" "P l" by (auto simp: count_where_pos)
  then have lm: "l \<in> set (mis_liqs ev s)" by (simp add: mis_liqs_def P_def)
  have "abs_liq ev t' = (abs_liq ev s)(lid \<mapsto> (''anulada'', l_version l + 1))"
    using abs_mover[OF lok lm l(2) mv1] l(2) by (simp add: P_def)
  moreover have "abs_liq ev t = abs_liq ev t'" by (rule abs_cong) (simp add: mis_liqs_def lt)
  moreover have "abs_liq ev s lid = Some (l_estado row, l_version l)"
    using abs_fila[OF lok lm] l(2) by (simp add: P_def)
  moreover have "arista_liq (l_estado row) ''anulada''"
    using lok row by (auto simp: liq_ok_def fila_ok_def liq_estados_def arista_liq_def)
  ultimately show ?thesis by (simp add: ciclo.avanza)
qed

lemma paso_ciclo:
  assumes "liq_paso ev s t" and "sistema_ok ev s" and "env_ok ev" and "env_finito ev"
  shows "ciclo (abs_liq ev s) (abs_liq ev t)"
  using assms(1)
proof cases
  case (crear co p v1 v2 d)
  then show ?thesis by (rule crear_refina)
next
  case (vencimientos co li v1 v2 n x)
  then show ?thesis by (rule vencimientos_refina)
next
  case (calcular co li n key d)
  then show ?thesis using calcular_refina[OF calcular] assms(2,4) by (simp add: sistema_ok_def)
next
  case (confirmar co li n key d)
  then show ?thesis using confirmar_refina[OF confirmar] assms(2) by (simp add: sistema_ok_def)
next
  case (publicar co li n key d)
  then show ?thesis using publicar_refina[OF publicar] assms(2) by (simp add: sistema_ok_def)
next
  case (anular co li n motivo d)
  then show ?thesis using anular_refina[OF anular assms(2,3)] by simp
qed

text \<open>
  C2. Refinement: every operation of the settlements, seen through the states and versions, is a
  step of the life cycle: it leaves every settlement as it is, adds a draft with version 1, or
  moves one settlement along an edge and adds one to its version. Every edge is one of the code's
  table of transitions, or the recalculation.
\<close>

theorem liquidaciones_refinan_ciclo:
  assumes "liq_paso ev s t" and "sistema_ok ev s" and "env_ok ev" and "env_finito ev"
  shows "ciclo (abs_liq ev s) (abs_liq ev t) \<and>
    (\<forall>e e'. arista_liq e e' \<longrightarrow> can_transition e e' \<or> e = ''calculada'' \<and> e' = ''calculada'')"
  using paso_ciclo[OF assms]
  by (auto simp: arista_liq_def can_transition_def valid_transitions_def)

subsection \<open>Final states\<close>

definition paso_valido :: "env \<Rightarrow> db \<Rightarrow> db \<Rightarrow> bool" where
  "paso_valido ev s t \<longleftrightarrow> liq_paso ev s t \<and> sistema_ok ev s \<and> env_ok ev \<and> env_finito ev"

interpretation mliq: maquina arista_liq "paso_valido ev" "\<lambda>lid s. map_option fst (abs_liq ev s lid)" for ev
proof
  fix s t lid e assume "paso_valido ev s t" "map_option fst (abs_liq ev s lid) = Some e"
  then have "ciclo (abs_liq ev s) (abs_liq ev t)" "map_option fst (abs_liq ev s lid) = Some e"
    using paso_ciclo by (auto simp: paso_valido_def)
  then show "\<exists>e'. map_option fst (abs_liq ev t lid) = Some e' \<and> (e' = e \<or> arista_liq e e')"
    by (cases rule: ciclo.cases) (auto split: if_splits)
qed

lemma alcanza_valido:
  assumes "alcanza ev s t" and "sistema_ok ev s" and "env_ok ev" and "env_finito ev"
  shows "(paso_valido ev)\<^sup>*\<^sup>* s t \<and> sistema_ok ev t"
  using assms(1) unfolding alcanza_def
proof (induction rule: rtranclp_induct)
  case (step y z)
  then have "paso_valido ev y z" using assms by (simp add: paso_valido_def)
  with step show ?case using paso_ok assms(3,4) by (meson rtranclp.rtrancl_into_rtrancl)
qed (use assms in simp)


text \<open>
  No operation ever closes a settlement: the state 'cerrada' of the table of transitions and
  of the database is not reachable.
\<close>

theorem cerrada_inalcanzable:
  assumes "alcanza ev s t" and "inicial ev s" and "env_ok ev" and "env_finito ev"
    and "l \<in> set (mis_liqs ev t)"
  shows "l_estado l \<noteq> ''cerrada''"
proof -
  have "sistema_ok ev t \<and> (\<forall>k v. abs_liq ev t k \<noteq> Some (''cerrada'', v))"
    using assms(1) unfolding alcanza_def
  proof (induction rule: rtranclp_induct)
    case base
    then show ?case using assms(2) inicial_ok[OF assms(2)] by (simp add: inicial_def abs_liq_def)
  next
    case (step y z)
    then have c: "ciclo (abs_liq ev y) (abs_liq ev z)" using paso_ciclo assms(3,4) by blast
    have "abs_liq ev z k \<noteq> Some (''cerrada'', v)" for k v
      using c by (cases rule: ciclo.cases) (use step in \<open>auto simp: arista_liq_def\<close>)
    then show ?case using step paso_ok assms(3,4) by blast
  qed
  then show ?thesis using abs_fila[of ev t l] assms(5) by (auto simp: sistema_ok_def)
qed

end
