(* ===== verification/LiqEjemplo.thy ===== *)
theory LiqEjemplo
  imports LiqCiclo
begin

text \<open>
  A settlement from the draft to its publication, and to its annulment, evaluated step by step on
  a consorcio with two units: the witnesses of the theorems on the settlements.
\<close>

definition ej_gasto :: gasto where
  "ej_gasto = \<lparr>g_tenant = 1, g_consorcio = 10, g_id = 41, g_concepto = 31, g_proveedor = None,
     g_comprobante = None, g_importe = 1000, g_fecha = Fecha 2026 2 10, g_estado = ''registrado'',
     g_documento = None, g_created = 5, g_updated = 5\<rparr>"

definition ej0 :: db where
  "ej0 = ejemplo_db\<lparr>gastos := [ej_gasto]\<rparr>"

definition ej_liq :: "string \<Rightarrow> int \<Rightarrow> int \<Rightarrow> int \<Rightarrow> liquidacion" where
  "ej_liq e v n a = \<lparr>l_tenant = 1, l_consorcio = 10, l_id = 1000, l_periodo = ''202602'',
     l_v1 = Fecha 2026 3 10, l_v2 = None, l_estado = e, l_version = v, l_total_gastos = n,
     l_total_distribuido = n, l_alcanzadas = a, l_created = 100, l_updated = 100\<rparr>"

definition ej1 :: db where
  "ej1 = ej0\<lparr>liquidaciones := [ej_liq ''borrador'' 1 0 0], seq := 1\<rparr>"

definition ej_dto :: "liquidacion \<Rightarrow> liquidacion_dto" where
  "ej_dto = liquidacion_dto_de ejemplo_env"

lemmas ej_eval = tx_eval ejemplo_uuid digitos_eval ejemplo_fecha Let_def
  validate_periodo_def validate_vencimientos_def periodo_ok_def scan_opt_def
  create_liquidacion_q_def liq_check_def liq_estados_def liq_activa_def
  get_liquidacion_def get_liquidacion_q_def transicionar_def transition_liquidacion_q_def
  liq_mover_def liq_desborda_def stamp_si_def save_liq_def count_where_def

lemmas ej_datos = ej0_def ej1_def ej_liq_def ejemplo_db_def ejemplo_unidad_def ej_gasto_def ej_dto_def

lemma ej_crear:
  "create_liquidacion ejemplo_env ''10'' ''202602'' ''2026-03-10'' None ej0 =
     Inr (ej_dto (ej_liq ''borrador'' 1 0 0), ej1)"
  by (simp add: create_liquidacion_def ej_eval ej_datos cong: let_weak_cong)

definition ej_snap :: "uuid \<Rightarrow> string \<Rightarrow> liq_unidad" where
  "ej_snap i c = \<lparr>lu_tenant = 1, lu_liquidacion = 1000, lu_unidad = i, lu_codigo = c,
     lu_coeficiente = 50, lu_total = 500, lu_created = 100\<rparr>"

definition ej2 :: db where
  "ej2 = ej0\<lparr>liquidaciones := [ej_liq ''calculada'' 2 1000 2],
     liq_gastos := [\<lparr>lg_tenant = 1, lg_liquidacion = 1000, lg_gasto = 41, lg_concepto = 31,
       lg_importe = 1000, lg_created = 100\<rparr>],
     liq_items := [\<lparr>li_tenant = 1, li_liquidacion = 1000, li_concepto = 31,
       li_regla = ''coeficiente'', li_importe = 1000, li_created = 100\<rparr>],
     liq_unidades := [ej_snap 21 ''A'', ej_snap 22 ''B''], seq := 1\<rparr>"

lemma ej_num: "show_nat 31 = ''31''" "show_nat 21 = ''21''" "show_nat 22 = ''22''" "show_nat 1000 = ''1000''"
  by code_simp+

lemma ej_fmt: "format_fecha (Fecha 2026 3 10) = ''2026-03-10''" "mes_de (Fecha 2026 2 10) = ''2026-02''"
  by code_simp+

lemma ej_list_gastos: "list_gastos ejemplo_env 10 ''2026-02'' None ej1 = Inr ([ej_gasto], ej1)"
  by (simp add: list_gastos_def tx_read_def ej_datos ej_fmt)

lemma ej_list_unidades: "list_unidades ejemplo_env 10 ''activa'' ej1 = Inr (unidades ej1, ej1)"
  by (simp add: list_unidades_def tx_read_def ej_datos)

lemma ej_get: "get_liquidacion ejemplo_env ''10'' ''1000'' ej1 = Inr (ej_dto (ej_liq ''borrador'' 1 0 0), ej1)"
  by (simp add: ej_eval ej_datos)

lemma ej_float: "fl 50 100000000 0 = Fin 4722366482869645 (- 73)"
  by (simp add: f64_eval)

lemma ej_num_back: "float_num ejemplo_env (Fin 4722366482869645 (- 73)) = 50"
  by (simp add: ejemplo_env_def rne_def shl_def Let_def)

lemma ej_finito: "env_finito ejemplo_env"
  by (simp add: env_finito_def split: f64.splits)

definition ej_uds :: "unidad_distribucion list" where
  "ej_uds = map (\<lambda>(i, c). \<lparr>ud_unidad = i, ud_codigo = c, ud_coef = Fin 4722366482869645 (- 73),
     ud_total = 500, ud_items = [\<lparr>ui_concepto = ''31'', ui_importe = 500\<rparr>]\<rparr>)
     [(''21'', ''A''), (''22'', ''B'')]"

definition ej_dist :: distribucion where
  "ej_dist = \<lparr>dr_items = [\<lparr>it_concepto = ''31'', it_regla = ''coeficiente'', it_importe = 1000\<rparr>],
     dr_unidades = ej_uds, dr_total_gastos = 1000, dr_total_distribuido = 1000, dr_diferencia = 0,
     dr_alcanzadas = 2, dr_advertencias = []\<rparr>"

definition ej_ufs :: "uf_coef list" where
  "ej_ufs = [\<lparr>uc_unidad = ''21'', uc_codigo = ''A'', uc_coef = Fin 4722366482869645 (- 73)\<rparr>,
     \<lparr>uc_unidad = ''22'', uc_codigo = ''B'', uc_coef = Fin 4722366482869645 (- 73)\<rparr>]"

lemma ej_ufs: "map (uf_de ejemplo_env) (unidades ej1) = ej_ufs"
  by (simp add: uf_de_def ej_ufs_def ej_datos ej_num ej_float)

lemma ej_conceptos: "agrupar_conceptos ejemplo_env [ej_gasto] =
    [\<lparr>cc_concepto = ''31'', cc_regla = ''coeficiente'', cc_importe = 1000\<rparr>]"
  by (simp add: agrupar_conceptos_def acumular_def ej_gasto_def ej_num Let_def)

lemma ej_total: "coef_total ej_ufs = Fin 4722366482869645 (- 72)"
  by (simp add: ej_ufs_def coef_total_def f64_eval)

lemma ej_cuota: "cuota (Fin 4722366482869645 (- 72)) 1000 r (Fin 4722366482869645 (- 73)) = min r 500"
  by (simp add: cuota_def f64_eval)

lemma ej_sort: "sort_key uc_codigo ej_ufs = ej_ufs" "ej_ufs \<noteq> []"
  by (simp_all add: ej_ufs_def)

lemma ej_distribuir: "distribuir [\<lparr>cc_concepto = ''31'', cc_regla = ''coeficiente'', cc_importe = 1000\<rparr>]
    ej_ufs = Inr ej_dist"
proof -
  have "repartir_concepto (Fin 4722366482869645 (- 72)) (map unidad_inicial ej_ufs)
      \<lparr>cc_concepto = ''31'', cc_regla = ''coeficiente'', cc_importe = 1000\<rparr> = ej_uds"
    by (simp add: ej_ufs_def ej_uds_def repartir_concepto_def unidad_inicial_def ej_cuota add64_def
        sub64_def is_i64_def Let_def cong: let_weak_cong)
  then show ?thesis
    by (simp add: distribuir_def ej_sort ej_total f_le0_def Let_def ej_dist_def)
      (simp add: ej_uds_def ej_ufs_def item_de_def advertencias_def add64_def sub64_def is_i64_def)
qed

lemma ej_snapshot:
  "guardar_snapshot ejemplo_env 1000 [ej_gasto] ej_dist ej1 =
     Inr ((), ej2\<lparr>liquidaciones := [ej_liq ''borrador'' 1 1000 2]\<rparr>)"
  by (simp add: guardar_snapshot_def tx_eval delete_liquidacion_gastos_def delete_liquidacion_items_def
      delete_liquidacion_unidades_def insert_liquidacion_gasto_def insert_liquidacion_item_def
      insert_liquidacion_unidad_def update_liquidacion_calculo_def liq_existe_def ej2_def ej_datos
      ej_dist_def ej_uds_def ej_snap_def ej_num_back ejemplo_uuid digitos_eval del_where_def liq_check_def
      liq_estados_def periodo_ok_def)

lemma ej_uid: "uuid_parse ejemplo_env ''10'' = Some 10" "uuid_parse ejemplo_env ''1000'' = Some 1000"
  "uuid_parse ejemplo_env ''21'' = Some 21" "uuid_parse ejemplo_env ''22'' = Some 22"
  by (simp_all add: ejemplo_uuid digitos_eval)

lemma ej_calcular:
  "calcular_liquidacion ejemplo_env ''10'' ''1000'' 1 '''' ej1 = Inr (ej_dto (ej_liq ''calculada'' 2 1000 2), ej2)"
proof -
  have l: "ld_estado (ej_dto (ej_liq ''borrador'' 1 0 0)) = ''borrador''"
    "ld_periodo (ej_dto (ej_liq ''borrador'' 1 0 0)) = ''202602''"
    by (simp_all add: ej_dto_def liquidacion_dto_de_def ej_liq_def)
  have f: "g_estado ej_gasto = ''registrado''" "unidades ej1 \<noteq> []"
    by (simp_all add: ej_datos)
  have t: "transicionar ejemplo_env ''calculada'' 10 1000 ''borrador'' ''expensas.calcular'' 1 ''10'' ''1000'' ''''
      (ej2\<lparr>liquidaciones := [ej_liq ''borrador'' 1 1000 2]\<rparr>) = Inr (ej_dto (ej_liq ''calculada'' 2 1000 2), ej2)"
    by (simp add: ej_eval ej_datos ej2_def i32_def)
  show ?thesis
    by (simp add: calcular_liquidacion_def tx_bind_def tx_some_def tx_guard_def tx_ret_def tx_fail_def
        ej_uid l f ej_get ej_list_gastos ej_list_unidades ej_ufs ej_conceptos ej_distribuir
        dist_query_def stamp_si_def ej_snapshot t Let_def)
qed

definition ej_cargo :: "uuid \<Rightarrow> uuid \<Rightarrow> int \<Rightarrow> charge" where
  "ej_cargo u i n = \<lparr>c_tenant = 1, c_unidad = u, c_id = i, c_liquidacion = Some 1000,
     c_concepto = ''Expensa 202602'', c_due = Fecha 2026 3 10, c_total = 500, c_saldo = n, c_created = 100\<rparr>"

definition ej_asiento :: "uuid \<Rightarrow> uuid \<Rightarrow> uuid \<Rightarrow> account_entry" where
  "ej_asiento u i c = \<lparr>e_tenant = 1, e_unidad = u, e_id = i, e_tipo = ''cargo'',
     e_fecha = Fecha 2026 3 10, e_debit = 500, e_credit = 0, e_currency = ''ARS'', e_referencia = None,
     e_reversa = None, e_charge = Some c, e_created = 100\<rparr>"

definition ej_reversa :: "uuid \<Rightarrow> uuid \<Rightarrow> uuid \<Rightarrow> account_entry" where
  "ej_reversa u i c = \<lparr>e_tenant = 1, e_unidad = u, e_id = i, e_tipo = ''reversa'',
     e_fecha = Fecha 2026 3 10, e_debit = 0, e_credit = 500, e_currency = ''ARS'',
     e_referencia = Some (''reversa de cargo '' @ show_nat c), e_reversa = None, e_charge = Some c,
     e_created = 100\<rparr>"

definition ej_cobrada :: "string \<Rightarrow> int \<Rightarrow> db" where
  "ej_cobrada e v = ej2\<lparr>liquidaciones := [ej_liq e v 1000 2],
     charges := [ej_cargo 21 1001 500, ej_cargo 22 1003 500],
     entries := [ej_asiento 21 1002 1001, ej_asiento 22 1004 1003], seq := 5\<rparr>"

definition ej_evento :: outbox_event where
  "ej_evento = \<lparr>ob_tenant = 1, ob_id = 1005, ob_correlation = ''1000'',
     ob_type = ''liquidacion.publicada'',
     ob_payload = PLiquidacion \<lparr>op_liquidacion = ''1000'', op_periodo = ''202602'', op_consorcio = ''10''\<rparr>,
     ob_estado = ''pendiente'', ob_intentos = 0, ob_last_error = '''', ob_next = 100, ob_created = 100,
     ob_updated = 100\<rparr>"

definition ej_publicada :: db where
  "ej_publicada = (ej_cobrada ''publicada'' 4)\<lparr>outbox := [ej_evento], seq := 6\<rparr>"

definition ej_anulada :: db where
  "ej_anulada = ej2\<lparr>liquidaciones := [ej_liq ''anulada'' 4 1000 2],
     charges := [ej_cargo 21 1001 0, ej_cargo 22 1003 0],
     entries := [ej_asiento 21 1002 1001, ej_asiento 22 1004 1003, ej_reversa 21 1005 1001,
       ej_reversa 22 1006 1003], seq := 7\<rparr>"

lemma ej_get2: "get_liquidacion ejemplo_env ''10'' ''1000'' ej2 = Inr (ej_dto (ej_liq ''calculada'' 2 1000 2), ej2)"
  by (simp add: ej_eval ej_datos ej2_def)

lemma ej_get3: "get_liquidacion ejemplo_env ''10'' ''1000'' (ej_cobrada e v) =
    Inr (ej_dto (ej_liq e v 1000 2), ej_cobrada e v)"
  by (simp add: ej_eval ej_datos ej2_def ej_cobrada_def)

lemma ej_cobros: "to_unidad_cobro (liq_unidades ej2) ejemplo_env ''202602'' ''1000'' ''2026-03-10'' =
    [\<lparr>uco_unidad = ''21'', uco_concepto = ''Expensa 202602'', uco_due = ''2026-03-10'', uco_total = 500,
       uco_liquidacion = Some ''1000''\<rparr>,
     \<lparr>uco_unidad = ''22'', uco_concepto = ''Expensa 202602'', uco_due = ''2026-03-10'', uco_total = 500,
       uco_liquidacion = Some ''1000''\<rparr>]"
  by (simp add: to_unidad_cobro_def ej2_def ej_snap_def ej_num)

lemma ej_create_cargos: "\<exists>x. create_cargos ejemplo_env [\<lparr>uco_unidad = ''21'', uco_concepto = ''Expensa 202602'',
       uco_due = ''2026-03-10'', uco_total = 500, uco_liquidacion = Some ''1000''\<rparr>,
     \<lparr>uco_unidad = ''22'', uco_concepto = ''Expensa 202602'', uco_due = ''2026-03-10'', uco_total = 500,
       uco_liquidacion = Some ''1000''\<rparr>] ''ARS'' ej2 = Inr (x, ej_cobrada ''calculada'' 2)"
  by (simp add: create_cargos_def crear_cargo_def tx_eval ej_uid parse_liquidacion_id_def insert_charge_def
      insert_account_entry_def charge_check_def entry_check_def unidad_existe_def ejemplo_fecha ej2_def
      ej_datos ej_cobrada_def ej_cargo_def ej_asiento_def liq_existe_def)

lemma ej_confirmar:
  "confirmar_liquidacion ejemplo_env ''10'' ''1000'' 2 '''' ej2 =
     Inr (ej_dto (ej_liq ''confirmada'' 3 1000 2), ej_cobrada ''confirmada'' 3)"
proof -
  have l: "ld_estado (ej_dto (ej_liq ''calculada'' 2 1000 2)) = ''calculada''"
    "ld_periodo (ej_dto (ej_liq ''calculada'' 2 1000 2)) = ''202602''"
    "ld_v1 (ej_dto (ej_liq ''calculada'' 2 1000 2)) = ''2026-03-10''"
    by (simp_all add: ej_dto_def liquidacion_dto_de_def ej_liq_def ej_fmt)
  have p: "get_liquidacion_unidades ejemplo_env 1000 ej2 = Inr (liq_unidades ej2, ej2)"
    by (simp add: get_liquidacion_unidades_def tx_read_def ej2_def ej_snap_def)
  obtain x where x: "create_cargos ejemplo_env (to_unidad_cobro (liq_unidades ej2) ejemplo_env
      ''202602'' ''1000'' ''2026-03-10'') ''ARS'' ej2 = Inr (x, ej_cobrada ''calculada'' 2)"
    using ej_create_cargos by (auto simp: ej_cobros)
  have t: "transicionar ejemplo_env ''confirmada'' 10 1000 ''calculada'' ''expensas.confirmar'' 2 ''10'' ''1000'' ''''
      (ej_cobrada ''calculada'' 2) = Inr (ej_dto (ej_liq ''confirmada'' 3 1000 2), ej_cobrada ''confirmada'' 3)"
    by (simp add: ej_eval ej_datos ej_cobrada_def ej2_def i32_def)
  show ?thesis
    by (simp add: confirmar_liquidacion_def tx_bind_def tx_some_def tx_guard_def tx_ret_def tx_fail_def
        ej_uid l ej_get2 p x stamp_si_def t)
qed

lemma ej_publicar:
  "publicar_liquidacion ejemplo_env ''10'' ''1000'' 3 '''' (ej_cobrada ''confirmada'' 3) =
     Inr (ej_dto (ej_liq ''publicada'' 4 1000 2), ej_publicada)"
proof -
  have l: "ld_estado (ej_dto (ej_liq ''confirmada'' 3 1000 2)) = ''confirmada''"
    "ld_periodo (ej_dto (ej_liq ''confirmada'' 3 1000 2)) = ''202602''"
    by (simp_all add: ej_dto_def liquidacion_dto_de_def ej_liq_def)
  have o: "insert_outbox_event ejemplo_env ''1000'' ''liquidacion.publicada''
       (PLiquidacion \<lparr>op_liquidacion = ''1000'', op_periodo = ''202602'', op_consorcio = ''10''\<rparr>)
       (ej_cobrada ''confirmada'' 3) =
     Inr (ej_evento, (ej_cobrada ''confirmada'' 3)\<lparr>outbox := [ej_evento], seq := 6\<rparr>)"
    by (simp add: insert_outbox_event_def tx_eval ej_evento_def ej_cobrada_def ej2_def ej_datos)
  have t: "transicionar ejemplo_env ''publicada'' 10 1000 ''confirmada'' ''expensas.publicar'' 3 ''10'' ''1000'' ''''
      ((ej_cobrada ''confirmada'' 3)\<lparr>outbox := [ej_evento], seq := 6\<rparr>) =
      Inr (ej_dto (ej_liq ''publicada'' 4 1000 2), ej_publicada)"
    by (simp add: ej_eval ej_datos ej_cobrada_def ej2_def i32_def ej_publicada_def)
  show ?thesis
    by (simp add: publicar_liquidacion_def tx_bind_def tx_some_def tx_guard_def tx_ret_def tx_fail_def
        ej_uid l ej_get3 stamp_si_def ej_num o t)
qed

lemma ej_dias: "show_nat 1001 = ''1001''" "show_nat 1003 = ''1003''"
  "uuid_parse ejemplo_env ''1001'' = Some 1001" "uuid_parse ejemplo_env ''1003'' = Some 1003"
  by (simp_all add: ejemplo_uuid digitos_eval) code_simp+

definition ej_media :: db where
  "ej_media = (ej_cobrada ''confirmada'' 3)\<lparr>charges := [ej_cargo 21 1001 0, ej_cargo 22 1003 500],
     entries := [ej_asiento 21 1002 1001, ej_asiento 22 1004 1003, ej_reversa 21 1005 1001], seq := 6\<rparr>"

lemma ej_revertir1: "\<exists>x. revertir_cargo ejemplo_env ''1001'' ''21'' ''ARS'' (ej_cobrada ''confirmada'' 3) =
    Inr (x, ej_media)"
  by (simp add: revertir_cargo_def tx_eval ej_dias ej_uid get_charge_def update_charge_saldo_def charge_check_def
      insert_account_entry_def entry_check_def unidad_existe_def ej_cobrada_def ej_media_def ej_cargo_def
      ej_asiento_def ej_reversa_def ej2_def ej_datos Let_def count_where_def)

lemma ej_revertir2: "\<exists>x. revertir_cargo ejemplo_env ''1003'' ''22'' ''ARS'' ej_media =
    Inr (x, ej_anulada\<lparr>liquidaciones := [ej_liq ''confirmada'' 3 1000 2]\<rparr>)"
  by (simp add: revertir_cargo_def tx_eval ej_dias ej_uid get_charge_def update_charge_saldo_def charge_check_def
      insert_account_entry_def entry_check_def unidad_existe_def ej_cobrada_def ej_media_def ej_cargo_def
      ej_asiento_def ej_reversa_def ej2_def ej_datos ej_anulada_def Let_def count_where_def)

lemma ej_revertir:
  "revertir_abiertos ejemplo_env 1000 (ej_cobrada ''confirmada'' 3) =
     Inr ((), ej_anulada\<lparr>liquidaciones := [ej_liq ''confirmada'' 3 1000 2]\<rparr>)"
proof -
  obtain x y where "revertir_cargo ejemplo_env ''1001'' ''21'' ''ARS'' (ej_cobrada ''confirmada'' 3) = Inr (x, ej_media)"
    "revertir_cargo ejemplo_env ''1003'' ''22'' ''ARS'' ej_media =
       Inr (y, ej_anulada\<lparr>liquidaciones := [ej_liq ''confirmada'' 3 1000 2]\<rparr>)"
    using ej_revertir1 ej_revertir2 by blast
  moreover have "get_charges_by_liquidacion ejemplo_env 1000 (ej_cobrada ''confirmada'' 3) =
      Inr ([ej_cargo 21 1001 500, ej_cargo 22 1003 500], ej_cobrada ''confirmada'' 3)"
    by (simp add: get_charges_by_liquidacion_def tx_read_def ej_cobrada_def ej_cargo_def)
  moreover have "c_saldo (ej_cargo u i n) = n" "c_id (ej_cargo u i n) = i" "c_unidad (ej_cargo u i n) = u" for u i n
    by (simp_all add: ej_cargo_def)
  ultimately show ?thesis
    by (simp add: revertir_abiertos_def tx_bind_def tx_ret_def ej_dias ej_num)
qed

lemma ej_anular:
  "anular_liquidacion ejemplo_env ''10'' ''1000'' 3 '''' (ej_cobrada ''confirmada'' 3) =
     Inr (ej_dto (ej_liq ''anulada'' 4 1000 2), ej_anulada)"
proof -
  have l: "ld_estado (ej_dto (ej_liq ''confirmada'' 3 1000 2)) = ''confirmada''"
    by (simp add: ej_dto_def liquidacion_dto_de_def ej_liq_def)
  have a: "anular_liquidacion_q ejemplo_env 1000 ''confirmada'' 3
      (ej_anulada\<lparr>liquidaciones := [ej_liq ''confirmada'' 3 1000 2]\<rparr>) = Inr (1, ej_anulada)"
    by (simp add: anular_liquidacion_q_def ej_eval ej_datos ej_anulada_def ej2_def)
  have g: "get_liquidacion ejemplo_env ''10'' ''1000'' ej_anulada =
      Inr (ej_dto (ej_liq ''anulada'' 4 1000 2), ej_anulada)"
    by (simp add: ej_eval ej_datos ej2_def ej_anulada_def)
  show ?thesis
    by (simp add: anular_liquidacion_def tx_bind_def tx_some_def tx_guard_def tx_ret_def tx_fail_def
        ej_uid l ej_get3 ej_revertir a g i32_def)
qed

subsection \<open>The path\<close>

lemma ej_inicial: "inicial ejemplo_env ej0"
  by (simp add: inicial_def mis_liqs_def mis_cargos_def ej_datos is_i64_def)

lemma ej_pasos:
  "liq_paso ejemplo_env ej0 ej1" "liq_paso ejemplo_env ej1 ej2"
  "liq_paso ejemplo_env ej2 (ej_cobrada ''confirmada'' 3)"
  "liq_paso ejemplo_env (ej_cobrada ''confirmada'' 3) ej_publicada"
  "liq_paso ejemplo_env (ej_cobrada ''confirmada'' 3) ej_anulada"
  by (rule liq_paso.intros ej_crear ej_calcular ej_confirmar ej_publicar ej_anular)+

lemma ej_alcanza3: "alcanza ejemplo_env ej0 (ej_cobrada ''confirmada'' 3)"
  unfolding alcanza_def using ej_pasos(1-3) by (meson rtranclp.intros)

lemma ej_alcanza:
  "alcanza ejemplo_env ej0 ej_publicada" "alcanza ejemplo_env ej0 ej_anulada"
  using ej_alcanza3 ej_pasos(4,5) unfolding alcanza_def by (meson rtranclp.rtrancl_into_rtrancl)+

lemmas ej_reglas = ej_inicial ejemplo_env_ok ej_finito

lemma ej_mis: "mis_liqs ejemplo_env (ej_cobrada e v) = [ej_liq e v 1000 2]"
  "mis_liqs ejemplo_env ej_publicada = [ej_liq ''publicada'' 4 1000 2]"
  "mis_liqs ejemplo_env ej_anulada = [ej_liq ''anulada'' 4 1000 2]"
  by (simp_all add: mis_liqs_def ej_cobrada_def ej_publicada_def ej_anulada_def ej_liq_def)

lemma ej_liq_sel: "l_estado (ej_liq e v n a) = e" "l_id (ej_liq e v n a) = 1000"
  "l_total_distribuido (ej_liq e v n a) = n"
  by (simp_all add: ej_liq_def)

subsection \<open>Witnesses\<close>

theorem agrupar_conceptos_ok_witness:
  "distinct (map cc_concepto (agrupar_conceptos ejemplo_env [ej_gasto, ej_gasto\<lparr>g_concepto := 32\<rparr>, ej_gasto])) \<and>
   set (map cc_concepto (agrupar_conceptos ejemplo_env [ej_gasto, ej_gasto\<lparr>g_concepto := 32\<rparr>, ej_gasto])) =
     {''31'', ''32''}"
proof -
  have n: "show_nat 31 = ''31''" "show_nat 32 = ''32''" by code_simp+
  let ?gs = "[ej_gasto, ej_gasto\<lparr>g_concepto := 32\<rparr>, ej_gasto]"
  have i: "\<forall>g \<in> set ?gs. is_i64 (g_importe g)" by (simp add: ej_gasto_def is_i64_def)
  have s: "(\<lambda>g. uuid_show ejemplo_env (g_concepto g)) ` set ?gs = {''31'', ''32''}"
    by (auto simp: ej_gasto_def n)
  show ?thesis using agrupar_conceptos_ok[OF i, of ejemplo_env] unfolding s by blast
qed

theorem una_activa_por_periodo_witness:
  "hd (mis_liqs ejemplo_env ej_publicada) = last (mis_liqs ejemplo_env ej_publicada)"
  by (rule una_activa_por_periodo[OF ej_alcanza(1) ej_reglas])
    (simp_all add: ej_mis liq_activa_def ej_liq_sel)

theorem cargos_cuadran_witness:
  "sum_by c_total (carg ejemplo_env (charges ej_publicada) 1000) = 1000 \<and>
   sum_by lu_total (snap ejemplo_env (liq_unidades ej_publicada) 1000) = 1000"
proof -
  have c: "sum_by c_total (carg ejemplo_env (charges ej_publicada) 1000) = 1000"
    by (simp add: ej_publicada_def ej_cobrada_def carg_def ej_cargo_def)
  show ?thesis
    using cargos_cuadran[OF ej_alcanza(1) ej_reglas, of "ej_liq ''publicada'' 4 1000 2"]
    by (simp add: ej_mis ej_liq_sel c)
qed

theorem anulada_sin_deuda_witness:
  "c_saldo (ej_cargo 21 1001 0) = 0 \<and> neto ejemplo_env ej_anulada 1001 = 0"
  using anulada_sin_deuda[OF ej_alcanza(2) ej_reglas, of "ej_liq ''anulada'' 4 1000 2" "ej_cargo 21 1001 0"]
  by (simp add: ej_mis ej_liq_sel) (simp add: ej_anulada_def carg_def ej_cargo_def)

theorem liquidaciones_refinan_ciclo_witness:
  "ciclo [1000 \<mapsto> (''confirmada'', 3)] [1000 \<mapsto> (''publicada'', 4)]"
proof -
  have a: "abs_liq ejemplo_env (ej_cobrada ''confirmada'' 3) = [1000 \<mapsto> (''confirmada'', 3)]"
    "abs_liq ejemplo_env ej_publicada = [1000 \<mapsto> (''publicada'', 4)]"
    by (rule ext, simp add: abs_liq_def ej_mis ej_liq_def)+
  show ?thesis
    using liquidaciones_refinan_ciclo[OF ej_pasos(4) alcanza_ok[OF ej_alcanza3 ej_reglas] ejemplo_env_ok ej_finito]
    unfolding a by (rule conjunct1)
qed

definition ej_marzo :: liquidacion where
  "ej_marzo = \<lparr>l_tenant = 1, l_consorcio = 10, l_id = 1006, l_periodo = ''202603'',
     l_v1 = Fecha 2026 3 10, l_v2 = None, l_estado = ''borrador'', l_version = 1, l_total_gastos = 0,
     l_total_distribuido = 0, l_alcanzadas = 0, l_created = 100, l_updated = 100\<rparr>"

lemma ej_crear_marzo:
  "create_liquidacion ejemplo_env ''10'' ''202603'' ''2026-03-10'' None ej_publicada =
     Inr (ej_dto ej_marzo, ej_publicada\<lparr>liquidaciones := [ej_liq ''publicada'' 4 1000 2, ej_marzo], seq := 7\<rparr>)"
  by (simp add: create_liquidacion_def ej_eval ej_datos ej_publicada_def ej_cobrada_def ej2_def
      ej_marzo_def cong: let_weak_cong)


theorem cerrada_inalcanzable_witness:
  "l_estado (hd (mis_liqs ejemplo_env ej_publicada)) \<noteq> ''cerrada''"
  by (rule cerrada_inalcanzable[OF ej_alcanza(1) ej_reglas]) (simp add: ej_mis)

end
