(* ===== verification/CobConsultas.thy ===== *)
theory CobConsultas
  imports LiqConsultas CuentaCorriente
begin

text \<open>
  The queries of \<open>internal/database/gen/cobranzas.sql.go\<close> on the payments, their allocations to
  the charges and the intents of the payment provider, with the constraints of their tables
  (\<open>db/migrations/00018\<close>, \<open>00019\<close>, \<open>00021\<close> and \<open>00023\<close>).
\<close>

subsection \<open>Payments\<close>

definition canales :: "string set" where
  "canales = {''efectivo'', ''transferencia'', ''deposito'', ''tarjeta'', ''cajero'', ''mercadopago'', ''otros''}"

definition pago_check :: "payment \<Rightarrow> bool" where
  "pago_check p \<longleftrightarrow> p_canal p \<in> canales \<and>
     p_estado p \<in> {''pendiente_revision'', ''acreditado'', ''rechazado'', ''revertido''} \<and> 0 < p_importe p"

text \<open>The unique constraints, in the order in which PostgreSQL checks their indexes.\<close>

definition pago_clash :: "db \<Rightarrow> payment \<Rightarrow> string option" where
  "pago_clash s r =
     (if \<exists>x \<in> set (payments s). p_tenant x = p_tenant r \<and> p_id x = p_id r then Some ''payments_pkey''
      else if \<exists>x \<in> set (payments s). p_tenant x = p_tenant r \<and> p_idem_key x = p_idem_key r
      then Some ''payments_idem_key_key''
      else if p_referencia r \<noteq> None \<and>
         (\<exists>x \<in> set (payments s). p_tenant x = p_tenant r \<and> p_referencia x = p_referencia r)
      then Some ''payments_referencia_unique_idx'' else None)"

definition create_cobranza_q :: "env \<Rightarrow> uuid \<Rightarrow> fecha \<Rightarrow> string \<Rightarrow> int \<Rightarrow> string option \<Rightarrow> string
    \<Rightarrow> string \<Rightarrow> uuid \<Rightarrow> payment query" where
  "create_cobranza_q ev uid fecha canal importe referencia estado key actor =
     tx_bind (nuevo_uuid ev) (\<lambda>pid. tx_insert pago_check pago_clash
       (\<lambda>s r. unidad_existe ev (p_unidad r) s) payments_update
       \<lparr>p_tenant = tenant ev, p_unidad = uid, p_id = pid, p_fecha = fecha, p_canal = canal,
        p_importe = importe, p_referencia = referencia, p_estado = estado, p_idem_key = key,
        p_motivo = None, p_created_by = actor, p_created = ahora ev, p_psp_provider = None,
        p_psp_preference = None, p_psp_url = None\<rparr>)"

definition mi_pago :: "env \<Rightarrow> uuid \<Rightarrow> payment \<Rightarrow> bool" where
  "mi_pago ev pid p \<longleftrightarrow> p_tenant p = tenant ev \<and> p_id p = pid"

definition get_cobranza_q :: "env \<Rightarrow> uuid \<Rightarrow> payment query" where
  "get_cobranza_q ev pid = tx_row (\<lambda>s. List.find (mi_pago ev pid) (payments s))"

definition list_cobranzas_q :: "env \<Rightarrow> uuid \<Rightarrow> payment list query" where
  "list_cobranzas_q ev cid = tx_read (\<lambda>s. rev (sort_key p_created (sort_key p_id
     (filter (\<lambda>p. p_tenant p = tenant ev \<and> (\<exists>u \<in> set (unidades s). u_tenant u = tenant ev \<and>
        u_consorcio u = cid \<and> u_id u = p_unidad p)) (payments s)))))"

definition update_cobranza_estado :: "env \<Rightarrow> string \<Rightarrow> string option \<Rightarrow> uuid \<Rightarrow> unit query" where
  "update_cobranza_estado ev estado motivo pid = tx_exec (tx_update (mi_pago ev pid)
     (\<lambda>p. p\<lparr>p_estado := estado, p_motivo := motivo\<rparr>) pago_check payments payments_update)"

definition update_cobranza_mercado_pago ::
  "env \<Rightarrow> string \<Rightarrow> string \<Rightarrow> string \<Rightarrow> uuid \<Rightarrow> unit query" where
  "update_cobranza_mercado_pago ev provider preference url pid = tx_exec (tx_update (mi_pago ev pid)
     (\<lambda>p. p\<lparr>p_psp_provider := Some provider, p_psp_preference := Some preference,
             p_psp_url := Some url\<rparr>) pago_check payments payments_update)"

subsection \<open>Allocations\<close>

definition alloc_de :: "env \<Rightarrow> uuid \<Rightarrow> payment_allocation \<Rightarrow> bool" where
  "alloc_de ev pid a \<longleftrightarrow> a_tenant a = tenant ev \<and> a_payment a = pid"

definition insert_payment_allocation ::
  "env \<Rightarrow> uuid \<Rightarrow> uuid \<Rightarrow> int \<Rightarrow> uuid \<Rightarrow> payment_allocation query" where
  "insert_payment_allocation ev pid cid amount actor = tx_insert (\<lambda>a. 0 < a_amount a)
     (\<lambda>s r. if \<exists>x \<in> set (allocations s). a_tenant x = a_tenant r \<and> a_payment x = a_payment r \<and>
          a_charge x = a_charge r then Some ''payment_allocations_pkey'' else None)
     (\<lambda>s r. (\<exists>p \<in> set (payments s). mi_pago ev (a_payment r) p) \<and>
        (\<exists>c \<in> set (charges s). c_tenant c = tenant ev \<and> c_id c = a_charge r)) allocations_update
     \<lparr>a_tenant = tenant ev, a_payment = pid, a_charge = cid, a_amount = amount,
      a_created_by = actor, a_created = ahora ev\<rparr>"

definition list_allocs_by_payment :: "env \<Rightarrow> uuid \<Rightarrow> payment_allocation list query" where
  "list_allocs_by_payment ev pid = tx_read (\<lambda>s. sort_key a_created (sort_key a_charge
     (filter (alloc_de ev pid) (allocations s))))"

definition delete_allocs_by_payment :: "env \<Rightarrow> uuid \<Rightarrow> int query" where
  "delete_allocs_by_payment ev pid = tx_delete (alloc_de ev pid) allocations allocations_update"

definition list_open_charges_by_unidad :: "env \<Rightarrow> uuid \<Rightarrow> fecha \<Rightarrow> charge list query" where
  "list_open_charges_by_unidad ev uid corte = tx_read (\<lambda>s.
     sort_key c_due (sort_key c_created (sort_key c_id
       (filter (\<lambda>c. c_tenant c = tenant ev \<and> c_unidad c = uid \<and> 0 < c_saldo c \<and> c_due c \<le> corte)
          (charges s)))))"

definition list_charges_by_unidad :: "env \<Rightarrow> uuid \<Rightarrow> charge list query" where
  "list_charges_by_unidad ev uid = tx_read (\<lambda>s.
     sort_key c_due (sort_key c_created (sort_key c_id
       (filter (\<lambda>c. c_tenant c = tenant ev \<and> c_unidad c = uid) (charges s)))))"

subsection \<open>Intents of the payment provider\<close>

definition intent_check :: "psp_intent \<Rightarrow> bool" where
  "intent_check i \<longleftrightarrow> i_provider i \<in> {''mercadopago'', ''mock''} \<and>
     i_status i \<in> {''created'', ''approved'', ''rejected'', ''pending'', ''cancelled''}"

definition intent_clash :: "db \<Rightarrow> psp_intent \<Rightarrow> string option" where
  "intent_clash s r =
     (if \<exists>x \<in> set (psp_intents s). i_tenant x = i_tenant r \<and> i_id x = i_id r then Some ''psp_intents_pkey''
      else if \<exists>x \<in> set (psp_intents s). i_tenant x = i_tenant r \<and> i_preference x = i_preference r
      then Some ''psp_intents_preference_unique'' else None)"

text \<open>
  \<open>INSERT \<dots> ON CONFLICT (tenant_id, payment_id) DO UPDATE\<close>: the checks of the proposed row come
  first; an update must still respect the uniqueness of the preference.
\<close>

definition create_psp_intent :: "env \<Rightarrow> uuid \<Rightarrow> string \<Rightarrow> string \<Rightarrow> string \<Rightarrow> psp_intent query" where
  "create_psp_intent ev pid provider pref status =
     tx_bind (nuevo_uuid ev) (\<lambda>iid.
     let r = \<lparr>i_tenant = tenant ev, i_id = iid, i_payment = pid, i_provider = provider,
              i_preference = pref, i_status = status, i_created = ahora ev, i_updated = ahora ev\<rparr> in
     tx_bind (tx_guard (intent_check r) PgCheck) (\<lambda>_.
     tx_bind (tx_read (\<lambda>s. List.find (\<lambda>i. i_tenant i = tenant ev \<and> i_payment i = pid) (psp_intents s))) (\<lambda>old.
     case old of
       None \<Rightarrow> tx_insert intent_check intent_clash (\<lambda>s i. \<exists>p \<in> set (payments s). mi_pago ev (i_payment i) p)
                 psp_intents_update r
     | Some i \<Rightarrow>
         let f = (\<lambda>x. x\<lparr>i_provider := provider, i_preference := pref, i_status := status, i_updated := ahora ev\<rparr>) in
         tx_bind (tx_read (\<lambda>s. \<exists>x \<in> set (psp_intents s). i_tenant x = tenant ev \<and> i_preference x = pref \<and>
            i_payment x \<noteq> pid)) (\<lambda>clash.
         tx_bind (tx_guard (\<not> clash) (PgUnique ''psp_intents_preference_unique'')) (\<lambda>_.
         tx_bind (tx_update (\<lambda>x. i_tenant x = tenant ev \<and> i_payment x = pid) f intent_check
            psp_intents psp_intents_update) (\<lambda>_. tx_ret (f i)))))))"

definition get_psp_intent_by_preference :: "env \<Rightarrow> string \<Rightarrow> psp_intent query" where
  "get_psp_intent_by_preference ev pref =
     tx_row (\<lambda>s. List.find (\<lambda>i. i_tenant i = tenant ev \<and> i_preference i = pref) (psp_intents s))"

definition update_psp_intent_status :: "env \<Rightarrow> string \<Rightarrow> string \<Rightarrow> unit query" where
  "update_psp_intent_status ev status pref = tx_exec (tx_update
     (\<lambda>i. i_tenant i = tenant ev \<and> i_preference i = pref)
     (\<lambda>i. i\<lparr>i_status := status, i_updated := ahora ev\<rparr>) intent_check psp_intents psp_intents_update)"

subsection \<open>Tenant isolation\<close>

lemma ais_cob_reads:
  "tx_rel (aislado ev) (get_cobranza_q ev pid)" "tx_rel (aislado ev) (list_cobranzas_q ev cid)"
  "tx_rel (aislado ev) (list_allocs_by_payment ev pid)"
  "tx_rel (aislado ev) (list_open_charges_by_unidad ev uid f)"
  "tx_rel (aislado ev) (list_charges_by_unidad ev uid)"
  "tx_rel (aislado ev) (get_psp_intent_by_preference ev pref)"
  unfolding get_cobranza_q_def list_cobranzas_q_def list_allocs_by_payment_def
    list_open_charges_by_unidad_def list_charges_by_unidad_def get_psp_intent_by_preference_def
  by (intro ais.rules rel_row aislado_refl)+

lemma ais_cob_inserts:
  "tx_rel (aislado ev) (create_cobranza_q ev a b c d e f g h)"
  "tx_rel (aislado ev) (insert_payment_allocation ev pid cid n actor)"
  unfolding create_cobranza_q_def insert_payment_allocation_def
  by (intro ais.bind rel_uuid rel_insert; simp add: aislado_def ajenas_def)+

lemma ais_pagos:
  "(\<And>p. p_tenant (f p) = p_tenant p) \<Longrightarrow>
   tx_rel (aislado ev) (tx_update (mi_pago ev pid) f pago_check payments payments_update)"
  by (intro rel_update) (auto simp: aislado_def ajenas_def mi_pago_def intro!: filter_upd_where_outside)

lemma ais_intents:
  "(\<And>i. P i \<Longrightarrow> i_tenant i = tenant ev \<and> i_tenant (f i) = tenant ev) \<Longrightarrow>
   tx_rel (aislado ev) (tx_update P f intent_check psp_intents psp_intents_update)"
  by (intro rel_update) (auto simp: aislado_def ajenas_def intro!: filter_upd_where_outside)

lemma ais_cob_updates:
  "tx_rel (aislado ev) (update_cobranza_estado ev est mot pid)"
  "tx_rel (aislado ev) (update_cobranza_mercado_pago ev est url pre pid)"
  "tx_rel (aislado ev) (update_psp_intent_status ev est pre)"
  unfolding update_cobranza_estado_def update_cobranza_mercado_pago_def update_psp_intent_status_def
  by (intro rel_exec ais_pagos ais_intents; simp)+

lemma ais_delete_allocs: "tx_rel (aislado ev) (delete_allocs_by_payment ev pid)"
  unfolding delete_allocs_by_payment_def
  by (intro rel_delete) (auto simp: aislado_def ajenas_def alloc_de_def intro!: filter_del_where_outside)

lemma ais_create_intent: "tx_rel (aislado ev) (create_psp_intent ev pid prov pref st)"
proof -
  have o: "tx_rel (aislado ev) (case old of None \<Rightarrow> m | Some i \<Rightarrow> n i)"
    if "tx_rel (aislado ev) m" "\<And>i. tx_rel (aislado ev) (n i)" for m :: "psp_intent query" and n old
    using that by (cases old) simp_all
  show ?thesis
    unfolding create_psp_intent_def Let_def
    by (intro ais.rules rel_uuid rel_insert o ais_intents) (simp_all add: aislado_def ajenas_def)
qed

lemmas ais_cob = ais_cob_reads ais_cob_inserts ais_cob_updates ais_delete_allocs ais_create_intent

end
