(* ===== verification/Cobranzas.thy ===== *)
theory Cobranzas
  imports CobConsultas Idempotencia "HOL-Library.Product_Lexorder"
begin

text \<open>
  \<open>internal/cobranzas\<close>: the payments (\<open>cobranzas.go\<close>), their allocation to the charges of the
  unit (\<open>acreditacion.go\<close>) and the account of a unit (\<open>ledger.go\<close>). The handlers run in the
  transaction of their request.
\<close>

subsection \<open>Data\<close>

record money_input =
  mi_amount :: int
  mi_currency :: string

record cobranza_input =
  ci_unidad :: string
  ci_fecha :: string
  ci_canal :: "string option"
  ci_importe :: money_input
  ci_referencia :: "string option"

record validated_cobranza =
  vc_unidad :: uuid
  vc_fecha :: fecha
  vc_canal :: string
  vc_importe :: int
  vc_referencia :: "string option"
  vc_currency :: string

record asignacion_input =
  ai_charge :: string
  ai_amount :: int

record asignacion_dto =
  ad_charge :: string
  ad_amount :: int

record acreditacion_dto =
  ac_cobranza :: cobranza_dto
  ac_asignaciones :: "asignacion_dto list"
  ac_saldo :: int

subsection \<open>Validation\<close>

definition normalize_ref :: "string option \<Rightarrow> string option" where
  "normalize_ref r = (case r of None \<Rightarrow> None
     | Some s \<Rightarrow> let t = trim_space s in if t = '''' then None else Some t)"

definition o_sino :: "string \<Rightarrow> string \<Rightarrow> string" where
  "o_sino s d = (if s = '''' then d else s)"

definition validate_cobranza_input :: "env \<Rightarrow> cobranza_input \<Rightarrow> validated_cobranza query" where
  "validate_cobranza_input ev inp =
     tx_bind (tx_guard (trim_space (ci_unidad inp) \<noteq> '''') ErrCobranzaInvalid) (\<lambda>_.
     tx_bind (tx_some ErrCobranzaInvalid (parse_fecha (trim_space (ci_fecha inp)))) (\<lambda>t.
     tx_bind (tx_guard (0 < mi_amount (ci_importe inp)) ErrCobranzaInvalid) (\<lambda>_.
     let currency = o_sino (to_upper (trim_space (mi_currency (ci_importe inp)))) ''ARS'' in
     tx_bind (tx_guard (currency = ''ARS'') ErrCobranzaInvalid) (\<lambda>_.
     let canal = o_sino (case ci_canal inp of None \<Rightarrow> ''otros'' | Some c \<Rightarrow> to_lower (trim_space c)) ''otros'' in
     tx_bind (tx_guard (canal \<in> canales) ErrCobranzaInvalid) (\<lambda>_.
     tx_bind (tx_some ErrCobranzaInvalid (uuid_parse ev (trim_space (ci_unidad inp)))) (\<lambda>uid.
     tx_bind (tx_some ErrCobranzaInvalid (date_scan ev (format_fecha t))) (\<lambda>fecha.
     tx_ret \<lparr>vc_unidad = uid, vc_fecha = fecha, vc_canal = canal,
       vc_importe = mi_amount (ci_importe inp), vc_referencia = normalize_ref (ci_referencia inp),
       vc_currency = currency\<rparr>)))))))"

subsection \<open>Responses\<close>

definition saldo_a_favor :: "payment \<Rightarrow> payment_allocation list \<Rightarrow> int" where
  "saldo_a_favor p allocs =
     (if p_estado p \<noteq> ''acreditado'' then 0
      else let remaining = sub64 (p_importe p) (sum64_from a_amount 0 allocs)
           in if remaining < 0 then 0 else remaining)"

definition cobranza_dto_de :: "env \<Rightarrow> payment \<Rightarrow> payment_allocation list \<Rightarrow> cobranza_dto" where
  "cobranza_dto_de ev p allocs = \<lparr>cd_id = uuid_show ev (p_id p), cd_unidad = uuid_show ev (p_unidad p),
     cd_fecha = format_fecha (p_fecha p), cd_canal = p_canal p,
     cd_importe = \<lparr>md_amount = p_importe p, md_currency = ''ARS''\<rparr>, cd_referencia = p_referencia p,
     cd_estado = p_estado p, cd_saldo_a_favor = saldo_a_favor p allocs,
     cd_psp_provider = p_psp_provider p, cd_psp_preference = p_psp_preference p,
     cd_psp_url = p_psp_url p, cd_created = p_created p\<rparr>"

definition allocation_dtos :: "env \<Rightarrow> payment_allocation list \<Rightarrow> asignacion_dto list" where
  "allocation_dtos ev allocs =
     map (\<lambda>a. \<lparr>ad_charge = uuid_show ev (a_charge a), ad_amount = a_amount a\<rparr>) allocs"

definition acreditacion_dto_de :: "env \<Rightarrow> payment \<Rightarrow> payment_allocation list \<Rightarrow> int \<Rightarrow> acreditacion_dto" where
  "acreditacion_dto_de ev p allocs saldo = \<lparr>ac_cobranza = cobranza_dto_de ev p allocs,
     ac_asignaciones = allocation_dtos ev allocs, ac_saldo = saldo\<rparr>"

definition list_cobranzas :: "env \<Rightarrow> string \<Rightarrow> cobranza_dto list query" where
  "list_cobranzas ev consorcio =
     tx_bind (tx_some ErrCobranzaInvalid (uuid_parse ev consorcio)) (\<lambda>cid.
     tx_bind (list_cobranzas_q ev cid) (\<lambda>rows.
     tx_map (\<lambda>row. tx_bind (list_allocs_by_payment ev (p_id row)) (\<lambda>allocs.
        tx_ret (cobranza_dto_de ev row allocs))) rows))"

definition get_cobranza_detalle :: "env \<Rightarrow> string \<Rightarrow> acreditacion_dto query" where
  "get_cobranza_detalle ev payment =
     tx_bind (tx_some ErrCobranzaInvalid (uuid_parse ev (trim_space payment))) (\<lambda>pid.
     tx_bind (tx_catch (no_rows_as ErrCobranzaNotFound) (get_cobranza_q ev pid)) (\<lambda>row.
     tx_bind (list_allocs_by_payment ev pid) (\<lambda>allocs.
     tx_ret (acreditacion_dto_de ev row allocs (saldo_a_favor row allocs)))))"

subsection \<open>Creation\<close>

definition request_hash :: "env \<Rightarrow> string \<Rightarrow> string \<Rightarrow> validated_cobranza \<Rightarrow> string" where
  "request_hash ev consorcio key v = sha_hex ev (unir ''|'' [trim_space consorcio, key,
     uuid_show ev (vc_unidad v), format_fecha (vc_fecha v), vc_canal v, show_int (vc_importe v),
     vc_currency v, (case vc_referencia v of None \<Rightarrow> '''' | Some r \<Rightarrow> r)])"

definition cobranza_cero :: cobranza_dto where
  "cobranza_cero = \<lparr>cd_id = '''', cd_unidad = '''', cd_fecha = '''', cd_canal = '''',
     cd_importe = \<lparr>md_amount = 0, md_currency = ''''\<rparr>, cd_referencia = None, cd_estado = '''',
     cd_saldo_a_favor = 0, cd_psp_provider = None, cd_psp_preference = None, cd_psp_url = None,
     cd_created = 0\<rparr>"

text \<open>
  \<open>json.Unmarshal\<close> into a \<open>CobranzaDTO\<close>; the scope keeps the responses of the settlements apart,
  so the last case is not reached.
\<close>

fun leer_cobranza :: "respuesta \<Rightarrow> cobranza_dto option" where
  "leer_cobranza RVacia = Some cobranza_cero"
| "leer_cobranza (RCobranza d) = Some d"
| "leer_cobranza _ = None"

definition stamp_cobranza :: "env \<Rightarrow> string \<Rightarrow> string \<Rightarrow> validated_cobranza \<Rightarrow> cobranza_dto option query" where
  "stamp_cobranza ev consorcio key v =
     stamp_clave ev leer_cobranza ''cobranzas.create'' (request_hash ev consorcio key v) key"

definition save_cobranza :: "env \<Rightarrow> string \<Rightarrow> cobranza_dto \<Rightarrow> unit query" where
  "save_cobranza ev key dto = update_idempotency_key ev (RCobranza dto) ''cobranzas.create'' key"

definition map_cobranza_error :: "err \<Rightarrow> err" where
  "map_cobranza_error e =
     (if e = PgUnique ''payments_referencia_unique_idx'' then ErrCobranzaDuplicateReferencia
      else if e = PgUnique ''payments_idem_key_key'' then ErrIdempotencyConflict else e)"

definition create_cobranza ::
  "env \<Rightarrow> string \<Rightarrow> string \<Rightarrow> cobranza_input \<Rightarrow> string \<Rightarrow> cobranza_dto query" where
  "create_cobranza ev consorcio created_by inp key =
     tx_bind (validate_cobranza_input ev inp) (\<lambda>v.
     tx_bind (tx_some ErrCobranzaInvalid (uuid_parse ev (trim_space consorcio))) (\<lambda>cid.
     tx_bind (tx_some ErrCobranzaInvalid (uuid_parse ev (trim_space created_by))) (\<lambda>actor.
     tx_bind (tx_catch (no_rows_as ErrCobranzaNotFound) (get_unidad ev cid (vc_unidad v))) (\<lambda>_.
     tx_bind (if key \<noteq> '''' then stamp_cobranza ev consorcio key v else tx_ret None) (\<lambda>hit.
     case hit of Some cached \<Rightarrow> tx_ret cached
     | None \<Rightarrow>
       tx_bind (tx_catch map_cobranza_error (create_cobranza_q ev (vc_unidad v) (vc_fecha v)
          (vc_canal v) (vc_importe v) (vc_referencia v) ''pendiente_revision'' key actor)) (\<lambda>row.
       let dto = cobranza_dto_de ev row [] in
       tx_bind (if key \<noteq> '''' then save_cobranza ev key dto else tx_ret ()) (\<lambda>_.
       tx_ret dto)))))))"

subsection \<open>Allocation\<close>

text \<open>The loop of \<open>buildFIFOAllocations\<close>: the allocations made and what remains of the payment.\<close>

fun fifo :: "env \<Rightarrow> uuid \<Rightarrow> uuid \<Rightarrow> charge list \<Rightarrow> int \<Rightarrow> (payment_allocation list \<times> int) query" where
  "fifo ev pid actor [] remaining = tx_ret ([], remaining)"
| "fifo ev pid actor (c # cs) remaining =
     (if remaining \<le> 0 then tx_ret ([], remaining)
      else let amount = (if remaining < c_saldo c then remaining else c_saldo c) in
        if amount \<le> 0 then fifo ev pid actor cs remaining
        else tx_bind (insert_payment_allocation ev pid (c_id c) amount actor) (\<lambda>a.
             tx_bind (fifo ev pid actor cs (sub64 remaining amount)) (\<lambda>r.
             tx_ret (a # fst r, snd r))))"

definition build_fifo :: "env \<Rightarrow> payment \<Rightarrow> uuid \<Rightarrow> (payment_allocation list \<times> int) query" where
  "build_fifo ev p actor =
     tx_bind (list_open_charges_by_unidad ev (p_unidad p) (p_fecha p)) (\<lambda>cs.
     fifo ev (p_id p) actor cs (p_importe p))"

definition build_explicit ::
  "env \<Rightarrow> payment \<Rightarrow> asignacion_input list \<Rightarrow> uuid \<Rightarrow> (payment_allocation list \<times> int) query" where
  "build_explicit ev p explicit actor =
     (if explicit = [] then tx_ret ([], p_importe p)
      else tx_bind (tx_map (\<lambda>a.
          tx_bind (tx_some ErrCobranzaInvalid (uuid_parse ev (trim_space (ai_charge a)))) (\<lambda>cid.
          tx_bind (tx_guard (0 < ai_amount a) ErrCobranzaInvalid) (\<lambda>_.
          insert_payment_allocation ev (p_id p) cid (ai_amount a) actor))) explicit) (\<lambda>allocs.
        let tot = sum64_from ai_amount 0 explicit in
        tx_bind (tx_guard (\<not> p_importe p < tot) ErrCobranzaInvalid) (\<lambda>_.
        tx_ret (allocs, sub64 (p_importe p) tot))))"

definition build_allocations ::
  "env \<Rightarrow> payment \<Rightarrow> asignacion_input list \<Rightarrow> uuid \<Rightarrow> (payment_allocation list \<times> int) query" where
  "build_allocations ev p explicit actor =
     (if explicit \<noteq> [] then build_explicit ev p explicit actor else build_fifo ev p actor)"

definition acreditar_cobranza ::
  "env \<Rightarrow> string \<Rightarrow> string \<Rightarrow> asignacion_input list \<Rightarrow> acreditacion_dto query" where
  "acreditar_cobranza ev payment created_by asignaciones =
     tx_bind (tx_some ErrCobranzaInvalid (uuid_parse ev (trim_space payment))) (\<lambda>pid.
     tx_bind (tx_some ErrCobranzaInvalid (uuid_parse ev (trim_space created_by))) (\<lambda>actor.
     tx_bind (tx_catch (no_rows_as ErrCobranzaNotFound) (get_cobranza_q ev pid)) (\<lambda>p.
     if p_estado p = ''acreditado'' then
       tx_bind (list_allocs_by_payment ev pid) (\<lambda>allocs.
       tx_ret (acreditacion_dto_de ev p allocs (saldo_a_favor p allocs)))
     else
       tx_bind (build_allocations ev p asignaciones actor) (\<lambda>r.
       tx_bind (update_cobranza_estado ev ''acreditado'' None pid) (\<lambda>_.
       tx_bind (get_cobranza_q ev pid) (\<lambda>upd.
       tx_ret (acreditacion_dto_de ev upd (fst r) (snd r))))))))"

definition revertir_cobranza :: "env \<Rightarrow> string \<Rightarrow> string \<Rightarrow> acreditacion_dto query" where
  "revertir_cobranza ev payment created_by =
     tx_bind (tx_some ErrCobranzaInvalid (uuid_parse ev (trim_space payment))) (\<lambda>pid.
     tx_bind (tx_some ErrCobranzaInvalid (uuid_parse ev (trim_space created_by))) (\<lambda>_.
     tx_bind (tx_catch (no_rows_as ErrCobranzaNotFound) (get_cobranza_q ev pid)) (\<lambda>_.
     tx_bind (list_allocs_by_payment ev pid) (\<lambda>allocs.
     tx_bind (delete_allocs_by_payment ev pid) (\<lambda>_.
     tx_bind (update_cobranza_estado ev ''revertido'' None pid) (\<lambda>_.
     tx_bind (get_cobranza_q ev pid) (\<lambda>upd.
     tx_ret \<lparr>ac_cobranza = cobranza_dto_de ev upd [], ac_asignaciones = allocation_dtos ev allocs,
       ac_saldo = 0\<rparr>)))))))"

definition ajustar_asignaciones ::
  "env \<Rightarrow> string \<Rightarrow> string \<Rightarrow> asignacion_input list \<Rightarrow> acreditacion_dto query" where
  "ajustar_asignaciones ev payment created_by asignaciones =
     tx_bind (tx_some ErrCobranzaInvalid (uuid_parse ev (trim_space payment))) (\<lambda>pid.
     tx_bind (tx_some ErrCobranzaInvalid (uuid_parse ev (trim_space created_by))) (\<lambda>actor.
     tx_bind (tx_catch (no_rows_as ErrCobranzaNotFound) (get_cobranza_q ev pid)) (\<lambda>p.
     tx_bind (delete_allocs_by_payment ev pid) (\<lambda>_.
     tx_bind (build_explicit ev p asignaciones actor) (\<lambda>r.
     tx_bind (if p_estado p \<noteq> ''acreditado''
        then tx_bind (update_cobranza_estado ev ''acreditado'' None pid)
               (\<lambda>_. tx_ret (p\<lparr>p_estado := ''acreditado''\<rparr>))
        else tx_ret p) (\<lambda>q.
     tx_ret (acreditacion_dto_de ev q (fst r) (snd r))))))))"

subsection \<open>The account of a unit\<close>

record movimiento =
  mv_id :: string
  mv_unidad :: string
  mv_tipo :: string
  mv_fecha :: string
  mv_debit :: int
  mv_credit :: int
  mv_currency :: string
  mv_referencia :: "string option"
  mv_created :: ts

record cuenta_corriente =
  cu_data :: "movimiento list"
  cu_saldo :: int

definition mov_cargo :: "env \<Rightarrow> charge \<Rightarrow> movimiento" where
  "mov_cargo ev c = \<lparr>mv_id = uuid_show ev (c_id c), mv_unidad = uuid_show ev (c_unidad c),
     mv_tipo = ''cargo'', mv_fecha = format_fecha (c_due c), mv_debit = c_total c, mv_credit = 0,
     mv_currency = ''ARS'', mv_referencia = Some (c_concepto c), mv_created = c_created c\<rparr>"

definition mov_cobranza :: "env \<Rightarrow> payment \<Rightarrow> movimiento" where
  "mov_cobranza ev p = \<lparr>mv_id = uuid_show ev (p_id p), mv_unidad = uuid_show ev (p_unidad p),
     mv_tipo = ''cobranza'', mv_fecha = format_fecha (p_fecha p), mv_debit = 0,
     mv_credit = p_importe p, mv_currency = ''ARS'',
     mv_referencia = Some (case p_referencia p of None \<Rightarrow> p_canal p | Some r \<Rightarrow> r),
     mv_created = p_created p\<rparr>"

definition get_cuenta_corriente :: "env \<Rightarrow> string \<Rightarrow> string \<Rightarrow> cuenta_corriente query" where
  "get_cuenta_corriente ev consorcio unidad =
     tx_bind (tx_some ErrCobranzaInvalid (uuid_parse ev (trim_space consorcio))) (\<lambda>cid.
     tx_bind (tx_some ErrCobranzaInvalid (uuid_parse ev (trim_space unidad))) (\<lambda>uid.
     tx_bind (list_charges_by_unidad ev uid) (\<lambda>cs.
     tx_bind (list_cobranzas_q ev cid) (\<lambda>ps.
     let ms = sort_key (\<lambda>m. (mv_fecha m, mv_created m, mv_id m))
       (map (mov_cargo ev) cs @ map (mov_cobranza ev)
         (filter (\<lambda>p. uuid_show ev (p_unidad p) = uuid_show ev uid \<and> p_estado p = ''acreditado'') ps))
     in tx_ret \<lparr>cu_data = map (\<lambda>m. m\<lparr>mv_created := 0\<rparr>) ms,
          cu_saldo = sum64_from (\<lambda>m. sub64 (mv_debit m) (mv_credit m)) 0 ms\<rparr>))))"

subsection \<open>Tenant isolation\<close>

lemma ais_validate: "tx_rel (aislado ev) (validate_cobranza_input ev inp)"
  unfolding validate_cobranza_input_def Let_def by (intro ais.rules)

lemma ais_fifo: "tx_rel (aislado ev) (fifo ev pid actor cs n)"
  by (induction ev pid actor cs n rule: fifo.induct) (auto simp: Let_def intro!: ais.rules ais_cob)

lemma ais_build: "tx_rel (aislado ev) (build_allocations ev p xs actor)"
  "tx_rel (aislado ev) (build_explicit ev p xs actor)"
  unfolding build_allocations_def build_explicit_def build_fifo_def Let_def
  by (intro ais.rules ais_cob ais_fifo)+

lemma ais_cobranza_case: "(\<And>d. tx_rel (aislado ev) (f d)) \<Longrightarrow> tx_rel (aislado ev) m \<Longrightarrow>
    tx_rel (aislado ev) (case hit of Some d \<Rightarrow> f d | None \<Rightarrow> m)"
  by (cases hit) simp_all

lemmas ais_cob_ops = ais_cob ais_validate ais_build ais_stamp ais_update_key ais_cobranza_case ais_reads

lemma cobranzas_aisladas_ops:
  "tx_rel (aislado ev) (create_cobranza ev co by inp key)"
  "tx_rel (aislado ev) (acreditar_cobranza ev pay by xs)"
  "tx_rel (aislado ev) (revertir_cobranza ev pay by)"
  "tx_rel (aislado ev) (ajustar_asignaciones ev pay by xs)"
  "tx_rel (aislado ev) (get_cuenta_corriente ev co un)"
  unfolding create_cobranza_def acreditar_cobranza_def revertir_cobranza_def
    ajustar_asignaciones_def get_cuenta_corriente_def stamp_cobranza_def save_cobranza_def Let_def
  by (intro ais.rules ais_cob_ops)+

end
