(* ===== verification/CobInvariante.thy ===== *)
theory CobInvariante
  imports Cobranzas
begin

text \<open>
  The invariant of the payments and their allocations, its preservation by the operations of
  \<open>Cobranzas\<close>, and what the allocation in order of age does.
\<close>

subsection \<open>The invariant\<close>

definition pagos_de :: "env \<Rightarrow> db \<Rightarrow> payment list" where
  "pagos_de ev s = filter (\<lambda>p. p_tenant p = tenant ev) (payments s)"

definition asig :: "env \<Rightarrow> payment_allocation list \<Rightarrow> uuid \<Rightarrow> payment_allocation list" where
  "asig ev as pid = filter (alloc_de ev pid) as"

text \<open>
  A payment allocates at most its amount, at most once to a charge, and nothing unless it is
  credited.
\<close>

definition pago_ok :: "env \<Rightarrow> payment_allocation list \<Rightarrow> payment \<Rightarrow> bool" where
  "pago_ok ev as p \<longleftrightarrow> pago_check p \<and> is_i64 (p_importe p) \<and> distinct (map a_charge (asig ev as (p_id p))) \<and>
     (\<forall>a \<in> set (asig ev as (p_id p)). 0 < a_amount a) \<and>
     sum_by a_amount (asig ev as (p_id p)) \<le> p_importe p \<and>
     (asig ev as (p_id p) \<noteq> [] \<longrightarrow> p_estado p = ''acreditado'')"

definition cob_ok :: "env \<Rightarrow> db \<Rightarrow> bool" where
  "cob_ok ev s \<longleftrightarrow> distinct (map p_id (pagos_de ev s)) \<and> distinct (map p_idem_key (pagos_de ev s)) \<and>
     distinct (map p_referencia (filter (\<lambda>p. p_referencia p \<noteq> None) (pagos_de ev s))) \<and>
     (\<forall>p \<in> set (pagos_de ev s). pago_ok ev (allocations s) p) \<and>
     (\<forall>a \<in> set (allocations s). a_tenant a = tenant ev \<longrightarrow> (\<exists>p \<in> set (pagos_de ev s). p_id p = a_payment a))"

lemma asig_append: "asig ev (as @ bs) k = asig ev as k @ asig ev bs k"
  by (simp add: asig_def)

lemma asig_all: "\<forall>a \<in> set as. alloc_de ev pid a \<Longrightarrow> asig ev as k = (if k = pid then as else [])"
  by (auto simp: asig_def alloc_de_def filter_empty_conv)

lemma asig_del: "asig ev (del_where (alloc_de ev pid) as) k = (if k = pid then [] else asig ev as k)"
  by (auto simp: asig_def del_where_def alloc_de_def filter_empty_conv intro!: filter_cong)

lemma pagos_unico:
  assumes "cob_ok ev s" and "p \<in> set (pagos_de ev s)" and "q \<in> set (pagos_de ev s)" and "p_id p = p_id q"
  shows "p = q"
  using assms by (auto simp: cob_ok_def distinct_map inj_on_def)

lemma get_cobranza_Inr:
  assumes "get_cobranza_q ev pid s = Inr (p, t)"
  shows "t = s" "p \<in> set (pagos_de ev s)" "p_id p = pid"
  using assms by (auto simp: get_cobranza_q_def pagos_de_def mi_pago_def dest!: find_SomeD)

lemma get_cobranza_ok:
  assumes "cob_ok ev s" and "p \<in> set (pagos_de ev s)"
  shows "get_cobranza_q ev (p_id p) s = Inr (p, s)"
proof -
  obtain q where q: "List.find (mi_pago ev (p_id p)) (payments s) = Some q"
    using assms(2) find_None_iff_all[of "mi_pago ev (p_id p)" "payments s"]
    by (auto simp: pagos_de_def mi_pago_def)
  then have "q \<in> set (pagos_de ev s)" "p_id q = p_id p"
    using find_SomeD[OF q] by (auto simp: pagos_de_def mi_pago_def)
  then have "q = p" using pagos_unico[OF assms(1) _ assms(2)] by simp
  then show ?thesis using q by (simp add: get_cobranza_q_def tx_row_def)
qed

text \<open>An operation on one payment and its allocations.\<close>

lemma cob_ok_upd:
  assumes ok: "cob_ok ev s" and p: "p \<in> set (pagos_de ev s)"
    and t: "payments t = upd_where (mi_pago ev (p_id p)) f (payments s)"
    and f: "\<And>q. p_tenant (f q) = p_tenant q \<and> p_id (f q) = p_id q \<and> p_idem_key (f q) = p_idem_key q \<and>
      p_referencia (f q) = p_referencia q"
    and a: "\<And>k. k \<noteq> p_id p \<Longrightarrow> asig ev (allocations t) k = asig ev (allocations s) k"
    and n: "pago_ok ev (allocations t) (f p)"
    and r: "\<And>x. x \<in> set (allocations t) \<Longrightarrow> a_tenant x = tenant ev \<Longrightarrow>
      x \<in> set (allocations s) \<or> a_payment x = p_id p"
  shows "cob_ok ev t"
proof -
  have pt: "pagos_de ev t = upd_where (mi_pago ev (p_id p)) f (pagos_de ev s)"
    unfolding pagos_de_def t by (rule filter_upd_where) (simp add: f)
  have m: "map g (pagos_de ev t) = map g (pagos_de ev s)" if "\<And>q. g (f q) = g q" for g :: "payment \<Rightarrow> 'z"
    unfolding pt by (rule map_upd_where_same) (simp add: that)
  have rf: "map p_referencia (filter (\<lambda>p. p_referencia p \<noteq> None) (pagos_de ev t)) =
      map p_referencia (filter (\<lambda>p. p_referencia p \<noteq> None) (pagos_de ev s))"
    using arg_cong[OF m[of p_referencia], of "filter (\<lambda>r. r \<noteq> None)"] f by (simp add: filter_map comp_def)
  have "pago_ok ev (allocations t) q" if q: "q \<in> set (pagos_de ev t)" for q
  proof -
    obtain x where x: "x \<in> set (pagos_de ev s)" "q = (if mi_pago ev (p_id p) x then f x else x)"
      using q unfolding pt set_upd_where by blast
    show ?thesis
    proof (cases "p_id x = p_id p")
      case True
      then have "x = p" using pagos_unico[OF ok x(1) p] by simp
      moreover have "mi_pago ev (p_id p) p" using p by (simp add: pagos_de_def mi_pago_def)
      ultimately show ?thesis using x(2) n by simp
    next
      case False
      then have "q = x" using x(2) by (simp add: mi_pago_def)
      then show ?thesis using ok x(1) a[OF False] by (simp add: cob_ok_def pago_ok_def)
    qed
  qed
  moreover have "\<exists>q \<in> set (pagos_de ev t). p_id q = a_payment x"
    if x: "x \<in> set (allocations t)" "a_tenant x = tenant ev" for x
  proof -
    have "a_payment x \<in> set (map p_id (pagos_de ev s))"
    proof (cases "x \<in> set (allocations s)")
      case True
      then obtain q where "q \<in> set (pagos_de ev s)" "p_id q = a_payment x"
        using ok x(2) unfolding cob_ok_def by blast
      then show ?thesis by (metis image_eqI list.set_map)
    next
      case False
      then have "a_payment x = p_id p" using r[OF x] by simp
      then show ?thesis using p by simp
    qed
    then show ?thesis using m[of p_id] f by (metis (no_types, lifting) imageE list.set_map)
  qed
  ultimately show ?thesis
    using ok m[of p_id] m[of p_idem_key] f rf by (simp add: cob_ok_def)
qed

subsection \<open>Runs of the allocation\<close>

text \<open>What a run of insertions for one payment does to the state.\<close>

definition asignadas :: "env \<Rightarrow> uuid \<Rightarrow> payment_allocation list \<Rightarrow> db \<Rightarrow> db \<Rightarrow> bool" where
  "asignadas ev pid as s t \<longleftrightarrow> t = s\<lparr>allocations := allocations s @ as\<rparr> \<and>
     (\<forall>a \<in> set as. alloc_de ev pid a \<and> 0 < a_amount a) \<and>
     (distinct (map a_charge (asig ev (allocations s) pid)) \<longrightarrow>
      distinct (map a_charge (asig ev (allocations t) pid)))"

lemma asignadas_Nil [simp]: "asignadas ev pid [] s t \<longleftrightarrow> t = s"
  by (auto simp: asignadas_def)

lemma asignadas_Cons:
  assumes "insert_payment_allocation ev pid cid n actor s = Inr (a, s')" and "asignadas ev pid as s' t"
  shows "asignadas ev pid (a # as) s t \<and> a_amount a = n \<and> a_charge a = cid"
proof -
  have a: "s' = s\<lparr>allocations := allocations s @ [a]\<rparr>" "alloc_de ev pid a" "0 < a_amount a"
    "a_amount a = n" "a_charge a = cid"
    "\<forall>x \<in> set (allocations s). alloc_de ev pid x \<longrightarrow> a_charge x \<noteq> cid"
    using assms(1) by (auto simp: insert_payment_allocation_def alloc_de_def split: if_splits)
  then have "distinct (map a_charge (asig ev (allocations s) pid)) \<Longrightarrow>
      distinct (map a_charge (asig ev (allocations s') pid))"
    by (auto simp: asig_def)
  moreover have "t = s\<lparr>allocations := allocations s @ a # as\<rparr>"
    using a(1) assms(2) by (simp add: asignadas_def)
  ultimately show ?thesis using a(2-5) assms(2) unfolding asignadas_def
    by (metis (mono_tags, lifting) set_ConsD)
qed

lemma explicit_asignadas:
  assumes "tx_map (\<lambda>a. tx_bind (tx_some e (uuid_parse ev (trim_space (ai_charge a)))) (\<lambda>cid.
      tx_bind (tx_guard (0 < ai_amount a) e) (\<lambda>_.
      insert_payment_allocation ev pid cid (ai_amount a) actor))) xs s = Inr (as, t)"
  shows "asignadas ev pid as s t \<and> map a_amount as = map ai_amount xs"
  using assms
proof (induction xs arbitrary: s as)
  case (Cons x xs)
  then obtain cid a s' as' where 1: "insert_payment_allocation ev pid cid (ai_amount x) actor s = Inr (a, s')"
    and 2: "tx_map (\<lambda>a. tx_bind (tx_some e (uuid_parse ev (trim_space (ai_charge a)))) (\<lambda>cid.
      tx_bind (tx_guard (0 < ai_amount a) e) (\<lambda>_.
      insert_payment_allocation ev pid cid (ai_amount a) actor))) xs s' = Inr (as', t)"
    and as: "as = a # as'"
    by (auto simp: tx_inv)
  show ?case using Cons.IH[OF 2] asignadas_Cons[OF 1] by (auto simp: as)
qed simp

text \<open>The explicit allocation, whose sum the code takes in \<open>int64\<close>.\<close>

lemma build_explicit_Inr:
  assumes "build_explicit ev p xs actor s = Inr (r, t)"
  shows "asignadas ev (p_id p) (fst r) s t \<and> map a_amount (fst r) = map ai_amount xs \<and>
    (xs \<noteq> [] \<longrightarrow> i64 (sum_by ai_amount xs) \<le> p_importe p) \<and>
    snd r = (if xs = [] then p_importe p else sub64 (p_importe p) (i64 (sum_by ai_amount xs)))"
proof (cases "xs = []")
  case False
  then obtain as where m: "tx_map (\<lambda>a. tx_bind (tx_some ErrCobranzaInvalid (uuid_parse ev (trim_space (ai_charge a)))) (\<lambda>cid.
      tx_bind (tx_guard (0 < ai_amount a) ErrCobranzaInvalid) (\<lambda>_.
      insert_payment_allocation ev (p_id p) cid (ai_amount a) actor))) xs s = Inr (as, t)" and
    r: "\<not> p_importe p < sum64_from ai_amount 0 xs" "r = (as, sub64 (p_importe p) (sum64_from ai_amount 0 xs))"
    using assms unfolding build_explicit_def by (auto simp: tx_bind_Inr Let_def)
  show ?thesis using explicit_asignadas[OF m] r False by (simp add: sum64_from_eq)
qed (use assms in \<open>auto simp: build_explicit_def\<close>)

text \<open>
  The allocation in order of age: for every \<open>k\<close>, the first \<open>k\<close> allocations cover the first \<open>k\<close>
  charges as far as the payment goes.
\<close>

lemma fifo_Inr:
  assumes "fifo ev pid actor cs n s = Inr (r, t)" and "0 \<le> n" and "is_i64 n"
    and "\<forall>c \<in> set cs. 0 < c_saldo c"
  shows "asignadas ev pid (fst r) s t \<and>
    (\<forall>k. sum_by a_amount (take k (fst r)) = min n (sum_by c_saldo (take k cs))) \<and>
    map a_charge (fst r) = map c_id (take (length (fst r)) cs) \<and>
    snd r = n - sum_by a_amount (fst r)"
  using assms
proof (induction cs arbitrary: n s r)
  case (Cons c cs)
  have nn: "0 \<le> sum_by c_saldo (take k cs)" for k
    using Cons.prems(4) by (intro sum_by_nonneg) (auto dest!: in_set_takeD)
  show ?case
  proof (cases "n \<le> 0")
    case True
    then have "r = ([], n)" "t = s" "n = 0" using Cons.prems(1,2) by simp_all
    moreover have "0 \<le> sum_by c_saldo (take k (c # cs))" for k
      using Cons.prems(4) by (intro sum_by_nonneg) (meson in_set_takeD less_imp_le)
    ultimately show ?thesis by (simp add: min_def)
  next
    case False
    define m where "m = (if n < c_saldo c then n else c_saldo c)"
    have m: "0 < m" "m = min n (c_saldo c)" using False Cons.prems(4) by (auto simp: m_def)
    have sub: "sub64 n m = n - m" using m Cons.prems(3) False by (intro sub64_id) (auto simp: is_i64_def)
    obtain a s' r' where 1: "insert_payment_allocation ev pid (c_id c) m actor s = Inr (a, s')"
      and 2: "fifo ev pid actor cs (n - m) s' = Inr (r', t)" and r: "r = (a # fst r', snd r')"
      using Cons.prems(1) False m(1) by (auto simp: tx_inv m_def[symmetric] Let_def sub)
    have "is_i64 (n - m)" using m Cons.prems(3) by (auto simp: is_i64_def)
    note IH = Cons.IH[OF 2 _ this]
    have ih: "asignadas ev pid (fst r') s' t"
      "\<And>k. sum_by a_amount (take k (fst r')) = min (n - m) (sum_by c_saldo (take k cs))"
      "map a_charge (fst r') = map c_id (take (length (fst r')) cs)"
      "snd r' = n - m - sum_by a_amount (fst r')"
      using IH m Cons.prems(4) by auto
    note a = asignadas_Cons[OF 1 ih(1)]
    have "sum_by a_amount (take k (fst r)) = min n (sum_by c_saldo (take k (c # cs)))" for k
    proof (cases k)
      case (Suc j)
      have "sum_by a_amount (take j (fst r')) = min (n - m) (sum_by c_saldo (take j cs))" by (rule ih(2))
      then show ?thesis using a m nn[of j] by (simp add: Suc r)
    qed (use Cons.prems(2) in simp)
    then show ?thesis using a ih(3,4) by (auto simp: r)
  qed
qed simp

subsection \<open>The operations keep the invariant\<close>

lemma del_state: "allocations_update (del_where P) s = s\<lparr>allocations := del_where P (allocations s)\<rparr>"
  by (cases s) simp

lemma solo_pagos:
  assumes "solo_claves s t"
  shows "payments t = payments s" "allocations t = allocations s" "charges t = charges s"
    "psp_intents t = psp_intents s" "unidades t = unidades s" "entries t = entries s"
proof -
  have *: "f (t\<lparr>idem_keys := [], seq := 0\<rparr>) = f (s\<lparr>idem_keys := [], seq := 0\<rparr>)" for f :: "db \<Rightarrow> 'z"
    using assms by (simp add: solo_claves_def)
  show "payments t = payments s" using *[of payments] by simp
  show "allocations t = allocations s" using *[of allocations] by simp
  show "charges t = charges s" using *[of charges] by simp
  show "psp_intents t = psp_intents s" using *[of psp_intents] by simp
  show "unidades t = unidades s" using *[of unidades] by simp
  show "entries t = entries s" using *[of entries] by simp
qed

lemma cob_ok_cong: "payments t = payments s \<Longrightarrow> allocations t = allocations s \<Longrightarrow>
    cob_ok ev t = cob_ok ev s"
  by (simp add: cob_ok_def pagos_de_def)

lemma cob_ok_solo: "solo_claves s t \<Longrightarrow> cob_ok ev t = cob_ok ev s"
  by (rule cob_ok_cong) (rule solo_pagos; assumption)+

lemma validate_cobranza_Inr:
  "validate_cobranza_input ev inp s = Inr (v, t) \<Longrightarrow> t = s \<and> 0 < vc_importe v \<and>
   vc_importe v = mi_amount (ci_importe inp) \<and> vc_canal v \<in> canales"
  by (auto simp: validate_cobranza_input_def Let_def tx_inv)

lemma create_cobranza_Inr:
  assumes "create_cobranza ev co by inp key s = Inr (d, t)"
  obtains (repetida) "solo_claves s t" "key \<noteq> ''''"
  | (nueva) v actor row s1 s2 where "validate_cobranza_input ev inp s = Inr (v, s)" "solo_claves s s1"
      "create_cobranza_q ev (vc_unidad v) (vc_fecha v) (vc_canal v) (vc_importe v) (vc_referencia v)
         ''pendiente_revision'' key actor s1 = Inr (row, s2)" "solo_claves s2 t"
      "d = cobranza_dto_de ev row []"
      "key \<noteq> '''' \<longrightarrow> stamp_cobranza ev co key v s = Inr (None, s1) \<and> save_cobranza ev key d s2 = Inr ((), t)"
proof -
  obtain v s0 actor hit s1 where
    v0: "validate_cobranza_input ev inp s = Inr (v, s0)" and
    st0: "(if key \<noteq> '''' then stamp_cobranza ev co key v else tx_ret None) s0 = Inr (hit, s1)" and
    rest: "(case hit of Some cached \<Rightarrow> tx_ret cached | None \<Rightarrow>
       tx_bind (tx_catch map_cobranza_error (create_cobranza_q ev (vc_unidad v) (vc_fecha v)
          (vc_canal v) (vc_importe v) (vc_referencia v) ''pendiente_revision'' key actor)) (\<lambda>row.
       tx_bind (if key \<noteq> '''' then save_cobranza ev key (cobranza_dto_de ev row []) else tx_ret ()) (\<lambda>_.
       tx_ret (cobranza_dto_de ev row [])))) s1 = Inr (d, t)"
    using assms unfolding create_cobranza_def Let_def get_unidad_def
    by (fastforce simp: tx_bind_Inr)
  note v = v0[unfolded validate_cobranza_Inr[OF v0, THEN conjunct1]]
  note st = st0[unfolded validate_cobranza_Inr[OF v0, THEN conjunct1]]
  have so: "solo_claves s s1"
    using st tx_relD[OF solo_claves_stamp] sk.refl
    by (cases "key = ''''") (auto simp: stamp_cobranza_def)
  show ?thesis
  proof (cases hit)
    case (Some c)
    then show ?thesis using rest st so by (intro repetida) (auto split: if_splits)
  next
    case None
    then obtain row s2 where q: "create_cobranza_q ev (vc_unidad v) (vc_fecha v) (vc_canal v) (vc_importe v)
        (vc_referencia v) ''pendiente_revision'' key actor s1 = Inr (row, s2)" and
      sv: "(if key \<noteq> '''' then save_cobranza ev key (cobranza_dto_de ev row []) else tx_ret ()) s2 = Inr ((), t)" and
      d: "d = cobranza_dto_de ev row []"
      using rest by (auto simp: tx_bind_Inr)
    have "solo_claves s2 t"
      using sv tx_relD[OF solo_claves_update] sk.refl
      by (cases "key = ''''") (auto simp: save_cobranza_def)
    then show ?thesis using st sv d None by (intro nueva[OF v so q]) (auto split: if_splits)
  qed
qed

lemma create_cobranza_q_Inr:
  assumes "create_cobranza_q ev u f ca n rf est key actor s = Inr (p, t)"
  shows "t = s\<lparr>payments := payments s @ [p], seq := Suc (seq s)\<rparr>" "pago_check p" "p_tenant p = tenant ev"
    "p_importe p = n" "p_estado p = est" "p_idem_key p = key" "p_referencia p = rf" "p_unidad p = u"
    "p_fecha p = f"
    "\<forall>x \<in> set (pagos_de ev s). p_id x \<noteq> p_id p \<and> p_idem_key x \<noteq> key \<and> (rf \<noteq> None \<longrightarrow> p_referencia x \<noteq> rf)"
  using assms by (auto simp: create_cobranza_q_def tx_inv pago_clash_def pagos_de_def split: if_splits)

lemma crear_ok:
  assumes run: "create_cobranza ev co by inp key s = Inr (d, t)" and ok: "cob_ok ev s"
    and n: "is_i64 (mi_amount (ci_importe inp))"
  shows "cob_ok ev t"
  using run
proof (cases rule: create_cobranza_Inr)
  case repetida
  then show ?thesis using ok cob_ok_solo by blast
next
  case (nueva v actor row s1 s2)
  have v: "is_i64 (vc_importe v)" using validate_cobranza_Inr[OF nueva(1)] n by simp
  have ok1: "cob_ok ev s1" using ok cob_ok_solo[OF nueva(2)] by simp
  note q = create_cobranza_q_Inr[OF nueva(3)]
  have p2: "pagos_de ev s2 = pagos_de ev s1 @ [row]" using q(1,3) by (simp add: pagos_de_def)
  have "asig ev (allocations s1) (p_id row) = []"
  proof -
    have "\<not> alloc_de ev (p_id row) a" if a: "a \<in> set (allocations s1)" for a
    proof
      assume "alloc_de ev (p_id row) a"
      then obtain x where "x \<in> set (pagos_de ev s1)" "p_id x = p_id row"
        using a ok1 by (auto simp: cob_ok_def alloc_de_def)
      then show False using q(10) by blast
    qed
    then show ?thesis by (simp add: asig_def filter_empty_conv)
  qed
  then have new: "pago_ok ev (allocations s1) row"
    using q(2,4) v validate_cobranza_Inr[OF nueva(1)] by (simp add: pago_ok_def)
  have a2: "allocations s2 = allocations s1" by (simp add: q(1))
  have rf: "distinct (map p_referencia (filter (\<lambda>p. p_referencia p \<noteq> None) (pagos_de ev s2)))"
    using ok1 q(7,10) by (auto simp: p2 cob_ok_def)
  have "cob_ok ev s2"
    using ok1 q(6,10) new rf unfolding cob_ok_def a2 by (auto simp: p2)
  then show ?thesis using cob_ok_solo[OF nueva(4)] by simp
qed

text \<open>The credit of a payment: a repetition, or the allocation and the change of state.\<close>

abbreviation acreditado :: "payment \<Rightarrow> payment" where
  "acreditado p \<equiv> p\<lparr>p_estado := ''acreditado'', p_motivo := None\<rparr>"

lemma estado_Inr:
  assumes "update_cobranza_estado ev e m pid s = Inr (u, t)"
  shows "t = s\<lparr>payments := upd_where (mi_pago ev pid) (\<lambda>p. p\<lparr>p_estado := e, p_motivo := m\<rparr>) (payments s)\<rparr>"
  using assms by (auto simp: update_cobranza_estado_def)

lemma get_upd:
  assumes "get_cobranza_q ev pid s = Inr (p, u)" and "\<And>q. p_tenant (f q) = p_tenant q \<and> p_id (f q) = p_id q"
  shows "get_cobranza_q ev pid (s\<lparr>payments := upd_where (mi_pago ev pid) f (payments s)\<rparr>) =
    Inr (f p, s\<lparr>payments := upd_where (mi_pago ev pid) f (payments s)\<rparr>)"
proof -
  have "List.find (mi_pago ev pid) (payments s) = Some p" using assms(1) by (auto simp: get_cobranza_q_def)
  moreover from this have "mi_pago ev pid p" by (auto dest: find_SomeD)
  moreover have "mi_pago ev pid (f q) = mi_pago ev pid q" for q by (simp add: mi_pago_def assms(2))
  ultimately show ?thesis by (simp add: get_cobranza_q_def tx_row_def find_upd_where)
qed

lemma abiertos_pos:
  assumes "list_open_charges_by_unidad ev uid f s = Inr (cs, t)"
  shows "t = s" "\<forall>c \<in> set cs. 0 < c_saldo c \<and> c \<in> set (mis_cargos ev s) \<and> c_unidad c = uid \<and> c_due c \<le> f"
  using assms by (auto simp: list_open_charges_by_unidad_def mis_cargos_def)

definition asignacion_cabe :: "asignacion_input list \<Rightarrow> bool" where
  "asignacion_cabe xs \<longleftrightarrow> is_i64 (sum_by ai_amount xs)"

lemma build_allocations_Inr:
  assumes run: "build_allocations ev p xs actor s = Inr (r, t)" and p: "pago_ok ev (allocations s) p"
  shows "asignadas ev (p_id p) (fst r) s t \<and>
    (asignacion_cabe xs \<longrightarrow> sum_by a_amount (fst r) \<le> p_importe p \<and> snd r = p_importe p - sum_by a_amount (fst r))"
proof (cases "xs = []")
  case True
  then obtain cs s0 where cs0: "list_open_charges_by_unidad ev (p_unidad p) (p_fecha p) s = Inr (cs, s0)"
    "fifo ev (p_id p) actor cs (p_importe p) s0 = Inr (r, t)"
    using run by (auto simp: build_allocations_def build_fifo_def tx_bind_Inr)
  note cs = cs0[unfolded abiertos_pos(1)[OF cs0(1)]]
  have pn: "0 \<le> p_importe p" "is_i64 (p_importe p)" using p by (simp_all add: pago_ok_def pago_check_def)
  note f = fifo_Inr[OF cs(2) pn]
  have "sum_by a_amount (take (length (fst r)) (fst r)) \<le> p_importe p"
    using f abiertos_pos(2)[OF cs(1)] by (metis min.cobounded1)
  then show ?thesis using f abiertos_pos(2)[OF cs(1)] by simp
next
  case False
  then have "build_explicit ev p xs actor s = Inr (r, t)" using run by (simp add: build_allocations_def)
  note e = build_explicit_Inr[OF this]
  have sub: "sub64 (p_importe p) n = p_importe p - n" if "0 \<le> n" "n \<le> p_importe p" for n
    using that p by (intro sub64_id) (auto simp: pago_ok_def is_i64_def)
  have nn: "0 \<le> sum_by a_amount (fst r)"
    using e by (intro sum_by_nonneg) (auto simp: asignadas_def)
  show ?thesis using e False sub nn by (auto simp: asignacion_cabe_def)
qed

lemma acreditar_Inr:
  assumes run: "acreditar_cobranza ev pay by xs s = Inr (d, t)" and ok: "cob_ok ev s"
  obtains (repetida) p where "p \<in> set (pagos_de ev s)" "uuid_parse ev (trim_space pay) = Some (p_id p)"
      "p_estado p = ''acreditado''" "t = s"
      "d = acreditacion_dto_de ev p (sort_key a_created (sort_key a_charge (asig ev (allocations s) (p_id p))))
         (saldo_a_favor p (sort_key a_created (sort_key a_charge (asig ev (allocations s) (p_id p)))))"
  | (nueva) p actor r s1 where "p \<in> set (pagos_de ev s)" "uuid_parse ev (trim_space pay) = Some (p_id p)"
      "p_estado p \<noteq> ''acreditado''" "build_allocations ev p xs actor s = Inr (r, s1)"
      "asignadas ev (p_id p) (fst r) s s1"
      "t = s1\<lparr>payments := upd_where (mi_pago ev (p_id p)) acreditado (payments s)\<rparr>"
      "d = acreditacion_dto_de ev (acreditado p) (fst r) (snd r)"
proof -
  obtain pid actor p s0 where
    u: "uuid_parse ev (trim_space pay) = Some pid" and g0: "get_cobranza_q ev pid s = Inr (p, s0)" and
    rest0: "(if p_estado p = ''acreditado'' then
       tx_bind (list_allocs_by_payment ev pid) (\<lambda>allocs.
       tx_ret (acreditacion_dto_de ev p allocs (saldo_a_favor p allocs)))
     else
       tx_bind (build_allocations ev p xs actor) (\<lambda>r.
       tx_bind (update_cobranza_estado ev ''acreditado'' None pid) (\<lambda>_.
       tx_bind (get_cobranza_q ev pid) (\<lambda>upd.
       tx_ret (acreditacion_dto_de ev upd (fst r) (snd r)))))) s0 = Inr (d, t)"
    using run unfolding acreditar_cobranza_def by (auto simp: tx_bind_Inr simp del: if_split)
  note g = g0[unfolded get_cobranza_Inr(1)[OF g0]] and rest = rest0[unfolded get_cobranza_Inr(1)[OF g0]]
  note p = get_cobranza_Inr(2,3)[OF g]
  have pok: "pago_ok ev (allocations s) p" using ok p(1) by (simp add: cob_ok_def)
  show ?thesis
  proof (cases "p_estado p = ''acreditado''")
    case True
    then show ?thesis using rest u p
      by (intro repetida[of p]) (auto simp: tx_bind_Inr list_allocs_by_payment_def asig_def)
  next
    case False
    then obtain r s1 s2 q where b: "build_allocations ev p xs actor s = Inr (r, s1)" and
      up: "update_cobranza_estado ev ''acreditado'' None pid s1 = Inr ((), s2)" and
      g2: "get_cobranza_q ev pid s2 = Inr (q, t)" and d: "d = acreditacion_dto_de ev q (fst r) (snd r)"
      using rest by (auto simp: tx_bind_Inr)
    have a: "asignadas ev (p_id p) (fst r) s s1" using build_allocations_Inr[OF b pok] by simp
    then have ps: "payments s1 = payments s" by (auto simp: asignadas_def)
    have s2: "s2 = s1\<lparr>payments := upd_where (mi_pago ev pid) acreditado (payments s1)\<rparr>"
      by (rule estado_Inr[OF up])
    have "get_cobranza_q ev pid s1 = Inr (p, s1)"
      using g by (auto simp: get_cobranza_q_def tx_row_def ps split: option.splits)
    from get_upd[OF this, of acreditado] have "q = acreditado p" "t = s2"
      using g2 by (simp_all add: s2)
    then show ?thesis
      using nueva[OF p(1) _ False b a] u p(2) d by (simp add: s2 ps)
  qed
qed

lemma sin_asignar:
  "cob_ok ev s \<Longrightarrow> p \<in> set (pagos_de ev s) \<Longrightarrow> p_estado p \<noteq> ''acreditado'' \<Longrightarrow>
   asig ev (allocations s) (p_id p) = []"
  by (auto simp: cob_ok_def pago_ok_def)

lemma asignadas_asig:
  assumes "asignadas ev pid as s t"
  shows "asig ev (allocations t) k = asig ev (allocations s) k @ (if k = pid then as else [])"
  using assms asig_all[of as ev pid k] by (auto simp: asignadas_def asig_append)

lemma acreditar_ok:
  assumes run: "acreditar_cobranza ev pay by xs s = Inr (d, t)" and ok: "cob_ok ev s"
    and xs: "asignacion_cabe xs"
  shows "cob_ok ev t"
  using run ok
proof (cases rule: acreditar_Inr)
  case repetida
  then show ?thesis using ok by simp
next
  case (nueva p actor r s1)
  have pok: "pago_ok ev (allocations s) p" using ok nueva(1) by (simp add: cob_ok_def)
  note b = build_allocations_Inr[OF nueva(4) pok]
  note as = asignadas_asig[OF nueva(5)]
  have at: "allocations t = allocations s1" by (simp add: nueva(6))
  have z: "asig ev (allocations s) (p_id p) = []" by (rule sin_asignar[OF ok nueva(1,3)])
  have dis: "distinct (map a_charge (asig ev (allocations s1) (p_id p)))"
    using nueva(5) pok unfolding asignadas_def pago_ok_def by blast
  show ?thesis
  proof (rule cob_ok_upd[OF ok nueva(1)])
    show "payments t = upd_where (mi_pago ev (p_id p)) acreditado (payments s)" by (simp add: nueva(6))
    show "pago_ok ev (allocations t) (acreditado p)"
      using pok b dis z xs nueva(5) as[of "p_id p"] at
      by (auto simp: pago_ok_def pago_check_def asignadas_def)
    show "\<And>x. x \<in> set (allocations t) \<Longrightarrow> a_tenant x = tenant ev \<Longrightarrow>
        x \<in> set (allocations s) \<or> a_payment x = p_id p"
      using nueva(5) by (auto simp: nueva(6) asignadas_def alloc_de_def)
  qed (simp_all add: at as)
qed

lemma revertir_Inr:
  assumes run: "revertir_cobranza ev pay by s = Inr (d, t)"
  obtains p where "p \<in> set (pagos_de ev s)" "uuid_parse ev (trim_space pay) = Some (p_id p)"
    "t = s\<lparr>allocations := del_where (alloc_de ev (p_id p)) (allocations s),
       payments := upd_where (mi_pago ev (p_id p)) (\<lambda>p. p\<lparr>p_estado := ''revertido'', p_motivo := None\<rparr>) (payments s)\<rparr>"
proof -
  obtain pid p s0 s2 q where
    u: "uuid_parse ev (trim_space pay) = Some pid" and g0: "get_cobranza_q ev pid s = Inr (p, s0)" and
    up0: "update_cobranza_estado ev ''revertido'' None pid (s0\<lparr>allocations := del_where (alloc_de ev pid) (allocations s0)\<rparr>) =
      Inr ((), s2)" and g2: "get_cobranza_q ev pid s2 = Inr (q, t)"
    using run unfolding revertir_cobranza_def list_allocs_by_payment_def delete_allocs_by_payment_def
    by (auto simp: tx_bind_Inr del_state)
  note g = g0[unfolded get_cobranza_Inr(1)[OF g0]] and up = up0[unfolded get_cobranza_Inr(1)[OF g0]]
  show ?thesis
    using that[of p] get_cobranza_Inr(2,3)[OF g] u estado_Inr[OF up] get_cobranza_Inr(1)[OF g2] by simp
qed

lemma revertir_ok:
  assumes run: "revertir_cobranza ev pay by s = Inr (d, t)" and ok: "cob_ok ev s"
  shows "cob_ok ev t"
proof -
  obtain p where p: "p \<in> set (pagos_de ev s)" and
    t: "t = s\<lparr>allocations := del_where (alloc_de ev (p_id p)) (allocations s),
       payments := upd_where (mi_pago ev (p_id p)) (\<lambda>p. p\<lparr>p_estado := ''revertido'', p_motivo := None\<rparr>) (payments s)\<rparr>"
    using run by (rule revertir_Inr)
  have pok: "pago_ok ev (allocations s) p" using ok p by (simp add: cob_ok_def)
  show ?thesis
    by (rule cob_ok_upd[OF ok p, where f = "\<lambda>p. p\<lparr>p_estado := ''revertido'', p_motivo := None\<rparr>"])
      (use pok in \<open>auto simp: t asig_del pago_ok_def pago_check_def set_del_where\<close>)
qed

lemma ajustar_Inr:
  assumes run: "ajustar_asignaciones ev pay by xs s = Inr (d, t)"
  obtains p actor r s1 where "p \<in> set (pagos_de ev s)" "uuid_parse ev (trim_space pay) = Some (p_id p)"
    "build_explicit ev p xs actor (s\<lparr>allocations := del_where (alloc_de ev (p_id p)) (allocations s)\<rparr>) = Inr (r, s1)"
    "t = s1\<lparr>payments := upd_where (mi_pago ev (p_id p))
       (if p_estado p = ''acreditado'' then id else acreditado) (payments s1)\<rparr>"
    "d = acreditacion_dto_de ev (p\<lparr>p_estado := ''acreditado''\<rparr>) (fst r) (snd r)"
proof -
  obtain pid actor p s0 r s1 q where
    u: "uuid_parse ev (trim_space pay) = Some pid" and g0: "get_cobranza_q ev pid s = Inr (p, s0)" and
    b0: "build_explicit ev p xs actor (s0\<lparr>allocations := del_where (alloc_de ev pid) (allocations s0)\<rparr>) = Inr (r, s1)" and
    q: "(if p_estado p \<noteq> ''acreditado''
        then tx_bind (update_cobranza_estado ev ''acreditado'' None pid)
               (\<lambda>_. tx_ret (p\<lparr>p_estado := ''acreditado''\<rparr>))
        else tx_ret p) s1 = Inr (q, t)" and
    d: "d = acreditacion_dto_de ev q (fst r) (snd r)"
    using run unfolding ajustar_asignaciones_def delete_allocs_by_payment_def
    by (auto simp: tx_bind_Inr del_state simp del: if_split)
  note g = g0[unfolded get_cobranza_Inr(1)[OF g0]] and b = b0[unfolded get_cobranza_Inr(1)[OF g0]]
  have p: "p \<in> set (pagos_de ev s)" "p_id p = pid" using get_cobranza_Inr[OF g] by simp_all
  have i: "upd_where P id rs = rs" for P :: "payment \<Rightarrow> bool" and rs by (induction rs) auto
  show ?thesis
  proof (cases "p_estado p = ''acreditado''")
    case True
    then have e: "q = p" "t = s1" "p = p\<lparr>p_estado := ''acreditado''\<rparr>" using q by simp_all
    have "d = acreditacion_dto_de ev (p\<lparr>p_estado := ''acreditado''\<rparr>) (fst r) (snd r)"
      by (subst e(3)[symmetric]) (simp add: d e(1))
    then show ?thesis by (intro that[of p actor r s1]) (use p u b True i e(2) in simp_all)
  next
    case False
    then show ?thesis using that[of p actor r s1] p u b d q estado_Inr[of ev _ _ pid s1 _ t]
      by (auto simp: tx_bind_Inr)
  qed
qed

lemma ajustar_ok:
  assumes run: "ajustar_asignaciones ev pay by xs s = Inr (d, t)" and ok: "cob_ok ev s"
    and xs: "asignacion_cabe xs"
  shows "cob_ok ev t"
proof -
  obtain p actor r s1 where p: "p \<in> set (pagos_de ev s)" and
    b: "build_explicit ev p xs actor (s\<lparr>allocations := del_where (alloc_de ev (p_id p)) (allocations s)\<rparr>) = Inr (r, s1)" and
    t: "t = s1\<lparr>payments := upd_where (mi_pago ev (p_id p))
       (if p_estado p = ''acreditado'' then id else acreditado) (payments s1)\<rparr>"
    using run by (rule ajustar_Inr)
  let ?s0 = "s\<lparr>allocations := del_where (alloc_de ev (p_id p)) (allocations s)\<rparr>"
  have pok: "pago_ok ev (allocations s) p" using ok p by (simp add: cob_ok_def)
  note e = build_explicit_Inr[OF b]
  have as: "asignadas ev (p_id p) (fst r) ?s0 s1" using e by simp
  have ak: "asig ev (allocations s1) k = (if k = p_id p then fst r else asig ev (allocations s) k)" for k
    using asignadas_asig[OF as, of k] by (auto simp: asig_del)
  have z: "asig ev (allocations ?s0) (p_id p) = []" by (simp add: asig_del)
  have "sum_by a_amount (fst r) \<le> p_importe p"
    using e xs pok by (cases "xs = []") (auto simp: asignacion_cabe_def pago_ok_def pago_check_def)
  moreover have "distinct (map a_charge (fst r))" using as z ak[of "p_id p"] by (simp add: asignadas_def)
  ultimately have new: "pago_ok ev (allocations t) ((if p_estado p = ''acreditado'' then id else acreditado) p)"
    using pok as ak by (auto simp: t pago_ok_def pago_check_def asignadas_def)
  show ?thesis
  proof (rule cob_ok_upd[OF ok p])
    show "payments t = upd_where (mi_pago ev (p_id p)) (if p_estado p = ''acreditado'' then id else acreditado)
        (payments s)" using as by (auto simp: t asignadas_def)
    show "\<And>x. x \<in> set (allocations t) \<Longrightarrow> a_tenant x = tenant ev \<Longrightarrow>
        x \<in> set (allocations s) \<or> a_payment x = p_id p"
      using as by (auto simp: t asignadas_def alloc_de_def set_del_where)
  qed (use new ak in \<open>simp_all add: t\<close>)
qed

end
