(* ===== verification/CobPropiedades.thy ===== *)
theory CobPropiedades
  imports CobInvariante
begin

text \<open>
  What the payments promise: the allocation in order of age, the repetition of a credit and of a
  creation, the bound of the allocations of a payment, and what crediting a payment does not do.
\<close>

subsection \<open>The allocation in order of age\<close>

definition deuda_exigible :: "env \<Rightarrow> db \<Rightarrow> payment \<Rightarrow> charge list" where
  "deuda_exigible ev s p = sort_key c_due (sort_key c_created (sort_key c_id
     (filter (\<lambda>c. c_tenant c = tenant ev \<and> c_unidad c = p_unidad p \<and> 0 < c_saldo c \<and> c_due c \<le> p_fecha p)
        (charges s))))"

lemma insert_alloc_ok:
  assumes "0 < n" and "p \<in> set (pagos_de ev s)" and "c \<in> set (mis_cargos ev s)"
    and "c_id c \<notin> a_charge ` set (asig ev (allocations s) (p_id p))"
  shows "\<exists>a. insert_payment_allocation ev (p_id p) (c_id c) n actor s =
    Inr (a, s\<lparr>allocations := allocations s @ [a]\<rparr>) \<and> alloc_de ev (p_id p) a \<and> a_charge a = c_id c"
proof -
  have "\<not> (\<exists>x \<in> set (allocations s). a_tenant x = tenant ev \<and> a_payment x = p_id p \<and> a_charge x = c_id c)"
    using assms(4) by (auto simp: asig_def alloc_de_def image_iff)
  moreover have "\<exists>q \<in> set (payments s). mi_pago ev (p_id p) q"
    "\<exists>d \<in> set (charges s). c_tenant d = tenant ev \<and> c_id d = c_id c"
    using assms(2,3) by (auto simp: pagos_de_def mi_pago_def mis_cargos_def)
  moreover have "allocations_update (\<lambda>rs. rs @ [a]) s = s\<lparr>allocations := allocations s @ [a]\<rparr>" for a
    by (cases s) simp
  ultimately show ?thesis using assms(1)
    by (simp add: insert_payment_allocation_def tx_insert_def alloc_de_def)
qed

lemma fifo_termina:
  assumes "p \<in> set (pagos_de ev s)" and "set cs \<subseteq> set (mis_cargos ev s)" and "distinct (map c_id cs)"
    and "c_id ` set cs \<inter> a_charge ` set (asig ev (allocations s) (p_id p)) = {}"
  shows "\<exists>r t. fifo ev (p_id p) actor cs n s = Inr (r, t)"
  using assms
proof (induction cs arbitrary: n s)
  case (Cons c cs)
  define m where "m = (if n < c_saldo c then n else c_saldo c)"
  show ?case
  proof (cases "n \<le> 0 \<or> m \<le> 0")
    case True
    then show ?thesis using Cons.IH[OF Cons.prems(1), of n] Cons.prems
      by (auto simp: m_def[symmetric] Let_def tx_ret_def)
  next
    case False
    then obtain a where a: "insert_payment_allocation ev (p_id p) (c_id c) m actor s =
        Inr (a, s\<lparr>allocations := allocations s @ [a]\<rparr>)" "alloc_de ev (p_id p) a" "a_charge a = c_id c"
      using insert_alloc_ok[of m p ev s c actor] Cons.prems by auto
    let ?s = "s\<lparr>allocations := allocations s @ [a]\<rparr>"
    have "c_id c \<notin> c_id ` set cs" using Cons.prems(3) by (simp add: image_iff)
    then have dj: "c_id ` set cs \<inter> a_charge ` set (asig ev (allocations ?s) (p_id p)) = {}"
      using Cons.prems(4) a(2,3) by (auto simp: asig_def)
    have "\<exists>r t. fifo ev (p_id p) actor cs (sub64 n m) ?s = Inr (r, t)"
      by (rule Cons.IH[OF _ _ _ dj]) (use Cons.prems in \<open>auto simp: pagos_de_def mis_cargos_def\<close>)
    then show ?thesis using False a(1)
      by (auto simp: m_def[symmetric] Let_def tx_bind_def tx_ret_def)
  qed
qed (simp add: tx_ret_def)

lemma deuda_de_la_unidad:
  assumes "libro_ok ev s"
  shows "set (deuda_exigible ev s p) \<subseteq> set (mis_cargos ev s)" "distinct (map c_id (deuda_exigible ev s p))"
    "\<forall>c \<in> set (deuda_exigible ev s p). 0 < c_saldo c"
proof -
  let ?P = "\<lambda>c. c_unidad c = p_unidad p \<and> 0 < c_saldo c \<and> c_due c \<le> p_fecha p"
  let ?cs = "filter (\<lambda>c. c_tenant c = tenant ev \<and> ?P c) (charges s)"
  have e: "?cs = filter ?P (mis_cargos ev s)" by (auto simp: mis_cargos_def intro!: filter_cong)
  have m: "mset (map c_id (deuda_exigible ev s p)) = mset (map c_id ?cs)"
    by (simp add: deuda_exigible_def)
  have "distinct (map c_id ?cs)" unfolding e using assms by (simp add: libro_ok_def distinct_map_filter)
  then show "distinct (map c_id (deuda_exigible ev s p))" using mset_eq_imp_distinct_iff[OF m] by simp
qed (auto simp: deuda_exigible_def mis_cargos_def)

lemma find_estado:
  assumes "cob_ok ev s" and "p \<in> set (pagos_de ev s)"
    and "payments s1 = payments s"
  shows "\<exists>t. update_cobranza_estado ev ''acreditado'' None (p_id p) s1 = Inr ((), t)"
proof -
  have "pago_check (acreditado q)" if "q \<in> set (payments s)" "mi_pago ev (p_id p) q" for q
    using assms(1) that by (auto simp: cob_ok_def pagos_de_def mi_pago_def pago_ok_def pago_check_def)
  then show ?thesis
    by (auto simp: update_cobranza_estado_def tx_exec_def tx_bind_def tx_update_def tx_ret_def assms(3))
qed

lemma saldo_acreditado:
  assumes "p_estado p = ''acreditado''" and "is_i64 (p_importe p)" and "0 \<le> sum_by a_amount as"
    and "sum_by a_amount as \<le> p_importe p"
  shows "saldo_a_favor p as = p_importe p - sum_by a_amount as"
proof -
  have "i64 (sum_by a_amount as) = sum_by a_amount as"
    using assms(2-4) by (intro i64_id) (auto simp: is_i64_def)
  moreover have "sub64 (p_importe p) (sum_by a_amount as) = p_importe p - sum_by a_amount as"
    using assms(2-4) by (intro sub64_id) (auto simp: is_i64_def)
  ultimately show ?thesis using assms by (simp add: saldo_a_favor_def sum64_from_eq)
qed

text \<open>Once its allocations are made, a payment that exists is credited.\<close>

lemma acreditar_corre:
  assumes ok: "cob_ok ev s" and p: "p \<in> set (pagos_de ev s)" and e: "p_estado p \<noteq> ''acreditado''"
    and ids: "uuid_parse ev (trim_space pay) = Some (p_id p)" "uuid_parse ev (trim_space by) = Some actor"
    and b: "build_allocations ev p xs actor s = Inr (r, s1)" and s1: "payments s1 = payments s"
  shows "acreditar_cobranza ev pay by xs s = Inr (acreditacion_dto_de ev (acreditado p) (fst r) (snd r),
    s1\<lparr>payments := upd_where (mi_pago ev (p_id p)) acreditado (payments s)\<rparr>)"
proof -
  obtain s2 where up: "update_cobranza_estado ev ''acreditado'' None (p_id p) s1 = Inr ((), s2)"
    using find_estado[OF ok p s1] by blast
  have g: "get_cobranza_q ev (p_id p) s1 = Inr (p, s1)"
    using get_cobranza_ok[OF ok p] by (auto simp: get_cobranza_q_def tx_row_def s1 split: option.splits)
  note s2 = estado_Inr[OF up]
  have "get_cobranza_q ev (p_id p) s2 = Inr (acreditado p, s2)"
    using get_upd[OF g, of acreditado] by (simp add: s2)
  then show ?thesis
    using get_cobranza_ok[OF ok p] e ids b up s2 s1
    by (simp add: acreditar_cobranza_def tx_bind_def tx_some_def tx_ret_def tx_catch_def)
qed

lemma acreditar_fifo_lema:
  assumes ok: "cob_ok ev s" and lib: "libro_ok ev s" and p: "p \<in> set (pagos_de ev s)"
    and e: "p_estado p \<noteq> ''acreditado''"
    and pay: "uuid_parse ev (trim_space pay) = Some (p_id p)"
    and by': "uuid_parse ev (trim_space by) = Some actor"
  shows "\<exists>as d t. acreditar_cobranza ev pay by [] s = Inr (d, t) \<and>
    allocations t = allocations s @ as \<and> charges t = charges s \<and>
    (\<forall>a \<in> set as. alloc_de ev (p_id p) a \<and> 0 < a_amount a) \<and>
    (\<forall>k. sum_by a_amount (take k as) = min (p_importe p) (sum_by c_saldo (take k (deuda_exigible ev s p)))) \<and>
    map a_charge as = map c_id (take (length as) (deuda_exigible ev s p)) \<and>
    ac_asignaciones d = allocation_dtos ev as \<and>
    ac_saldo d = p_importe p - min (p_importe p) (sum_by c_saldo (deuda_exigible ev s p)) \<and>
    cd_saldo_a_favor (ac_cobranza d) = ac_saldo d \<and> cd_estado (ac_cobranza d) = ''acreditado''"
proof -
  let ?cs = "deuda_exigible ev s p"
  note de = deuda_de_la_unidad[OF lib, of p]
  have pok: "pago_ok ev (allocations s) p" using ok p by (simp add: cob_ok_def)
  have pn: "0 \<le> p_importe p" "is_i64 (p_importe p)" using pok by (simp_all add: pago_ok_def pago_check_def)
  have z: "asig ev (allocations s) (p_id p) = []" by (rule sin_asignar[OF ok p e])
  have "\<exists>r t. fifo ev (p_id p) actor ?cs (p_importe p) s = Inr (r, t)"
    by (rule fifo_termina[OF p de(1,2)]) (simp add: z)
  then obtain r s1 where f: "fifo ev (p_id p) actor ?cs (p_importe p) s = Inr (r, s1)" by blast
  have b: "build_allocations ev p [] actor s = Inr (r, s1)"
    using f by (simp add: build_allocations_def build_fifo_def list_open_charges_by_unidad_def
        deuda_exigible_def tx_bind_def tx_read_def)
  note fi = fifo_Inr[OF f pn de(3)]
  have as: "asignadas ev (p_id p) (fst r) s s1" using fi by simp
  have s1: "payments s1 = payments s" "charges s1 = charges s" "allocations s1 = allocations s @ fst r"
    using as by (auto simp: asignadas_def)
  note run = acreditar_corre[OF ok p e pay by' b s1(1)]
  have tot: "sum_by a_amount (fst r) = min (p_importe p) (sum_by c_saldo ?cs)"
    using fi[THEN conjunct2, THEN conjunct1, rule_format, of "max (length (fst r)) (length ?cs)"] by simp
  have "0 \<le> sum_by a_amount (fst r)"
    using as by (intro sum_by_nonneg) (auto simp: asignadas_def)
  then have sf: "saldo_a_favor (acreditado p) (fst r) = p_importe p - sum_by a_amount (fst r)"
    using saldo_acreditado[of "acreditado p" "fst r"] pn tot by simp
  show ?thesis
    by (rule exI[of _ "fst r"], rule exI[of _ "acreditacion_dto_de ev (acreditado p) (fst r) (snd r)"],
        rule exI[of _ "s1\<lparr>payments := upd_where (mi_pago ev (p_id p)) acreditado (payments s)\<rparr>"])
      (use run fi tot sf s1 in \<open>simp add: acreditacion_dto_de_def cobranza_dto_de_def asignadas_def\<close>)
qed


subsection \<open>Repetition\<close>

lemma asig_orden: "mset (sort_key a_created (sort_key a_charge as)) = mset as"
  by simp

lemma saldo_mset:
  assumes "mset as = mset bs"
  shows "saldo_a_favor p as = saldo_a_favor p bs"
proof -
  have "sum_by a_amount as = sum_by a_amount bs"
    using arg_cong[OF assms, of "\<lambda>m. sum_mset (image_mset a_amount m)"] by (simp add: sum_mset_sum_list flip: mset_map)
  then show ?thesis by (simp add: saldo_a_favor_def sum64_from_eq)
qed

text \<open>
  The credit of a payment can be repeated: after a success, another request for the payment,
  whatever its allocations, succeeds, changes nothing and answers with the same payment, the same
  allocations and the same balance in favour.
\<close>

theorem acreditar_repetible:
  assumes run: "acreditar_cobranza ev pay by xs s = Inr (d, t)" and ok: "cob_ok ev s"
    and xs: "asignacion_cabe xs" and by': "uuid_parse ev (trim_space by') = Some actor"
  shows "\<exists>d'. acreditar_cobranza ev pay by' xs' t = Inr (d', t) \<and>
    ac_cobranza d' = ac_cobranza d \<and> mset (ac_asignaciones d') = mset (ac_asignaciones d) \<and>
    ac_saldo d' = ac_saldo d"
proof -
  have okt: "cob_ok ev t" by (rule acreditar_ok[OF run ok xs])
  have again: "acreditar_cobranza ev pay by' xs' t = Inr (acreditacion_dto_de ev q
      (sort_key a_created (sort_key a_charge (asig ev (allocations t) (p_id q))))
      (saldo_a_favor q (sort_key a_created (sort_key a_charge (asig ev (allocations t) (p_id q))))), t)"
    if q: "q \<in> set (pagos_de ev t)" "uuid_parse ev (trim_space pay) = Some (p_id q)"
      "p_estado q = ''acreditado''" for q
    using get_cobranza_ok[OF okt q(1)] q(2,3) by'
    by (simp add: acreditar_cobranza_def tx_bind_def tx_some_def tx_ret_def tx_catch_def
        list_allocs_by_payment_def tx_read_def asig_def)
  show ?thesis
    using run ok
  proof (cases rule: acreditar_Inr)
    case (repetida p)
    then show ?thesis using again[of p] by simp
  next
    case (nueva p actor' r s1)
    have pt: "acreditado p \<in> set (pagos_de ev t)"
      using nueva(1) by (auto simp: nueva(6) pagos_de_def set_upd_where mi_pago_def image_iff intro!: bexI[of _ p])
    have at: "asig ev (allocations t) (p_id p) = fst r"
      using asignadas_asig[OF nueva(5), of "p_id p"] sin_asignar[OF ok nueva(1,3)] by (simp add: nueva(6))
    have pok: "pago_ok ev (allocations s) p" using ok nueva(1) by (simp add: cob_ok_def)
    have tot: "sum_by a_amount (fst r) \<le> p_importe p" "snd r = p_importe p - sum_by a_amount (fst r)"
      using build_allocations_Inr[OF nueva(4) pok] xs by simp_all
    have "0 \<le> sum_by a_amount (fst r)"
      using nueva(5) by (intro sum_by_nonneg) (auto simp: asignadas_def)
    then have sf: "saldo_a_favor (acreditado p) (fst r) = snd r"
      using saldo_acreditado[of "acreditado p" "fst r"] pok tot by (simp add: pago_ok_def)
    let ?as = "sort_key a_created (sort_key a_charge (fst r))"
    have so: "saldo_a_favor (acreditado p) ?as = snd r"
      using saldo_mset[OF asig_orden, of "acreditado p" "fst r"] sf by simp
    have "mset (allocation_dtos ev ?as) = mset (allocation_dtos ev (fst r))"
      by (simp add: allocation_dtos_def)
    then show ?thesis
      using again[OF pt] nueva(2,7) at so sf by (simp add: acreditacion_dto_de_def cobranza_dto_de_def)
  qed
qed

lemma validate_estado:
  "validate_cobranza_input ev inp s = Inr (v, s') \<Longrightarrow> validate_cobranza_input ev inp t = Inr (v, t)"
  by (simp add: validate_cobranza_input_def Let_def tx_inv) blast

text \<open>What a creation with a key leaves in the table of keys.\<close>

lemma crear_registro:
  assumes run: "create_cobranza ev co by inp key s = Inr (d, t)" and k: "key \<noteq> ''''"
    and v: "validate_cobranza_input ev inp s = Inr (v, s)"
  shows "\<exists>r. registro ev (''cobranzas.create'', key) t = Some (request_hash ev co key v, r) \<and> leer_cobranza r = Some d"
    and "unidades t = unidades s"
proof -
  let ?k = "(''cobranzas.create'', key)"
  obtain cid actor hit s1 where
    st: "stamp_cobranza ev co key v s = Inr (hit, s1)" and
    rest: "(case hit of Some cached \<Rightarrow> tx_ret cached | None \<Rightarrow>
       tx_bind (tx_catch map_cobranza_error (create_cobranza_q ev (vc_unidad v) (vc_fecha v)
          (vc_canal v) (vc_importe v) (vc_referencia v) ''pendiente_revision'' key actor)) (\<lambda>row.
       tx_bind (save_cobranza ev key (cobranza_dto_de ev row [])) (\<lambda>_.
       tx_ret (cobranza_dto_de ev row [])))) s1 = Inr (d, t)"
    using run k v unfolding create_cobranza_def Let_def get_unidad_def by (fastforce simp: tx_bind_Inr)
  have so: "solo_claves s s1" using st tx_relD[OF solo_claves_stamp] by (auto simp: stamp_cobranza_def)
  show "\<exists>r. registro ev ?k t = Some (request_hash ev co key v, r) \<and> leer_cobranza r = Some d"
  proof (cases hit)
    case (Some c)
    then show ?thesis using rest st stamp_Some unfolding stamp_cobranza_def by fastforce
  next
    case None
    then obtain row s2 where
      q: "create_cobranza_q ev (vc_unidad v) (vc_fecha v) (vc_canal v) (vc_importe v)
        (vc_referencia v) ''pendiente_revision'' key actor s1 = Inr (row, s2)" and
      sv: "save_cobranza ev key d s2 = Inr ((), t)"
      using rest by (auto simp: tx_bind_Inr)
    have "registro ev ?k s1 = Some (request_hash ev co key v, RVacia)"
      using st None stamp_miss unfolding stamp_cobranza_def by blast
    then have "registro ev ?k s2 = Some (request_hash ev co key v, RVacia)"
      using create_cobranza_q_Inr(1)[OF q] registro_cong[of s2 s1] by simp
    from save_registro[OF this sv[unfolded save_cobranza_def]] show ?thesis by simp
  qed
  show "unidades t = unidades s"
  proof (cases hit)
    case (Some c)
    then show ?thesis using rest solo_pagos(5)[OF so] by simp
  next
    case None
    then obtain row s2 where
      q: "create_cobranza_q ev (vc_unidad v) (vc_fecha v) (vc_canal v) (vc_importe v)
        (vc_referencia v) ''pendiente_revision'' key actor s1 = Inr (row, s2)" and
      sv: "save_cobranza ev key d s2 = Inr ((), t)"
      using rest by (auto simp: tx_bind_Inr)
    have "solo_claves s2 t" using sv tx_relD[OF solo_claves_update] by (auto simp: save_cobranza_def)
    then show ?thesis using solo_pagos(5)[OF so] solo_pagos(5) create_cobranza_q_Inr(1)[OF q] by fastforce
  qed
qed

lemma crear_hasta_clave:
  assumes "create_cobranza ev co by inp key s = Inr (d, t)" and "validate_cobranza_input ev inp s = Inr (v, s)"
    and "unidades s' = unidades s" and "validate_cobranza_input ev inp' s' = Inr (v', s')"
    and "vc_unidad v' = vc_unidad v" and "key \<noteq> ''''"
  shows "create_cobranza ev co by inp' key s' = (case stamp_cobranza ev co key v' s' of
      Inl e \<Rightarrow> Inl e | Inr (Some c, u) \<Rightarrow> Inr (c, u)
    | Inr (None, u) \<Rightarrow> create_cobranza ev co by inp' key s')"
proof -
  obtain cid actor u where
    "uuid_parse ev (trim_space co) = Some cid" "uuid_parse ev (trim_space by) = Some actor"
    "List.find (\<lambda>u. u_tenant u = tenant ev \<and> u_consorcio u = cid \<and> u_id u = vc_unidad v) (unidades s) = Some u"
    using assms(1,2) unfolding create_cobranza_def Let_def get_unidad_def by (auto simp: tx_bind_Inr)
  then show ?thesis
    using assms(3-6) by (simp add: create_cobranza_def tx_bind_def tx_some_def tx_ret_def tx_catch_def get_unidad_def
        tx_row_def split: sum.splits prod.splits option.splits)
qed


end
