(* ===== verification/MercadoPago.thy ===== *)
theory MercadoPago
  imports CobPropiedades
begin

text \<open>
  Payments through the payment provider: \<open>internal/cobranzas/mercadopago.go\<close> (the checkout of the
  two drivers and the creation of the payment with its intent) and \<open>mercadopago_webhook.go\<close> (the
  notification that credits it). The HTTP client is a parameter \<open>http\<close>: the status and the decoded
  body of the answer, or None when the call fails; a body that is not JSON is None.
\<close>

subsection \<open>Checkout\<close>

record checkout_input =
  ck_payment :: string
  ck_unidad :: string
  ck_amount :: int
  ck_currency :: string
  ck_reference :: string
  ck_base :: string

record checkout_result =
  cr_provider :: string
  cr_preference :: string
  cr_url :: string

record mp_item =
  mp_title :: string
  mp_quantity :: int
  mp_currency :: string
  mp_price :: f64

record mp_preference_request =
  mp_external :: string
  mp_notification :: string
  mp_auto_return :: string
  mp_items :: "mp_item list"
  mp_metadata :: "(string \<times> string) list"
  mp_back_urls :: "(string \<times> string) list"
  mp_binary :: bool

record mp_request =
  mr_url :: string
  mr_authorization :: string
  mr_body :: mp_preference_request

record mp_preference_response =
  mp_id :: string
  mp_init_point :: string
  mp_sandbox :: string

type_synonym http = "mp_request \<Rightarrow> (int \<times> mp_preference_response option) option"

datatype psp = MercadoPagoPSP (app_base: string) (api_base: string) (token: string) | MockPSP (mock_base: string)

definition new_psp :: "string \<Rightarrow> string \<Rightarrow> string \<Rightarrow> psp" where
  "new_psp driver base tok =
     (if to_lower (trim_space driver) = ''mercadopago'' then MercadoPagoPSP base '''' tok else MockPSP base)"

definition preference_id :: "env \<Rightarrow> string \<Rightarrow> checkout_input \<Rightarrow> string" where
  "preference_id ev prefix inp = prefix @ ''_'' @ take 16 (sha_hex ev (unir ''|'' [prefix,
     trim_space (ck_payment inp), trim_space (ck_unidad inp), show_int (ck_amount inp),
     to_upper (trim_space (ck_currency inp)), trim_space (ck_reference inp)]))"

definition mp_request_de :: "string \<Rightarrow> string \<Rightarrow> string \<Rightarrow> checkout_input \<Rightarrow> mp_request" where
  "mp_request_de app api tok inp =
     (let apiBase = o_sino (trim_barra (trim_space api)) ''https://api.mercadopago.com'';
          appBase = trim_barra (trim_space app)
      in \<lparr>mr_url = apiBase @ ''/checkout/preferences'', mr_authorization = ''Bearer '' @ trim_space tok,
          mr_body = \<lparr>mp_external = trim_space (ck_payment inp),
            mp_notification = appBase @ ''/api/v1/webhooks/mercado-pago'', mp_auto_return = ''approved'',
            mp_items = [\<lparr>mp_title = ''ConsorcioAbierto - cobranza'', mp_quantity = 1,
              mp_currency = to_upper (trim_space (ck_currency inp)),
              mp_price = f_div (f_of_int (ck_amount inp)) (f_of_int 100)\<rparr>],
            mp_metadata = [(''payment_id'', trim_space (ck_payment inp)),
              (''unidad_id'', trim_space (ck_unidad inp))],
            mp_back_urls = [(''success'', appBase @ ''/app/consorcios''),
              (''pending'', appBase @ ''/app/consorcios''), (''failure'', appBase @ ''/app/consorcios'')],
            mp_binary = True\<rparr>\<rparr>)"

definition mp_result_de :: "(int \<times> mp_preference_response option) option \<Rightarrow> checkout_result option" where
  "mp_result_de resp = (case resp of None \<Rightarrow> None
     | Some (status, body) \<Rightarrow>
         if status < 200 \<or> 300 \<le> status then None
         else case body of None \<Rightarrow> None
         | Some out \<Rightarrow>
             let url = o_sino (trim_space (mp_init_point out)) (trim_space (mp_sandbox out))
             in if url = '''' then None
                else Some \<lparr>cr_provider = ''mercadopago'', cr_preference = trim_space (mp_id out), cr_url = url\<rparr>)"

fun create_checkout :: "env \<Rightarrow> http \<Rightarrow> psp \<Rightarrow> checkout_input \<Rightarrow> checkout_result option" where
  "create_checkout ev http (MercadoPagoPSP app api tok) inp =
     (if trim_space tok = '''' then None else mp_result_de (http (mp_request_de app api tok inp)))"
| "create_checkout ev http (MockPSP base) inp =
     (let pref = preference_id ev ''mock'' inp;
          b = o_sino (trim_barra (trim_space base)) ''http://localhost:8080''
      in Some \<lparr>cr_provider = ''mock'', cr_preference = pref, cr_url = b @ ''/api/v1/mock/checkout/'' @ pref\<rparr>)"

subsection \<open>Creation\<close>

record mercado_pago_dto =
  mc_cobranza :: cobranza_dto
  mc_url :: string
  mc_provider :: string
  mc_preference :: string

text \<open>The part after the checkout: the payment gets its preference, and the intent is created.\<close>

definition registrar_checkout :: "env \<Rightarrow> cobranza_dto \<Rightarrow> checkout_result \<Rightarrow> mercado_pago_dto query" where
  "registrar_checkout ev item ck =
     tx_bind (tx_some PgNotNull (uuid_parse ev (trim_space (cd_id item)))) (\<lambda>pid.
     tx_bind (update_cobranza_mercado_pago ev (cr_provider ck) (cr_preference ck) (cr_url ck) pid) (\<lambda>_.
     tx_bind (create_psp_intent ev pid ''mercadopago'' (cr_preference ck) ''created'') (\<lambda>_.
     tx_ret \<lparr>mc_cobranza = item, mc_url = cr_url ck, mc_provider = cr_provider ck,
       mc_preference = cr_preference ck\<rparr>)))"

definition create_mercado_pago ::
  "env \<Rightarrow> http \<Rightarrow> psp \<Rightarrow> string \<Rightarrow> string \<Rightarrow> cobranza_input \<Rightarrow> string \<Rightarrow> mercado_pago_dto query" where
  "create_mercado_pago ev http psp consorcio created_by inp key =
     tx_bind (create_cobranza ev consorcio created_by (inp\<lparr>ci_canal := Some ''mercadopago''\<rparr>) key) (\<lambda>item.
     tx_bind (tx_some ErrPSP (create_checkout ev http psp
        \<lparr>ck_payment = cd_id item, ck_unidad = cd_unidad item, ck_amount = md_amount (cd_importe item),
         ck_currency = md_currency (cd_importe item),
         ck_reference = (case cd_referencia item of None \<Rightarrow> '''' | Some r \<Rightarrow> r), ck_base = ''''\<rparr>)) (\<lambda>ck.
     registrar_checkout ev item ck))"

subsection \<open>The notification\<close>

record mp_intent_lookup =
  lk_tenant :: uuid
  lk_payment :: uuid
  lk_created_by :: uuid
  lk_estado :: string
  lk_provider :: string
  lk_preference :: string
  lk_status :: string

text \<open>
  \<open>app.find_psp_intent_by_preference_id\<close> looks in every tenant: the first intent with the
  preference that has its payment.
\<close>

fun buscar_intent :: "psp_intent list \<Rightarrow> payment list \<Rightarrow> string \<Rightarrow> mp_intent_lookup option" where
  "buscar_intent [] ps pref = None"
| "buscar_intent (i # is) ps pref =
     (case (if i_preference i = pref
        then List.find (\<lambda>p. p_tenant p = i_tenant i \<and> p_id p = i_payment i) ps else None) of
        None \<Rightarrow> buscar_intent is ps pref
      | Some p \<Rightarrow> Some \<lparr>lk_tenant = i_tenant i, lk_payment = i_payment i, lk_created_by = p_created_by p,
          lk_estado = p_estado p, lk_provider = i_provider i, lk_preference = i_preference i,
          lk_status = i_status i\<rparr>)"

definition lookup_intent :: "string \<Rightarrow> mp_intent_lookup option query" where
  "lookup_intent pref = tx_read (\<lambda>s. buscar_intent (psp_intents s) (payments s) pref)"

text \<open>\<open>app.set_app_tenant_id\<close>: from here on, the request is one of the tenant of the intent.\<close>

definition set_rls :: "env \<Rightarrow> mp_intent_lookup \<Rightarrow> env query" where
  "set_rls ev i =
     tx_bind (tx_guard (trim_space (uuid_show ev (lk_created_by i)) \<noteq> '''') ErrPSP) (\<lambda>_.
     tx_bind (tx_guard (trim_space (uuid_show ev (lk_tenant i)) \<noteq> '''') ErrPSP) (\<lambda>_.
     tx_ret (ev\<lparr>tenant := lk_tenant i\<rparr>)))"

definition process_webhook :: "env \<Rightarrow> string \<Rightarrow> string \<Rightarrow> bool query" where
  "process_webhook ev preference estado =
     (let pref = trim_space preference in
     tx_bind (tx_guard (pref \<noteq> '''') ErrCobranzaInvalid) (\<lambda>_.
     tx_bind (lookup_intent pref) (\<lambda>found.
     case found of None \<Rightarrow> tx_ret False
     | Some intent \<Rightarrow>
       tx_bind (set_rls ev intent) (\<lambda>ev'.
       let status = to_lower (trim_space estado) in
       tx_bind (if status = ''approved''
          then tx_bind (get_cobranza_q ev' (lk_payment intent)) (\<lambda>p.
            if p_estado p = ''pendiente_revision''
            then tx_bind (acreditar_cobranza ev' (uuid_show ev' (lk_payment intent))
                   (uuid_show ev' (lk_created_by intent)) []) (\<lambda>_. tx_ret ())
            else tx_ret ())
          else tx_ret ()) (\<lambda>_.
       tx_bind (update_psp_intent_status ev' status pref) (\<lambda>_.
       tx_ret (status = ''approved'')))))))"

end
