(* ===== verification/CobCiclo.thy ===== *)
theory CobCiclo
  imports MercadoPago
begin

text \<open>
  The payments as a system: every operation, the provider's notifications included, keeps the
  invariant, and what the notifications do.
\<close>

subsection \<open>The operations with the provider\<close>

lemma env_ok_tenant [simp]: "env_ok (ev\<lparr>tenant := k\<rparr>) = env_ok ev"
  by (simp add: env_ok_def)

lemma create_psp_intent_frame:
  "create_psp_intent ev pid prov pref st s = Inr (i, t) \<Longrightarrow>
   payments t = payments s \<and> allocations t = allocations s \<and> charges t = charges s \<and> entries t = entries s"
  by (auto simp: create_psp_intent_def Let_def tx_inv split: option.splits)

lemma update_mp_Inr:
  "update_cobranza_mercado_pago ev a b c pid s = Inr (u, t) \<Longrightarrow>
   t = s\<lparr>payments := upd_where (mi_pago ev pid)
     (\<lambda>p. p\<lparr>p_psp_provider := Some a, p_psp_preference := Some b, p_psp_url := Some c\<rparr>) (payments s)\<rparr>"
  by (auto simp: update_cobranza_mercado_pago_def)

lemma update_mp_ok:
  assumes run: "update_cobranza_mercado_pago ev a b c pid s = Inr (u, t)" and ok: "cob_ok ev s"
  shows "cob_ok ev t"
proof (cases "\<exists>p \<in> set (pagos_de ev s). p_id p = pid")
  case True
  then obtain p where p: "p \<in> set (pagos_de ev s)" "p_id p = pid" by blast
  have pok: "pago_ok ev (allocations s) p" using ok p by (simp add: cob_ok_def)
  show ?thesis
    by (rule cob_ok_upd[OF ok p(1), where f = "\<lambda>p. p\<lparr>p_psp_provider := Some a, p_psp_preference := Some b,
        p_psp_url := Some c\<rparr>"])
      (use pok p(2) in \<open>auto simp: update_mp_Inr[OF run] pago_ok_def pago_check_def\<close>)
next
  case False
  then have "upd_where (mi_pago ev pid) f (payments s) = payments s" for f
    by (intro upd_where_none) (auto simp: mi_pago_def pagos_de_def)
  then show ?thesis using ok update_mp_Inr[OF run] cob_ok_cong[of t s ev] by simp
qed

lemma crear_mp_ok:
  assumes run: "create_mercado_pago ev http psp co by inp key s = Inr (d, t)" and ok: "cob_ok ev s"
    and n: "is_i64 (mi_amount (ci_importe inp))"
  shows "cob_ok ev t"
proof -
  obtain item s1 ck where
    c: "create_cobranza ev co by (inp\<lparr>ci_canal := Some ''mercadopago''\<rparr>) key s = Inr (item, s1)" and
    r: "registrar_checkout ev item ck s1 = Inr (d, t)"
    using run unfolding create_mercado_pago_def by (auto simp: tx_bind_Inr)
  obtain pid s2 i where
    u: "update_cobranza_mercado_pago ev (cr_provider ck) (cr_preference ck) (cr_url ck) pid s1 = Inr ((), s2)" and
    i: "create_psp_intent ev pid ''mercadopago'' (cr_preference ck) ''created'' s2 = Inr (i, t)"
    using r unfolding registrar_checkout_def by (auto simp: tx_bind_Inr)
  have "cob_ok ev s1" by (rule crear_ok[OF c ok]) (simp add: n)
  then have "cob_ok ev s2" by (rule update_mp_ok[OF u])
  then show ?thesis using create_psp_intent_frame[OF i] cob_ok_cong[of t s2 ev] by simp
qed

subsection \<open>The notification\<close>

lemma set_rls_Inr: "set_rls ev i s = Inr (ev', t) \<Longrightarrow> t = s \<and> ev' = ev\<lparr>tenant := lk_tenant i\<rparr>"
  by (auto simp: set_rls_def tx_inv)

lemma buscar_Some:
  "buscar_intent is ps pref = Some k \<Longrightarrow>
   \<exists>i \<in> set is. \<exists>p \<in> set ps. i_preference i = pref \<and> i_tenant i = lk_tenant k \<and> i_payment i = lk_payment k \<and>
     p_tenant p = lk_tenant k \<and> p_id p = lk_payment k \<and> p_created_by p = lk_created_by k"
proof (induction "is")
  case (Cons i "is")
  show ?case
  proof (cases "if i_preference i = pref
      then List.find (\<lambda>p. p_tenant p = i_tenant i \<and> p_id p = i_payment i) ps else None")
    case None
    then show ?thesis using Cons by auto
  next
    case (Some p)
    then have i: "i_preference i = pref"
      and f: "List.find (\<lambda>p. p_tenant p = i_tenant i \<and> p_id p = i_payment i) ps = Some p"
      by (auto split: if_splits)
    have p: "p \<in> set ps" "p_tenant p = i_tenant i" "p_id p = i_payment i" using find_SomeD[OF f] by simp_all
    have "k = \<lparr>lk_tenant = i_tenant i, lk_payment = i_payment i, lk_created_by = p_created_by p,
        lk_estado = p_estado p, lk_provider = i_provider i, lk_preference = i_preference i,
        lk_status = i_status i\<rparr>" using Cons.prems i f by simp
    then show ?thesis using i p by (intro bexI[of _ i] bexI[of _ p]) simp_all
  qed
qed simp

lemma update_intent_frame:
  "update_psp_intent_status ev st pref s = Inr (u, t) \<Longrightarrow>
   payments t = payments s \<and> allocations t = allocations s \<and> charges t = charges s \<and> entries t = entries s"
  by (auto simp: update_psp_intent_status_def)

lemma webhook_Inr:
  assumes "process_webhook ev pref st s = Inr (b, t)"
  obtains (nada) "t = s" "\<not> b" "buscar_intent (psp_intents s) (payments s) (trim_space pref) = None"
  | (estado) i where "buscar_intent (psp_intents s) (payments s) (trim_space pref) = Some i"
      "b = (to_lower (trim_space st) = ''approved'')"
      "update_psp_intent_status (ev\<lparr>tenant := lk_tenant i\<rparr>) (to_lower (trim_space st)) (trim_space pref) s = Inr ((), t)"
      "b \<longrightarrow> (\<exists>p. get_cobranza_q (ev\<lparr>tenant := lk_tenant i\<rparr>) (lk_payment i) s = Inr (p, s) \<and>
         p_estado p \<noteq> ''pendiente_revision'')"
  | (acredita) i p d s1 where "buscar_intent (psp_intents s) (payments s) (trim_space pref) = Some i"
      "b" "to_lower (trim_space st) = ''approved''"
      "get_cobranza_q (ev\<lparr>tenant := lk_tenant i\<rparr>) (lk_payment i) s = Inr (p, s)"
      "p_estado p = ''pendiente_revision''"
      "acreditar_cobranza (ev\<lparr>tenant := lk_tenant i\<rparr>) (uuid_show ev (lk_payment i)) (uuid_show ev (lk_created_by i)) [] s =
         Inr (d, s1)"
      "update_psp_intent_status (ev\<lparr>tenant := lk_tenant i\<rparr>) ''approved'' (trim_space pref) s1 = Inr ((), t)"
proof (cases "buscar_intent (psp_intents s) (payments s) (trim_space pref)")
  case None
  then show ?thesis using assms nada by (auto simp: process_webhook_def Let_def lookup_intent_def tx_bind_Inr)
next
  case (Some i)
  let ?ev = "ev\<lparr>tenant := lk_tenant i\<rparr>" and ?st = "to_lower (trim_space st)"
  obtain s1 where 1: "(if ?st = ''approved''
      then tx_bind (get_cobranza_q ?ev (lk_payment i)) (\<lambda>p. if p_estado p = ''pendiente_revision''
        then tx_bind (acreditar_cobranza ?ev (uuid_show ?ev (lk_payment i))
            (uuid_show ?ev (lk_created_by i)) []) (\<lambda>_. tx_ret ())
        else tx_ret ()) else tx_ret ()) s = Inr ((), s1)"
    and 2: "update_psp_intent_status ?ev ?st (trim_space pref) s1 = Inr ((), t)" "b = (?st = ''approved'')"
    using assms Some unfolding process_webhook_def Let_def lookup_intent_def
    by (auto simp: tx_bind_Inr simp del: if_split dest!: set_rls_Inr)
  show ?thesis
  proof (cases "?st = ''approved''")
    case False
    then show ?thesis using 1 2 Some by (intro estado[of i]) simp_all
  next
    case True
    then obtain p s0 where g: "get_cobranza_q ?ev (lk_payment i) s = Inr (p, s0)"
      and r: "(if p_estado p = ''pendiente_revision''
        then tx_bind (acreditar_cobranza ?ev (uuid_show ?ev (lk_payment i))
            (uuid_show ?ev (lk_created_by i)) []) (\<lambda>_. tx_ret ())
        else tx_ret ()) s0 = Inr ((), s1)"
      using 1 by (auto simp: tx_bind_Inr)
    have s0: "s0 = s" using get_cobranza_Inr(1)[OF g] .
    show ?thesis
    proof (cases "p_estado p = ''pendiente_revision''")
      case True
      then obtain d where "acreditar_cobranza ?ev (uuid_show ?ev (lk_payment i)) (uuid_show ?ev (lk_created_by i)) [] s =
          Inr (d, s1)" using r s0 by (auto simp: tx_bind_Inr)
      then show ?thesis using acredita[OF Some _ _ g[unfolded s0] True] 2 \<open>?st = ''approved''\<close> by simp
    next
      case False
      then show ?thesis using r s0 2 Some g by (intro estado[of i]) simp_all
    qed
  qed
qed

text \<open>The rows of a tenant do not change when another tenant works.\<close>

lemma filter_ajenas:
  assumes "aislado ev' s t" and "tenant ev \<noteq> tenant ev'"
  shows "pagos_de ev t = pagos_de ev s"
    and "filter (\<lambda>a. a_tenant a = tenant ev) (allocations t) = filter (\<lambda>a. a_tenant a = tenant ev) (allocations s)"
proof -
  have e: "ajenas ev' t = ajenas ev' s" using assms(1) by (simp add: aislado_def)
  have p: "pagos_de ev u = filter (\<lambda>p. p_tenant p = tenant ev) (payments (ajenas ev' u))" for u
    using assms(2) by (auto simp: pagos_de_def ajenas_def intro!: filter_cong)
  have a: "filter (\<lambda>a. a_tenant a = tenant ev) (allocations u) =
      filter (\<lambda>a. a_tenant a = tenant ev) (allocations (ajenas ev' u))" for u
    using assms(2) by (auto simp: ajenas_def intro!: filter_cong)
  show "pagos_de ev t = pagos_de ev s" using p[of t] p[of s] e by simp
  show "filter (\<lambda>a. a_tenant a = tenant ev) (allocations t) = filter (\<lambda>a. a_tenant a = tenant ev) (allocations s)"
    using a[of t] a[of s] e by simp
qed

lemma cob_ok_ajeno:
  assumes "aislado ev' s t" and "tenant ev \<noteq> tenant ev'"
  shows "cob_ok ev t = cob_ok ev s"
proof -
  note f = filter_ajenas[OF assms]
  have asig: "asig ev (allocations u) k = filter (\<lambda>a. a_payment a = k) (filter (\<lambda>a. a_tenant a = tenant ev) (allocations u))"
    for u k by (auto simp: asig_def alloc_de_def intro!: filter_cong)
  have "pago_ok ev (allocations t) = pago_ok ev (allocations s)"
    by (rule ext) (simp add: pago_ok_def asig f(2))
  moreover have "(\<forall>a \<in> set (allocations t). a_tenant a = tenant ev \<longrightarrow> Q a) \<longleftrightarrow>
      (\<forall>a \<in> set (allocations s). a_tenant a = tenant ev \<longrightarrow> Q a)" for Q
    using arg_cong[OF f(2), of "\<lambda>as. \<forall>a \<in> set as. Q a"] by auto
  ultimately show ?thesis by (simp only: cob_ok_def f)
qed

lemma cob_ok_tenant: "tenant ev' = tenant ev \<Longrightarrow> cob_ok ev' s = cob_ok ev s"
proof -
  assume e: "tenant ev' = tenant ev"
  have "alloc_de ev' = alloc_de ev" by (intro ext) (simp add: alloc_de_def e)
  then have "pago_ok ev' = pago_ok ev" by (intro ext) (simp add: pago_ok_def asig_def)
  then show ?thesis by (simp add: cob_ok_def pagos_de_def e)
qed

lemma webhook_aislado_lk:
  assumes "process_webhook ev pref st s = Inr (b, t)"
  shows "t = s \<or> (\<exists>i. buscar_intent (psp_intents s) (payments s) (trim_space pref) = Some i \<and>
    aislado (ev\<lparr>tenant := lk_tenant i\<rparr>) s t)"
  using assms
proof (cases rule: webhook_Inr)
  case (estado i)
  then show ?thesis using tx_relD[OF ais_cob_updates(3) estado(3)] by blast
next
  case (acredita i p d s1)
  then have "aislado (ev\<lparr>tenant := lk_tenant i\<rparr>) s t"
    using tx_relD[OF cobranzas_aisladas_ops(2) acredita(6)] tx_relD[OF ais_cob_updates(3) acredita(7)] ais.trans
    by blast
  then show ?thesis using acredita(1) by blast
qed simp

lemma webhook_ok:
  assumes run: "process_webhook ev pref st s = Inr (b, t)" and ok: "cob_ok ev s"
  shows "cob_ok ev t"
  using run
proof (cases rule: webhook_Inr)
  case nada
  then show ?thesis using ok by simp
next
  case (estado i)
  then show ?thesis using ok update_intent_frame[OF estado(3)] cob_ok_cong[of t s ev] by simp
next
  case (acredita i p d s1)
  show ?thesis
  proof (cases "tenant ev = lk_tenant i")
    case True
    then have "cob_ok (ev\<lparr>tenant := lk_tenant i\<rparr>) s" using ok cob_ok_tenant[of "ev\<lparr>tenant := lk_tenant i\<rparr>" ev] by simp
    then have "cob_ok (ev\<lparr>tenant := lk_tenant i\<rparr>) s1"
      by (rule acreditar_ok[OF acredita(6)]) (simp add: asignacion_cabe_def)
    then have "cob_ok ev s1" using True cob_ok_tenant[of "ev\<lparr>tenant := lk_tenant i\<rparr>" ev s1] by simp
    then show ?thesis using update_intent_frame[OF acredita(7)] cob_ok_cong[of t s1 ev] by simp
  next
    case False
    obtain k where "t = s \<or> aislado (ev\<lparr>tenant := lk_tenant k\<rparr>) s t" "k = i"
      using webhook_aislado_lk[OF run] acredita(1) by auto
    then show ?thesis using ok cob_ok_ajeno[of "ev\<lparr>tenant := lk_tenant i\<rparr>" s t ev] False by auto
  qed
qed

end
