(* ===== verification/CobTeoremas.thy ===== *)
theory CobTeoremas
  imports CobCiclo
begin

text \<open>
  The theorems on the payments as a system: the bound of the allocations in every reachable state,
  the isolation of the tenants, the provider's notifications, the account of a unit, and what
  crediting a payment leaves as it was.
\<close>

subsection \<open>Reachable states\<close>

inductive cob_paso :: "env \<Rightarrow> db \<Rightarrow> db \<Rightarrow> bool" for ev where
  crear: "create_cobranza ev co by inp key s = Inr (d, t) \<Longrightarrow> is_i64 (mi_amount (ci_importe inp)) \<Longrightarrow> cob_paso ev s t"
| crear_mp: "create_mercado_pago ev http psp co by inp key s = Inr (m, t) \<Longrightarrow>
    is_i64 (mi_amount (ci_importe inp)) \<Longrightarrow> cob_paso ev s t"
| acreditar: "acreditar_cobranza ev pay by xs s = Inr (a, t) \<Longrightarrow> asignacion_cabe xs \<Longrightarrow> cob_paso ev s t"
| revertir: "revertir_cobranza ev pay by s = Inr (a, t) \<Longrightarrow> cob_paso ev s t"
| ajustar: "ajustar_asignaciones ev pay by xs s = Inr (a, t) \<Longrightarrow> asignacion_cabe xs \<Longrightarrow> cob_paso ev s t"
| webhook: "process_webhook ev pref st s = Inr (b, t) \<Longrightarrow> cob_paso ev s t"

lemma cob_paso_ok: "cob_paso ev s t \<Longrightarrow> cob_ok ev s \<Longrightarrow> cob_ok ev t"
  by (induction rule: cob_paso.induct) (blast intro: crear_ok crear_mp_ok acreditar_ok revertir_ok ajustar_ok webhook_ok)+

definition cob_alcanza :: "env \<Rightarrow> db \<Rightarrow> db \<Rightarrow> bool" where
  "cob_alcanza ev = (cob_paso ev)\<^sup>*\<^sup>*"

text \<open>A tenant starts without payments.\<close>

definition sin_pagos :: "env \<Rightarrow> db \<Rightarrow> bool" where
  "sin_pagos ev s \<longleftrightarrow> pagos_de ev s = [] \<and> (\<forall>a \<in> set (allocations s). a_tenant a \<noteq> tenant ev)"

lemma cob_alcanza_ok:
  assumes "cob_alcanza ev s t" and "sin_pagos ev s"
  shows "cob_ok ev t"
  using assms(1) unfolding cob_alcanza_def
proof (induction rule: rtranclp_induct)
  case base
  then show ?case using assms(2) by (auto simp: sin_pagos_def cob_ok_def)
qed (rule cob_paso_ok)


subsection \<open>Tenant isolation\<close>

lemma ais_crear_mp: "tx_rel (aislado ev) (create_mercado_pago ev http psp co by inp key)"
  unfolding create_mercado_pago_def registrar_checkout_def
  by (intro ais.rules cobranzas_aisladas_ops ais_cob)

text \<open>
  C27. An operation on the payments leaves the rows of every other tenant as they are; a
  notification leaves the rows of every tenant but the one of its intent as they are.
\<close>

theorem cobranzas_aisladas:
  "tx_rel (aislado ev) (create_cobranza ev co by inp key) \<and>
   tx_rel (aislado ev) (create_mercado_pago ev http psp co by inp key) \<and>
   tx_rel (aislado ev) (acreditar_cobranza ev pay by xs) \<and>
   tx_rel (aislado ev) (revertir_cobranza ev pay by) \<and>
   tx_rel (aislado ev) (ajustar_asignaciones ev pay by xs) \<and>
   tx_rel (\<lambda>s t. t = s \<or> (\<exists>i \<in> set (psp_intents s). i_preference i = trim_space pref \<and>
     aislado (ev\<lparr>tenant := i_tenant i\<rparr>) s t)) (process_webhook ev pref st)"
proof (intro conjI cobranzas_aisladas_ops ais_crear_mp tx_relI)
  fix s b t assume "process_webhook ev pref st s = Inr (b, t)"
  from webhook_aislado_lk[OF this]
  show "t = s \<or> (\<exists>i \<in> set (psp_intents s). i_preference i = trim_space pref \<and>
      aislado (ev\<lparr>tenant := i_tenant i\<rparr>) s t)"
    using buscar_Some by metis
qed

subsection \<open>Notifications\<close>

text \<open>
  A notification with a status outside the five of the table fails when its preference is
  known, 'authorized' included, so that the transaction is rolled back.
\<close>

theorem webhook_estado_desconocido:
  assumes "buscar_intent (psp_intents s) (payments s) (trim_space pref) = Some i"
    and "to_lower (trim_space st) \<notin> {''created'', ''approved'', ''rejected'', ''pending'', ''cancelled''}"
    and "env_ok ev" and "trim_space pref \<noteq> ''''"
  shows "process_webhook ev pref st s = Inl PgCheck"
proof -
  obtain x where x: "x \<in> set (psp_intents s)" "i_preference x = trim_space pref" "i_tenant x = lk_tenant i"
    using buscar_Some[OF assms(1)] by blast
  have ne: "uuid_show ev u \<noteq> ''''" for u using assms(3) by (simp add: env_ok_def)
  have na: "to_lower (trim_space st) \<noteq> ''approved''" using assms(2) by auto
  have "update_psp_intent_status (ev\<lparr>tenant := lk_tenant i\<rparr>) (to_lower (trim_space st)) (trim_space pref) s = Inl PgCheck"
    using x assms(2) by (auto simp: update_psp_intent_status_def tx_exec_def tx_bind_def tx_update_def intent_check_def)
  then show ?thesis
    using assms(1,3,4) na ne
    by (simp add: process_webhook_def Let_def tx_bind_def tx_guard_def tx_ret_def lookup_intent_def tx_read_def
        set_rls_def)
qed

text \<open>The lookup of a preference depends on the keys of the rows only.\<close>

lemma find_par:
  assumes "map (\<lambda>p. (p_tenant p, p_id p)) ps' = map (\<lambda>p. (p_tenant p, p_id p)) ps"
  shows "(List.find (\<lambda>p. p_tenant p = k \<and> p_id p = n) ps' = None) =
    (List.find (\<lambda>p. p_tenant p = k \<and> p_id p = n) ps = None)"
  using assms by (induction ps arbitrary: ps') (auto simp: Cons_eq_map_conv)

lemma buscar_cong:
  assumes "map (\<lambda>i. (i_tenant i, i_preference i, i_payment i)) js = map (\<lambda>i. (i_tenant i, i_preference i, i_payment i)) is"
    and "map (\<lambda>p. (p_tenant p, p_id p)) ps' = map (\<lambda>p. (p_tenant p, p_id p)) ps"
  shows "map_option (\<lambda>k. (lk_tenant k, lk_payment k)) (buscar_intent js ps' pref) =
    map_option (\<lambda>k. (lk_tenant k, lk_payment k)) (buscar_intent is ps pref)"
  using assms(1)
proof (induction "is" arbitrary: js)
  case (Cons i "is")
  then obtain j js' where js: "js = j # js'" "i_tenant j = i_tenant i" "i_preference j = i_preference i"
    "i_payment j = i_payment i"
    "map (\<lambda>i. (i_tenant i, i_preference i, i_payment i)) js' = map (\<lambda>i. (i_tenant i, i_preference i, i_payment i)) is"
    by (auto simp: map_eq_Cons_conv)
  define f where "f ps = List.find (\<lambda>p. p_tenant p = i_tenant i \<and> p_id p = i_payment i) ps" for ps :: "payment list"
  have f: "f ps' = None \<longleftrightarrow> f ps = None" unfolding f_def by (rule find_par[OF assms(2)])
  show ?case
  proof (cases "i_preference i = pref \<and> f ps \<noteq> None")
    case True
    then obtain x y where "f ps = Some x" "f ps' = Some y" using f by fastforce
    then show ?thesis using True by (simp add: js(1-4) f_def)
  next
    case False
    then have z: "(if i_preference i = pref then f ps else None) = None"
      "(if i_preference i = pref then f ps' else None) = None" using f by simp_all
    have "buscar_intent (i # is) ps pref = buscar_intent is ps pref"
      by (simp only: buscar_intent.simps z(1)[unfolded f_def] option.case)
    moreover have "buscar_intent js ps' pref = buscar_intent js' ps' pref"
      by (simp only: js(1-4) buscar_intent.simps z(2)[unfolded f_def] option.case)
    ultimately show ?thesis using Cons.IH[OF js(5)] by simp
  qed
qed simp

lemma webhook_claves:
  assumes "process_webhook ev pref st s = Inr (b, t)" and "\<And>k. cob_ok (ev\<lparr>tenant := k\<rparr>) s"
  shows "map (\<lambda>i. (i_tenant i, i_preference i, i_payment i)) (psp_intents t) =
      map (\<lambda>i. (i_tenant i, i_preference i, i_payment i)) (psp_intents s) \<and>
    map (\<lambda>p. (p_tenant p, p_id p)) (payments t) = map (\<lambda>p. (p_tenant p, p_id p)) (payments s)"
proof -
  have u: "map (\<lambda>i. (i_tenant i, i_preference i, i_payment i)) (psp_intents t') =
      map (\<lambda>i. (i_tenant i, i_preference i, i_payment i)) (psp_intents s') \<and> payments t' = payments s'"
    if "update_psp_intent_status ev' x y s' = Inr (u, t')" for ev' x y s' u t'
    using that by (auto simp: update_psp_intent_status_def intro!: map_upd_where_same)
  show ?thesis
    using assms(1)
  proof (cases rule: webhook_Inr)
    case (estado i)
    show ?thesis using u[OF estado(3)] by simp
  next
    case (acredita i p d s1)
    have ok: "cob_ok (ev\<lparr>tenant := lk_tenant i\<rparr>) s" by (rule assms(2))
    from acredita(6) ok have "map (\<lambda>p. (p_tenant p, p_id p)) (payments s1) = map (\<lambda>p. (p_tenant p, p_id p)) (payments s) \<and>
        psp_intents s1 = psp_intents s"
    proof (cases rule: acreditar_Inr)
      case (nueva q actor r s2)
      then show ?thesis by (auto simp: asignadas_def intro!: map_upd_where_same)
    qed simp
    then show ?thesis using u[OF acredita(7)] by simp
  qed simp
qed


subsection \<open>The account of a unit\<close>

lemma i64_sum: "i64 (sum_by (\<lambda>x. i64 (f x)) xs) = i64 (sum_by f xs)"
proof (induction xs)
  case (Cons x xs)
  have "i64 (i64 (f x) + sum_by (\<lambda>x. i64 (f x)) xs) = i64 (f x + i64 (sum_by (\<lambda>x. i64 (f x)) xs))"
    by simp
  then show ?case using Cons by simp
qed simp

lemma sum_mset_partes:
  fixes f :: "'a \<Rightarrow> int"
  assumes "mset xs = image_mset g (mset as) + image_mset h (mset bs)"
  shows "sum_by f xs = sum_by (f \<circ> g) as + sum_by (f \<circ> h) bs"
proof -
  have "mset (map f xs) = mset (map f (map g as @ map h bs))"
    using assms by (simp add: image_mset.compositionality)
  then have "sum_list (map f xs) = sum_list (map f (map g as @ map h bs))"
    by (simp only: sum_mset_sum_list[symmetric])
  then show ?thesis by simp
qed

lemma sorted_fst: "sorted xs \<Longrightarrow> sorted (map fst xs)" for xs :: "('a::linorder \<times> 'b::linorder) list"
  by (induction xs) (auto simp: less_eq_prod_def)

definition cargos_unidad :: "env \<Rightarrow> uuid \<Rightarrow> db \<Rightarrow> charge list" where
  "cargos_unidad ev uid s = filter (\<lambda>c. c_tenant c = tenant ev \<and> c_unidad c = uid) (charges s)"

definition pagos_unidad :: "env \<Rightarrow> uuid \<Rightarrow> uuid \<Rightarrow> db \<Rightarrow> payment list" where
  "pagos_unidad ev cid uid s = filter (\<lambda>p. p_unidad p = uid \<and> p_estado p = ''acreditado'' \<and>
     (\<exists>u \<in> set (unidades s). u_tenant u = tenant ev \<and> u_consorcio u = cid \<and> u_id u = uid)) (pagos_de ev s)"

text \<open>
  The account of a unit lists, in order of date, one movement for every charge of the unit and
  one for every credited payment, and its balance is the total of the charges less the total of
  the payments, in \<open>int64\<close>.
\<close>

theorem cuenta_corriente_ok:
  assumes "env_ok ev" and "uuid_parse ev (trim_space co) = Some cid" and "uuid_parse ev (trim_space un) = Some uid"
  shows "\<exists>cc. get_cuenta_corriente ev co un s = Inr (cc, s) \<and>
    mset (cu_data cc) = image_mset (\<lambda>c. (mov_cargo ev c)\<lparr>mv_created := 0\<rparr>) (mset (cargos_unidad ev uid s)) +
      image_mset (\<lambda>p. (mov_cobranza ev p)\<lparr>mv_created := 0\<rparr>) (mset (pagos_unidad ev cid uid s)) \<and>
    sorted (map mv_fecha (cu_data cc)) \<and>
    cu_saldo cc = i64 (sum_by c_total (cargos_unidad ev uid s) - sum_by p_importe (pagos_unidad ev cid uid s))"
proof -
  let ?k = "\<lambda>m. (mv_fecha m, mv_created m, mv_id m)"
  let ?cs = "sort_key c_due (sort_key c_created (sort_key c_id
       (filter (\<lambda>c. c_tenant c = tenant ev \<and> c_unidad c = uid) (charges s))))"
  let ?ps = "filter (\<lambda>p. uuid_show ev (p_unidad p) = uuid_show ev uid \<and> p_estado p = ''acreditado'')
      (rev (sort_key p_created (sort_key p_id
     (filter (\<lambda>p. p_tenant p = tenant ev \<and> (\<exists>u \<in> set (unidades s). u_tenant u = tenant ev \<and>
        u_consorcio u = cid \<and> u_id u = p_unidad p)) (payments s)))))"
  let ?ms = "sort_key ?k (map (mov_cargo ev) ?cs @ map (mov_cobranza ev) ?ps)"
  have cs: "mset ?cs = mset (cargos_unidad ev uid s)" by (simp add: cargos_unidad_def)
  have ps: "mset ?ps = mset (pagos_unidad ev cid uid s)"
    by (auto simp: pagos_unidad_def pagos_de_def uuid_show_inj[OF assms(1)] filter_filter_mset
        mset_filter intro!: filter_mset_cong)
  have mm: "mset ?ms = image_mset (mov_cargo ev) (mset (cargos_unidad ev uid s)) +
      image_mset (mov_cobranza ev) (mset (pagos_unidad ev cid uid s))"
    unfolding cs[symmetric] ps[symmetric] by simp
  have so: "sorted (map mv_fecha ?ms)"
    using sorted_fst[of "map ?k ?ms"] by (simp add: comp_def)
  have sm: "sum_by f ?ms = sum_by (f \<circ> mov_cargo ev) (cargos_unidad ev uid s) +
      sum_by (f \<circ> mov_cobranza ev) (pagos_unidad ev cid uid s)" for f :: "movimiento \<Rightarrow> int"
    by (rule sum_mset_partes[OF mm])
  have "sum_by (\<lambda>m. mv_debit m - mv_credit m) ?ms =
      sum_by c_total (cargos_unidad ev uid s) - sum_by p_importe (pagos_unidad ev cid uid s)"
    unfolding sm by (simp add: comp_def mov_cargo_def mov_cobranza_def uminus_sum_list_map)
  then have sal: "sum64_from (\<lambda>m. sub64 (mv_debit m) (mv_credit m)) 0 ?ms =
      i64 (sum_by c_total (cargos_unidad ev uid s) - sum_by p_importe (pagos_unidad ev cid uid s))"
    using i64_sum[of "\<lambda>m. mv_debit m - mv_credit m" ?ms] by (simp add: sum64_from_eq sub64_def)
  have run: "get_cuenta_corriente ev co un s = Inr (\<lparr>cu_data = map (\<lambda>m. m\<lparr>mv_created := 0\<rparr>) ?ms,
      cu_saldo = sum64_from (\<lambda>m. sub64 (mv_debit m) (mv_credit m)) 0 ?ms\<rparr>, s)"
    using assms(2,3) by (simp add: get_cuenta_corriente_def tx_bind_def tx_some_def tx_ret_def
        list_charges_by_unidad_def list_cobranzas_q_def tx_read_def Let_def)
  show ?thesis
    by (rule exI, rule conjI, rule run) (use mm so sal in \<open>simp add: image_mset.compositionality comp_def\<close>)
qed

subsection \<open>What crediting and reversing leave as it was\<close>

lemma insort_map: "(\<And>x. k (g x) = k x) \<Longrightarrow> insort_key k (g x) (map g xs) = map g (insort_key k x xs)"
  by (induction xs) auto

lemma sort_upd_where: "(\<And>x. k (f x) = k x) \<Longrightarrow> sort_key k (upd_where P f xs) = upd_where P f (sort_key k xs)"
proof -
  assume k: "\<And>x. k (f x) = k x"
  define g where "g r = (if P r then f r else r)" for r
  have g: "k (g x) = k x" for x by (simp add: g_def k)
  have "sort_key k (map g xs) = map g (sort_key k xs)"
    by (induction xs) (simp_all add: insort_map[of k g, OF g])
  then show ?thesis by (simp add: upd_where_def g_def[abs_def])
qed

text \<open>
  The account of a unit does not see the reversal of a charge: its answer is the same before
  and after it, with the charge among the debits.
\<close>

theorem cuenta_corriente_ignora_reversas:
  assumes "revertir_cargo ev chid uid currency s = Inr (d, t)"
    and "get_cuenta_corriente ev co un s = Inr (cc, s')"
  shows "\<exists>t'. get_cuenta_corriente ev co un t = Inr (cc, t')"
proof -
  obtain c :: charge and e where t: "t = s\<lparr>charges := upd_where (\<lambda>x. c_tenant x = tenant ev \<and> c_id x = c_id c)
      (\<lambda>x. x\<lparr>c_saldo := 0\<rparr>) (charges s), entries := entries s @ [e], seq := seq s + 1\<rparr>"
    using assms(1) by (rule revertir_cargo_Inr)
  define P where "P x \<longleftrightarrow> c_tenant x = tenant ev \<and> c_id x = c_id c" for x :: charge
  define f where "f x = x\<lparr>c_saldo := 0\<rparr>" for x :: charge
  have ct: "charges t = upd_where P f (charges s)" by (simp add: t P_def[abs_def] f_def[abs_def])
  have f: "c_tenant (f x) = c_tenant x" "c_unidad (f x) = c_unidad x" "c_due (f x) = c_due x"
    "c_created (f x) = c_created x" "c_id (f x) = c_id x" "mov_cargo ev (f x) = mov_cargo ev x" for x
    by (simp_all add: f_def mov_cargo_def)
  have "filter (\<lambda>c. c_tenant c = tenant ev \<and> c_unidad c = v) (upd_where P f cs) =
      upd_where P f (filter (\<lambda>c. c_tenant c = tenant ev \<and> c_unidad c = v) cs)" for v cs
    by (rule filter_upd_where) (simp add: f)
  then have "map (mov_cargo ev) (sort_key c_due (sort_key c_created (sort_key c_id
      (filter (\<lambda>c. c_tenant c = tenant ev \<and> c_unidad c = v) (charges t))))) =
    map (mov_cargo ev) (sort_key c_due (sort_key c_created (sort_key c_id
      (filter (\<lambda>c. c_tenant c = tenant ev \<and> c_unidad c = v) (charges s)))))" for v
    by (simp add: ct sort_upd_where f map_upd_where_same)
  moreover have "payments t = payments s" "unidades t = unidades s" by (simp_all add: t)
  ultimately show ?thesis
    using assms(2) by (auto simp: get_cuenta_corriente_def tx_bind_Inr list_charges_by_unidad_def
        list_cobranzas_q_def Let_def)
qed

lemma morosidad_cong:
  assumes "charges t = charges s" and "unidades t = unidades s"
  shows "map_sum id fst (list_morosidad ev co t) = map_sum id fst (list_morosidad ev co s)"
proof -
  have m: "morosidad_de ev t = morosidad_de ev s" by (rule ext) (simp add: morosidad_de_def assms)
  have q: "map_sum id fst (list_morosidad_q ev cid t) = map_sum id fst (list_morosidad_q ev cid s)" for cid
    unfolding list_morosidad_q_def Let_def m assms by auto
  show ?thesis
  proof (cases "uuid_parse ev (trim_space co)")
    case (Some cid)
    then show ?thesis using q[of cid]
      by (cases "list_morosidad_q ev cid t"; cases "list_morosidad_q ev cid s")
        (auto simp: list_morosidad_def tx_bind_def tx_some_def tx_ret_def)
  qed (simp add: list_morosidad_def tx_bind_def tx_some_def tx_fail_def)
qed

lemma deuda_cong: "charges t = charges s \<Longrightarrow> p_unidad q = p_unidad p \<Longrightarrow> p_fecha q = p_fecha p \<Longrightarrow>
    deuda_exigible ev t q = deuda_exigible ev s p"
  by (simp add: deuda_exigible_def)

text \<open>The first charge of the debt is allocated as far as the payment goes.\<close>

lemma primera_asignacion:
  assumes "\<forall>k. sum_by a_amount (take k as) = min n (sum_by c_saldo (take k cs))"
    and "map a_charge as = map c_id (take (length as) cs)" and "cs = c # cs'" and "0 < c_saldo c" and "c_saldo c \<le> n"
  obtains a as' where "as = a # as'" "a_charge a = c_id c" "a_amount a = c_saldo c"
proof -
  have 1: "sum_by a_amount (take 1 as) = c_saldo c"
    using assms(1)[rule_format, of 1] assms(3-5) by simp
  then obtain a as' where "as = a # as'" using assms(4) by (cases as) auto
  then show ?thesis using that[of a as'] 1 assms(2,3) by simp
qed

lemma libro_cargos: "charges t = charges s \<Longrightarrow> entries t = entries s \<Longrightarrow> libro_ok ev t = libro_ok ev s"
  by (simp add: libro_ok_def mis_cargos_def neto_def asientos_def)

lemma acreditar_frame:
  assumes "acreditar_cobranza ev pay by xs s = Inr (d, t)" and "cob_ok ev s"
  shows "charges t = charges s \<and> entries t = entries s \<and> unidades t = unidades s \<and>
    (\<forall>q \<in> set (pagos_de ev s). uuid_parse ev (trim_space pay) \<noteq> Some (p_id q) \<longrightarrow> q \<in> set (pagos_de ev t))"
  using assms
proof (cases rule: acreditar_Inr)
  case (nueva p actor r s1)
  have "q \<in> set (pagos_de ev t)" if "q \<in> set (pagos_de ev s)" "p_id q \<noteq> p_id p" for q
    using that by (auto simp: nueva(6) pagos_de_def set_upd_where mi_pago_def image_iff intro!: bexI[of _ q])
  then show ?thesis using nueva(2,5) by (auto simp: nueva(6) asignadas_def)
qed simp

text \<open>
  C36. Crediting a payment does not lower the balance of the charges that it is allocated to:
  neither the charges nor the ledger change, so that the report of arrears is the same, and the
  next payment of the unit is allocated to the same charges again, for their whole balance.
\<close>

theorem doble_imputacion:
  assumes ok: "cob_ok ev s" and lib: "libro_ok ev s"
    and p: "p \<in> set (pagos_de ev s)" "p_estado p = ''pendiente_revision''"
    and q: "q \<in> set (pagos_de ev s)" "q \<noteq> p" "p_estado q = ''pendiente_revision''"
    and pq: "p_unidad q = p_unidad p" "p_fecha q = p_fecha p"
    and ids: "uuid_parse ev (trim_space pay) = Some (p_id p)" "uuid_parse ev (trim_space pay') = Some (p_id q)"
      "uuid_parse ev (trim_space by) = Some actor"
    and c: "deuda_exigible ev s p = c # cs" "c_saldo c \<le> p_importe p" "c_saldo c \<le> p_importe q"
  shows "\<exists>d s1 d' s2. acreditar_cobranza ev pay by [] s = Inr (d, s1) \<and>
    acreditar_cobranza ev pay' by [] s1 = Inr (d', s2) \<and> charges s2 = charges s \<and> entries s2 = entries s \<and>
    (\<forall>co. map_sum id fst (list_morosidad ev co s2) = map_sum id fst (list_morosidad ev co s)) \<and>
    2 * c_saldo c \<le> sum_by a_amount (filter (\<lambda>a. a_tenant a = tenant ev \<and> a_charge a = c_id c) (allocations s2))"
proof -
  have e: "p_estado p \<noteq> ''acreditado''" "p_estado q \<noteq> ''acreditado''" using p(2) q(3) by simp_all
  have pos: "0 < c_saldo c" using deuda_de_la_unidad(3)[OF lib, of p] c(1) by simp
  obtain as d s1 where 1: "acreditar_cobranza ev pay by [] s = Inr (d, s1)" "allocations s1 = allocations s @ as"
    "\<forall>k. sum_by a_amount (take k as) = min (p_importe p) (sum_by c_saldo (take k (deuda_exigible ev s p)))"
    "map a_charge as = map c_id (take (length as) (deuda_exigible ev s p))" "\<forall>a \<in> set as. alloc_de ev (p_id p) a"
    using acreditar_fifo_lema[OF ok lib p(1) e(1) ids(1,3)] by blast
  note f1 = acreditar_frame[OF 1(1) ok]
  have ok1: "cob_ok ev s1" by (rule acreditar_ok[OF 1(1) ok]) (simp add: asignacion_cabe_def)
  have lib1: "libro_ok ev s1" using lib libro_cargos[of s1 s] f1 by simp
  have "p_id p \<noteq> p_id q" using pagos_unico[OF ok p(1) q(1)] q(2) by blast
  then have q1: "q \<in> set (pagos_de ev s1)" using f1 q(1) ids(1) by simp
  have de: "deuda_exigible ev s1 q = c # cs" using deuda_cong[OF _ pq] f1 c(1) by simp
  obtain bs d' s2 where 2: "acreditar_cobranza ev pay' by [] s1 = Inr (d', s2)" "allocations s2 = allocations s1 @ bs"
    "\<forall>k. sum_by a_amount (take k bs) = min (p_importe q) (sum_by c_saldo (take k (deuda_exigible ev s1 q)))"
    "map a_charge bs = map c_id (take (length bs) (deuda_exigible ev s1 q))" "\<forall>a \<in> set bs. alloc_de ev (p_id q) a"
    using acreditar_fifo_lema[OF ok1 lib1 q1 e(2) ids(2,3)] by blast
  note f2 = acreditar_frame[OF 2(1) ok1]
  have ok2: "cob_ok ev s2" by (rule acreditar_ok[OF 2(1) ok1]) (simp add: asignacion_cabe_def)
  obtain a as' where a: "as = a # as'" "a_charge a = c_id c" "a_amount a = c_saldo c"
    by (rule primera_asignacion[OF 1(3,4) c(1) pos c(2)])
  obtain b bs' where b: "bs = b # bs'" "a_charge b = c_id c" "a_amount b = c_saldo c"
    by (rule primera_asignacion[OF 2(3,4) de pos c(3)])
  let ?P = "\<lambda>a. a_tenant a = tenant ev \<and> a_charge a = c_id c"
  have nn: "0 \<le> a_amount x" if x: "x \<in> set (allocations s2)" "a_tenant x = tenant ev" for x
  proof -
    obtain y where "y \<in> set (pagos_de ev s2)" "p_id y = a_payment x"
      using ok2 x unfolding cob_ok_def by blast
    then have "x \<in> set (asig ev (allocations s2) (p_id y))" "pago_ok ev (allocations s2) y"
      using x ok2 by (auto simp: asig_def alloc_de_def cob_ok_def)
    then show ?thesis by (auto simp: pago_ok_def)
  qed
  have al: "allocations s2 = allocations s @ (a # as') @ (b # bs')" using 1(2) 2(2) a(1) b(1) by simp
  have "0 \<le> sum_by a_amount (filter ?P xs)" if "set xs \<subseteq> set (allocations s2)" for xs
    using that nn by (intro sum_by_nonneg) auto
  from this[of "allocations s"] this[of as'] this[of bs']
  have "0 \<le> sum_by a_amount (filter ?P (allocations s))" "0 \<le> sum_by a_amount (filter ?P as')"
    "0 \<le> sum_by a_amount (filter ?P bs')" by (auto simp: al)
  moreover have "?P a" "?P b" using a b 1(5) 2(5) by (auto simp: alloc_de_def)
  ultimately have "2 * c_saldo c \<le> sum_by a_amount (filter ?P (allocations s2))"
    using a(3) b(3) by (simp add: al)
  moreover have "map_sum id fst (list_morosidad ev co s2) = map_sum id fst (list_morosidad ev co s)" for co
    by (rule morosidad_cong) (use f1 f2 in simp_all)
  ultimately show ?thesis using 1(1) 2(1) f1 f2 by simp
qed


lemma explicit_desborda_lema:
  assumes ok: "cob_ok ev s" and p: "p \<in> set (pagos_de ev s)" "p_estado p \<noteq> ''acreditado''"
    and ids: "uuid_parse ev (trim_space pay) = Some (p_id p)" "uuid_parse ev (trim_space by) = Some actor"
      "uuid_parse ev (trim_space k1) = Some (c_id c1)" "uuid_parse ev (trim_space k2) = Some (c_id c2)"
    and c: "c1 \<in> set (mis_cargos ev s)" "c2 \<in> set (mis_cargos ev s)" "c_id c1 \<noteq> c_id c2"
    and n: "p_importe p < 2 ^ 63 - 2"
  shows "\<exists>d t. acreditar_cobranza ev pay by [\<lparr>ai_charge = k1, ai_amount = 2 ^ 63 - 1\<rparr>,
      \<lparr>ai_charge = k2, ai_amount = 2 ^ 63 - 1\<rparr>] s = Inr (d, t) \<and>
    ac_saldo d = p_importe p + 2 \<and> charges t = charges s \<and>
    map a_amount (asig ev (allocations t) (p_id p)) = [2 ^ 63 - 1, 2 ^ 63 - 1]"
proof -
  let ?xs = "[\<lparr>ai_charge = k1, ai_amount = 2 ^ 63 - 1\<rparr>, \<lparr>ai_charge = k2, ai_amount = 2 ^ 63 - 1\<rparr>]"
  have z: "asig ev (allocations s) (p_id p) = []" by (rule sin_asignar[OF ok p])
  have pok: "pago_check p" using ok p(1) by (simp add: cob_ok_def pago_ok_def)
  obtain a where a: "insert_payment_allocation ev (p_id p) (c_id c1) (2 ^ 63 - 1) actor s =
      Inr (a, s\<lparr>allocations := allocations s @ [a]\<rparr>)" "alloc_de ev (p_id p) a" "a_charge a = c_id c1"
    using insert_alloc_ok[of "2 ^ 63 - 1" p ev s c1 actor] p(1) c(1) z by auto
  let ?s = "s\<lparr>allocations := allocations s @ [a]\<rparr>"
  have za: "asig ev (allocations ?s) (p_id p) = [a]" using z a(2) by (simp add: asig_def)
  obtain b where b: "insert_payment_allocation ev (p_id p) (c_id c2) (2 ^ 63 - 1) actor ?s =
      Inr (b, ?s\<lparr>allocations := allocations ?s @ [b]\<rparr>)" "alloc_de ev (p_id p) b"
    using insert_alloc_ok[of "2 ^ 63 - 1" p ev ?s c2 actor] p(1) c(2,3) za a(3)
    by (auto simp: pagos_de_def mis_cargos_def)
  let ?t = "s\<lparr>allocations := allocations s @ [a, b]\<rparr>"
  have am: "a_amount a = 2 ^ 63 - 1" "a_amount b = 2 ^ 63 - 1"
    using asignadas_Cons[OF a(1), of "[]"] asignadas_Cons[OF b(1), of "[]"] by simp_all
  have tot: "sum64_from ai_amount 0 ?xs = - 2" by code_simp
  have "sub64 (p_importe p) (- 2) = p_importe p + 2"
    using n pok by (subst sub64_id) (simp_all add: is_i64_def pago_check_def)
  then have bl: "build_allocations ev p ?xs actor s = Inr (([a, b], p_importe p + 2), ?t)"
    using a(1) b(1) ids(3,4) tot pok
    by (simp add: build_allocations_def build_explicit_def tx_bind_def tx_some_def tx_ret_def tx_guard_def pago_check_def)
  have "asig ev (allocations ?t) (p_id p) = [a, b]" using z a(2) b(2) by (simp add: asig_def)
  then show ?thesis
    using acreditar_corre[OF ok p ids(1,2) bl] am by (simp add: acreditacion_dto_de_def)
qed

text \<open>
  The explicit allocations of a payment are added up in 64 bits, and no allocation is compared
  with the balance of its charge: two allocations of the greatest amount are accepted for any
  payment, and the balance in favour is then two more than the amount that was paid.
\<close>

theorem explicit_desborda:
  assumes ok: "cob_ok ev s" and p: "p \<in> set (pagos_de ev s)" "p_estado p \<noteq> ''acreditado''"
    and ids: "uuid_parse ev (trim_space pay) = Some (p_id p)" "uuid_parse ev (trim_space by) = Some actor"
      "uuid_parse ev (trim_space k1) = Some (c_id c1)" "uuid_parse ev (trim_space k2) = Some (c_id c2)"
    and c: "c1 \<in> set (mis_cargos ev s)" "c2 \<in> set (mis_cargos ev s)" "c_id c1 \<noteq> c_id c2"
    and n: "p_importe p < 2 ^ 63 - 2"
  shows "\<exists>d t. acreditar_cobranza ev pay by [\<lparr>ai_charge = k1, ai_amount = 2 ^ 63 - 1\<rparr>,
      \<lparr>ai_charge = k2, ai_amount = 2 ^ 63 - 1\<rparr>] s = Inr (d, t) \<and>
    ac_saldo d = p_importe p + 2 \<and> charges t = charges s \<and>
    map a_amount (asig ev (allocations t) (p_id p)) = [2 ^ 63 - 1, 2 ^ 63 - 1]"
  by (rule explicit_desborda_lema[OF assms])

end
