(* ===== verification/CobEjemplo.thy ===== *)
theory CobEjemplo
  imports CobTeoremas
begin

text \<open>
  A unit with two charges and two payments in review: the witnesses of the theorems on the payments,
  and the sum of explicit allocations that wraps around.
\<close>

definition ec_cargo :: "uuid \<Rightarrow> fecha \<Rightarrow> int \<Rightarrow> charge" where
  "ec_cargo i f n = \<lparr>c_tenant = 1, c_unidad = 21, c_id = i, c_liquidacion = None,
     c_concepto = ''Expensa 202602'', c_due = f, c_total = n, c_saldo = n, c_created = 1\<rparr>"

definition ec_asiento :: "uuid \<Rightarrow> uuid \<Rightarrow> fecha \<Rightarrow> int \<Rightarrow> account_entry" where
  "ec_asiento i c f n = \<lparr>e_tenant = 1, e_unidad = 21, e_id = i, e_tipo = ''cargo'',
     e_fecha = f, e_debit = n, e_credit = 0, e_currency = ''ARS'', e_referencia = None,
     e_reversa = None, e_charge = Some c, e_created = 1\<rparr>"

definition ec_pago :: "uuid \<Rightarrow> string \<Rightarrow> int \<Rightarrow> payment" where
  "ec_pago i k n = \<lparr>p_tenant = 1, p_unidad = 21, p_id = i, p_fecha = Fecha 2026 5 15,
     p_canal = ''otros'', p_importe = n, p_referencia = None, p_estado = ''pendiente_revision'',
     p_idem_key = k, p_motivo = None, p_created_by = 7, p_created = 2, p_psp_provider = None,
     p_psp_preference = None, p_psp_url = None\<rparr>"

definition ec_intent :: psp_intent where
  "ec_intent = \<lparr>i_tenant = 1, i_id = 3001, i_payment = 2001, i_provider = ''mercadopago'',
     i_preference = ''pref'', i_status = ''created'', i_created = 2, i_updated = 2\<rparr>"

definition ec_db :: db where
  "ec_db = ejemplo_db\<lparr>
     charges := [ec_cargo 1002 (Fecha 2026 4 10) 300, ec_cargo 1001 (Fecha 2026 3 10) 500],
     entries := [ec_asiento 1003 1002 (Fecha 2026 4 10) 300, ec_asiento 1004 1001 (Fecha 2026 3 10) 500],
     payments := [ec_pago 2001 ''a'' 600, ec_pago 2002 ''b'' 700], psp_intents := [ec_intent]\<rparr>"

lemmas ec_datos = ec_db_def ec_cargo_def ec_asiento_def ec_pago_def ec_intent_def ejemplo_db_def

lemma ec_uid: "uuid_parse ejemplo_env ''2001'' = Some 2001" "uuid_parse ejemplo_env ''2002'' = Some 2002"
  "uuid_parse ejemplo_env ''7'' = Some 7" "uuid_parse ejemplo_env ''21'' = Some 21"
  "uuid_parse ejemplo_env ''10'' = Some 10" "uuid_parse ejemplo_env ''1001'' = Some 1001"
  "uuid_parse ejemplo_env ''1002'' = Some 1002"
  by (simp_all add: ejemplo_uuid digitos_eval)

lemma ec_trim: "trim_space ''2001'' = ''2001''" "trim_space ''2002'' = ''2002''" "trim_space ''7'' = ''7''"
  "trim_space ''21'' = ''21''" "trim_space ''10'' = ''10''" "trim_space ''pref'' = ''pref''"
  "trim_space ''1001'' = ''1001''" "trim_space ''1002'' = ''1002''"
  by code_simp+

lemma ec_pagos: "pagos_de ejemplo_env ec_db = [ec_pago 2001 ''a'' 600, ec_pago 2002 ''b'' 700]"
  by (simp add: pagos_de_def ec_datos)

lemma ec_ok: "cob_ok (ejemplo_env\<lparr>tenant := k\<rparr>) ec_db"
  by (cases "k = 1") (simp_all add: cob_ok_def pagos_de_def pago_ok_def pago_check_def canales_def asig_def
      ec_datos is_i64_def)

lemma ec_ok1: "cob_ok ejemplo_env ec_db"
  using ec_ok[of 1] cob_ok_tenant[of "ejemplo_env\<lparr>tenant := 1\<rparr>" ejemplo_env] by simp

lemma ec_libro: "libro_ok ejemplo_env ec_db"
  by (simp add: libro_ok_def mis_cargos_def neto_def asientos_def ec_datos)

lemma ec_fechas: "Fecha 2026 3 10 \<le> Fecha 2026 4 10" "\<not> Fecha 2026 4 10 \<le> Fecha 2026 3 10"
  "Fecha 2026 3 10 \<le> Fecha 2026 5 15" "Fecha 2026 4 10 \<le> Fecha 2026 5 15"
  by (simp_all add: less_eq_fecha_def clave_fecha_def)

lemma ec_deuda: "deuda_exigible ejemplo_env ec_db (ec_pago i k n) =
    [ec_cargo 1001 (Fecha 2026 3 10) 500, ec_cargo 1002 (Fecha 2026 4 10) 300]"
  by (simp add: deuda_exigible_def ec_datos ec_fechas)

subsection \<open>Witnesses\<close>

lemma ec_acreditar:
  "\<exists>d t. acreditar_cobranza ejemplo_env ''2001'' ''7'' [] ec_db = Inr (d, t)"
  using acreditar_fifo_lema[OF ec_ok1 ec_libro, of "ec_pago 2001 ''a'' 600" "''2001''" "''7''" 7]
  by (simp add: ec_pagos ec_uid ec_trim ec_pago_def) blast


theorem acreditar_repetible_witness:
  "\<exists>d t d'. acreditar_cobranza ejemplo_env ''2001'' ''7'' [] ec_db = Inr (d, t) \<and>
     acreditar_cobranza ejemplo_env ''2001'' ''7'' [] t = Inr (d', t) \<and> ac_saldo d' = ac_saldo d"
proof -
  obtain d t where r: "acreditar_cobranza ejemplo_env ''2001'' ''7'' [] ec_db = Inr (d, t)"
    using ec_acreditar by blast
  have "uuid_parse ejemplo_env (trim_space ''7'') = Some 7" by (simp add: ec_uid ec_trim)
  from acreditar_repetible[OF r ec_ok1 _ this] r show ?thesis
    by (auto simp: asignacion_cabe_def)
qed

theorem doble_imputacion_witness:
  "\<exists>d s1 d' s2. acreditar_cobranza ejemplo_env ''2001'' ''7'' [] ec_db = Inr (d, s1) \<and>
     acreditar_cobranza ejemplo_env ''2002'' ''7'' [] s1 = Inr (d', s2) \<and>
     1000 \<le> sum_by a_amount (filter (\<lambda>a. a_tenant a = 1 \<and> a_charge a = 1001) (allocations s2))"
proof -
  have e: "p_id (ec_pago i k n) = i" "p_importe (ec_pago i k n) = n" "p_unidad (ec_pago i k n) = 21"
    "p_estado (ec_pago i k n) = ''pendiente_revision''" "c_saldo (ec_cargo i f n) = n" "c_id (ec_cargo i f n) = i"
    "p_fecha (ec_pago i k n) = Fecha 2026 5 15" for i k n f
    by (simp_all add: ec_pago_def ec_cargo_def)
  have "ec_pago 2002 ''b'' 700 \<noteq> ec_pago 2001 ''a'' 600" by (simp add: ec_pago_def)
  then show ?thesis
    using doble_imputacion[OF ec_ok1 ec_libro, of "ec_pago 2001 ''a'' 600" "ec_pago 2002 ''b'' 700"
        "''2001''" "''2002''" "''7''" 7 "ec_cargo 1001 (Fecha 2026 3 10) 500" "[ec_cargo 1002 (Fecha 2026 4 10) 300]"]
    by (auto simp: ec_pagos ec_uid ec_trim e ec_deuda)
qed

lemma ec_cuenta: "\<exists>cc. get_cuenta_corriente ejemplo_env ''10'' ''21'' ec_db = Inr (cc, ec_db) \<and> cu_saldo cc = 800"
  by (simp add: get_cuenta_corriente_def tx_eval ec_uid ec_trim list_charges_by_unidad_def list_cobranzas_q_def
      ec_datos ejemplo_unidad_def mov_cargo_def Let_def sub64_def add64_def i64_def)

theorem cuenta_corriente_ok_witness:
  "\<exists>cc. get_cuenta_corriente ejemplo_env ''10'' ''21'' ec_db = Inr (cc, ec_db) \<and> cu_saldo cc = 800"
proof -
  have c: "cargos_unidad ejemplo_env 21 ec_db = [ec_cargo 1002 (Fecha 2026 4 10) 300, ec_cargo 1001 (Fecha 2026 3 10) 500]"
    "pagos_unidad ejemplo_env 10 21 ec_db = []" "c_total (ec_cargo i f n) = n" for i f n
    by (simp_all add: cargos_unidad_def pagos_unidad_def pagos_de_def ec_datos)
  show ?thesis
    using cuenta_corriente_ok[OF ejemplo_env_ok, of "''10''" 10 "''21''" 21 ec_db]
    by (auto simp: ec_uid ec_trim c i64_def)
qed

lemma ec_reversa:
  "\<exists>d t. revertir_cargo ejemplo_env ''1001'' ''21'' ''ARS'' ec_db = Inr (d, t)"
  by (simp add: cc_eval tx_eval ec_datos ec_uid ec_trim ejemplo_unidad_def)

definition ec_inp :: cobranza_input where
  "ec_inp = \<lparr>ci_unidad = ''21'', ci_fecha = ''2026-05-15'', ci_canal = None,
     ci_importe = \<lparr>mi_amount = 600, mi_currency = ''''\<rparr>, ci_referencia = None\<rparr>"

definition ec_v :: validated_cobranza where
  "ec_v = \<lparr>vc_unidad = 21, vc_fecha = Fecha 2026 5 15, vc_canal = ''otros'', vc_importe = 600,
     vc_referencia = None, vc_currency = ''ARS''\<rparr>"

lemma ec_str: "trim_space ''2026-05-15'' = ''2026-05-15''" "trim_space '''' = ''''" "to_upper '''' = ''''"
  "parse_fecha ''2026-05-15'' = Some (Fecha 2026 5 15)" "format_fecha (Fecha 2026 5 15) = ''2026-05-15''"
  by code_simp+

lemma ec_validar: "0 < n \<Longrightarrow> validate_cobranza_input ejemplo_env
    (ec_inp\<lparr>ci_importe := \<lparr>mi_amount = n, mi_currency = ''''\<rparr>\<rparr>) s = Inr (ec_v\<lparr>vc_importe := n\<rparr>, s)"
  by (simp add: validate_cobranza_input_def ec_inp_def ec_v_def tx_eval ec_uid ec_trim ec_str o_sino_def
      canales_def normalize_ref_def Let_def)

lemma ec_crear: "\<exists>d t p. create_cobranza ejemplo_env ''10'' ''7'' ec_inp ''k'' ejemplo_db = Inr (d, t) \<and>
    pagos_de ejemplo_env t = [p]"
proof -
  have "ec_inp = ec_inp\<lparr>ci_importe := \<lparr>mi_amount = 600, mi_currency = ''''\<rparr>\<rparr>" by (simp add: ec_inp_def)
  then have v: "validate_cobranza_input ejemplo_env ec_inp s = Inr (ec_v, s)" for s
    using ec_validar[of 600 s] by (simp add: ec_v_def)
  show ?thesis
    by (simp add: create_cobranza_def v tx_eval ec_uid ec_trim get_unidad_def stamp_cobranza_def
        stamp_clave_def insert_idempotency_key_def save_cobranza_def update_idempotency_key_def Let_def
        create_cobranza_q_def pago_check_def pago_clash_def unidad_existe_def canales_def
        ejemplo_db_def ejemplo_unidad_def ec_v_def pagos_de_def)
qed


text \<open>The notification of the first payment, and the payment credited by it.\<close>

definition ec_alloc :: "uuid \<Rightarrow> int \<Rightarrow> payment_allocation" where
  "ec_alloc c n = \<lparr>a_tenant = 1, a_payment = 2001, a_charge = c, a_amount = n, a_created_by = 7, a_created = 100\<rparr>"

definition ec_db2 :: db where
  "ec_db2 = ec_db\<lparr>payments := [(ec_pago 2001 ''a'' 600)\<lparr>p_estado := ''acreditado''\<rparr>, ec_pago 2002 ''b'' 700],
     allocations := [ec_alloc 1001 500, ec_alloc 1002 100]\<rparr>"

lemma ec_acreditar_db2: "map_sum id snd (acreditar_cobranza ejemplo_env ''2001'' ''7'' [] ec_db) = Inr ec_db2"
  by (simp add: acreditar_cobranza_def tx_eval ec_uid ec_trim get_cobranza_q_def build_allocations_def build_fifo_def
      list_open_charges_by_unidad_def insert_payment_allocation_def update_cobranza_estado_def mi_pago_def
      pago_check_def canales_def ec_datos ec_fechas Let_def sub64_def i64_def ec_db2_def ec_alloc_def)


lemma ec_lower: "to_lower ''approved'' = ''approved''" "to_lower ''pending'' = ''pending''"
  "to_lower ''authorized'' = ''authorized''" "trim_space ''approved'' = ''approved''"
  "trim_space ''pending'' = ''pending''" "trim_space ''authorized'' = ''authorized''"
  "lower_char CHR ''a'' = CHR ''a''" "lower_char CHR ''c'' = CHR ''c''" "lower_char CHR ''d'' = CHR ''d''"
  "lower_char CHR ''e'' = CHR ''e''" "lower_char CHR ''g'' = CHR ''g''" "lower_char CHR ''h'' = CHR ''h''"
  "lower_char CHR ''i'' = CHR ''i''" "lower_char CHR ''n'' = CHR ''n''" "lower_char CHR ''o'' = CHR ''o''"
  "lower_char CHR ''p'' = CHR ''p''" "lower_char CHR ''r'' = CHR ''r''" "lower_char CHR ''t'' = CHR ''t''"
  "lower_char CHR ''u'' = CHR ''u''" "lower_char CHR ''v'' = CHR ''v''" "lower_char CHR ''z'' = CHR ''z''"
  "show_nat (Suc 0) = ''1''" "show_nat 2001 = ''2001''" "show_nat 7 = ''7''" "show_nat 1 = ''1''" "trim_space ''1'' = ''1''"
  by code_simp+

lemma ec_env: "ejemplo_env\<lparr>tenant := 1\<rparr> = ejemplo_env" "ejemplo_env\<lparr>tenant := Suc 0\<rparr> = ejemplo_env"
  by (simp_all add: ejemplo_env_def)

definition ec_db3 :: "string \<Rightarrow> db" where
  "ec_db3 st = ec_db2\<lparr>psp_intents := [ec_intent\<lparr>i_status := st, i_updated := 100\<rparr>]\<rparr>"

lemma ec_webhook: "process_webhook ejemplo_env ''pref'' ''approved'' ec_db = Inr (True, ec_db3 ''approved'')"
proof -
  obtain d where "acreditar_cobranza ejemplo_env ''2001'' ''7'' [] ec_db = Inr (d, ec_db2)"
    using ec_acreditar_db2 by (cases "acreditar_cobranza ejemplo_env ''2001'' ''7'' [] ec_db") auto
  then show ?thesis
    by (simp add: process_webhook_def lookup_intent_def set_rls_def tx_eval ec_lower ec_trim ec_env Let_def
        get_cobranza_q_def mi_pago_def update_psp_intent_status_def intent_check_def ec_db2_def ec_db3_def ec_datos)
qed

lemma ec_webhook2: "process_webhook ejemplo_env ''pref'' ''pending'' (ec_db3 ''approved'') = Inr (False, ec_db3 ''pending'')"
  by (simp add: process_webhook_def lookup_intent_def set_rls_def tx_eval ec_lower ec_trim ec_env Let_def
      update_psp_intent_status_def intent_check_def ec_db2_def ec_db3_def ec_datos)


theorem webhook_estado_desconocido_witness:
  "process_webhook ejemplo_env ''pref'' ''authorized'' ec_db = Inl PgCheck"
  by (rule webhook_estado_desconocido[of _ _ "the (buscar_intent (psp_intents ec_db) (payments ec_db) ''pref'')", OF _ _ ejemplo_env_ok])
    (simp_all add: ec_trim ec_lower ec_datos)



theorem cuenta_corriente_ignora_reversas_witness:
  "\<exists>d t cc t'. revertir_cargo ejemplo_env ''1001'' ''21'' ''ARS'' ec_db = Inr (d, t) \<and>
     get_cuenta_corriente ejemplo_env ''10'' ''21'' t = Inr (cc, t') \<and> cu_saldo cc = 800"
  using ec_reversa cuenta_corriente_ignora_reversas ec_cuenta by metis

theorem explicit_desborda_witness:
  "\<exists>d t. acreditar_cobranza ejemplo_env ''2001'' ''7'' [\<lparr>ai_charge = ''1001'', ai_amount = 2 ^ 63 - 1\<rparr>,
      \<lparr>ai_charge = ''1002'', ai_amount = 2 ^ 63 - 1\<rparr>] ec_db = Inr (d, t) \<and> ac_saldo d = 602"
proof -
  have c: "ec_cargo 1001 (Fecha 2026 3 10) 500 \<in> set (mis_cargos ejemplo_env ec_db)"
    "ec_cargo 1002 (Fecha 2026 4 10) 300 \<in> set (mis_cargos ejemplo_env ec_db)"
    by (simp_all add: mis_cargos_def ec_datos)
  show ?thesis
    using explicit_desborda[OF ec_ok1, of "ec_pago 2001 ''a'' 600" "''2001''" "''7''" 7 "''1001''" _ "''1002''", OF _ _ _ _ _ _ c]
    by (auto simp: ec_pagos ec_uid ec_trim ec_pago_def ec_cargo_def)
qed

end
