(* ===== verification/Reclamos.thy ===== *)
theory Reclamos
  imports Modelo
begin

text \<open>
  The claims of the residents: the queries of \<open>internal/database/gen/reclamos.sql.go\<close> with the
  constraints of \<open>db/migrations/00025_reclamos.sql\<close>, and the package \<open>internal/reclamos\<close>: creation,
  messages, the state machine with its history, and the isolation of the tenants.
\<close>

subsection \<open>Queries\<close>

definition reclamo_estados :: "string set" where
  "reclamo_estados = {''abierto'', ''en_progreso'', ''resuelto'', ''cerrado''}"

definition reclamo_check :: "reclamo \<Rightarrow> bool" where
  "reclamo_check r \<longleftrightarrow> r_estado r \<in> reclamo_estados \<and> r_texto r \<noteq> ''''"

definition usuario_existe :: "uuid option \<Rightarrow> db \<Rightarrow> bool" where
  "usuario_existe u s \<longleftrightarrow> u = None \<or> (\<exists>x \<in> set (users (ident s)). Some (us_id x) = u)"

definition mi_reclamo :: "env \<Rightarrow> uuid \<Rightarrow> reclamo \<Rightarrow> bool" where
  "mi_reclamo ev rid r \<longleftrightarrow> r_tenant r = tenant ev \<and> r_id r = rid"

definition reclamo_existe :: "env \<Rightarrow> uuid \<Rightarrow> db \<Rightarrow> bool" where
  "reclamo_existe ev rid s \<longleftrightarrow> (\<exists>r \<in> set (reclamos s). mi_reclamo ev rid r)"

definition list_reclamos_q :: "env \<Rightarrow> uuid \<Rightarrow> string \<Rightarrow> reclamo list query" where
  "list_reclamos_q ev cid estado = tx_read (\<lambda>s. rev (sort_key r_created (sort_key r_id
     (filter (\<lambda>r. r_tenant r = tenant ev \<and> r_consorcio r = cid \<and> (r_estado r = estado \<or> estado = ''''))
        (reclamos s)))))"

definition get_reclamo_q :: "env \<Rightarrow> uuid \<Rightarrow> reclamo query" where
  "get_reclamo_q ev rid = tx_row (\<lambda>s. List.find (mi_reclamo ev rid) (reclamos s))"

definition create_reclamo_q :: "env \<Rightarrow> uuid \<Rightarrow> uuid \<Rightarrow> string \<Rightarrow> string \<Rightarrow> ts \<Rightarrow> reclamo query" where
  "create_reclamo_q ev cid uid categoria texto sla =
     tx_bind (nuevo_uuid ev) (\<lambda>rid. tx_insert reclamo_check
       (\<lambda>s r. if \<exists>x \<in> set (reclamos s). r_tenant x = r_tenant r \<and> r_id x = r_id r
              then Some ''reclamos_pkey'' else None)
       (\<lambda>s r. (\<exists>c \<in> set (consorcios s). co_tenant c = tenant ev \<and> co_id c = r_consorcio r) \<and>
          unidad_existe ev (r_unidad r) s)
       reclamos_update
       \<lparr>r_tenant = tenant ev, r_consorcio = cid, r_unidad = uid, r_id = rid, r_categoria = categoria,
        r_texto = texto, r_estado = ''abierto'', r_responsable = None, r_sla = Some sla,
        r_created_by = usuario ev, r_created = ahora ev, r_updated = ahora ev\<rparr>)"

definition update_reclamo_estado :: "env \<Rightarrow> uuid \<Rightarrow> string \<Rightarrow> uuid option \<Rightarrow> reclamo query" where
  "update_reclamo_estado ev rid estado responsable =
     tx_bind (get_reclamo_q ev rid) (\<lambda>r.
     let f = (\<lambda>x. x\<lparr>r_estado := estado, r_responsable := responsable, r_updated := ahora ev\<rparr>) in
     tx_bind (tx_update (mi_reclamo ev rid) f reclamo_check reclamos reclamos_update) (\<lambda>_.
     tx_bind (tx_read (usuario_existe responsable)) (\<lambda>e.
     tx_bind (tx_guard e PgForeignKey) (\<lambda>_. tx_ret (f r)))))"

definition list_reclamo_mensajes :: "env \<Rightarrow> uuid \<Rightarrow> reclamo_mensaje list query" where
  "list_reclamo_mensajes ev rid = tx_read (\<lambda>s. sort_key rm_created (sort_key rm_id
     (filter (\<lambda>m. rm_tenant m = tenant ev \<and> rm_reclamo m = rid) (rec_mensajes s))))"

definition insert_reclamo_mensaje :: "env \<Rightarrow> uuid \<Rightarrow> string \<Rightarrow> uuid option \<Rightarrow> reclamo_mensaje query" where
  "insert_reclamo_mensaje ev rid texto adjunto =
     tx_bind (nuevo_uuid ev) (\<lambda>mid. tx_insert (\<lambda>m. rm_texto m \<noteq> '''')
       (\<lambda>s m. if \<exists>x \<in> set (rec_mensajes s). rm_tenant x = rm_tenant m \<and> rm_id x = rm_id m
              then Some ''reclamo_mensajes_pkey'' else None)
       (\<lambda>s m. reclamo_existe ev (rm_reclamo m) s \<and> (rm_adjunto m = None \<or>
          (\<exists>d \<in> set (documentos s). do_tenant d = tenant ev \<and> Some (do_id d) = rm_adjunto m)))
       rec_mensajes_update
       \<lparr>rm_tenant = tenant ev, rm_reclamo = rid, rm_id = mid, rm_texto = texto, rm_adjunto = adjunto,
        rm_created_by = usuario ev, rm_created = ahora ev\<rparr>)"

definition list_reclamo_transiciones :: "env \<Rightarrow> uuid \<Rightarrow> reclamo_transicion list query" where
  "list_reclamo_transiciones ev rid = tx_read (\<lambda>s. sort_key rt_created (sort_key rt_id
     (filter (\<lambda>t. rt_tenant t = tenant ev \<and> rt_reclamo t = rid) (rec_transiciones s))))"

definition transicion_check :: "reclamo_transicion \<Rightarrow> bool" where
  "transicion_check t \<longleftrightarrow>
     rt_accion t \<in> {''asignar'', ''en_progreso'', ''resolver'', ''cerrar'', ''reabrir''} \<and>
     rt_from t \<in> reclamo_estados \<and> rt_to t \<in> reclamo_estados"

definition insert_reclamo_transicion :: "env \<Rightarrow> uuid \<Rightarrow> string \<Rightarrow> string option \<Rightarrow> string \<Rightarrow> string
    \<Rightarrow> uuid option \<Rightarrow> reclamo_transicion query" where
  "insert_reclamo_transicion ev rid accion motivo from to responsable =
     tx_bind (nuevo_uuid ev) (\<lambda>tid. tx_insert transicion_check
       (\<lambda>s t. if \<exists>x \<in> set (rec_transiciones s). rt_tenant x = rt_tenant t \<and> rt_id x = rt_id t
              then Some ''reclamo_transiciones_pkey'' else None)
       (\<lambda>s t. usuario_existe (rt_responsable t) s \<and> reclamo_existe ev (rt_reclamo t) s)
       rec_transiciones_update
       \<lparr>rt_tenant = tenant ev, rt_reclamo = rid, rt_id = tid, rt_accion = accion, rt_motivo = motivo,
        rt_from = from, rt_to = to, rt_responsable = responsable, rt_created_by = usuario ev,
        rt_created = ahora ev\<rparr>)"

definition get_documento_q :: "env \<Rightarrow> uuid \<Rightarrow> documento query" where
  "get_documento_q ev did =
     tx_row (\<lambda>s. List.find (\<lambda>d. do_tenant d = tenant ev \<and> do_id d = did) (documentos s))"

subsection \<open>Data of the package\<close>

record reclamo_dto =
  rd_id :: string
  rd_consorcio :: string
  rd_unidad :: string
  rd_categoria :: string
  rd_estado :: string
  rd_responsable :: "string option"
  rd_created :: ts

record mensaje_dto =
  rmd_id :: string
  rmd_reclamo :: string
  rmd_texto :: string
  rmd_adjunto :: "string option"
  rmd_created :: ts

record transicion_dto =
  rtd_id :: string
  rtd_reclamo :: string
  rtd_accion :: string
  rtd_motivo :: "string option"
  rtd_responsable :: "string option"
  rtd_created :: ts

record reclamo_detalle =
  rde_reclamo :: reclamo_dto
  rde_mensajes :: "mensaje_dto list"
  rde_transiciones :: "transicion_dto list"

record create_input =
  rci_unidad :: string
  rci_categoria :: string
  rci_texto :: string

record mensaje_input =
  rmi_texto :: string
  rmi_adjunto :: "string option"

record transicion_input =
  rti_accion :: string
  rti_motivo :: "string option"
  rti_responsable :: "string option"

definition to_reclamo :: "env \<Rightarrow> reclamo \<Rightarrow> reclamo_dto" where
  "to_reclamo ev r = \<lparr>rd_id = uuid_show ev (r_id r), rd_consorcio = uuid_show ev (r_consorcio r),
     rd_unidad = uuid_show ev (r_unidad r), rd_categoria = r_categoria r, rd_estado = r_estado r,
     rd_responsable = map_option (uuid_show ev) (r_responsable r), rd_created = r_created r\<rparr>"

definition to_mensaje :: "env \<Rightarrow> reclamo_mensaje \<Rightarrow> mensaje_dto" where
  "to_mensaje ev m = \<lparr>rmd_id = uuid_show ev (rm_id m), rmd_reclamo = uuid_show ev (rm_reclamo m),
     rmd_texto = rm_texto m, rmd_adjunto = map_option (uuid_show ev) (rm_adjunto m),
     rmd_created = rm_created m\<rparr>"

definition to_transicion :: "env \<Rightarrow> reclamo_transicion \<Rightarrow> transicion_dto" where
  "to_transicion ev t = \<lparr>rtd_id = uuid_show ev (rt_id t), rtd_reclamo = uuid_show ev (rt_reclamo t),
     rtd_accion = rt_accion t, rtd_motivo = rt_motivo t,
     rtd_responsable = map_option (uuid_show ev) (rt_responsable t), rtd_created = rt_created t\<rparr>"

subsection \<open>The state machine\<close>

definition transiciones :: "string \<times> string \<Rightarrow> string option" where
  "transiciones = map_of [
     ((''abierto'', ''en_progreso''), ''en_progreso''),
     ((''abierto'', ''resolver''), ''resuelto''),
     ((''abierto'', ''cerrar''), ''cerrado''),
     ((''en_progreso'', ''resolver''), ''resuelto''),
     ((''en_progreso'', ''cerrar''), ''cerrado''),
     ((''resuelto'', ''cerrar''), ''cerrado''),
     ((''resuelto'', ''reabrir''), ''abierto''),
     ((''cerrado'', ''reabrir''), ''abierto'')]"

definition acciones_reasignacion :: "string set" where
  "acciones_reasignacion = {''abierto'', ''en_progreso''}"

subsection \<open>Operations\<close>

definition google_uuid :: "env \<Rightarrow> string \<Rightarrow> uuid query" where
  "google_uuid ev x = tx_some ErrInvalidID (uuid_google ev x)"

definition optional_uuid :: "env \<Rightarrow> string option \<Rightarrow> uuid option query" where
  "optional_uuid ev x = (case x of None \<Rightarrow> tx_ret None
     | Some t \<Rightarrow> if trim_space t = '''' then tx_ret None
         else tx_bind (google_uuid ev (trim_space t)) (\<lambda>u. tx_ret (Some u)))"

definition optional_text :: "string option \<Rightarrow> string" where
  "optional_text x = (case x of None \<Rightarrow> '''' | Some t \<Rightarrow> t)"

text \<open>\<open>72 * time.Hour\<close> in microseconds.\<close>

definition sla_duracion :: nat where
  "sla_duracion = 72 * 3600 * 1000000"

definition reclamos_list :: "env \<Rightarrow> string \<Rightarrow> string \<Rightarrow> reclamo_dto list query" where
  "reclamos_list ev consorcio estado =
     tx_bind (google_uuid ev consorcio) (\<lambda>cid.
     tx_bind (list_reclamos_q ev cid (trim_space estado)) (\<lambda>rows. tx_ret (map (to_reclamo ev) rows)))"

definition reclamos_create :: "env \<Rightarrow> string \<Rightarrow> create_input \<Rightarrow> reclamo_dto query" where
  "reclamos_create ev consorcio inp =
     tx_bind (tx_guard (trim_space (rci_categoria inp) \<noteq> '''') (ErrTexto ''categoria es obligatoria'')) (\<lambda>_.
     tx_bind (tx_guard (\<not> runas (trim_space (rci_texto inp)) < 3)
       (ErrTexto ''texto debe tener al menos 3 caracteres'')) (\<lambda>_.
     tx_bind (google_uuid ev consorcio) (\<lambda>cid.
     tx_bind (google_uuid ev (trim_space (rci_unidad inp))) (\<lambda>uid.
     tx_bind (create_reclamo_q ev cid uid (trim_space (rci_categoria inp)) (trim_space (rci_texto inp))
       (reloj ev + sla_duracion)) (\<lambda>row.
     tx_ret (to_reclamo ev row))))))"

definition reclamos_get :: "env \<Rightarrow> string \<Rightarrow> reclamo_detalle query" where
  "reclamos_get ev reclamo_id =
     tx_bind (google_uuid ev reclamo_id) (\<lambda>rid.
     tx_bind (get_reclamo_q ev rid) (\<lambda>row.
     tx_bind (list_reclamo_mensajes ev rid) (\<lambda>ms.
     tx_bind (list_reclamo_transiciones ev rid) (\<lambda>trs.
     tx_ret \<lparr>rde_reclamo = to_reclamo ev row, rde_mensajes = map (to_mensaje ev) ms,
       rde_transiciones = map (to_transicion ev) trs\<rparr>))))"

definition reclamos_add_mensaje :: "env \<Rightarrow> string \<Rightarrow> mensaje_input \<Rightarrow> mensaje_dto query" where
  "reclamos_add_mensaje ev reclamo_id inp =
     (let texto = trim_space (rmi_texto inp) in
     tx_bind (tx_guard (texto \<noteq> '''') (ErrTexto ''texto es obligatorio'')) (\<lambda>_.
     tx_bind (google_uuid ev reclamo_id) (\<lambda>rid.
     tx_bind (optional_uuid ev (rmi_adjunto inp)) (\<lambda>adjunto.
     tx_bind (case adjunto of None \<Rightarrow> tx_ret ()
        | Some d \<Rightarrow> tx_exec (tx_catch (\<lambda>_. ErrTexto ''adjunto inexistente'') (get_documento_q ev d))) (\<lambda>_.
     tx_bind (insert_reclamo_mensaje ev rid texto adjunto) (\<lambda>row.
     tx_ret (to_mensaje ev row)))))))"

text \<open>The state that an action leads to: the table, and the assignments, which keep the state.\<close>

definition destino :: "string \<Rightarrow> string \<Rightarrow> uuid option \<Rightarrow> string query" where
  "destino estado accion responsable =
     (if accion = ''asignar'' then
        tx_bind (tx_guard (estado \<in> acciones_reasignacion) ErrInvalidTransition) (\<lambda>_.
        tx_bind (tx_guard (responsable \<noteq> None) (ErrTexto ''asignar requiere responsable_id'')) (\<lambda>_.
        tx_ret estado))
      else tx_some ErrInvalidTransition (transiciones (estado, accion)))"

definition reclamos_transicionar :: "env \<Rightarrow> string \<Rightarrow> transicion_input \<Rightarrow> reclamo_dto query" where
  "reclamos_transicionar ev reclamo_id inp =
     tx_bind (google_uuid ev reclamo_id) (\<lambda>rid.
     let accion = to_lower (trim_space (rti_accion inp));
         motivo = trim_space (optional_text (rti_motivo inp)) in
     tx_bind (optional_uuid ev (rti_responsable inp)) (\<lambda>pedido.
     tx_bind (get_reclamo_q ev rid) (\<lambda>row.
     tx_bind (destino (r_estado row) accion pedido) (\<lambda>to.
     tx_bind (tx_guard (\<not> (accion = ''reabrir'' \<and> motivo = '''')) (ErrTexto ''reabrir requiere motivo'')) (\<lambda>_.
     let responsable = (if pedido = None then r_responsable row else pedido) in
     tx_bind (insert_reclamo_transicion ev rid accion (if motivo \<noteq> '''' then Some motivo else None)
        (r_estado row) to responsable) (\<lambda>_.
     tx_bind (update_reclamo_estado ev rid to responsable) (\<lambda>updated.
     tx_ret (to_reclamo ev updated))))))))"

subsection \<open>Tenant isolation\<close>

lemma ais_reclamos_q:
  "tx_rel (aislado ev) (list_reclamos_q ev a b)" "tx_rel (aislado ev) (get_reclamo_q ev d)"
  "tx_rel (aislado ev) (create_reclamo_q ev a d c e f)" "tx_rel (aislado ev) (update_reclamo_estado ev d g h)"
  "tx_rel (aislado ev) (list_reclamo_mensajes ev d)" "tx_rel (aislado ev) (list_reclamo_transiciones ev d)"
  "tx_rel (aislado ev) (insert_reclamo_mensaje ev d c h)" "tx_rel (aislado ev) (get_documento_q ev d)"
  "tx_rel (aislado ev) (insert_reclamo_transicion ev d c i e g h)"
  unfolding list_reclamos_q_def get_reclamo_q_def create_reclamo_q_def update_reclamo_estado_def
    list_reclamo_mensajes_def list_reclamo_transiciones_def insert_reclamo_mensaje_def get_documento_q_def
    insert_reclamo_transicion_def Let_def
  by (intro ais.rules rel_queries;
      auto simp: aislado_def ajenas_def mi_reclamo_def intro!: filter_upd_where_outside)+

lemma ais_adjunto:
  "tx_rel (aislado ev) (case a of None \<Rightarrow> tx_ret () | Some d \<Rightarrow> tx_exec (tx_catch h (get_documento_q ev d)))"
  by (cases a) (auto intro!: ais.rules rel_exec ais_reclamos_q)

lemma ais_optional: "tx_rel (aislado ev) (optional_uuid ev x)" "tx_rel (aislado ev) (google_uuid ev y)"
  "tx_rel (aislado ev) (destino a b c)"
  unfolding optional_uuid_def google_uuid_def destino_def
  by (auto split: option.split intro!: ais.rules)

lemma reclamos_aislados_ops:
  "tx_rel (aislado ev) (reclamos_create ev co ci)" "tx_rel (aislado ev) (reclamos_add_mensaje ev rid mi)"
  "tx_rel (aislado ev) (reclamos_transicionar ev rid ti)"
  unfolding reclamos_create_def reclamos_add_mensaje_def reclamos_transicionar_def Let_def
  by (intro ais.rules ais_reclamos_q ais_adjunto ais_optional)+

end
