(* ===== verification/RecPropiedades.thy ===== *)
theory RecPropiedades
  imports Reclamos
begin

text \<open>
  What the claims promise: their history is a path of the state machine that ends in their state, a
  closed claim is reopened only with a motive, what a transition does on every branch, and the unit
  that the creation does not compare with the consorcio.
\<close>

subsection \<open>The history of a claim\<close>

definition mis_reclamos :: "env \<Rightarrow> db \<Rightarrow> reclamo list" where
  "mis_reclamos ev s = filter (\<lambda>r. r_tenant r = tenant ev) (reclamos s)"

definition historia :: "env \<Rightarrow> db \<Rightarrow> uuid \<Rightarrow> reclamo_transicion list" where
  "historia ev s rid = filter (\<lambda>t. rt_tenant t = tenant ev \<and> rt_reclamo t = rid) (rec_transiciones s)"

definition arista_valida :: "reclamo_transicion \<Rightarrow> bool" where
  "arista_valida t \<longleftrightarrow>
     (if rt_accion t = ''asignar''
      then rt_to t = rt_from t \<and> rt_from t \<in> acciones_reasignacion \<and> rt_responsable t \<noteq> None
      else transiciones (rt_from t, rt_accion t) = Some (rt_to t)) \<and>
     (rt_accion t = ''reabrir'' \<longrightarrow> rt_motivo t \<noteq> None)"

text \<open>The state that a history leads to, if it is a path of the machine.\<close>

fun camino :: "string \<Rightarrow> reclamo_transicion list \<Rightarrow> string option" where
  "camino e [] = Some e"
| "camino e (t # ts) = (if rt_from t = e \<and> arista_valida t then camino (rt_to t) ts else None)"

definition rec_ok :: "env \<Rightarrow> db \<Rightarrow> bool" where
  "rec_ok ev s \<longleftrightarrow> distinct (map r_id (mis_reclamos ev s)) \<and>
     (\<forall>r \<in> set (mis_reclamos ev s). camino ''abierto'' (historia ev s (r_id r)) = Some (r_estado r) \<and>
       r_texto r \<noteq> '''') \<and>
     (\<forall>t \<in> set (rec_transiciones s). rt_tenant t = tenant ev \<longrightarrow> reclamo_existe ev (rt_reclamo t) s)"

lemma camino_append:
  "camino e (ts @ us) = (case camino e ts of None \<Rightarrow> None | Some e' \<Rightarrow> camino e' us)"
  by (induction ts arbitrary: e) auto

lemma transiciones_estado: "transiciones (e, a) = Some e' \<Longrightarrow> e \<in> reclamo_estados \<and> e' \<in> reclamo_estados \<and>
    a \<in> {''asignar'', ''en_progreso'', ''resolver'', ''cerrar'', ''reabrir''}"
  by (auto simp: transiciones_def reclamo_estados_def split: if_splits)

lemma arista_estado: "arista_valida t \<Longrightarrow> rt_from t \<in> reclamo_estados \<Longrightarrow> rt_to t \<in> reclamo_estados"
  by (auto simp: arista_valida_def dest: transiciones_estado split: if_splits)

lemma camino_estado: "camino e ts = Some e' \<Longrightarrow> e \<in> reclamo_estados \<Longrightarrow> e' \<in> reclamo_estados"
  by (induction ts arbitrary: e) (auto split: if_splits dest: arista_estado)

text \<open>A path leaves the closed state only with a reopening, which has a motive.\<close>

lemma arista_cerrado:
  "arista_valida t \<Longrightarrow> rt_from t = ''cerrado'' \<Longrightarrow> rt_accion t = ''reabrir'' \<and> rt_motivo t \<noteq> None"
  by (auto simp: arista_valida_def transiciones_def acciones_reasignacion_def split: if_splits)

lemma camino_cerrado:
  "camino ''cerrado'' ts = Some e \<Longrightarrow> e \<noteq> ''cerrado'' \<Longrightarrow>
   \<exists>t \<in> set ts. rt_accion t = ''reabrir'' \<and> rt_motivo t \<noteq> None"
  by (cases ts) (auto split: if_splits dest: arista_cerrado)

subsection \<open>The operations\<close>

lemma rec_ok_mios: "rec_ok ev s \<Longrightarrow> r \<in> set (mis_reclamos ev s) \<Longrightarrow> r_estado r \<in> reclamo_estados"
  using camino_estado[of "''abierto''"] by (fastforce simp: rec_ok_def reclamo_estados_def)

lemma get_reclamo_Inr:
  "get_reclamo_q ev rid s = Inr (r, t) \<Longrightarrow> t = s \<and> r \<in> set (mis_reclamos ev s) \<and> r_id r = rid"
  by (auto simp: get_reclamo_q_def mi_reclamo_def mis_reclamos_def dest!: find_SomeD)

lemma get_reclamo_ok:
  assumes "rec_ok ev s" and "r \<in> set (mis_reclamos ev s)"
  shows "get_reclamo_q ev (r_id r) s = Inr (r, s)"
proof -
  have "List.find (mi_reclamo ev (r_id r)) (reclamos s) \<noteq> None"
    using assms(2) by (auto simp: find_None_iff_all mi_reclamo_def mis_reclamos_def)
  then obtain q where q: "get_reclamo_q ev (r_id r) s = Inr (q, s)" by (auto simp: get_reclamo_q_def tx_row_def)
  then have "q \<in> set (mis_reclamos ev s)" "r_id q = r_id r" using get_reclamo_Inr by blast+
  then show ?thesis using assms q by (auto simp: rec_ok_def distinct_map inj_on_def)
qed

lemma crear_reclamo_Inr:
  assumes "reclamos_create ev co inp s = Inr (d, t)"
  obtains r where "t = s\<lparr>reclamos := reclamos s @ [r], seq := Suc (seq s)\<rparr>" "r_tenant r = tenant ev"
    "r_estado r = ''abierto''" "r_texto r \<noteq> ''''" "\<not> reclamo_existe ev (r_id r) s" "unidad_existe ev (r_unidad r) s"
    "d = to_reclamo ev r"
proof -
  from assms obtain cid uid r where "create_reclamo_q ev cid uid (trim_space (rci_categoria inp))
      (trim_space (rci_texto inp)) (reloj ev + sla_duracion) s = Inr (r, t)" "d = to_reclamo ev r"
    by (auto simp: reclamos_create_def google_uuid_def tx_bind_Inr)
  then show ?thesis
    by (intro that[of r]) (auto simp: create_reclamo_q_def reclamo_check_def tx_bind_Inr reclamo_existe_def mi_reclamo_def
        unidad_existe_def split: if_splits)
qed

lemma mensaje_Inr:
  "reclamos_add_mensaje ev rid inp s = Inr (d, t) \<Longrightarrow> reclamos t = reclamos s \<and> rec_transiciones t = rec_transiciones s"
  by (auto simp: reclamos_add_mensaje_def Let_def tx_bind_Inr google_uuid_def optional_uuid_def
      insert_reclamo_mensaje_def get_documento_q_def split: option.splits if_splits)

lemma destino_Inr:
  assumes "destino e a p s = Inr (to, t)"
  shows "t = s" "if a = ''asignar'' then to = e \<and> e \<in> acciones_reasignacion \<and> p \<noteq> None
    else transiciones (e, a) = Some to"
  using assms by (auto simp: destino_def tx_bind_Inr split: if_splits)

lemma optional_uuid_Inr: "optional_uuid ev x s = Inr (u, t) \<Longrightarrow> t = s"
  by (auto simp: optional_uuid_def google_uuid_def tx_bind_Inr split: option.splits if_splits)

lemma rec_transicionar_Inr:
  assumes "reclamos_transicionar ev rid inp s = Inr (d, t)"
  obtains r x where "r \<in> set (mis_reclamos ev s)" "rt_tenant x = tenant ev" "rt_reclamo x = r_id r"
    "rt_from x = r_estado r" "arista_valida x"
    "t = s\<lparr>rec_transiciones := rec_transiciones s @ [x], seq := Suc (seq s),
       reclamos := upd_where (mi_reclamo ev (r_id r))
         (\<lambda>y. y\<lparr>r_estado := rt_to x, r_responsable := rt_responsable x, r_updated := ahora ev\<rparr>) (reclamos s)\<rparr>"
proof -
  let ?accion = "to_lower (trim_space (rti_accion inp))"
  let ?motivo = "trim_space (optional_text (rti_motivo inp))"
  let ?m = "if ?motivo \<noteq> '''' then Some ?motivo else None"
  from assms obtain k p r to s0 s1 s2 x u e where
    "optional_uuid ev (rti_responsable inp) s = Inr (p, s0)" and
    g: "get_reclamo_q ev k s0 = Inr (r, s1)" and de: "destino (r_estado r) ?accion p s1 = Inr (to, s2)" and
    re: "\<not> (?accion = ''reabrir'' \<and> ?motivo = '''')" and
    i: "insert_reclamo_transicion ev k ?accion ?m (r_estado r) to (if p = None then r_responsable r else p) s2 = Inr (x, u)" and
    up: "update_reclamo_estado ev k to (if p = None then r_responsable r else p) u = Inr (e, t)"
    unfolding reclamos_transicionar_def Let_def google_uuid_def by (auto simp: tx_bind_Inr)
  have s: "s0 = s" using \<open>optional_uuid _ _ s = _\<close> by (rule optional_uuid_Inr)
  note g' = get_reclamo_Inr[OF g]
  note d' = destino_Inr[OF de]
  have x: "rt_tenant x = tenant ev" "rt_reclamo x = k" "rt_from x = r_estado r" "rt_to x = to"
    "rt_accion x = ?accion" "rt_motivo x = ?m" "rt_responsable x = (if p = None then r_responsable r else p)"
    "u = s\<lparr>rec_transiciones := rec_transiciones s @ [x], seq := Suc (seq s)\<rparr>"
    using i g' d'(1) s by (auto simp: insert_reclamo_transicion_def tx_bind_Inr)
  have "t = u\<lparr>reclamos := upd_where (mi_reclamo ev k) (\<lambda>y. y\<lparr>r_estado := to,
      r_responsable := rt_responsable x, r_updated := ahora ev\<rparr>) (reclamos u)\<rparr>"
    using up by (auto simp: update_reclamo_estado_def Let_def tx_bind_Inr get_reclamo_q_def x(7))
  moreover have "arista_valida x"
    using d'(2) re by (auto simp: arista_valida_def x split: if_splits)
  ultimately show ?thesis using g' x s by (intro that[of r x]) simp_all
qed

subsection \<open>Reachable states\<close>

inductive rec_paso :: "env \<Rightarrow> db \<Rightarrow> db \<Rightarrow> bool" for ev where
  crear: "reclamos_create ev co inp s = Inr (d, t) \<Longrightarrow> rec_paso ev s t"
| mensaje: "reclamos_add_mensaje ev rid mi s = Inr (m, t) \<Longrightarrow> rec_paso ev s t"
| transicion: "reclamos_transicionar ev rid ti s = Inr (d, t) \<Longrightarrow> rec_paso ev s t"

definition rec_alcanza :: "env \<Rightarrow> db \<Rightarrow> db \<Rightarrow> bool" where
  "rec_alcanza ev = (rec_paso ev)\<^sup>*\<^sup>*"

definition sin_reclamos :: "env \<Rightarrow> db \<Rightarrow> bool" where
  "sin_reclamos ev s \<longleftrightarrow> mis_reclamos ev s = [] \<and> (\<forall>t \<in> set (rec_transiciones s). rt_tenant t \<noteq> tenant ev)"

lemma historia_vacia:
  "rec_ok ev s \<Longrightarrow> \<not> reclamo_existe ev k s \<Longrightarrow> historia ev s k = []"
  by (auto simp: rec_ok_def historia_def filter_empty_conv)

lemma crear_rec_ok:
  assumes "reclamos_create ev co inp s = Inr (d, t)" and ok: "rec_ok ev s"
  shows "rec_ok ev t"
proof -
  obtain r where t: "t = s\<lparr>reclamos := reclamos s @ [r], seq := Suc (seq s)\<rparr>" and
    r: "r_tenant r = tenant ev" "r_estado r = ''abierto''" "r_texto r \<noteq> ''''" "\<not> reclamo_existe ev (r_id r) s"
    using assms(1) by (rule crear_reclamo_Inr)
  have "historia ev t k = historia ev s k" for k by (simp add: t historia_def)
  then show ?thesis
    using ok r historia_vacia[OF ok r(4)]
    by (auto simp: rec_ok_def t mis_reclamos_def reclamo_existe_def mi_reclamo_def)
qed

lemma transicionar_rec_ok:
  assumes "reclamos_transicionar ev rid inp s = Inr (d, t)" and ok: "rec_ok ev s"
  shows "rec_ok ev t"
proof -
  obtain r x where r: "r \<in> set (mis_reclamos ev s)" and
    x: "rt_tenant x = tenant ev" "rt_reclamo x = r_id r" "rt_from x = r_estado r" "arista_valida x" and
    t: "t = s\<lparr>rec_transiciones := rec_transiciones s @ [x], seq := Suc (seq s),
       reclamos := upd_where (mi_reclamo ev (r_id r))
         (\<lambda>y. y\<lparr>r_estado := rt_to x, r_responsable := rt_responsable x, r_updated := ahora ev\<rparr>) (reclamos s)\<rparr>"
    using assms(1) by (rule rec_transicionar_Inr)
  let ?f = "\<lambda>y. y\<lparr>r_estado := rt_to x, r_responsable := rt_responsable x, r_updated := ahora ev\<rparr>"
  have m: "mis_reclamos ev t = upd_where (mi_reclamo ev (r_id r)) ?f (mis_reclamos ev s)"
    by (simp add: t mis_reclamos_def filter_upd_where mi_reclamo_def)
  have h: "historia ev t k = historia ev s k @ (if k = r_id r then [x] else [])" for k
    using x by (auto simp: t historia_def)
  have "map r_id (mis_reclamos ev t) = map r_id (mis_reclamos ev s)"
    unfolding m by (rule map_upd_where_same) simp
  moreover have "camino ''abierto'' (historia ev t (r_id q)) = Some (r_estado q) \<and> r_texto q \<noteq> ''''"
    if q: "q \<in> set (mis_reclamos ev t)" for q
  proof -
    obtain y where y: "y \<in> set (mis_reclamos ev s)" "q = (if mi_reclamo ev (r_id r) y then ?f y else y)"
      using q unfolding m set_upd_where by blast
    have c: "camino ''abierto'' (historia ev s (r_id y)) = Some (r_estado y)" "r_texto y \<noteq> ''''"
      using ok y(1) by (simp_all add: rec_ok_def)
    have "y = r" if "r_id y = r_id r" using ok y(1) r that by (auto simp: rec_ok_def distinct_map inj_on_def)
    moreover have "mi_reclamo ev (r_id r) y = (r_id y = r_id r)" using y(1) by (simp add: mi_reclamo_def mis_reclamos_def)
    ultimately show ?thesis using y(2) c x by (auto simp: h camino_append)
  qed
  moreover have "reclamo_existe ev k t = reclamo_existe ev k s" for k
    by (simp add: reclamo_existe_def t bex_upd_where mi_reclamo_def)
  moreover have "reclamo_existe ev (r_id r) s"
    using r by (auto simp: reclamo_existe_def mi_reclamo_def mis_reclamos_def)
  ultimately show ?thesis using ok x(2) by (auto simp: rec_ok_def t)
qed

lemma rec_paso_ok: "rec_paso ev s t \<Longrightarrow> rec_ok ev s \<Longrightarrow> rec_ok ev t"
proof (induction rule: rec_paso.induct)
  case (mensaje rid mi s m t)
  then have "rec_ok ev t = rec_ok ev s"
    by (simp add: rec_ok_def mis_reclamos_def historia_def reclamo_existe_def mensaje_Inr[of ev rid mi s m t])
  then show ?case using mensaje by simp
qed (blast intro: crear_rec_ok transicionar_rec_ok)+

lemma rec_alcanza_ok:
  assumes "rec_alcanza ev s t" and "rec_ok ev s"
  shows "rec_ok ev t"
  using assms(1) unfolding rec_alcanza_def
  by (induction rule: rtranclp_induct) (use assms(2) rec_paso_ok in auto)

text \<open>A history is only ever extended, and no claim is lost.\<close>

lemma rec_paso_historia:
  assumes "rec_paso ev s t"
  shows "\<exists>ts. historia ev t k = historia ev s k @ ts"
  using assms
proof cases
  case (crear co inp d)
  then show ?thesis by (auto elim!: crear_reclamo_Inr simp: historia_def)
next
  case (mensaje rid mi m)
  then show ?thesis using mensaje_Inr by (fastforce simp: historia_def)
next
  case (transicion rid ti d)
  then show ?thesis by (auto elim!: rec_transicionar_Inr simp: historia_def)
qed

lemma rec_alcanza_historia:
  assumes "rec_alcanza ev s t"
  shows "\<exists>ts. historia ev t k = historia ev s k @ ts"
  using assms unfolding rec_alcanza_def
proof (induction rule: rtranclp_induct)
  case (step y z)
  then show ?case using rec_paso_historia[of ev y z k] by fastforce
qed simp

subsection \<open>The state machine of a claim\<close>

definition estado_rec :: "env \<Rightarrow> uuid \<Rightarrow> db \<Rightarrow> string option" where
  "estado_rec ev k s = map_option r_estado (List.find (mi_reclamo ev k) (reclamos s))"

definition arista_rec :: "string \<Rightarrow> string \<Rightarrow> bool" where
  "arista_rec a b \<longleftrightarrow>
     (\<exists>acc \<in> {''en_progreso'', ''resolver'', ''cerrar'', ''reabrir''}. transiciones (a, acc) = Some b)"

lemma arista_valida_rec: "arista_valida t \<Longrightarrow> rt_to t = rt_from t \<or> arista_rec (rt_from t) (rt_to t)"
  by (auto simp: arista_valida_def arista_rec_def transiciones_def split: if_splits)

lemma estado_primero:
  assumes "estado_rec ev k s = Some e" and "r \<in> set (mis_reclamos ev s)" and "r_id r = k" and "rec_ok ev s"
  shows "e = r_estado r"
  using assms get_reclamo_ok[OF assms(4,2)] by (auto simp: estado_rec_def get_reclamo_q_def tx_row_def)

interpretation mr: maquina arista_rec "\<lambda>s t. rec_ok ev s \<and> rec_paso ev s t" "estado_rec ev" for ev
proof (unfold_locales, elim conjE)
  fix s t k e
  assume ok: "rec_ok ev s" and st: "rec_paso ev s t" and e: "estado_rec ev k s = Some e"
  from st show "\<exists>e'. estado_rec ev k t = Some e' \<and> (e' = e \<or> arista_rec e e')"
  proof cases
    case (crear co inp d)
    then show ?thesis using e by (auto elim!: crear_reclamo_Inr simp: estado_rec_def find_append)
  next
    case (mensaje rid mi m)
    then show ?thesis using e mensaje_Inr by (fastforce simp: estado_rec_def)
  next
    case (transicion rid ti d)
    then obtain r x where r: "r \<in> set (mis_reclamos ev s)" "rt_from x = r_estado r" "arista_valida x" and
      t: "t = s\<lparr>rec_transiciones := rec_transiciones s @ [x], seq := Suc (seq s),
        reclamos := upd_where (mi_reclamo ev (r_id r))
         (\<lambda>y. y\<lparr>r_estado := rt_to x, r_responsable := rt_responsable x, r_updated := ahora ev\<rparr>) (reclamos s)\<rparr>"
      by (auto elim!: rec_transicionar_Inr)
    obtain q where q: "List.find (mi_reclamo ev k) (reclamos s) = Some q" "e = r_estado q"
      using e by (auto simp: estado_rec_def)
    have f: "estado_rec ev k t = Some (if mi_reclamo ev (r_id r) q then rt_to x else e)"
      using q by (simp add: t estado_rec_def find_upd_where mi_reclamo_def)
    show ?thesis
    proof (cases "mi_reclamo ev (r_id r) q")
      case True
      then have "r_id r = k" using find_SomeD[OF q(1)] by (simp add: mi_reclamo_def)
      then have "e = r_estado r" using estado_primero[OF e r(1) _ ok] by simp
      then show ?thesis using f True r(2) arista_valida_rec[OF r(3)] by auto
    qed (use f in simp)
  qed
qed

lemma rec_alcanza_paso:
  assumes "rec_alcanza ev s t" and "rec_ok ev s"
  shows "(\<lambda>s t. rec_ok ev s \<and> rec_paso ev s t)\<^sup>*\<^sup>* s t"
  using assms(1) unfolding rec_alcanza_def
proof (induction rule: rtranclp_induct)
  case (step y z)
  then have "rec_ok ev y" using rec_alcanza_ok[of ev s y] assms(2) by (simp add: rec_alcanza_def)
  with step(2) show ?case by (intro rtranclp.rtrancl_into_rtrancl[OF step.IH]) simp
qed simp

lemma sin_reclamos_ok: "sin_reclamos ev s \<Longrightarrow> rec_ok ev s"
  by (auto simp: sin_reclamos_def rec_ok_def)

text \<open>
  C22. In every reachable state the history of a claim, in the order in which it was recorded, is a
  path of the state machine that leads from \<open>abierto\<close> to the state of the claim.
\<close>

theorem reclamos_historia:
  assumes "rec_alcanza ev s t" and "sin_reclamos ev s" and "r \<in> set (mis_reclamos ev t)"
  shows "camino ''abierto'' (historia ev t (r_id r)) = Some (r_estado r) \<and> r_estado r \<in> reclamo_estados"
proof -
  have "rec_ok ev t" by (rule rec_alcanza_ok[OF assms(1) sin_reclamos_ok[OF assms(2)]])
  then show ?thesis using assms(3) rec_ok_mios by (auto simp: rec_ok_def)
qed

text \<open>
  C33. A claim is never lost: whatever operations follow, it is there, in a state that edges of the
  machine reach from the state it had, and one of the four.
\<close>

theorem reclamo_permanece:
  assumes "rec_alcanza ev s t" and "rec_ok ev s" and "estado_rec ev k s = Some e"
  shows "\<exists>e' \<in> reclamo_estados. estado_rec ev k t = Some e' \<and> arista_rec\<^sup>*\<^sup>* e e'"
proof -
  note p = rec_alcanza_paso[OF assms(1,2)]
  have c: "b \<in> reclamo_estados" if "arista_rec a b" for a b
    using that transiciones_estado by (auto simp: arista_rec_def)
  obtain q where "q \<in> set (mis_reclamos ev s)" "r_estado q = e"
    using assms(3) by (fastforce simp: estado_rec_def mis_reclamos_def mi_reclamo_def dest!: find_SomeD)
  then have "e \<in> reclamo_estados" using rec_ok_mios[OF assms(2)] by blast
  then show ?thesis using mr.cerrado[OF p assms(3), of reclamo_estados] mr.camino[OF p assms(3)] c by force
qed

text \<open>
  A closed claim that is found in another state later was reopened in between, with a motive:
  the history has the transition.
\<close>

theorem reclamo_cerrado_motivo:
  assumes "rec_alcanza ev s t" and "rec_ok ev s" and "r \<in> set (mis_reclamos ev s)" and "r_estado r = ''cerrado''"
    and "q \<in> set (mis_reclamos ev t)" and "r_id q = r_id r" and "r_estado q \<noteq> ''cerrado''"
  shows "\<exists>x \<in> set (drop (length (historia ev s (r_id r))) (historia ev t (r_id r))).
    rt_accion x = ''reabrir'' \<and> rt_motivo x \<noteq> None"
proof -
  obtain ts where ts: "historia ev t (r_id r) = historia ev s (r_id r) @ ts"
    using rec_alcanza_historia[OF assms(1)] by blast
  have "rec_ok ev t" by (rule rec_alcanza_ok[OF assms(1,2)])
  then have "camino ''abierto'' (historia ev t (r_id r)) = Some (r_estado q)"
    using assms(5,6) by (auto simp: rec_ok_def)
  moreover have "camino ''abierto'' (historia ev s (r_id r)) = Some ''cerrado''"
    using assms(2-4) by (auto simp: rec_ok_def)
  ultimately have "camino ''cerrado'' ts = Some (r_estado q)" by (simp add: ts camino_append)
  from camino_cerrado[OF this assms(7)] show ?thesis by (simp add: ts)
qed


subsection \<open>The unit of a new claim\<close>

text \<open>
  The creation does not compare the unit with the consorcio: a claim of any consorcio of the
  tenant can be opened on any unit of the tenant.
\<close>

theorem reclamo_unidad_ajena:
  assumes "uuid_google ev co = Some (co_id c)" and "c \<in> set (consorcios s)" and "co_tenant c = tenant ev"
    and "uuid_google ev (trim_space (rci_unidad inp)) = Some (u_id u)" and "u \<in> set (unidades s)"
    and "u_tenant u = tenant ev" and "trim_space (rci_categoria inp) \<noteq> ''''"
    and "3 \<le> runas (trim_space (rci_texto inp))" and "\<not> reclamo_existe ev (uuid_gen ev (seq s)) s"
  shows "\<exists>r t. reclamos_create ev co inp s = Inr (to_reclamo ev r, t) \<and> reclamos t = reclamos s @ [r] \<and>
    r_consorcio r = co_id c \<and> r_unidad r = u_id u \<and> r_estado r = ''abierto''"
proof -
  have "trim_space (rci_texto inp) \<noteq> ''''" using assms(8) by (auto simp: runas_def)
  moreover have "\<not> (\<exists>x \<in> set (reclamos s). r_tenant x = tenant ev \<and> r_id x = uuid_gen ev (seq s))"
    using assms(9) by (auto simp: reclamo_existe_def mi_reclamo_def)
  ultimately show ?thesis
    using assms by (auto simp: reclamos_create_def google_uuid_def tx_bind_def tx_guard_def tx_some_def tx_ret_def
        create_reclamo_q_def nuevo_uuid_def tx_insert_def reclamo_check_def reclamo_estados_def unidad_existe_def)
qed

subsection \<open>Witnesses\<close>

definition re_db :: db where
  "re_db = ejemplo_db\<lparr>consorcios := consorcios ejemplo_db @ [\<lparr>co_tenant = 1, co_id = 11, co_nombre = ''Otro'',
     co_cuit = None, co_domicilio = None, co_tipo = ''edificio'', co_estado = ''activo'', co_config = ''{}'',
     co_created = 1, co_updated = 1\<rparr>]\<rparr>"

definition re_inp :: create_input where
  "re_inp = \<lparr>rci_unidad = ''21'', rci_categoria = ''agua'', rci_texto = ''pierde''\<rparr>"

definition re_rec :: "string \<Rightarrow> reclamo" where
  "re_rec e = \<lparr>r_tenant = 1, r_consorcio = 11, r_unidad = 21, r_id = 1000, r_categoria = ''agua'',
     r_texto = ''pierde'', r_estado = e, r_responsable = None, r_sla = Some (100 + sla_duracion),
     r_created_by = Some 7, r_created = 100, r_updated = 100\<rparr>"

definition re_trans :: "nat \<Rightarrow> string \<Rightarrow> string option \<Rightarrow> string \<Rightarrow> string \<Rightarrow> reclamo_transicion" where
  "re_trans n a m f to = \<lparr>rt_tenant = 1, rt_reclamo = 1000, rt_id = 1000 + n, rt_accion = a, rt_motivo = m,
     rt_from = f, rt_to = to, rt_responsable = None, rt_created_by = Some 7, rt_created = 100\<rparr>"

definition re_db1 :: db where
  "re_db1 = re_db\<lparr>reclamos := [re_rec ''abierto''], seq := 1\<rparr>"

definition re_db2 :: db where
  "re_db2 = re_db\<lparr>reclamos := [re_rec ''cerrado''],
     rec_transiciones := [re_trans 1 ''cerrar'' None ''abierto'' ''cerrado''], seq := 2\<rparr>"

definition re_db3 :: db where
  "re_db3 = re_db\<lparr>reclamos := [re_rec ''abierto''],
     rec_transiciones := [re_trans 1 ''cerrar'' None ''abierto'' ''cerrado'',
       re_trans 2 ''reabrir'' (Some ''sigue'') ''cerrado'' ''abierto''], seq := 3\<rparr>"

lemma re_google: "uuid_google ejemplo_env s = (if s \<noteq> [] \<and> list_all digito s then Some (num s) else None)"
  by (simp add: ejemplo_env_def)

lemma re_texto: "trim_space ''21'' = ''21''" "trim_space ''agua'' = ''agua''" "trim_space ''pierde'' = ''pierde''"
  "runas ''pierde'' = 6" "to_lower (trim_space ''cerrar'') = ''cerrar''" "to_lower (trim_space ''reabrir'') = ''reabrir''"
  "trim_space '''' = ''''" "trim_space ''sigue'' = ''sigue''" "to_lower (trim_space ''resolver'') = ''resolver''"
  by code_simp+

lemmas re_datos = re_db_def re_db1_def re_db2_def re_db3_def re_rec_def re_trans_def ejemplo_db_def ejemplo_unidad_def

lemma re_crear: "map_sum id snd (reclamos_create ejemplo_env ''11'' re_inp re_db) = Inr re_db1"
  by (simp add: reclamos_create_def google_uuid_def re_google digitos_eval tx_eval re_inp_def re_texto
      create_reclamo_q_def reclamo_check_def reclamo_estados_def unidad_existe_def re_datos)

lemma re_cerrar: "map_sum id snd (reclamos_transicionar ejemplo_env ''1000''
    \<lparr>rti_accion = ''cerrar'', rti_motivo = None, rti_responsable = None\<rparr> re_db1) = Inr re_db2"
  by (simp add: reclamos_transicionar_def Let_def google_uuid_def re_google digitos_eval tx_eval re_texto optional_uuid_def
      optional_text_def get_reclamo_q_def mi_reclamo_def destino_def transiciones_def insert_reclamo_transicion_def
      transicion_check_def reclamo_estados_def usuario_existe_def reclamo_existe_def update_reclamo_estado_def
      reclamo_check_def re_datos)

lemma re_reabrir: "map_sum id snd (reclamos_transicionar ejemplo_env ''1000''
    \<lparr>rti_accion = ''reabrir'', rti_motivo = Some ''sigue'', rti_responsable = None\<rparr> re_db2) = Inr re_db3"
  by (simp add: reclamos_transicionar_def Let_def google_uuid_def re_google digitos_eval tx_eval re_texto optional_uuid_def
      optional_text_def get_reclamo_q_def mi_reclamo_def destino_def transiciones_def insert_reclamo_transicion_def
      transicion_check_def reclamo_estados_def usuario_existe_def reclamo_existe_def update_reclamo_estado_def
      reclamo_check_def re_datos)


lemma re_alcanza: "rec_alcanza ejemplo_env re_db re_db2" "rec_alcanza ejemplo_env re_db2 re_db3"
proof -
  have "rec_paso ejemplo_env re_db re_db1" "rec_paso ejemplo_env re_db1 re_db2" "rec_paso ejemplo_env re_db2 re_db3"
    using mapsum_Inr[OF re_crear] mapsum_Inr[OF re_cerrar] mapsum_Inr[OF re_reabrir]
    by (auto intro: rec_paso.intros)
  then show "rec_alcanza ejemplo_env re_db re_db2" "rec_alcanza ejemplo_env re_db2 re_db3"
    unfolding rec_alcanza_def by (auto intro: rtranclp.rtrancl_into_rtrancl)
qed

lemma re_sin: "sin_reclamos ejemplo_env re_db"
  by (simp add: sin_reclamos_def mis_reclamos_def re_datos)

lemma re_ok2: "rec_ok ejemplo_env re_db2"
  by (rule rec_alcanza_ok[OF re_alcanza(1) sin_reclamos_ok[OF re_sin]])

theorem reclamos_historia_witness:
  "camino ''abierto'' (historia ejemplo_env re_db2 1000) = Some ''cerrado''"
  using reclamos_historia[OF re_alcanza(1) re_sin, of "re_rec ''cerrado''"]
  by (simp add: mis_reclamos_def re_datos)

theorem reclamo_permanece_witness:
  "\<exists>e' \<in> reclamo_estados. estado_rec ejemplo_env 1000 re_db3 = Some e' \<and> arista_rec\<^sup>*\<^sup>* ''cerrado'' e'"
  by (rule reclamo_permanece[OF re_alcanza(2) re_ok2]) (simp add: estado_rec_def mi_reclamo_def re_datos)

theorem reclamo_cerrado_motivo_witness:
  "\<exists>x \<in> set (drop 1 (historia ejemplo_env re_db3 1000)). rt_accion x = ''reabrir'' \<and> rt_motivo x \<noteq> None"
  using reclamo_cerrado_motivo[OF re_alcanza(2) re_ok2, of "re_rec ''cerrado''" "re_rec ''abierto''"]
  by (simp add: mis_reclamos_def historia_def re_datos)


theorem reclamo_unidad_ajena_witness:
  "\<exists>r t. reclamos_create ejemplo_env ''11'' re_inp re_db = Inr (to_reclamo ejemplo_env r, t) \<and>
     r_consorcio r = 11 \<and> r_unidad r = u_id (hd (unidades re_db)) \<and> u_consorcio (hd (unidades re_db)) = 10"
  using reclamo_unidad_ajena[of ejemplo_env "''11''" "last (consorcios re_db)" re_db re_inp "hd (unidades re_db)"]
  by (auto simp: re_google digitos_eval re_texto re_inp_def reclamo_existe_def re_datos)

end
