(* ===== verification/Base64.thy ===== *)
theory Base64
  imports Fechas
begin

text \<open>
  The text encodings of Go's library that the identity uses: \<open>strings.Split\<close> and the unpadded
  alphabets of \<open>encoding/base64\<close>, \<open>RawURLEncoding\<close> and \<open>RawStdEncoding\<close>, with their round trips.
\<close>

subsection \<open>Splitting\<close>

fun partir :: "char \<Rightarrow> string \<Rightarrow> string list" where
  "partir c [] = [[]]"
| "partir c (x # xs) =
     (if x = c then [] # partir c xs
      else case partir c xs of [] \<Rightarrow> [[x]] | p # ps \<Rightarrow> (x # p) # ps)"

lemma partir_not_Nil [simp]: "partir c s \<noteq> []"
  by (induction s) (auto split: list.split)

lemma partir_sin: "c \<notin> set s \<Longrightarrow> partir c s = [s]"
  by (induction s) auto

lemma partir_append: "c \<notin> set s \<Longrightarrow> partir c (s @ c # t) = s # partir c t"
  by (induction s) auto

lemma partir_unir: "ps \<noteq> [] \<Longrightarrow> \<forall>p \<in> set ps. c \<notin> set p \<Longrightarrow> partir c (unir [c] ps) = ps"
  by (induction "[c]" ps rule: unir.induct) (auto simp: partir_sin partir_append)

subsection \<open>Base64\<close>

definition b64_sym :: "bool \<Rightarrow> nat \<Rightarrow> char" where
  "b64_sym url n = (if n < 26 then char_of (65 + n) else if n < 52 then char_of (71 + n)
     else if n < 62 then char_of (n - 4) else if n = 62 then (if url then CHR 0x2D else CHR 0x2B)
     else (if url then CHR 0x5F else CHR 0x2F))"

definition b64_val :: "bool \<Rightarrow> char \<Rightarrow> nat option" where
  "b64_val url c = (let k = of_char c in
     if 65 \<le> k \<and> k \<le> 90 then Some (k - 65) else if 97 \<le> k \<and> k \<le> 122 then Some (k - 71)
     else if 48 \<le> k \<and> k \<le> 57 then Some (k + 4)
     else if c = (if url then CHR 0x2D else CHR 0x2B) then Some 62
     else if c = (if url then CHR 0x5F else CHR 0x2F) then Some 63 else None)"

fun b64_seis :: "nat list \<Rightarrow> nat list" where
  "b64_seis (x # y # z # r) =
     x div 4 # (x mod 4 * 16 + y div 16) # (y mod 16 * 4 + z div 64) # z mod 64 # b64_seis r"
| "b64_seis [x, y] = [x div 4, x mod 4 * 16 + y div 16, y mod 16 * 4]"
| "b64_seis [x] = [x div 4, x mod 4 * 16]"
| "b64_seis [] = []"

text \<open>The decoder ignores the low bits of the last group, and rejects a group of one.\<close>

fun b64_ocho :: "nat list \<Rightarrow> nat list option" where
  "b64_ocho (a # b # c # d # r) = map_option (\<lambda>t.
     (a * 4 + b div 16) # (b mod 16 * 16 + c div 4) # (c mod 4 * 64 + d) # t) (b64_ocho r)"
| "b64_ocho [a, b, c] = Some [a * 4 + b div 16, b mod 16 * 16 + c div 4]"
| "b64_ocho [a, b] = Some [a * 4 + b div 16]"
| "b64_ocho [a] = None"
| "b64_ocho [] = Some []"

definition b64_enc :: "bool \<Rightarrow> string \<Rightarrow> string" where
  "b64_enc url s = map (b64_sym url) (b64_seis (map of_char s))"

fun todos :: "'a option list \<Rightarrow> 'a list option" where
  "todos [] = Some []"
| "todos (None # xs) = None"
| "todos (Some x # xs) = map_option (\<lambda>ys. x # ys) (todos xs)"

text \<open>Line breaks are skipped.\<close>

definition b64_dec :: "bool \<Rightarrow> string \<Rightarrow> string option" where
  "b64_dec url s = Option.bind (todos (map (b64_val url) (filter (\<lambda>c. c \<noteq> CHR 0x0A \<and> c \<noteq> CHR 0x0D) s)))
     (\<lambda>vs. map_option (map char_of) (b64_ocho vs))"

lemma todos_map_Some: "(\<And>x. x \<in> set xs \<Longrightarrow> f x = Some (g x)) \<Longrightarrow> todos (map f xs) = Some (map g xs)"
  by (induction xs) auto

lemma of_char_sym: "n < 64 \<Longrightarrow> (of_char (b64_sym url n) :: nat) = (if n < 26 then 65 + n else if n < 52 then 71 + n
    else if n < 62 then n - 4 else if n = 62 then (if url then 45 else 43) else (if url then 95 else 47))"
  by (auto simp: b64_sym_def)

lemma b64_val_sym: "n < 64 \<Longrightarrow> b64_val url (b64_sym url n) = Some n"
  unfolding b64_val_def Let_def of_char_sym
  by (auto simp: b64_sym_def)

lemma b64_sym_ok: "n < 64 \<Longrightarrow> b64_sym url n \<notin> {CHR 0x0A, CHR 0x0D, CHR 0x2E, CHR 0x24}"
proof -
  assume n: "n < 64"
  have "(of_char (b64_sym url n) :: nat) \<notin> of_char ` {CHR 0x0A, CHR 0x0D, CHR 0x2E, CHR 0x24}"
    unfolding of_char_sym[OF n] using n by auto
  then show ?thesis by blast
qed

lemma b64_seis_64: "\<forall>x \<in> set xs. x < 256 \<Longrightarrow> \<forall>v \<in> set (b64_seis xs). v < 64"
  by (induction xs rule: b64_seis.induct) auto

lemma seis_ocho: "(x::nat) div 4 * 4 + (x mod 4 * 16 + y div 16) div 16 = x" if "y < 256"
proof -
  have "y div 16 < 16" using that by simp
  then show ?thesis by simp
qed

lemma seis_ocho2: "(x mod 4 * 16 + y div 16) mod 16 * 16 + (y mod 16 * 4 + z div 64) div 4 = y" if "y < 256" "z < 256" for x y z :: nat
proof -
  have "y div 16 < 16" "z div 64 < 4" using that by simp_all
  then show ?thesis by simp
qed

lemma seis_ocho3: "(y mod 16 * 4 + z div 64) mod 4 * 64 + z mod 64 = z" if "z < 256" for y z :: nat
proof -
  have "z div 64 < 4" using that by simp
  then show ?thesis by simp
qed

lemma b64_ocho_seis: "\<forall>x \<in> set xs. x < 256 \<Longrightarrow> b64_ocho (b64_seis xs) = Some xs"
proof (induction xs rule: b64_seis.induct)
  case (1 x y z r)
  then show ?case using seis_ocho[of y x] seis_ocho2[of y z x] seis_ocho3[of z y] by simp
next
  case (2 x y)
  then show ?case using seis_ocho[of y x] seis_ocho2[of y 0 x] by simp
next
  case (3 x)
  then show ?case using seis_ocho[of 0 x] by simp
qed simp

lemma b64_dec_enc [simp]: "b64_dec url (b64_enc url s) = Some s"
proof -
  let ?vs = "b64_seis (map of_char s)"
  have v: "\<forall>v \<in> set ?vs. v < 64" by (rule b64_seis_64) auto
  have "filter (\<lambda>c. c \<noteq> CHR 0x0A \<and> c \<noteq> CHR 0x0D) (map (b64_sym url) ?vs) = map (b64_sym url) ?vs"
    using v b64_sym_ok by (fastforce simp: filter_id_conv)
  moreover have "todos (map (b64_val url) (map (b64_sym url) ?vs)) = Some ?vs"
    using todos_map_Some[of ?vs "b64_val url \<circ> b64_sym url" id] v b64_val_sym by simp
  moreover have "b64_ocho ?vs = Some (map of_char s)" by (rule b64_ocho_seis) auto
  ultimately show ?thesis by (simp add: b64_dec_def b64_enc_def comp_def)
qed

lemma b64_enc_chars: "CHR 0x2E \<notin> set (b64_enc url s)" "CHR 0x24 \<notin> set (b64_enc url s)"
proof -
  have "\<forall>v \<in> set (b64_seis (map of_char s)). v < 64" by (rule b64_seis_64) auto
  then show "CHR 0x2E \<notin> set (b64_enc url s)" "CHR 0x24 \<notin> set (b64_enc url s)"
    unfolding b64_enc_def using b64_sym_ok by fastforce+
qed

end
