(* ===== verification/Credenciales.thy ===== *)
theory Credenciales
  imports Modelo Base64
begin

text \<open>
  The credentials of \<open>internal/identity\<close>: the passwords in the PHC format of Argon2id
  (\<open>password.go\<close>), the signed tokens (\<open>jwt.go\<close>) and the extraction of the token from a request
  (\<open>apps/api/transport/http/middleware.go\<close>). The cryptography, the JSON codec of the claims and the
  one-time passwords are parameters.
\<close>

subsection \<open>The environment of the identity\<close>

record claims =
  cl_issuer :: string
  cl_subject :: string
  cl_issued :: int
  cl_expires :: int
  cl_purpose :: string
  cl_email :: string
  cl_name :: string
  cl_membership :: string
  cl_tenant :: string
  cl_roles :: "string list"
  cl_scope_type :: string
  cl_scope_id :: string
  cl_session_key :: string

text \<open>
  The configuration, with its durations in microseconds, and the third-party functions: the RSA
  signature of a digest and its verification, the digest, the JSON codec of the claims, Argon2id
  (password, salt, time, memory, threads, length), the validation and generation of one-time
  passwords, and the random token of a counter.
\<close>

record auth_env =
  ae_ev :: env
  base_url :: string
  access_ttl :: nat
  refresh_ttl :: nat
  mfa_ttl :: nat
  login_window :: nat
  login_max :: int
  cache_ttl :: nat
  con_clave :: bool
  sha_bytes :: "string \<Rightarrow> string"
  rsa_sign :: "string \<Rightarrow> string"
  rsa_verify :: "string \<Rightarrow> string \<Rightarrow> bool"
  claims_json :: "claims \<Rightarrow> string"
  claims_parse :: "string \<Rightarrow> claims option"
  argon :: "string \<Rightarrow> string \<Rightarrow> nat \<Rightarrow> nat \<Rightarrow> nat \<Rightarrow> nat \<Rightarrow> string"
  totp_ok :: "ts \<Rightarrow> string \<Rightarrow> string \<Rightarrow> bool"
  totp_gen :: "nat \<Rightarrow> string"
  totp_url :: "string \<Rightarrow> string \<Rightarrow> string \<Rightarrow> string"
  rand_token :: "nat \<Rightarrow> string"

text \<open>The documented behaviour of the signature and of the codec.\<close>

definition auth_ok :: "auth_env \<Rightarrow> bool" where
  "auth_ok ae \<longleftrightarrow> (\<forall>d. rsa_verify ae d (rsa_sign ae d)) \<and> (\<forall>c. claims_parse ae (claims_json ae c) = Some c)"

text \<open>\<open>time.Now().Unix()\<close>, and the same after a duration.\<close>

definition unix_now :: "auth_env \<Rightarrow> int" where
  "unix_now ae = int (reloj (ae_ev ae) div 1000000)"

definition unix_after :: "auth_env \<Rightarrow> nat \<Rightarrow> int" where
  "unix_after ae d = int ((reloj (ae_ev ae) + d) div 1000000)"

text \<open>The letters with accents of the messages, in UTF-8.\<close>

definition a_aguda :: string where "a_aguda = [CHR 0xC3, CHR 0xA1]"
definition o_aguda :: string where "o_aguda = [CHR 0xC3, CHR 0xB3]"
definition n_tilde :: string where "n_tilde = [CHR 0xC3, CHR 0xB1]"

subsection \<open>Passwords\<close>

definition hash_password :: "auth_env \<Rightarrow> string \<Rightarrow> string \<Rightarrow> string" where
  "hash_password ae password salt =
     (let hash = argon ae password salt 3 (64 * 1024) 2 32 in
      ''$argon2id$v='' @ show_nat 19 @ ''$m='' @ show_nat (64 * 1024) @ '',t='' @ show_nat 3 @ '',p='' @ show_nat 2 @
      ''$'' @ b64_enc False salt @ ''$'' @ b64_enc False hash)"

text \<open>\<open>fmt.Sscanf\<close>: a literal, an unsigned and a signed number; blanks before a number are skipped.\<close>

definition scan_lit :: "string \<Rightarrow> string \<Rightarrow> string option" where
  "scan_lit lit s = (if take (length lit) s = lit then Some (drop (length lit) s) else None)"

definition scan_skip :: "string \<Rightarrow> string" where
  "scan_skip s = dropWhile (\<lambda>c. espacio c \<and> c \<noteq> CHR 0x0A) s"

definition scan_uint :: "nat \<Rightarrow> string \<Rightarrow> (nat \<times> string) option" where
  "scan_uint w s = (let t = scan_skip s; ds = takeWhile digito t in
     if ds = '''' \<or> 2 ^ w \<le> num ds then None else Some (num ds, dropWhile digito t))"

definition scan_int :: "string \<Rightarrow> (int \<times> string) option" where
  "scan_int s = (let t = scan_skip s; neg = take 1 t = ''-''; u = (if neg \<or> take 1 t = ''+'' then drop 1 t else t);
       ds = takeWhile digito u in
     if ds = '''' \<or> (if neg then 2 ^ 63 < num ds else 2 ^ 63 \<le> num ds) then None
     else Some (if neg then - int (num ds) else int (num ds), dropWhile digito u))"

definition scan_version :: "string \<Rightarrow> int option" where
  "scan_version s = Option.bind (scan_lit ''v='' s) (\<lambda>r. map_option fst (scan_int r))"

definition scan_params :: "string \<Rightarrow> (nat \<times> nat \<times> nat) option" where
  "scan_params s =
     Option.bind (scan_lit ''m='' s) (\<lambda>r1.
     Option.bind (scan_uint 32 r1) (\<lambda>(m, r2).
     Option.bind (scan_lit '',t='' r2) (\<lambda>r3.
     Option.bind (scan_uint 32 r3) (\<lambda>(t, r4).
     Option.bind (scan_lit '',p='' r4) (\<lambda>r5.
     Option.bind (scan_uint 8 r5) (\<lambda>(p, _). Some (m, t, p)))))))"

text \<open>\<open>argon2.IDKey\<close> panics without rounds or threads.\<close>

definition compare_password :: "auth_env \<Rightarrow> string \<Rightarrow> string \<Rightarrow> err + bool" where
  "compare_password ae password encoded =
     (let parts = partir (CHR ''$'') encoded in
      if length parts \<noteq> 6 \<or> parts ! 1 \<noteq> ''argon2id''
      then Inl (ErrTexto (''hash de contrase'' @ n_tilde @ ''a inv'' @ a_aguda @ ''lido''))
      else case scan_version (parts ! 2) of
        None \<Rightarrow> Inl (ErrTexto (''versi'' @ o_aguda @ ''n de hash inv'' @ a_aguda @ ''lida''))
      | Some _ \<Rightarrow> (case scan_params (parts ! 3) of
        None \<Rightarrow> Inl (ErrTexto (''par'' @ a_aguda @ ''metros de hash inv'' @ a_aguda @ ''lidos''))
      | Some (memory, timeCost, threads) \<Rightarrow> (case b64_dec False (parts ! 4) of
        None \<Rightarrow> Inl (ErrTexto (''salt inv'' @ a_aguda @ ''lido''))
      | Some salt \<Rightarrow> (case b64_dec False (parts ! 5) of
        None \<Rightarrow> Inl (ErrTexto (''hash inv'' @ a_aguda @ ''lido''))
      | Some expected \<Rightarrow>
          if timeCost < 1 \<or> threads < 1 then Inl (ErrTexto ''panic'')
          else Inr (argon ae password salt timeCost memory threads (length expected) = expected)))))"

subsection \<open>Tokens\<close>

definition comillas :: "string \<Rightarrow> string" where
  "comillas s = CHR 0x22 # s @ [CHR 0x22]"

definition jwt_header :: string where
  "jwt_header = ''{'' @ comillas ''alg'' @ '':'' @ comillas ''RS256'' @ '','' @ comillas ''typ'' @ '':'' @
     comillas ''JWT'' @ ''}''"

definition sign_jwt :: "auth_env \<Rightarrow> claims \<Rightarrow> string" where
  "sign_jwt ae c = (let unsigned = b64_enc True jwt_header @ ''.'' @ b64_enc True (claims_json ae c)
     in unsigned @ ''.'' @ b64_enc True (rsa_sign ae (sha_bytes ae unsigned)))"

definition parse_and_verify_jwt :: "auth_env \<Rightarrow> string \<Rightarrow> string \<Rightarrow> err + claims" where
  "parse_and_verify_jwt ae token issuer =
     (let parts = partir (CHR ''.'') token in
      if length parts \<noteq> 3 then Inl (ErrTexto ''JWT mal formado'')
      else let unsigned = parts ! 0 @ ''.'' @ parts ! 1 in
      case b64_dec True (parts ! 2) of
        None \<Rightarrow> Inl (ErrTexto ''firma ilegible'')
      | Some sig \<Rightarrow>
        if \<not> rsa_verify ae (sha_bytes ae unsigned) sig then Inl (ErrTexto (''firma inv'' @ a_aguda @ ''lida''))
        else case b64_dec True (parts ! 1) of
          None \<Rightarrow> Inl (ErrTexto ''payload ilegible'')
        | Some payload \<Rightarrow> (case claims_parse ae payload of
            None \<Rightarrow> Inl (ErrTexto (''claims inv'' @ a_aguda @ ''lidas''))
          | Some c \<Rightarrow>
              if cl_expires c \<le> unix_now ae then Inl (ErrTexto ''token expirado'')
              else if issuer \<noteq> '''' \<and> cl_issuer c \<noteq> issuer then Inl (ErrTexto (''issuer inv'' @ a_aguda @ ''lido''))
              else Inr c))"

definition verify_access_token :: "auth_env \<Rightarrow> string \<Rightarrow> err + claims" where
  "verify_access_token ae token =
     (if \<not> con_clave ae then Inl (ErrTexto ''clave JWT no configurada'')
      else parse_and_verify_jwt ae token (base_url ae))"

subsection \<open>The token of a request\<close>

text \<open>The header \<open>Authorization\<close> (empty when it is missing) and the cookie \<open>ca_access\<close>.\<close>

record http_request =
  rq_authorization :: string
  rq_access_cookie :: "string option"

definition bearer_token :: "http_request \<Rightarrow> string" where
  "bearer_token r =
     (let tok = trim_space (rq_authorization r) in
      if tok \<noteq> '''' then (if 6 \<le> length tok \<and> to_lower (take 6 tok) = ''bearer'' then trim_space (drop 6 tok) else tok)
      else case rq_access_cookie r of Some c \<Rightarrow> c | None \<Rightarrow> '''')"

definition require_auth :: "auth_env \<Rightarrow> http_request \<Rightarrow> err + claims" where
  "require_auth ae r = verify_access_token ae (bearer_token r)"

subsection \<open>Round trips\<close>

lemma digito_no: "digito c \<Longrightarrow> c \<noteq> CHR ''$'' \<and> c \<noteq> CHR '','' \<and> \<not> espacio c"
  by (auto simp: digito_def espacio_def)

lemma show_nat_digitos: "\<forall>c \<in> set (show_nat n). digito c"
  using digitos_show_nat[of n] by (simp add: list_all_iff)

lemma scan_skip_show: "scan_skip (show_nat n @ r) = show_nat n @ r"
proof -
  obtain c cs where c: "show_nat n = c # cs" by (cases "show_nat n") simp_all
  then have "\<not> espacio c" using show_nat_digitos[of n] digito_no by simp
  then show ?thesis by (simp add: scan_skip_def c)
qed

lemma tras_digitos:
  assumes "r = '''' \<or> \<not> digito (hd r)"
  shows "takeWhile digito (show_nat n @ r) = show_nat n" "dropWhile digito (show_nat n @ r) = r"
proof -
  have "takeWhile digito r = ''''" "dropWhile digito r = r" using assms by (cases r; simp)+
  then show "takeWhile digito (show_nat n @ r) = show_nat n" "dropWhile digito (show_nat n @ r) = r"
    using show_nat_digitos[of n] by simp_all
qed

lemma scan_uint_show:
  "n < 2 ^ b \<Longrightarrow> r = '''' \<or> \<not> digito (hd r) \<Longrightarrow> scan_uint b (show_nat n @ r) = Some (n, r)"
  unfolding scan_uint_def scan_skip_show Let_def tras_digitos by (simp add: num_show_nat)

lemma scan_lit_append: "scan_lit lit (lit @ r) = Some r"
  by (simp add: scan_lit_def)

lemma scan_params_hash: "scan_params (''m='' @ show_nat 65536 @ '',t='' @ show_nat 3 @ '',p='' @ show_nat 2) = Some (65536, 3, 2)"
proof -
  have 1: "scan_uint 32 (show_nat 65536 @ '',t='' @ show_nat 3 @ '',p='' @ show_nat 2) =
      Some (65536, '',t='' @ show_nat 3 @ '',p='' @ show_nat 2)"
    by (rule scan_uint_show) (simp_all add: digito_def)
  have 2: "scan_uint 32 (show_nat 3 @ '',p='' @ show_nat 2) = Some (3, '',p='' @ show_nat 2)"
    by (rule scan_uint_show) (simp_all add: digito_def)
  have 3: "scan_uint 8 (show_nat 2) = Some (2, '''')" using scan_uint_show[of 2 8 "''''"] by simp
  show ?thesis unfolding scan_params_def by (simp only: scan_lit_append bind.bind_lunit 1 2 3 prod.case)
qed

lemma scan_version_hash: "scan_version (''v='' @ show_nat 19) = Some 19"
proof -
  have n: "show_nat 19 = ''19''" by code_simp
  show ?thesis unfolding n
    by (simp add: scan_version_def scan_lit_def scan_int_def scan_skip_def espacio_def digitos_eval)
qed

lemma partir_hash:
  "partir (CHR ''$'') (hash_password ae pw salt) = [[], ''argon2id'', ''v='' @ show_nat 19,
     ''m='' @ show_nat 65536 @ '',t='' @ show_nat 3 @ '',p='' @ show_nat 2, b64_enc False salt,
     b64_enc False (argon ae pw salt 3 65536 2 32)]"
proof -
  have n: "CHR ''$'' \<notin> set (show_nat k)" for k using show_nat_digitos[of k] digito_no by blast
  let ?ps = "[[], ''argon2id'', ''v='' @ show_nat 19,
     ''m='' @ show_nat 65536 @ '',t='' @ show_nat 3 @ '',p='' @ show_nat 2, b64_enc False salt,
     b64_enc False (argon ae pw salt 3 65536 2 32)]"
  have "hash_password ae pw salt = unir [CHR ''$''] ?ps" by (simp add: hash_password_def Let_def)
  moreover have "partir (CHR ''$'') (unir [CHR ''$''] ?ps) = ?ps"
    by (rule partir_unir) (use n b64_enc_chars(2) in auto)
  ultimately show ?thesis by simp
qed

lemma password_leido:
  assumes "length (argon ae pw salt 3 65536 2 32) = 32"
  shows "compare_password ae pw' (hash_password ae pw salt) =
    Inr (argon ae pw' salt 3 65536 2 32 = argon ae pw salt 3 65536 2 32)"
  unfolding compare_password_def partir_hash Let_def
  by (simp add: scan_version_hash[simplified] scan_params_hash[simplified] assms)

text \<open>
  C30. A stored password hash is read back: the comparison accepts exactly the passwords with the
  same Argon2id key under the salt and the parameters of the hash, and never fails.
\<close>

theorem password_ida_vuelta:
  assumes "length (argon ae pw salt 3 65536 2 32) = 32"
  shows "compare_password ae pw' (hash_password ae pw salt) =
    Inr (argon ae pw' salt 3 65536 2 32 = argon ae pw salt 3 65536 2 32)"
  using assms by (rule password_leido)

lemma partir_jwt:
  "partir (CHR ''.'') (b64_enc True a @ ''.'' @ b64_enc True b @ ''.'' @ b64_enc True c) =
   [b64_enc True a, b64_enc True b, b64_enc True c]"
  by (simp add: partir_append partir_sin b64_enc_chars(1))

lemma jwt_leido:
  assumes "auth_ok ae"
  shows "parse_and_verify_jwt ae (sign_jwt ae c) iss =
    (if cl_expires c \<le> unix_now ae then Inl (ErrTexto ''token expirado'')
     else if iss \<noteq> '''' \<and> cl_issuer c \<noteq> iss then Inl (ErrTexto (''issuer inv'' @ a_aguda @ ''lido''))
     else Inr c)"
proof -
  let ?p = "b64_enc True (claims_json ae c)"
  let ?u = "b64_enc True jwt_header @ ''.'' @ ?p"
  have s: "sign_jwt ae c = b64_enc True jwt_header @ ''.'' @ ?p @ ''.'' @ b64_enc True (rsa_sign ae (sha_bytes ae ?u))"
    by (simp add: sign_jwt_def Let_def)
  show ?thesis using assms unfolding parse_and_verify_jwt_def s partir_jwt Let_def by (simp add: auth_ok_def)
qed

text \<open>
  C29. A token that the server signs is read back with its claims until it expires, and by the server
  with the same issuer only.
\<close>

theorem jwt_ida_vuelta:
  assumes "auth_ok ae" and "con_clave ae"
  shows "verify_access_token ae (sign_jwt ae c) =
    (if cl_expires c \<le> unix_now ae then Inl (ErrTexto ''token expirado'')
     else if base_url ae \<noteq> '''' \<and> cl_issuer c \<noteq> base_url ae then Inl (ErrTexto (''issuer inv'' @ a_aguda @ ''lido''))
     else Inr c)"
  using assms by (simp add: verify_access_token_def jwt_leido)

subsection \<open>A concrete environment\<close>

text \<open>
  The codec of the witnesses: the fields in base64, joined by dots. The signature of a digest is the
  digest, the key of Argon2id the password and the salt.
\<close>

definition leer_int :: "string \<Rightarrow> int" where
  "leer_int s = (case s of c # r \<Rightarrow> if c = CHR 0x2D then - int (num r) else int (num s) | [] \<Rightarrow> 0)"

definition empacar :: "string list \<Rightarrow> string" where
  "empacar xs = unir ''.'' ([] # map (b64_enc True) xs)"

definition desempacar :: "string \<Rightarrow> string list option" where
  "desempacar s = todos (map (b64_dec True) (tl (partir (CHR ''.'') s)))"

definition ejemplo_json :: "claims \<Rightarrow> string" where
  "ejemplo_json c = empacar [cl_issuer c, cl_subject c, show_int (cl_issued c), show_int (cl_expires c),
     cl_purpose c, cl_email c, cl_name c, cl_membership c, cl_tenant c, empacar (cl_roles c),
     cl_scope_type c, cl_scope_id c, cl_session_key c]"

definition ejemplo_parse :: "string \<Rightarrow> claims option" where
  "ejemplo_parse s = (case desempacar s of
     Some [a, b, c, d, e, f, g, h, i, j, k, l, m] \<Rightarrow> map_option (\<lambda>rs.
       \<lparr>cl_issuer = a, cl_subject = b, cl_issued = leer_int c, cl_expires = leer_int d, cl_purpose = e,
        cl_email = f, cl_name = g, cl_membership = h, cl_tenant = i, cl_roles = rs, cl_scope_type = k,
        cl_scope_id = l, cl_session_key = m\<rparr>) (desempacar j)
   | _ \<Rightarrow> None)"

definition ejemplo_auth :: auth_env where
  "ejemplo_auth = \<lparr>ae_ev = ejemplo_env\<lparr>reloj := 1000000000\<rparr>, base_url = ''u'', access_ttl = 900000000,
     refresh_ttl = 9000000000, mfa_ttl = 300000000, login_window = 900000000, login_max = 2, cache_ttl = 60000000,
     con_clave = True, sha_bytes = id, rsa_sign = id, rsa_verify = (=), claims_json = ejemplo_json,
     claims_parse = ejemplo_parse,
     argon = (\<lambda>pw salt t m p n. take n (pw @ salt @ replicate n (CHR 0x00))),
     totp_ok = (\<lambda>t code secret. code = secret), totp_gen = show_nat, totp_url = (\<lambda>i a s. i @ a @ s),
     rand_token = show_nat\<rparr>"

lemma leer_show_int: "leer_int (show_int n) = n"
proof (cases "n < 0")
  case False
  obtain c cs where c: "show_nat (nat n) = c # cs" by (cases "show_nat (nat n)") simp_all
  then have "c \<noteq> CHR 0x2D" using show_nat_digitos[of "nat n"] by (auto simp: digito_def)
  then have "leer_int (show_nat (nat n)) = int (num (show_nat (nat n)))" by (simp add: leer_int_def c)
  then show ?thesis using False by (simp add: show_int_def num_show_nat)
qed (simp add: leer_int_def show_int_def num_show_nat)

lemma desempacar_empacar: "desempacar (empacar xs) = Some xs"
proof -
  have "partir (CHR ''.'') (empacar xs) = [] # map (b64_enc True) xs"
    unfolding empacar_def by (rule partir_unir) (use b64_enc_chars(1) in auto)
  moreover have "todos (map (b64_dec True) (map (b64_enc True) xs)) = Some xs"
    by (induction xs) simp_all
  ultimately show ?thesis by (simp add: desempacar_def)
qed

lemma ejemplo_auth_ok: "auth_ok ejemplo_auth"
  by (simp add: auth_ok_def ejemplo_auth_def ejemplo_parse_def ejemplo_json_def desempacar_empacar leer_show_int)

theorem password_ida_vuelta_witness:
  "compare_password ejemplo_auth ''clave'' (hash_password ejemplo_auth ''clave'' ''sal'') = Inr True \<and>
   compare_password ejemplo_auth ''otra'' (hash_password ejemplo_auth ''clave'' ''sal'') = Inr False"
proof -
  have "length (argon ejemplo_auth ''clave'' ''sal'' 3 65536 2 32) = 32" by (simp add: ejemplo_auth_def)
  note p = password_ida_vuelta[OF this]
  show ?thesis unfolding p by (simp add: ejemplo_auth_def)
qed

definition ejemplo_claims :: claims where
  "ejemplo_claims = \<lparr>cl_issuer = ''u'', cl_subject = ''7'', cl_issued = 1000, cl_expires = 1900, cl_purpose = '''',
     cl_email = '''', cl_name = '''', cl_membership = ''5'', cl_tenant = ''1'', cl_roles = [''tesorero''],
     cl_scope_type = '''', cl_scope_id = '''', cl_session_key = ''''\<rparr>"

theorem jwt_ida_vuelta_witness:
  "verify_access_token ejemplo_auth (sign_jwt ejemplo_auth ejemplo_claims) = Inr ejemplo_claims"
proof -
  have "con_clave ejemplo_auth" by (simp add: ejemplo_auth_def)
  note p = jwt_ida_vuelta[OF ejemplo_auth_ok this]
  show ?thesis unfolding p by (simp add: ejemplo_auth_def ejemplo_claims_def unix_now_def)
qed

end
