(* ===== verification/Permisos.thy ===== *)
theory Permisos
  imports Credenciales
begin

text \<open>
  The permissions of the roles (\<open>internal/identity/permissions.go\<close>) and the cache of the roles and
  scopes of a membership (\<open>permissions_cache.go\<close>), with the matrix of
  \<open>docs/permission-matrix.md\<close> as the specification of the former.
\<close>

subsection \<open>The permissions of a role\<close>

definition role_permissions :: "string \<Rightarrow> string list" where
  "role_permissions r =
     (if r = ''platform_admin'' then [''tenants.read'', ''tenants.manage'', ''plan_codes.manage'']
      else if r = ''tenant_admin'' then [''tenant.users.read'', ''tenant.users.manage'',
        ''consorcios.read'', ''consorcios.manage'', ''ufs.read'', ''ufs.manage'',
        ''expensas.read'', ''expensas.create'', ''expensas.confirm'', ''expensas.publish'',
        ''gastos.read'', ''gastos.manage'', ''cobranzas.read'', ''cobranzas.manage'',
        ''finanzas.read'', ''finanzas.reconcile'', ''proveedores.read'', ''proveedores.manage'',
        ''documentos.read'', ''documentos.manage'', ''comunicaciones.read'', ''comunicaciones.send'',
        ''reclamos.read'', ''reclamos.manage'', ''auditoria.read'']
      else if r = ''consorcio_admin'' then [''consorcios.read'', ''consorcios.manage'', ''ufs.read'', ''ufs.manage'',
        ''expensas.read'', ''expensas.create'', ''expensas.confirm'', ''expensas.publish'',
        ''gastos.read'', ''gastos.manage'', ''cobranzas.read'', ''cobranzas.manage'',
        ''finanzas.read'', ''finanzas.reconcile'', ''proveedores.read'', ''proveedores.manage'',
        ''documentos.read'', ''documentos.manage'', ''comunicaciones.read'', ''comunicaciones.send'',
        ''reclamos.read'', ''reclamos.manage'', ''auditoria.read'']
      else if r = ''tesorero'' then [''consorcios.read'', ''ufs.read'', ''expensas.read'', ''gastos.read'',
        ''cobranzas.read'', ''cobranzas.manage'', ''finanzas.read'', ''finanzas.reconcile'', ''proveedores.read'',
        ''documentos.read'', ''comunicaciones.read'', ''reclamos.read'', ''reclamos.manage'']
      else if r = ''auditor'' then [''consorcios.read'', ''ufs.read'', ''expensas.read'', ''gastos.read'',
        ''cobranzas.read'', ''finanzas.read'', ''proveedores.read'', ''documentos.read'', ''comunicaciones.read'',
        ''reclamos.read'', ''auditoria.read'']
      else if r = ''consorcista'' then [''ufs.read'', ''expensas.read'', ''cobranzas.read'', ''documentos.read'',
        ''comunicaciones.read'', ''reclamos.read'']
      else [])"

text \<open>The two loops: \<open>seen\<close> is a set, \<open>out\<close> keeps the order of the first occurrences.\<close>

fun agregar_permisos :: "string list \<Rightarrow> string list \<Rightarrow> string list" where
  "agregar_permisos out [] = out"
| "agregar_permisos out (p # ps) = agregar_permisos (if p \<in> set out then out else out @ [p]) ps"

definition permissions_for_roles :: "string list \<Rightarrow> string list" where
  "permissions_for_roles rls = foldl (\<lambda>out r. agregar_permisos out (role_permissions r)) [] rls"

lemma set_agregar: "set (agregar_permisos out ps) = set out \<union> set ps"
  by (induction out ps rule: agregar_permisos.induct) auto

lemma distinct_agregar: "distinct out \<Longrightarrow> distinct (agregar_permisos out ps)"
  by (induction out ps rule: agregar_permisos.induct) auto

lemma agregar_append: "agregar_permisos out (ps @ qs) = agregar_permisos (agregar_permisos out ps) qs"
  by (induction out ps rule: agregar_permisos.induct) auto

lemma agregar_remdups: "agregar_permisos out ps = out @ rev (remdups (rev (filter (\<lambda>p. p \<notin> set out) ps)))"
proof (induction ps arbitrary: out rule: rev_induct)
  case (snoc p ps)
  have "agregar_permisos out (ps @ [p]) =
      (if p \<in> set out \<or> p \<in> set ps then agregar_permisos out ps else agregar_permisos out ps @ [p])"
    by (simp add: agregar_append set_agregar)
  then show ?case by (simp add: snoc)
qed simp

lemma permissions_concat: "permissions_for_roles rls = agregar_permisos [] (concat (map role_permissions rls))"
proof -
  have "foldl (\<lambda>out r. agregar_permisos out (role_permissions r)) out rls =
      agregar_permisos out (concat (map role_permissions rls))" for out
    by (induction rls arbitrary: out) (simp_all add: agregar_append)
  then show ?thesis by (simp add: permissions_for_roles_def)
qed

text \<open>
  The permissions of some roles are those of each of them, every one once, in the order of their
  first occurrence.
\<close>

theorem permisos_union:
  "permissions_for_roles rls = rev (remdups (rev (concat (map role_permissions rls)))) \<and>
   distinct (permissions_for_roles rls) \<and>
   set (permissions_for_roles rls) = \<Union> (set ` role_permissions ` set rls)"
  unfolding permissions_concat agregar_remdups by auto

subsection \<open>The matrix\<close>

text \<open>
  A row for each permission: whether \<open>tenant_admin\<close>, \<open>consorcio_admin\<close>, \<open>tesorero\<close>, \<open>auditor\<close> and
  \<open>consorcista\<close> have it.
\<close>

definition matriz :: "(string \<times> bool list) list" where
  "matriz = [
     (''tenant.users.read'', [True, False, False, False, False]),
     (''tenant.users.manage'', [True, False, False, False, False]),
     (''consorcios.read'', [True, True, True, True, False]),
     (''consorcios.manage'', [True, True, False, False, False]),
     (''ufs.read'', [True, True, True, True, True]),
     (''ufs.manage'', [True, True, False, False, False]),
     (''expensas.read'', [True, True, True, True, True]),
     (''expensas.create'', [True, True, False, False, False]),
     (''expensas.confirm'', [True, True, False, False, False]),
     (''expensas.publish'', [True, True, False, False, False]),
     (''gastos.read'', [True, True, True, True, False]),
     (''gastos.manage'', [True, True, False, False, False]),
     (''cobranzas.read'', [True, True, True, True, True]),
     (''cobranzas.manage'', [True, True, True, False, False]),
     (''finanzas.read'', [True, True, True, True, False]),
     (''finanzas.reconcile'', [True, True, True, False, False]),
     (''proveedores.read'', [True, True, True, True, False]),
     (''proveedores.manage'', [True, True, False, False, False]),
     (''documentos.read'', [True, True, True, True, True]),
     (''documentos.manage'', [True, True, False, False, False]),
     (''comunicaciones.read'', [True, True, True, True, True]),
     (''comunicaciones.send'', [True, True, False, False, False]),
     (''reclamos.read'', [True, True, True, True, True]),
     (''reclamos.manage'', [True, True, True, False, False]),
     (''auditoria.read'', [True, True, False, True, False])]"

definition columnas :: "string list" where
  "columnas = [''tenant_admin'', ''consorcio_admin'', ''tesorero'', ''auditor'', ''consorcista'']"

text \<open>
  C34. The permissions of the five roles of a tenant are exactly the matrix of the documentation, and
  no role has a permission that is not a row of it.
\<close>

theorem permisos_matriz:
  "map (\<lambda>(p, _). (p, map (\<lambda>r. p \<in> set (permissions_for_roles [r])) columnas)) matriz = matriz \<and>
   \<Union> (set ` permissions_for_roles ` (\<lambda>r. [r]) ` set columnas) \<subseteq> set (map fst matriz)"
proof -
  have s: "set (permissions_for_roles [r]) = set (role_permissions r)" for r
    by (simp add: permissions_for_roles_def set_agregar)
  have 1: "map (\<lambda>(p, _). (p, map (\<lambda>r. p \<in> set (role_permissions r)) columnas)) matriz = matriz"
    by (simp add: matriz_def columnas_def role_permissions_def)
  have 2: "list_all (\<lambda>r. list_all (\<lambda>p. p \<in> set (map fst matriz)) (role_permissions r)) columnas"
    by (simp add: matriz_def columnas_def role_permissions_def)
  show ?thesis unfolding s using 1 2 by (fastforce simp: list_all_iff s)
qed

subsection \<open>The cache\<close>

record membership_entry =
  me_roles :: "string list"
  me_scopes :: "string list"
  me_expiry :: ts

type_synonym cache = "string \<Rightarrow> membership_entry option"

definition membership_cache_key :: "string \<Rightarrow> string \<Rightarrow> string" where
  "membership_cache_key u m = u @ '':'' @ m"

definition cache_get :: "auth_env \<Rightarrow> cache \<Rightarrow> string \<Rightarrow> (string list \<times> string list) option" where
  "cache_get ae c key =
     (if cache_ttl ae = 0 then None
      else case c key of None \<Rightarrow> None
      | Some e \<Rightarrow> if \<not> reloj (ae_ev ae) < me_expiry e then None else Some (me_roles e, me_scopes e))"

definition cache_set :: "auth_env \<Rightarrow> string \<Rightarrow> string list \<Rightarrow> string list \<Rightarrow> cache \<Rightarrow> cache" where
  "cache_set ae key rs ss c =
     (if cache_ttl ae = 0 then c
      else c(key \<mapsto> \<lparr>me_roles = rs, me_scopes = ss, me_expiry = reloj (ae_ev ae) + cache_ttl ae\<rparr>))"

end
