(* ===== verification/IdentConsultas.thy ===== *)
theory IdentConsultas
  imports Permisos
begin

text \<open>
  The queries of \<open>internal/database/gen/identity.sql.go\<close> on the identity tables, under the row-level
  security of \<open>db/migrations/00003\<close>, \<open>00005\<close> and \<open>00006\<close>: \<open>usuario\<close> is the user that
  \<open>tenancy.SetUser\<close> fixes for the transaction. The functions of the login attempts are those of
  \<open>00006_mfa.sql\<close>, called by \<open>attempts.go\<close>.
\<close>

type_synonym 'a iquery = "(ident_db, err, 'a) tx"

definition nuevo_id :: "env \<Rightarrow> uuid iquery" where
  "nuevo_id ev s = Inr (uuid_gen ev (id_seq s), s\<lparr>id_seq := Suc (id_seq s)\<rparr>)"

lemma nuevo_id_Inr [simp]:
  "nuevo_id ev s = Inr r \<longleftrightarrow> r = (uuid_gen ev (id_seq s), s\<lparr>id_seq := Suc (id_seq s)\<rparr>)"
  by (auto simp: nuevo_id_def)

subsection \<open>Users\<close>

definition user_check :: "user \<Rightarrow> bool" where
  "user_check u \<longleftrightarrow> us_status u \<in> {''active'', ''suspended'', ''disabled''}"

definition get_user_by_email :: "string \<Rightarrow> user iquery" where
  "get_user_by_email email = tx_row (\<lambda>s. List.find (\<lambda>u. us_email u = email) (users s))"

definition get_user_by_id :: "uuid \<Rightarrow> user iquery" where
  "get_user_by_id uid = tx_row (\<lambda>s. List.find (\<lambda>u. us_id u = uid) (users s))"

definition update_mfa_secret :: "env \<Rightarrow> string option \<Rightarrow> uuid \<Rightarrow> unit iquery" where
  "update_mfa_secret ev secret uid = tx_exec (tx_update (\<lambda>u. us_id u = uid \<and> usuario ev = Some uid)
     (\<lambda>u. u\<lparr>us_secret := secret, us_updated := ahora ev\<rparr>) user_check users users_update)"

definition enable_mfa :: "env \<Rightarrow> uuid \<Rightarrow> unit iquery" where
  "enable_mfa ev uid = tx_exec (tx_update (\<lambda>u. us_id u = uid \<and> us_secret u \<noteq> None \<and> usuario ev = Some uid)
     (\<lambda>u. u\<lparr>us_mfa := True, us_updated := ahora ev\<rparr>) user_check users users_update)"

definition disable_mfa_q :: "env \<Rightarrow> uuid \<Rightarrow> unit iquery" where
  "disable_mfa_q ev uid = tx_exec (tx_update (\<lambda>u. us_id u = uid \<and> usuario ev = Some uid)
     (\<lambda>u. u\<lparr>us_mfa := False, us_secret := None, us_updated := ahora ev\<rparr>) user_check users users_update)"

subsection \<open>Memberships\<close>

record membership_data =
  md_membership :: uuid
  md_tenant :: uuid
  md_status :: string
  md_created_at :: ts
  md_tenant_name :: string
  md_tenant_status :: string

text \<open>The user sees the own memberships and their tenants only.\<close>

definition list_memberships_for_user :: "env \<Rightarrow> uuid \<Rightarrow> membership_data list iquery" where
  "list_memberships_for_user ev uid = tx_read (\<lambda>s.
     concat (map (\<lambda>m. map (\<lambda>t. \<lparr>md_membership = m_id m, md_tenant = m_tenant m, md_status = m_status m,
         md_created_at = m_created m, md_tenant_name = te_name t, md_tenant_status = te_status t\<rparr>)
       (filter (\<lambda>t. te_id t = m_tenant m) (tenants s)))
     (sort_key m_created (filter (\<lambda>m. m_user m = uid \<and> usuario ev = Some (m_user m)) (memberships s)))))"

definition membresia_visible :: "env \<Rightarrow> ident_db \<Rightarrow> uuid \<Rightarrow> bool" where
  "membresia_visible ev s mid \<longleftrightarrow> (\<exists>m \<in> set (memberships s). m_id m = mid \<and> usuario ev = Some (m_user m))"

definition list_roles_for_membership :: "env \<Rightarrow> uuid \<Rightarrow> (string \<times> string) list iquery" where
  "list_roles_for_membership ev mid = tx_read (\<lambda>s. sort_key fst (concat (map (\<lambda>mr.
     map (\<lambda>r. (ro_code r, ro_label r)) (filter (\<lambda>r. ro_id r = mr_role mr) (roles s)))
     (filter (\<lambda>mr. mr_membership mr = mid \<and> membresia_visible ev s mid) (membership_roles s)))))"

definition list_scopes_for_membership :: "env \<Rightarrow> uuid \<Rightarrow> (string \<times> uuid) list iquery" where
  "list_scopes_for_membership ev mid = tx_read (\<lambda>s. concat (map (\<lambda>mr.
     map (\<lambda>r. (rs_type r, rs_scope r)) (filter (\<lambda>r. rs_membership_role r = mr_id mr) (role_scopes s)))
     (filter (\<lambda>mr. mr_membership mr = mid \<and> membresia_visible ev s mid) (membership_roles s))))"

subsection \<open>Sessions and refresh tokens\<close>

definition get_session_by_id :: "env \<Rightarrow> uuid \<Rightarrow> session iquery" where
  "get_session_by_id ev sid =
     tx_row (\<lambda>s. List.find (\<lambda>x. se_id x = sid \<and> usuario ev = Some (se_user x)) (sessions s))"

text \<open>The column \<open>membership_id\<close> is not nullable; the foreign keys come after the constraints.\<close>

definition insert_session :: "env \<Rightarrow> uuid \<Rightarrow> uuid option \<Rightarrow> uuid \<Rightarrow> ts \<Rightarrow> uuid iquery" where
  "insert_session ev uid mid key expires =
     tx_bind (nuevo_id ev) (\<lambda>sid.
     tx_bind (tx_some PgNotNull mid) (\<lambda>m.
     tx_bind (tx_insert (\<lambda>x. usuario ev = Some (se_user x))
       (\<lambda>s x. if \<exists>y \<in> set (sessions s). se_id y = se_id x then Some ''sessions_pkey'' else None)
       (\<lambda>s x. (\<exists>u \<in> set (users s). us_id u = se_user x) \<and> (\<exists>y \<in> set (memberships s). m_id y = se_membership x))
       sessions_update
       \<lparr>se_id = sid, se_user = uid, se_membership = m, se_key = key, se_expires = expires, se_revoked = None,
        se_created = ahora ev, se_last_used = None\<rparr>) (\<lambda>x. tx_ret (se_id x))))"

definition insert_refresh_token :: "env \<Rightarrow> uuid \<Rightarrow> uuid \<Rightarrow> string \<Rightarrow> uuid \<Rightarrow> ts \<Rightarrow> unit iquery" where
  "insert_refresh_token ev sid uid hash family expires =
     tx_bind (nuevo_id ev) (\<lambda>tid. tx_exec (tx_insert (\<lambda>x. usuario ev = Some (tk_user x))
       (\<lambda>s x. if \<exists>y \<in> set (refresh_tokens s). tk_id y = tk_id x then Some ''refresh_tokens_pkey''
              else if \<exists>y \<in> set (refresh_tokens s). tk_hash y = tk_hash x then Some ''refresh_tokens_token_hash_key''
              else None)
       (\<lambda>s x. (\<exists>y \<in> set (sessions s). se_id y = tk_session x) \<and> (\<exists>u \<in> set (users s). us_id u = tk_user x))
       refresh_tokens_update
       \<lparr>tk_id = tid, tk_session = sid, tk_user = uid, tk_hash = hash, tk_family = family, tk_expires = expires,
        tk_revoked = None, tk_created = ahora ev\<rparr>))"

text \<open>The view \<open>app.v_refresh_tokens\<close> belongs to the owner: it shows every token.\<close>

definition lookup_refresh_token :: "string \<Rightarrow> refresh_token iquery" where
  "lookup_refresh_token hash = tx_row (\<lambda>s. List.find (\<lambda>x. tk_hash x = hash) (refresh_tokens s))"

definition revoke_refresh_token :: "env \<Rightarrow> uuid \<Rightarrow> ts \<Rightarrow> unit iquery" where
  "revoke_refresh_token ev tid n = tx_exec (tx_update (\<lambda>x. tk_id x = tid \<and> usuario ev = Some (tk_user x))
     (\<lambda>x. x\<lparr>tk_revoked := Some n\<rparr>) (\<lambda>_. True) refresh_tokens refresh_tokens_update)"

definition revoke_session :: "env \<Rightarrow> uuid \<Rightarrow> ts \<Rightarrow> unit iquery" where
  "revoke_session ev sid n = tx_exec (tx_update (\<lambda>x. se_id x = sid \<and> usuario ev = Some (se_user x))
     (\<lambda>x. x\<lparr>se_revoked := Some n\<rparr>) (\<lambda>_. True) sessions sessions_update)"

definition revoke_tokens_by_family :: "env \<Rightarrow> uuid \<Rightarrow> ts \<Rightarrow> unit iquery" where
  "revoke_tokens_by_family ev family n = tx_exec (tx_update
     (\<lambda>x. tk_family x = family \<and> tk_revoked x = None \<and> usuario ev = Some (tk_user x))
     (\<lambda>x. x\<lparr>tk_revoked := Some n\<rparr>) (\<lambda>_. True) refresh_tokens refresh_tokens_update)"

subsection \<open>Login attempts\<close>

definition btrim :: "string \<Rightarrow> string" where
  "btrim s = rev (dropWhile (\<lambda>c. c = CHR 0x20) (rev (dropWhile (\<lambda>c. c = CHR 0x20) s)))"

definition record_attempt :: "env \<Rightarrow> string \<Rightarrow> string \<Rightarrow> string \<Rightarrow> bool \<Rightarrow> unit iquery" where
  "record_attempt ev email ip source success =
     tx_bind (nuevo_id ev) (\<lambda>aid. tx_exec (tx_insert (\<lambda>a. at_source a \<in> {''password'', ''totp''})
       (\<lambda>s a. if \<exists>y \<in> set (login_attempts s). at_id y = at_id a then Some ''login_attempts_pkey'' else None)
       (\<lambda>_ _. True) login_attempts_update
       \<lparr>at_id = aid, at_email = to_lower (btrim email), at_ip = ip, at_source = source, at_success = success,
        at_created = ahora ev\<rparr>))"

definition count_failures :: "env \<Rightarrow> string \<Rightarrow> string \<Rightarrow> nat \<Rightarrow> int iquery" where
  "count_failures ev email ip window = tx_read (\<lambda>s. int (count_where (\<lambda>a. at_email a = to_lower (btrim email) \<and>
     at_ip a = ip \<and> \<not> at_success a \<and> ahora ev < at_created a + window) (login_attempts s)))"

end
