(* ===== verification/Identidad.thy ===== *)
theory Identidad
  imports IdentConsultas
begin

text \<open>
  The identity manager (\<open>internal/identity/auth.go\<close> and \<open>mfa.go\<close>). Its operations run statements and
  transactions of their own, so that an error does not undo what was committed before it: the state
  is kept on errors, and \<open>op_tx\<close> rolls the tables back, not the cache of the process.
\<close>

subsection \<open>Operations\<close>

record auth_st =
  st_db :: ident_db
  st_cache :: cache

type_synonym 'a op = "auth_st \<Rightarrow> (err + 'a) \<times> auth_st"

definition op_ret :: "'a \<Rightarrow> 'a op" where
  "op_ret x s = (Inr x, s)"

definition op_fail :: "err \<Rightarrow> 'a op" where
  "op_fail e s = (Inl e, s)"

definition op_bind :: "'a op \<Rightarrow> ('a \<Rightarrow> 'b op) \<Rightarrow> 'b op" where
  "op_bind m f s = (case m s of (Inl e, t) \<Rightarrow> (Inl e, t) | (Inr x, t) \<Rightarrow> f x t)"

definition op_sum :: "err + 'a \<Rightarrow> 'a op" where
  "op_sum x s = (x, s)"

definition op_some :: "err \<Rightarrow> 'a option \<Rightarrow> 'a op" where
  "op_some e x = (case x of None \<Rightarrow> op_fail e | Some v \<Rightarrow> op_ret v)"

definition op_guard :: "bool \<Rightarrow> err \<Rightarrow> unit op" where
  "op_guard b e = (if b then op_ret () else op_fail e)"

text \<open>A statement: it fails without effect. A transaction: rolled back on an error.\<close>

definition op_q :: "'a iquery \<Rightarrow> 'a op" where
  "op_q q s = (case q (st_db s) of Inl e \<Rightarrow> (Inl e, s) | Inr (x, t) \<Rightarrow> (Inr x, s\<lparr>st_db := t\<rparr>))"

definition op_tx :: "'a op \<Rightarrow> 'a op" where
  "op_tx m s = (case m s of (Inl e, t) \<Rightarrow> (Inl e, t\<lparr>st_db := st_db s\<rparr>) | r \<Rightarrow> r)"

text \<open>\<open>_ = f(x)\<close>: an error that is ignored, and one that is translated.\<close>

definition op_ignore :: "'a op \<Rightarrow> unit op" where
  "op_ignore m s = (Inr (), snd (m s))"

definition op_catch :: "(err \<Rightarrow> err) \<Rightarrow> 'a op \<Rightarrow> 'a op" where
  "op_catch h m s = (case m s of (Inl e, t) \<Rightarrow> (Inl (h e), t) | r \<Rightarrow> r)"

fun op_map :: "('x \<Rightarrow> 'y op) \<Rightarrow> 'x list \<Rightarrow> 'y list op" where
  "op_map f [] = op_ret []"
| "op_map f (x # xs) = op_bind (f x) (\<lambda>y. op_bind (op_map f xs) (\<lambda>ys. op_ret (y # ys)))"

subsection \<open>Data\<close>

record user_dto =
  ud_id :: string
  ud_email :: string
  ud_name :: string
  ud_status :: string
  ud_mfa :: bool

record membership_dto =
  mb_id :: string
  mb_tenant :: string
  mb_tenant_name :: string
  mb_tenant_status :: string
  mb_status :: string
  mb_roles :: "string list"
  mb_scopes :: "string list"

record me_dto =
  me_user :: user_dto
  me_membership :: membership_dto
  me_permissions :: "string list"

record login_result =
  lr_user :: user_dto
  lr_memberships :: "membership_dto list"
  lr_refresh :: string
  lr_access :: string
  lr_mfa_required :: bool
  lr_mfa_token :: string

record mfa_setup =
  ms_secret :: string
  ms_url :: string

definition user_dto_de :: "env \<Rightarrow> user \<Rightarrow> user_dto" where
  "user_dto_de ev u = \<lparr>ud_id = uuid_show ev (us_id u), ud_email = us_email u, ud_name = us_name u,
     ud_status = us_status u, ud_mfa = us_mfa u\<rparr>"

definition membership_from_parts :: "env \<Rightarrow> membership_data \<Rightarrow> string list \<Rightarrow> string list \<Rightarrow> membership_dto" where
  "membership_from_parts ev r rs ss = \<lparr>mb_id = uuid_show ev (md_membership r),
     mb_tenant = uuid_show ev (md_tenant r), mb_tenant_name = md_tenant_name r,
     mb_tenant_status = md_tenant_status r, mb_status = md_status r, mb_roles = rs, mb_scopes = ss\<rparr>"

text \<open>The column \<open>scope_id\<close> is not nullable, so every scope has an identifier.\<close>

definition scopes_codes :: "env \<Rightarrow> (string \<times> uuid) list \<Rightarrow> string list" where
  "scopes_codes ev ss = map (\<lambda>(t, i). t @ '':'' @ uuid_show ev i) ss"

subsection \<open>Helpers\<close>

definition pg_uuid :: "env \<Rightarrow> string \<Rightarrow> uuid op" where
  "pg_uuid ev x = op_some PgRange (uuid_parse ev x)"

text \<open>\<open>tenancy.SetUser\<close>: the environment of the statements that follow.\<close>

definition set_user :: "env \<Rightarrow> string \<Rightarrow> env op" where
  "set_user ev x = op_bind (op_some PgRange (uuid_parse ev x)) (\<lambda>u. op_ret (ev\<lparr>usuario := Some u\<rparr>))"

definition refresh_hash :: "env \<Rightarrow> string \<Rightarrow> string" where
  "refresh_hash ev plain = sha_hex ev plain"

definition new_refresh_token :: "auth_env \<Rightarrow> (string \<times> string) op" where
  "new_refresh_token ae s = (let plain = rand_token ae (id_seq (st_db s)) in
     (Inr (plain, refresh_hash (ae_ev ae) plain), s\<lparr>st_db := (st_db s)\<lparr>id_seq := Suc (id_seq (st_db s))\<rparr>\<rparr>))"

definition membership_dto_de :: "auth_env \<Rightarrow> env \<Rightarrow> uuid \<Rightarrow> membership_data \<Rightarrow> membership_dto op" where
  "membership_dto_de ae ev uid r s =
     (let key = membership_cache_key (uuid_show ev uid) (uuid_show ev (md_membership r)) in
      case cache_get ae (st_cache s) key of
        Some (rs, ss) \<Rightarrow> (Inr (membership_from_parts ev r rs ss), s)
      | None \<Rightarrow> op_bind (op_q (list_roles_for_membership ev (md_membership r))) (\<lambda>rls.
          op_bind (op_q (list_scopes_for_membership ev (md_membership r))) (\<lambda>scs.
          \<lambda>t. (Inr (membership_from_parts ev r (map fst rls) (scopes_codes ev scs)),
            t\<lparr>st_cache := cache_set ae key (map fst rls) (scopes_codes ev scs) (st_cache t)\<rparr>))) s)"

text \<open>The first row with the identifier; \<open>membershipByID\<close> wants it active.\<close>

definition membership_by_id :: "auth_env \<Rightarrow> env \<Rightarrow> uuid \<Rightarrow> uuid \<Rightarrow> membership_dto op" where
  "membership_by_id ae ev uid mid =
     op_bind (op_q (list_memberships_for_user ev uid)) (\<lambda>rows.
     case List.find (\<lambda>r. uuid_show ev (md_membership r) = uuid_show ev mid) rows of
       None \<Rightarrow> op_fail ErrMembershipNotFound
     | Some r \<Rightarrow> if md_status r \<noteq> ''active'' then op_fail ErrMembershipInactive
                 else membership_dto_de ae ev uid r)"

text \<open>\<open>strings.SplitN(s, ":", 2)\<close>.\<close>

definition cortar :: "string \<Rightarrow> string \<times> string" where
  "cortar s = (takeWhile (\<lambda>c. c \<noteq> CHR '':'') s, drop 1 (dropWhile (\<lambda>c. c \<noteq> CHR '':'') s))"

definition sign_access_token :: "auth_env \<Rightarrow> uuid \<Rightarrow> uuid \<Rightarrow> membership_dto \<Rightarrow> string op" where
  "sign_access_token ae uid mid m =
     (if \<not> con_clave ae then op_fail (ErrTexto ''clave JWT no configurada'')
      else op_ret (sign_jwt ae \<lparr>cl_issuer = base_url ae, cl_subject = uuid_show (ae_ev ae) uid,
        cl_issued = unix_now ae, cl_expires = unix_after ae (access_ttl ae), cl_purpose = '''', cl_email = '''',
        cl_name = '''', cl_membership = uuid_show (ae_ev ae) mid, cl_tenant = mb_tenant m, cl_roles = mb_roles m,
        cl_scope_type = (case mb_scopes m of [] \<Rightarrow> '''' | x # _ \<Rightarrow> fst (cortar x)),
        cl_scope_id = (case mb_scopes m of [] \<Rightarrow> '''' | x # _ \<Rightarrow> snd (cortar x)), cl_session_key = ''''\<rparr>))"

definition sign_mfa_token :: "auth_env \<Rightarrow> string \<Rightarrow> string op" where
  "sign_mfa_token ae user =
     (if \<not> con_clave ae then op_fail (ErrTexto ''clave JWT no configurada'')
      else op_ret (sign_jwt ae \<lparr>cl_issuer = base_url ae, cl_subject = user, cl_issued = unix_now ae,
        cl_expires = unix_after ae (mfa_ttl ae), cl_purpose = ''mfa'', cl_email = '''', cl_name = '''',
        cl_membership = '''', cl_tenant = '''', cl_roles = [], cl_scope_type = '''', cl_scope_id = '''',
        cl_session_key = ''''\<rparr>))"

definition issue_access_for :: "auth_env \<Rightarrow> string \<Rightarrow> string \<Rightarrow> string op" where
  "issue_access_for ae user membership =
     op_bind (pg_uuid (ae_ev ae) user) (\<lambda>uid.
     op_bind (pg_uuid (ae_ev ae) membership) (\<lambda>mid.
     op_tx (op_bind (set_user (ae_ev ae) user) (\<lambda>ev.
       op_bind (membership_by_id ae ev uid mid) (\<lambda>m. sign_access_token ae uid mid m)))))"

subsection \<open>Login\<close>

text \<open>The transaction of \<open>openSession\<close>: the memberships and the plain refresh token.\<close>

definition abrir_sesion :: "auth_env \<Rightarrow> user \<Rightarrow> (membership_dto list \<times> string) op" where
  "abrir_sesion ae user = op_tx (
     op_bind (set_user (ae_ev ae) (uuid_show (ae_ev ae) (us_id user))) (\<lambda>ev.
     op_bind (op_q (list_memberships_for_user ev (us_id user))) (\<lambda>rows.
     op_bind (op_map (membership_dto_de ae ev (us_id user)) rows) (\<lambda>ms.
     let expires = reloj ev + refresh_ttl ae in
     op_bind (case ms of [] \<Rightarrow> op_ret None | m # _ \<Rightarrow> op_bind (pg_uuid ev (mb_id m)) (\<lambda>u. op_ret (Some u))) (\<lambda>first.
     op_bind (op_q (nuevo_id ev)) (\<lambda>key.
     op_bind (op_q (insert_session ev (us_id user) first key expires)) (\<lambda>sid.
     op_bind (new_refresh_token ae) (\<lambda>(plain, hash).
     op_bind (op_q (nuevo_id ev)) (\<lambda>family.
     op_bind (op_q (insert_refresh_token ev sid (us_id user) hash family expires)) (\<lambda>_.
     op_ret (ms, plain)))))))))))"

definition open_session :: "auth_env \<Rightarrow> user \<Rightarrow> login_result op" where
  "open_session ae user =
     op_bind (abrir_sesion ae user) (\<lambda>(ms, plain).
     let res = \<lparr>lr_user = user_dto_de (ae_ev ae) user, lr_memberships = ms, lr_refresh = plain, lr_access = '''',
                lr_mfa_required = False, lr_mfa_token = ''''\<rparr> in
     if length ms = 1
     then (\<lambda>s. case issue_access_for ae (uuid_show (ae_ev ae) (us_id user)) (mb_id (hd ms)) s of
             (Inl _, t) \<Rightarrow> (Inr res, t) | (Inr at, t) \<Rightarrow> (Inr (res\<lparr>lr_access := at\<rparr>), t))
     else op_ret res)"

definition login :: "auth_env \<Rightarrow> string \<Rightarrow> string \<Rightarrow> string \<Rightarrow> login_result op" where
  "login ae email password ip =
     (let ev = ae_ev ae; normalized = to_lower (trim_space email) in
      op_bind (op_q (count_failures ev normalized ip (login_window ae))) (\<lambda>failures.
      op_bind (op_guard (\<not> login_max ae \<le> failures) ErrTooManyAttempts) (\<lambda>_.
      op_bind (\<lambda>s. case op_q (get_user_by_email normalized) s of
          (Inl e, t) \<Rightarrow> if e = PgNoRows
            then op_bind (op_ignore (op_q (record_attempt ev normalized ip ''password'' False)))
                   (\<lambda>_. op_fail ErrInvalidCredentials) t
            else (Inl e, t)
        | r \<Rightarrow> r) (\<lambda>user.
      op_bind (op_guard (us_status user = ''active'') ErrUserDisabled) (\<lambda>_.
      op_bind (op_sum (compare_password ae password (us_hash user))) (\<lambda>ok.
      op_bind (if \<not> ok
        then op_bind (op_ignore (op_q (record_attempt ev normalized ip ''password'' False)))
               (\<lambda>_. op_fail ErrInvalidCredentials)
        else op_ret ()) (\<lambda>_.
      op_bind (op_q (record_attempt ev normalized ip ''password'' True)) (\<lambda>_.
      if us_mfa user
      then op_bind (sign_mfa_token ae (uuid_show ev (us_id user))) (\<lambda>token.
           op_ret \<lparr>lr_user = user_dto_de ev user, lr_memberships = [], lr_refresh = '''', lr_access = '''',
             lr_mfa_required = True, lr_mfa_token = token\<rparr>)
      else open_session ae user))))))))"

subsection \<open>Selection of the tenant\<close>

definition select_tenant :: "auth_env \<Rightarrow> string \<Rightarrow> string \<Rightarrow> (me_dto \<times> string) op" where
  "select_tenant ae user membership =
     op_bind (pg_uuid (ae_ev ae) user) (\<lambda>uid.
     op_bind (pg_uuid (ae_ev ae) membership) (\<lambda>mid.
     op_bind (op_q (get_user_by_id uid)) (\<lambda>u.
     op_tx (op_bind (set_user (ae_ev ae) user) (\<lambda>ev.
       op_bind (op_q (list_memberships_for_user ev uid)) (\<lambda>rows.
       op_bind (op_some ErrMembershipNotFound (List.find (\<lambda>r. uuid_show ev (md_membership r) = membership) rows)) (\<lambda>r.
       op_bind (op_guard (md_status r = ''active'') ErrMembershipInactive) (\<lambda>_.
       op_bind (membership_dto_de ae ev uid r) (\<lambda>m.
       op_bind (sign_access_token ae uid mid m) (\<lambda>access.
       op_ret (\<lparr>me_user = user_dto_de ev u, me_membership = m,
         me_permissions = permissions_for_roles (mb_roles m)\<rparr>, access)))))))))))"

subsection \<open>Refresh and logout\<close>

definition revoke_family :: "auth_env \<Rightarrow> string \<Rightarrow> uuid \<Rightarrow> unit op" where
  "revoke_family ae user family = op_tx (
     op_bind (set_user (ae_ev ae) user) (\<lambda>ev. op_q (revoke_tokens_by_family ev family (reloj ev))))"

text \<open>What \<open>Refresh\<close> reads and checks before its transaction, and the transaction.\<close>

definition refresh_leer :: "auth_env \<Rightarrow> string \<Rightarrow> refresh_token op" where
  "refresh_leer ae plain =
     op_bind (op_catch (no_rows_as ErrInvalidRefreshToken)
       (op_q (lookup_refresh_token (refresh_hash (ae_ev ae) plain)))) (\<lambda>tok.
     if tk_revoked tok \<noteq> None
     then op_bind (revoke_family ae (uuid_show (ae_ev ae) (tk_user tok)) (tk_family tok))
            (\<lambda>_. op_fail ErrRefreshTokenReused)
     else if tk_expires tok < reloj (ae_ev ae) then op_fail ErrRefreshTokenExpired
     else op_ret tok)"

definition refresh_rotar :: "auth_env \<Rightarrow> refresh_token \<Rightarrow> (string \<times> string) op" where
  "refresh_rotar ae tok = op_tx (
     op_bind (set_user (ae_ev ae) (uuid_show (ae_ev ae) (tk_user tok))) (\<lambda>ev.
     op_bind (op_q (revoke_refresh_token ev (tk_id tok) (reloj ev))) (\<lambda>_.
     op_bind (new_refresh_token ae) (\<lambda>(plain, hash).
     op_bind (op_q (insert_refresh_token ev (tk_session tok) (tk_user tok) hash (tk_family tok)
       (reloj ev + refresh_ttl ae))) (\<lambda>_.
     op_bind (op_q (get_session_by_id ev (tk_session tok))) (\<lambda>ses.
     op_bind (membership_by_id ae ev (tk_user tok) (se_membership ses)) (\<lambda>m.
     op_bind (sign_access_token ae (tk_user tok) (se_membership ses) m) (\<lambda>access.
     op_ret (access, plain)))))))))"

definition refresh :: "auth_env \<Rightarrow> string \<Rightarrow> (string \<times> string) op" where
  "refresh ae plain = op_bind (refresh_leer ae plain) (refresh_rotar ae)"

definition logout :: "auth_env \<Rightarrow> string \<Rightarrow> unit op" where
  "logout ae plain s =
     (case op_q (lookup_refresh_token (refresh_hash (ae_ev ae) plain)) s of
        (Inl e, t) \<Rightarrow> if e = PgNoRows then (Inr (), t) else (Inl e, t)
      | (Inr tok, t) \<Rightarrow>
          if tk_revoked tok \<noteq> None then (Inr (), t)
          else op_tx (op_bind (set_user (ae_ev ae) (uuid_show (ae_ev ae) (tk_user tok))) (\<lambda>ev.
            op_bind (op_q (revoke_refresh_token ev (tk_id tok) (reloj ev))) (\<lambda>_.
            op_q (revoke_session ev (tk_session tok) (reloj ev))))) t)"

subsection \<open>The profile and the permissions of a token\<close>

definition me :: "auth_env \<Rightarrow> claims \<Rightarrow> me_dto op" where
  "me ae c =
     op_bind (pg_uuid (ae_ev ae) (cl_subject c)) (\<lambda>uid.
     op_bind (op_q (get_user_by_id uid)) (\<lambda>u.
     op_tx (op_bind (set_user (ae_ev ae) (cl_subject c)) (\<lambda>ev.
       op_bind (op_some ErrMembershipNotFound (uuid_parse ev (cl_membership c))) (\<lambda>mid.
       op_bind (membership_by_id ae ev uid mid) (\<lambda>m.
       op_ret \<lparr>me_user = user_dto_de ev u, me_membership = m,
         me_permissions = permissions_for_roles (mb_roles m)\<rparr>))))))"

definition list_memberships :: "auth_env \<Rightarrow> claims \<Rightarrow> membership_dto list op" where
  "list_memberships ae c =
     op_bind (pg_uuid (ae_ev ae) (cl_subject c)) (\<lambda>uid.
     op_tx (op_bind (set_user (ae_ev ae) (cl_subject c)) (\<lambda>ev.
       op_bind (op_q (list_memberships_for_user ev uid)) (\<lambda>rows.
       op_map (membership_dto_de ae ev uid) rows))))"

definition permissions_for_claims :: "auth_env \<Rightarrow> claims \<Rightarrow> string list op" where
  "permissions_for_claims ae c =
     op_bind (pg_uuid (ae_ev ae) (cl_subject c)) (\<lambda>uid.
     op_bind (op_some ErrMembershipNotFound (uuid_parse (ae_ev ae) (cl_membership c))) (\<lambda>mid.
     op_tx (op_bind (set_user (ae_ev ae) (cl_subject c)) (\<lambda>ev.
       op_bind (membership_by_id ae ev uid mid) (\<lambda>m.
       op_ret (permissions_for_roles (mb_roles m)))))))"

subsection \<open>The second factor\<close>

definition setup_mfa :: "auth_env \<Rightarrow> string \<Rightarrow> mfa_setup op" where
  "setup_mfa ae user =
     op_bind (pg_uuid (ae_ev ae) user) (\<lambda>uid.
     op_bind (op_q (get_user_by_id uid)) (\<lambda>u.
     op_bind (op_q (\<lambda>s. Inr (totp_gen ae (id_seq s), s\<lparr>id_seq := Suc (id_seq s)\<rparr>))) (\<lambda>secret.
     op_bind (op_tx (op_bind (set_user (ae_ev ae) user) (\<lambda>ev. op_q (update_mfa_secret ev (Some secret) uid)))) (\<lambda>_.
     op_ret \<lparr>ms_secret = secret, ms_url = totp_url ae (base_url ae) (us_email u) secret\<rparr>))))"

definition confirm_mfa :: "auth_env \<Rightarrow> string \<Rightarrow> string \<Rightarrow> unit op" where
  "confirm_mfa ae user code =
     op_bind (pg_uuid (ae_ev ae) user) (\<lambda>uid.
     op_bind (op_q (get_user_by_id uid)) (\<lambda>u.
     case us_secret u of
       None \<Rightarrow> op_fail ErrInvalidMfaCode
     | Some secret \<Rightarrow>
         if secret = '''' \<or> \<not> totp_ok ae (reloj (ae_ev ae)) code secret then op_fail ErrInvalidMfaCode
         else op_tx (op_bind (set_user (ae_ev ae) user) (\<lambda>ev. op_q (enable_mfa ev uid)))))"

definition disable_mfa :: "auth_env \<Rightarrow> string \<Rightarrow> unit op" where
  "disable_mfa ae user =
     op_bind (pg_uuid (ae_ev ae) user) (\<lambda>uid.
     op_tx (op_bind (set_user (ae_ev ae) user) (\<lambda>ev. op_q (disable_mfa_q ev uid))))"

definition verify_mfa :: "auth_env \<Rightarrow> string \<Rightarrow> string \<Rightarrow> string \<Rightarrow> login_result op" where
  "verify_mfa ae mfa_token code ip =
     (let ev = ae_ev ae in
      op_bind (op_guard (con_clave ae) (ErrTexto ''clave JWT no configurada'')) (\<lambda>_.
      op_bind (case parse_and_verify_jwt ae mfa_token (base_url ae) of
          Inl _ \<Rightarrow> op_fail ErrInvalidMFAToken
        | Inr c \<Rightarrow> if cl_purpose c \<noteq> ''mfa'' then op_fail ErrInvalidMFAToken else op_ret c) (\<lambda>c.
      op_bind (op_some ErrInvalidMFAToken (uuid_parse ev (cl_subject c))) (\<lambda>uid.
      op_bind (op_catch (no_rows_as ErrInvalidMFAToken) (op_q (get_user_by_id uid))) (\<lambda>user.
      op_bind (op_guard (us_status user = ''active'') ErrUserDisabled) (\<lambda>_.
      op_bind (op_some ErrMFANotRequired (if us_mfa user \<and> us_secret user \<noteq> Some '''' then us_secret user else None)) (\<lambda>secret.
      op_bind (op_q (count_failures ev (us_email user) ip (login_window ae))) (\<lambda>failures.
      op_bind (op_guard (\<not> login_max ae \<le> failures) ErrTooManyAttempts) (\<lambda>_.
      op_bind (if \<not> totp_ok ae (reloj ev) code secret
        then op_bind (op_ignore (op_q (record_attempt ev (us_email user) ip ''totp'' False)))
               (\<lambda>_. op_fail ErrInvalidMfaCode)
        else op_ret ()) (\<lambda>_.
      op_bind (op_q (record_attempt ev (us_email user) ip ''totp'' True)) (\<lambda>_.
      open_session ae user)))))))))))"

subsection \<open>The middleware and the handlers of the routes\<close>

text \<open>The HTTP status of an error, and \<open>RequirePermission\<close>: the claims, or the status of the answer.\<close>

definition map_auth_error :: "err \<Rightarrow> nat" where
  "map_auth_error e =
     (if e \<in> {ErrInvalidCredentials, ErrInvalidMfaCode, ErrInvalidMFAToken} then 401
      else if e = ErrTooManyAttempts then 429
      else if e \<in> {ErrUserDisabled, ErrMembershipInactive} then 403
      else if e = ErrMFANotRequired then 400
      else if e \<in> {ErrInvalidRefreshToken, ErrRefreshTokenExpired, ErrRefreshTokenReused} then 401
      else if e = ErrMembershipNotFound then 403 else 500)"

definition require_permission :: "auth_env \<Rightarrow> string \<Rightarrow> http_request \<Rightarrow> auth_st \<Rightarrow> (nat + claims) \<times> auth_st" where
  "require_permission ae permission r s =
     (case require_auth ae r of
       Inl _ \<Rightarrow> (Inl 401, s)
     | Inr c \<Rightarrow> (case permissions_for_claims ae c s of
         (Inl e, t) \<Rightarrow> (Inl (if e \<in> {ErrMembershipNotFound, ErrMembershipInactive} then 403 else 500), t)
       | (Inr perms, t) \<Rightarrow> (if permission \<in> set perms then Inr c else Inl 403, t)))"

text \<open>The route \<open>POST /auth/select-tenant\<close>.\<close>

definition select_tenant_handler ::
  "auth_env \<Rightarrow> http_request \<Rightarrow> string \<Rightarrow> auth_st \<Rightarrow> (nat + me_dto \<times> string) \<times> auth_st" where
  "select_tenant_handler ae r membership s =
     (case verify_access_token ae (bearer_token r) of
       Inl _ \<Rightarrow> (Inl 401, s)
     | Inr c \<Rightarrow> (case select_tenant ae (cl_subject c) membership s of
         (Inl e, t) \<Rightarrow> (Inl (map_auth_error e), t)
       | (Inr x, t) \<Rightarrow> (Inr x, t)))"

end
