(* ===== verification/IdentTokens.thy ===== *)
theory IdentTokens
  imports Identidad
begin

text \<open>
  The refresh tokens: the frame of the operations of the identity manager, the invariant of the
  families, the reuse of a token, and the two requests that rotate the same token at once.
\<close>

subsection \<open>Runs of the operations\<close>

lemma op_bind_Inr: "op_bind m f s = (Inr y, t) \<longleftrightarrow> (\<exists>x u. m s = (Inr x, u) \<and> f x u = (Inr y, t))"
  by (auto simp: op_bind_def split: prod.splits sum.splits)

lemma op_ret_Inr [simp]: "op_ret x s = (r, t) \<longleftrightarrow> r = Inr x \<and> t = s"
  by (auto simp: op_ret_def)

lemma op_fail_run [simp]: "op_fail e s = (r, t) \<longleftrightarrow> r = Inl e \<and> t = s"
  by (auto simp: op_fail_def)

lemma op_some_Inr [simp]: "op_some e x s = (Inr v, t) \<longleftrightarrow> x = Some v \<and> t = s"
  by (auto simp: op_some_def split: option.splits)

lemma op_guard_Inr [simp]: "op_guard b e s = (Inr v, t) \<longleftrightarrow> b \<and> t = s"
  by (auto simp: op_guard_def)

lemma op_q_Inr: "op_q q s = (Inr x, t) \<longleftrightarrow> (\<exists>d. q (st_db s) = Inr (x, d) \<and> t = s\<lparr>st_db := d\<rparr>)"
  by (auto simp: op_q_def split: sum.splits)

lemma op_tx_Inr [simp]: "op_tx m s = (Inr x, t) \<longleftrightarrow> m s = (Inr x, t)"
  by (auto simp: op_tx_def split: prod.splits sum.splits)

lemma op_tx_Inl: "op_tx m s = (Inl e, t) \<Longrightarrow> st_db t = st_db s"
  by (auto simp: op_tx_def split: prod.splits sum.splits)

lemma pg_uuid_Inr [simp]: "pg_uuid ev x s = (Inr u, t) \<longleftrightarrow> uuid_parse ev x = Some u \<and> t = s"
  by (simp add: pg_uuid_def)

lemma set_user_Inr [simp]:
  "set_user ev x s = (Inr ev', t) \<longleftrightarrow> (\<exists>u. uuid_parse ev x = Some u \<and> ev' = ev\<lparr>usuario := Some u\<rparr>) \<and> t = s"
  by (auto simp: set_user_def op_bind_Inr)

lemma new_refresh_Inr [simp]: "new_refresh_token ae s = (Inr p, t) \<longleftrightarrow>
    p = (rand_token ae (id_seq (st_db s)), refresh_hash (ae_ev ae) (rand_token ae (id_seq (st_db s)))) \<and>
    t = s\<lparr>st_db := (st_db s)\<lparr>id_seq := Suc (id_seq (st_db s))\<rparr>\<rparr>"
  by (auto simp: new_refresh_token_def Let_def)

text \<open>What every outcome of an operation does to the tables, for a reflexive and transitive relation.\<close>

definition op_rel :: "(ident_db \<Rightarrow> ident_db \<Rightarrow> bool) \<Rightarrow> 'a op \<Rightarrow> bool" where
  "op_rel R m \<longleftrightarrow> (\<forall>s. R (st_db s) (st_db (snd (m s))))"

lemma op_relI: "(\<And>s. R (st_db s) (st_db (snd (m s)))) \<Longrightarrow> op_rel R m"
  by (simp add: op_rel_def)

lemma op_relD: "op_rel R m \<Longrightarrow> m s = (r, t) \<Longrightarrow> R (st_db s) (st_db t)"
  by (metis op_rel_def snd_conv)

locale ident_rel = step_rel R for R :: "ident_db \<Rightarrow> ident_db \<Rightarrow> bool"
begin

lemma op_triv: "op_rel R (op_ret x)" "op_rel R (op_fail e)" "op_rel R (op_sum r)"
  "op_rel R (op_some e v)" "op_rel R (op_guard b e)"
  using refl by (auto simp: op_rel_def op_ret_def op_fail_def op_sum_def op_some_def op_guard_def split: option.split)

lemma op_seq:
  assumes "op_rel R m" and "\<And>x. op_rel R (f x)"
  shows "op_rel R (op_bind m f)"
proof (rule op_relI)
  fix s
  obtain r u where m: "m s = (r, u)" by (cases "m s")
  have 1: "R (st_db s) (st_db u)" by (rule op_relD[OF assms(1) m])
  show "R (st_db s) (st_db (snd (op_bind m f s)))"
  proof (cases r)
    case (Inr x)
    have "R (st_db u) (st_db (snd (f x u)))" using assms(2)[of x] by (simp add: op_rel_def)
    then show ?thesis using trans[OF 1] by (simp add: op_bind_def m Inr)
  qed (simp add: op_bind_def m 1)
qed

lemma op_query: "tx_rel R q \<Longrightarrow> op_rel R (op_q q)"
  using refl by (auto simp: op_rel_def op_q_def tx_rel_def split: sum.split)

lemma op_trans:
  assumes "op_rel R m"
  shows "op_rel R (op_tx m)"
proof (rule op_relI)
  fix s
  obtain r u where m: "m s = (r, u)" by (cases "m s")
  show "R (st_db s) (st_db (snd (op_tx m s)))"
    using op_relD[OF assms m] refl by (cases r) (simp_all add: op_tx_def m)
qed

lemma op_errs:
  assumes "op_rel R m"
  shows "op_rel R (op_ignore m)" "op_rel R (op_catch h m)"
proof -
  show "op_rel R (op_ignore m)" using assms by (simp add: op_rel_def op_ignore_def)
  show "op_rel R (op_catch h m)"
  proof (rule op_relI)
    fix s
    obtain r u where m: "m s = (r, u)" by (cases "m s")
    show "R (st_db s) (st_db (snd (op_catch h m s)))"
      using op_relD[OF assms m] by (cases r) (simp_all add: op_catch_def m)
  qed
qed

lemma op_maps: "(\<And>x. op_rel R (f x)) \<Longrightarrow> op_rel R (op_map f xs)"
  by (induction xs) (auto intro: op_triv op_seq)

end

lemma op_rel_case:
  assumes "op_rel R m" and "\<And>s. R s s"
  shows "op_rel R (\<lambda>s. case m s of (Inl e, t) \<Rightarrow> (Inr x, t) | (Inr y, t) \<Rightarrow> (Inr (f y), t))"
proof (rule op_relI)
  fix s
  obtain r u where m: "m s = (r, u)" by (cases "m s")
  show "R (st_db s) (st_db (snd (case m s of (Inl e, t) \<Rightarrow> (Inr x, t) | (Inr y, t) \<Rightarrow> (Inr (f y), t))))"
    using op_relD[OF assms(1) m] by (cases r) (simp_all add: m)
qed

subsection \<open>Frames\<close>

text \<open>
  A relation that the changes of the users, of the sessions and of the counter respect, and the
  record of an attempt of the server whose identifiers are \<open>G\<close>: every operation that does not write
  the refresh tokens respects it.
\<close>

locale ident_frame = ident_rel R for R :: "ident_db \<Rightarrow> ident_db \<Rightarrow> bool" +
  fixes G :: "nat \<Rightarrow> uuid"
  assumes en_users: "R s (users_update us s)"
    and en_sessions: "R s (sessions_update ss s)"
    and en_seq: "R s (s\<lparr>id_seq := Suc (id_seq s)\<rparr>)"
    and en_attempts: "uuid_gen ev = G \<Longrightarrow> tx_rel R (record_attempt ev a i j k)"
begin

lemma fr_nuevo: "tx_rel R (nuevo_id ev)"
  by (auto simp: tx_rel_def en_seq)

lemma fr_queries:
  "tx_rel R (get_user_by_email a)" "tx_rel R (get_user_by_id b)" "tx_rel R (update_mfa_secret ev c b)"
  "tx_rel R (enable_mfa ev b)" "tx_rel R (disable_mfa_q ev b)" "tx_rel R (list_memberships_for_user ev b)"
  "tx_rel R (list_roles_for_membership ev b)" "tx_rel R (list_scopes_for_membership ev b)"
  "tx_rel R (get_session_by_id ev b)" "tx_rel R (insert_session ev b d e n)"
  "tx_rel R (lookup_refresh_token a)" "tx_rel R (revoke_session ev b n)"
  "tx_rel R (count_failures ev a i m)"
  unfolding get_user_by_email_def get_user_by_id_def update_mfa_secret_def enable_mfa_def disable_mfa_q_def
    list_memberships_for_user_def list_roles_for_membership_def list_scopes_for_membership_def get_session_by_id_def
    insert_session_def lookup_refresh_token_def revoke_session_def count_failures_def
  by (intro rules fr_nuevo rel_queries en_users en_sessions refl)+

lemma fr_totp: "tx_rel R (\<lambda>s. Inr (f s, s\<lparr>id_seq := Suc (id_seq s)\<rparr>))"
  by (auto simp: tx_rel_def en_seq)

lemma fr_new_refresh: "op_rel R (new_refresh_token ae)"
  by (rule op_relI) (simp add: new_refresh_token_def Let_def en_seq)

lemma fr_uuid: "op_rel R (pg_uuid ev y)"
  unfolding pg_uuid_def by (rule op_triv)

lemma fr_set_user: "op_rel R (set_user ev x)"
  unfolding set_user_def by (intro op_seq op_triv)

lemma fr_dto: "op_rel R (membership_dto_de ae ev uid r)"
proof (rule op_relI)
  fix s
  define k where "k = membership_cache_key (uuid_show ev uid) (uuid_show ev (md_membership r))"
  have m: "op_rel R (op_bind (op_q (list_roles_for_membership ev (md_membership r))) (\<lambda>rls.
      op_bind (op_q (list_scopes_for_membership ev (md_membership r))) (\<lambda>scs.
      \<lambda>t. (Inr (membership_from_parts ev r (map fst rls) (scopes_codes ev scs)),
        t\<lparr>st_cache := cache_set ae k (map fst rls) (scopes_codes ev scs) (st_cache t)\<rparr>))))"
    by (intro op_seq op_query fr_queries) (rule op_relI, simp add: refl)
  show "R (st_db s) (st_db (snd (membership_dto_de ae ev uid r s)))"
  proof (cases "cache_get ae (st_cache s) k")
    case None
    then show ?thesis using m by (simp add: membership_dto_de_def Let_def k_def op_rel_def)
  next
    case (Some p)
    then show ?thesis by (cases p) (simp add: membership_dto_de_def Let_def k_def refl)
  qed
qed

lemma fr_sign: "op_rel R (sign_access_token ae a b m)" "op_rel R (sign_mfa_token ae u)"
  unfolding sign_access_token_def sign_mfa_token_def by (auto intro: op_triv)

lemma fr_by_id: "op_rel R (membership_by_id ae ev uid mid)"
  unfolding membership_by_id_def
  by (intro op_seq op_query fr_queries) (auto split: option.split intro: op_triv fr_dto)

lemma fr_issue: "op_rel R (issue_access_for ae u m)"
  unfolding issue_access_for_def by (intro op_seq op_trans fr_uuid fr_set_user fr_by_id fr_sign)

lemmas fr_rules = op_seq op_query op_trans op_triv op_errs op_maps fr_queries fr_nuevo fr_totp
  fr_uuid fr_set_user fr_dto fr_by_id fr_sign fr_issue fr_new_refresh

lemma fr_ops:
  "op_rel R (select_tenant ae u m)" "op_rel R (me ae c)" "op_rel R (list_memberships ae c)"
  "op_rel R (permissions_for_claims ae c)" "op_rel R (setup_mfa ae u)" "op_rel R (disable_mfa ae u)"
  unfolding select_tenant_def me_def list_memberships_def permissions_for_claims_def setup_mfa_def disable_mfa_def
  by (intro fr_rules)+

lemma fr_confirm: "op_rel R (confirm_mfa ae u c)"
  unfolding confirm_mfa_def by (intro fr_rules) (auto split: option.split intro!: fr_rules)

lemma fr_buscar:
  assumes "uuid_gen ev = G"
  shows "op_rel R (\<lambda>s. case op_q (get_user_by_email e) s of
     (Inl x, t) \<Rightarrow> if x = PgNoRows then op_bind (op_ignore (op_q (record_attempt ev a i j k))) (\<lambda>_. op_fail y) t else (Inl x, t)
   | r \<Rightarrow> r)"
proof (rule op_relI)
  fix s
  have g: "op_rel R (op_q (get_user_by_email e))" by (intro fr_rules)
  let ?f = "op_bind (op_ignore (op_q (record_attempt ev a i j k))) (\<lambda>_. op_fail y) :: user op"
  have f: "op_rel R ?f" by (intro fr_rules en_attempts assms)
  obtain r u where m: "op_q (get_user_by_email e) s = (r, u)" by (cases "op_q (get_user_by_email e) s")
  have 1: "R (st_db s) (st_db u)" by (rule op_relD[OF g m])
  have 2: "R (st_db u) (st_db (snd (?f u)))" using f by (simp add: op_rel_def)
  show "R (st_db s) (st_db (snd (case op_q (get_user_by_email e) s of
     (Inl x, t) \<Rightarrow> if x = PgNoRows then op_bind (op_ignore (op_q (record_attempt ev a i j k))) (\<lambda>_. op_fail y) t else (Inl x, t)
   | r \<Rightarrow> r)))"
    using 1 trans[OF 1 2] by (cases r) (simp_all add: m)
qed

end

text \<open>A relation that the tokens do not matter to either holds of every operation.\<close>

locale ident_total = ident_frame +
  assumes en_tokens: "R s (refresh_tokens_update ts s)"
begin

lemma to_queries:
  "tx_rel R (insert_refresh_token ev sid uid hash family expires)" "tx_rel R (revoke_refresh_token ev b n)"
  "tx_rel R (revoke_tokens_by_family ev b n)"
  unfolding insert_refresh_token_def revoke_refresh_token_def revoke_tokens_by_family_def
  by (intro rules fr_nuevo rel_queries en_tokens refl)+

lemmas to_rules = fr_rules to_queries

lemma to_open_session: "op_rel R (open_session ae user)"
  unfolding open_session_def abrir_sesion_def Let_def
  by (intro to_rules) (auto split: list.split prod.split intro!: op_rel_case to_rules refl)

lemma to_login: "uuid_gen (ae_ev ae) = G \<Longrightarrow> op_rel R (login ae e p ip)"
  unfolding login_def Let_def
  by (intro fr_buscar to_rules to_open_session) (auto intro!: to_rules en_attempts to_open_session)

lemma to_verify: "uuid_gen (ae_ev ae) = G \<Longrightarrow> op_rel R (verify_mfa ae tk c ip)"
  unfolding verify_mfa_def Let_def
  by (intro to_rules to_open_session) (auto split: sum.split intro!: to_rules en_attempts)

lemma to_refresh: "op_rel R (refresh ae plain)"
  unfolding refresh_def refresh_leer_def refresh_rotar_def revoke_family_def
  by (intro to_rules) (auto split: prod.split intro!: to_rules)

lemma to_logout: "op_rel R (logout ae plain)"
proof (rule op_relI)
  fix s
  let ?q = "op_q (lookup_refresh_token (refresh_hash (ae_ev ae) plain))"
  have tx: "op_rel R (op_tx (op_bind (set_user (ae_ev ae) (uuid_show (ae_ev ae) (tk_user tok))) (\<lambda>ev.
      op_bind (op_q (revoke_refresh_token ev (tk_id tok) (reloj ev))) (\<lambda>_. op_q (revoke_session ev (tk_session tok) (reloj ev))))))" for tok
    by (intro to_rules)
  obtain r u where m: "?q s = (r, u)" by (cases "?q s")
  have "op_rel R ?q" by (intro to_rules)
  from op_relD[OF this m] have 1: "R (st_db s) (st_db u)" .
  show "R (st_db s) (st_db (snd (logout ae plain s)))"
  proof (cases r)
    case (Inl e)
    then show ?thesis using 1 by (simp add: logout_def m)
  next
    case (Inr tok)
    then show ?thesis using 1 trans[OF 1 tx[of tok, unfolded op_rel_def, rule_format]] by (simp add: logout_def m)
  qed
qed

end

text \<open>The frame of the tokens.\<close>

definition tok_frame :: "ident_db \<Rightarrow> ident_db \<Rightarrow> bool" where
  "tok_frame s t \<longleftrightarrow> refresh_tokens t = refresh_tokens s \<and> id_seq s \<le> id_seq t"

interpretation fr: ident_frame tok_frame G for G
proof unfold_locales
  fix ev :: env and a i j k
  show "tx_rel tok_frame (record_attempt ev a i j k)"
    unfolding record_attempt_def by (auto simp: tx_rel_def tx_inv tok_frame_def)
qed (auto simp: tok_frame_def)

subsection \<open>The machine of the tokens\<close>

text \<open>
  What an operation may do to the tokens: nothing, open a new family, revoke some of them, or rotate
  one that is valid: it is revoked, and its family gets a new one.
\<close>

inductive tok_paso :: "(nat \<Rightarrow> uuid) \<Rightarrow> ident_db \<Rightarrow> ident_db \<Rightarrow> bool" for G where
  igual: "tok_frame s t \<Longrightarrow> tok_paso G s t"
| abrir: "refresh_tokens t = refresh_tokens s @ [x] \<Longrightarrow> tk_family x = G k \<Longrightarrow> id_seq s \<le> k \<Longrightarrow> k < id_seq t \<Longrightarrow>
    tok_paso G s t"
| revocar: "refresh_tokens t = upd_where P (\<lambda>x. x\<lparr>tk_revoked := Some n\<rparr>) (refresh_tokens s) \<Longrightarrow>
    id_seq s \<le> id_seq t \<Longrightarrow> tok_paso G s t"
| rotar: "y \<in> set (filter P (refresh_tokens s)) \<Longrightarrow> tk_revoked y = None \<Longrightarrow> tk_family x = tk_family y \<Longrightarrow>
    tk_user x = tk_user y \<Longrightarrow>
    refresh_tokens t = upd_where P (\<lambda>x. x\<lparr>tk_revoked := Some n\<rparr>) (refresh_tokens s) @ [x] \<Longrightarrow>
    id_seq s \<le> id_seq t \<Longrightarrow> tok_paso G s t"

lemma tok_frame_paso:
  assumes "tok_frame s u" and "tok_paso G u t"
  shows "tok_paso G s t"
proof -
  have f: "refresh_tokens u = refresh_tokens s" "id_seq s \<le> id_seq u" using assms(1) by (simp_all add: tok_frame_def)
  from assms(2) show ?thesis
  proof cases
    case igual then show ?thesis using assms(1) by (intro tok_paso.igual) (simp add: tok_frame_def)
  next
    case (abrir x k) show ?thesis by (rule tok_paso.abrir[where x = x and k = k]) (use abrir f in simp_all)
  next
    case (revocar P n) show ?thesis by (rule tok_paso.revocar[where P = P and n = n]) (use revocar f in simp_all)
  next
    case (rotar y P x n) show ?thesis by (rule tok_paso.rotar[where y = y and P = P and n = n and x = x]) (use rotar f in simp_all)
  qed
qed

lemma tok_paso_frame:
  assumes "tok_paso G s u" and "tok_frame u t"
  shows "tok_paso G s t"
proof -
  have f: "refresh_tokens t = refresh_tokens u" "id_seq u \<le> id_seq t" using assms(2) by (simp_all add: tok_frame_def)
  from assms(1) show ?thesis
  proof cases
    case igual then show ?thesis using assms(2) by (intro tok_paso.igual) (simp add: tok_frame_def)
  next
    case (abrir x k) show ?thesis by (rule tok_paso.abrir[where x = x and k = k]) (use abrir f in simp_all)
  next
    case (revocar P n) show ?thesis by (rule tok_paso.revocar[where P = P and n = n]) (use revocar f in simp_all)
  next
    case (rotar y P x n) show ?thesis by (rule tok_paso.rotar[where y = y and P = P and n = n and x = x]) (use rotar f in simp_all)
  qed
qed

lemma pa_frame: "op_rel tok_frame m \<Longrightarrow> op_rel (tok_paso G) m"
  by (simp add: op_rel_def tok_paso.igual)

lemma pa_seq:
  assumes "op_rel tok_frame m" and "\<And>x. op_rel (tok_paso G) (f x)"
  shows "op_rel (tok_paso G) (op_bind m f)"
proof (rule op_relI)
  fix s
  obtain r u where m: "m s = (r, u)" by (cases "m s")
  have 1: "tok_frame (st_db s) (st_db u)" by (rule op_relD[OF assms(1) m])
  show "tok_paso G (st_db s) (st_db (snd (op_bind m f s)))"
  proof (cases r)
    case (Inr x)
    have "tok_paso G (st_db u) (st_db (snd (f x u)))" using assms(2)[of x] by (simp add: op_rel_def)
    then show ?thesis using tok_frame_paso[OF 1] by (simp add: op_bind_def m Inr)
  qed (simp add: op_bind_def m tok_paso.igual 1)
qed

lemma pb_seq:
  assumes "op_rel (tok_paso G) m" and "\<And>x. op_rel tok_frame (f x)"
  shows "op_rel (tok_paso G) (op_bind m f)"
proof (rule op_relI)
  fix s
  obtain r u where m: "m s = (r, u)" by (cases "m s")
  have 1: "tok_paso G (st_db s) (st_db u)" by (rule op_relD[OF assms(1) m])
  show "tok_paso G (st_db s) (st_db (snd (op_bind m f s)))"
  proof (cases r)
    case (Inr x)
    have "tok_frame (st_db u) (st_db (snd (f x u)))" using assms(2)[of x] by (simp add: op_rel_def)
    then show ?thesis using tok_paso_frame[OF 1] by (simp add: op_bind_def m Inr)
  qed (simp add: op_bind_def m 1)
qed

lemma pa_trans:
  assumes "op_rel (tok_paso G) m"
  shows "op_rel (tok_paso G) (op_tx m)"
proof (rule op_relI)
  fix s
  obtain r u where m: "m s = (r, u)" by (cases "m s")
  have "tok_paso G (st_db s) (st_db s)" by (rule tok_paso.igual) (simp add: tok_frame_def)
  then show "tok_paso G (st_db s) (st_db (snd (op_tx m s)))"
    using op_relD[OF assms m] by (cases r) (simp_all add: op_tx_def m)
qed

lemma pa_query: "tx_rel (tok_paso G) q \<Longrightarrow> op_rel (tok_paso G) (op_q q)"
  by (auto simp: op_rel_def op_q_def tx_rel_def tok_frame_def intro: tok_paso.igual split: sum.split)

lemma pa_revocar:
  "tx_rel (tok_paso G) (revoke_tokens_by_family ev f n)"
  "tx_rel (tok_paso G) (revoke_refresh_token ev i n)"
  unfolding revoke_tokens_by_family_def revoke_refresh_token_def
  by (intro rel_exec rel_update; rule tok_paso.revocar; simp)+

lemma pa_abrir: "op_rel (tok_paso (uuid_gen ev)) (op_bind (op_q (nuevo_id ev)) (\<lambda>family.
    op_q (insert_refresh_token ev sid uid hash family expires)))"
proof (rule op_relI)
  fix s :: auth_st
  let ?m = "op_bind (op_q (nuevo_id ev)) (\<lambda>family. op_q (insert_refresh_token ev sid uid hash family expires))"
  let ?u = "(st_db s)\<lparr>id_seq := Suc (id_seq (st_db s))\<rparr>"
  show "tok_paso (uuid_gen ev) (st_db s) (st_db (snd (?m s)))"
  proof (cases "insert_refresh_token ev sid uid hash (uuid_gen ev (id_seq (st_db s))) expires ?u")
    case (Inl e)
    then show ?thesis by (intro tok_paso.igual) (simp add: op_bind_def op_q_def nuevo_id_def tok_frame_def)
  next
    case (Inr p)
    obtain t where p: "p = ((), t)" by (cases p) simp
    from Inr have i: "insert_refresh_token ev sid uid hash (uuid_gen ev (id_seq (st_db s))) expires ?u = Inr ((), t)"
      by (simp add: p)
    then have t: "refresh_tokens t = refresh_tokens (st_db s) @ [\<lparr>tk_id = uuid_gen ev (Suc (id_seq (st_db s))), tk_session = sid,
        tk_user = uid, tk_hash = hash, tk_family = uuid_gen ev (id_seq (st_db s)), tk_expires = expires,
        tk_revoked = None, tk_created = ahora ev\<rparr>] \<and> id_seq t = Suc (Suc (id_seq (st_db s)))"
      by (auto simp: insert_refresh_token_def tx_inv)
    have m: "st_db (snd (?m s)) = t" by (simp add: op_bind_def op_q_def nuevo_id_def i)
    show ?thesis unfolding m by (rule tok_paso.abrir[OF conjunct1[OF t], where k = "id_seq (st_db s)"]) (use t in simp_all)
  qed
qed

lemma op_bind_assoc: "op_bind (op_bind m f) g = op_bind m (\<lambda>x. op_bind (f x) g)"
  by (rule ext) (auto simp: op_bind_def split: prod.splits sum.splits)

lemma op_bind_ret [simp]: "op_bind (op_ret x) f = f x"
  by (rule ext) (simp add: op_bind_def op_ret_def)

lemma set_user_bind: "op_bind (set_user ev x) f = op_bind (op_some PgRange (uuid_parse ev x)) (\<lambda>u. f (ev\<lparr>usuario := Some u\<rparr>))"
  by (simp add: set_user_def op_bind_assoc)

lemma pa_abrir_sesion: "op_rel (tok_paso (uuid_gen (ae_ev ae))) (abrir_sesion ae user)"
proof -
  have u: "op_rel (tok_paso (uuid_gen (ae_ev ae))) (op_bind (op_q (nuevo_id ev)) (\<lambda>family.
      op_bind (op_q (insert_refresh_token ev sid uid hash family expires)) (\<lambda>_. op_ret x)))"
    if "uuid_gen ev = uuid_gen (ae_ev ae)" for ev sid uid hash expires and x :: "membership_dto list \<times> string"
    using pb_seq[OF pa_abrir, of "\<lambda>_. op_ret x", unfolded op_bind_assoc] fr.op_triv(1) that by metis
  show ?thesis unfolding abrir_sesion_def Let_def set_user_bind
    by (intro pa_trans pa_seq fr.fr_rules)
      (auto split: list.split prod.split intro!: fr.fr_rules pa_seq u)
qed


lemma pa_open_session: "op_rel (tok_paso (uuid_gen (ae_ev ae))) (open_session ae user)"
  unfolding open_session_def Let_def
  by (intro pb_seq pa_abrir_sesion)
    (auto split: prod.split intro!: fr.op_triv op_rel_case fr.fr_issue fr.refl)

lemma fr_record: "tx_rel tok_frame (record_attempt ev a i j k)"
  by (rule fr.en_attempts[OF refl])

lemma pa_login: "op_rel (tok_paso (uuid_gen (ae_ev ae))) (login ae e p ip)"
  unfolding login_def Let_def
  by (intro pa_seq fr.fr_buscar[OF refl] fr.fr_rules)
    (auto intro!: pa_frame[OF fr.op_triv(1)] pa_seq pa_frame fr.fr_rules fr_record pa_open_session)

lemma pa_verify: "op_rel (tok_paso (uuid_gen (ae_ev ae))) (verify_mfa ae tk c ip)"
  unfolding verify_mfa_def Let_def
  by (intro pa_seq fr.fr_rules fr_record pa_open_session) (auto split: sum.split intro!: fr.fr_rules fr_record)

lemma pa_refl: "tok_paso G s s"
  by (rule tok_paso.igual) (simp add: tok_frame_def)

lemma pa_logout: "op_rel (tok_paso G) (logout ae plain)"
proof (rule op_relI)
  fix s
  let ?q = "op_q (lookup_refresh_token (refresh_hash (ae_ev ae) plain))"
  have tx: "op_rel (tok_paso G) (op_tx (op_bind (set_user (ae_ev ae) (uuid_show (ae_ev ae) (tk_user tok))) (\<lambda>ev.
      op_bind (op_q (revoke_refresh_token ev (tk_id tok) (reloj ev))) (\<lambda>_. op_q (revoke_session ev (tk_session tok) (reloj ev))))))" for tok
    unfolding set_user_bind by (intro pa_trans pa_seq pb_seq pa_query pa_revocar fr.fr_rules)
  obtain r u where m: "?q s = (r, u)" by (cases "?q s")
  have "op_rel tok_frame ?q" by (intro fr.fr_rules)
  from op_relD[OF this m] have 1: "tok_frame (st_db s) (st_db u)" .
  show "tok_paso G (st_db s) (st_db (snd (logout ae plain s)))"
  proof (cases r)
    case (Inl e)
    then show ?thesis using 1 by (simp add: logout_def m tok_paso.igual)
  next
    case (Inr tok)
    then show ?thesis
      using tok_frame_paso[OF 1 tx[of tok, unfolded op_rel_def, rule_format, of u]]
      by (simp add: logout_def m tok_paso.igual 1)
  qed
qed

lemma lookup_run: "op_q (lookup_refresh_token h) s = (case List.find (\<lambda>x. tk_hash x = h) (refresh_tokens (st_db s)) of
    None \<Rightarrow> (Inl PgNoRows, s) | Some x \<Rightarrow> (Inr x, s))"
  by (simp add: op_q_def lookup_refresh_token_def tx_row_def split: option.split)

text \<open>The step that reads the token of a refresh, on each branch.\<close>

definition buscar_token :: "auth_env \<Rightarrow> string \<Rightarrow> ident_db \<Rightarrow> refresh_token option" where
  "buscar_token ae plain d = List.find (\<lambda>x. tk_hash x = refresh_hash (ae_ev ae) plain) (refresh_tokens d)"

lemma buscar_en: "buscar_token ae plain d = Some x \<Longrightarrow> x \<in> set (refresh_tokens d)"
  by (auto simp: buscar_token_def find_Some_iff)

lemma leer_run: "refresh_leer ae plain s = (case buscar_token ae plain (st_db s) of
    None \<Rightarrow> (Inl ErrInvalidRefreshToken, s)
  | Some tok \<Rightarrow> if tk_revoked tok \<noteq> None
      then op_bind (revoke_family ae (uuid_show (ae_ev ae) (tk_user tok)) (tk_family tok)) (\<lambda>_. op_fail ErrRefreshTokenReused) s
      else if tk_expires tok < reloj (ae_ev ae) then (Inl ErrRefreshTokenExpired, s)
      else (Inr tok, s))"
  by (simp add: refresh_leer_def op_bind_def op_catch_def lookup_run buscar_token_def no_rows_as_def op_fail_def op_ret_def
      split: option.split)

lemma leer_Inr: "refresh_leer ae plain s = (Inr tok, t) \<longleftrightarrow> t = s \<and> buscar_token ae plain (st_db s) = Some tok \<and>
    tk_revoked tok = None \<and> reloj (ae_ev ae) \<le> tk_expires tok"
  by (auto simp: leer_run op_bind_Inr not_less split: option.splits if_splits)

lemma pa_revoke_family: "op_rel (tok_paso G) (revoke_family ae user family)"
  unfolding revoke_family_def set_user_bind by (intro pa_trans pa_seq pa_query pa_revocar fr.fr_rules)

lemma pa_leer: "op_rel (tok_paso G) (refresh_leer ae plain)"
proof (rule op_relI)
  fix s
  have f: "op_rel (tok_paso G) (op_bind (revoke_family ae u fa) (\<lambda>_. op_fail e :: refresh_token op))" for u fa e
    by (intro pb_seq pa_revoke_family fr.fr_rules)
  show "tok_paso G (st_db s) (st_db (snd (refresh_leer ae plain s)))"
    using f[unfolded op_rel_def] by (simp add: leer_run pa_refl split: option.split)
qed

lemma rotar_inv:
  assumes "refresh_rotar ae tok s = (Inr p, t)" and "env_ok (ae_ev ae)"
  obtains plain where "p = (fst p, plain)" and "plain = rand_token ae (id_seq (st_db s))"
    and "refresh_tokens (st_db t) =
      upd_where (\<lambda>x. tk_id x = tk_id tok \<and> tk_user x = tk_user tok) (\<lambda>x. x\<lparr>tk_revoked := Some (reloj (ae_ev ae))\<rparr>)
        (refresh_tokens (st_db s)) @
      [\<lparr>tk_id = uuid_gen (ae_ev ae) (Suc (id_seq (st_db s))), tk_session = tk_session tok, tk_user = tk_user tok,
        tk_hash = refresh_hash (ae_ev ae) plain, tk_family = tk_family tok,
        tk_expires = reloj (ae_ev ae) + refresh_ttl ae, tk_revoked = None, tk_created = ahora (ae_ev ae)\<rparr>]"
    and "id_seq (st_db s) < id_seq (st_db t)"
    and "uuid_gen (ae_ev ae) (Suc (id_seq (st_db s))) \<notin> tk_id ` set (refresh_tokens (st_db s))"
proof -
  let ?ev = "(ae_ev ae)\<lparr>usuario := Some (tk_user tok)\<rparr>"
  have u: "uuid_parse (ae_ev ae) (uuid_show (ae_ev ae) (tk_user tok)) = Some (tk_user tok)"
    using assms(2) by (simp add: env_ok_def)
  from assms(1) obtain s1 plain s2 s3 ses s4 m s5 access where
    1: "revoke_refresh_token ?ev (tk_id tok) (reloj ?ev) (st_db s) = Inr ((), s1)" and
    2: "plain = rand_token ae (id_seq s1)" "s2 = s1\<lparr>id_seq := Suc (id_seq s1)\<rparr>" and
    3: "insert_refresh_token ?ev (tk_session tok) (tk_user tok) (refresh_hash (ae_ev ae) plain) (tk_family tok)
        (reloj ?ev + refresh_ttl ae) s2 = Inr ((), s3)" and
    4: "op_q (get_session_by_id ?ev (tk_session tok)) (s\<lparr>st_db := s3\<rparr>) = (Inr ses, s4)" and
    5: "membership_by_id ae ?ev (tk_user tok) (se_membership ses) s4 = (Inr m, s5)" and
    6: "sign_access_token ae (tk_user tok) (se_membership ses) m s5 = (Inr access, t)" and p: "p = (access, plain)"
    unfolding refresh_rotar_def set_user_bind by (auto simp: op_bind_Inr op_q_Inr u)
  have g: "op_rel tok_frame (op_q (get_session_by_id ?ev (tk_session tok)))" by (intro fr.fr_rules)
  have f: "tok_frame s3 (st_db t)"
    using fr.trans[OF fr.trans[OF op_relD[OF g 4] op_relD[OF fr.fr_by_id 5]] op_relD[OF fr.fr_sign(1) 6]] by simp
  from 1 have s1: "refresh_tokens s1 = upd_where (\<lambda>x. tk_id x = tk_id tok \<and> tk_user x = tk_user tok)
      (\<lambda>x. x\<lparr>tk_revoked := Some (reloj (ae_ev ae))\<rparr>) (refresh_tokens (st_db s))" "id_seq s1 = id_seq (st_db s)"
    by (auto simp: revoke_refresh_token_def eq_commute[of "tk_user tok"])
  have i: "uuid_gen (ae_ev ae) (Suc (id_seq (st_db s))) \<notin> tk_id ` set (refresh_tokens (st_db s))"
  proof -
    have "tk_id ` set (upd_where P (\<lambda>x. x\<lparr>tk_revoked := v\<rparr>) xs) = tk_id ` set xs" for P v and xs :: "refresh_token list"
      by (induction xs) (auto simp: image_iff)
    then have e: "tk_id ` set (refresh_tokens s1) = tk_id ` set (refresh_tokens (st_db s))" by (simp add: s1)
    have "uuid_gen (ae_ev ae) (Suc (id_seq (st_db s))) \<notin> tk_id ` set (refresh_tokens s1)"
      using 3 2 s1(2) by (auto simp: insert_refresh_token_def tx_inv image_iff split: if_splits)
    then show ?thesis by (simp add: e)
  qed
  show ?thesis
    by (rule that[of plain, OF _ _ _ _ i]) (use f p 2 3 s1 in \<open>auto simp: tok_frame_def insert_refresh_token_def tx_inv\<close>)
qed

lemma pa_refresh:
  assumes "env_ok (ae_ev ae)"
  shows "op_rel (tok_paso G) (refresh ae plain)"
proof (rule op_relI)
  fix s
  obtain r u where l: "refresh_leer ae plain s = (r, u)" by (cases "refresh_leer ae plain s")
  show "tok_paso G (st_db s) (st_db (snd (refresh ae plain s)))"
  proof (cases r)
    case (Inl e)
    then show ?thesis using op_relD[OF pa_leer l] by (simp add: refresh_def op_bind_def l)
  next
    case (Inr tok)
    then have tok: "u = s" "buscar_token ae plain (st_db s) = Some tok" "tk_revoked tok = None"
      using l by (simp_all add: leer_Inr)
    obtain q t where q: "refresh_rotar ae tok s = (q, t)" by (cases "refresh_rotar ae tok s")
    have e: "refresh ae plain s = (q, t)" using tok l q by (simp add: refresh_def op_bind_def Inr)
    show ?thesis
    proof (cases q)
      case (Inl e')
      then have "st_db t = st_db s" using q op_tx_Inl unfolding refresh_rotar_def by blast
      then show ?thesis by (simp add: e pa_refl)
    next
      case (Inr p)
      from rotar_inv[OF q[unfolded Inr] assms] obtain pl where
        r: "refresh_tokens (st_db t) =
          upd_where (\<lambda>x. tk_id x = tk_id tok \<and> tk_user x = tk_user tok) (\<lambda>x. x\<lparr>tk_revoked := Some (reloj (ae_ev ae))\<rparr>)
            (refresh_tokens (st_db s)) @
          [\<lparr>tk_id = uuid_gen (ae_ev ae) (Suc (id_seq (st_db s))), tk_session = tk_session tok, tk_user = tk_user tok,
            tk_hash = refresh_hash (ae_ev ae) pl, tk_family = tk_family tok,
            tk_expires = reloj (ae_ev ae) + refresh_ttl ae, tk_revoked = None, tk_created = ahora (ae_ev ae)\<rparr>]"
        and n: "id_seq (st_db s) < id_seq (st_db t)" by blast
      show ?thesis unfolding e snd_conv
        by (rule tok_paso.rotar[where y = tok, OF _ _ _ _ r]) (use tok buscar_en n in simp_all)
    qed
  qed
qed

subsection \<open>The invariant of the families\<close>

text \<open>
  The families are identifiers that were generated, a family belongs to one user, and at most one of
  its tokens is not revoked.
\<close>

definition vivos :: "ident_db \<Rightarrow> refresh_token list" where
  "vivos s = filter (\<lambda>x. tk_revoked x = None) (refresh_tokens s)"

definition familias_ok :: "(nat \<Rightarrow> uuid) \<Rightarrow> ident_db \<Rightarrow> bool" where
  "familias_ok G s \<longleftrightarrow> distinct (map tk_family (vivos s)) \<and>
     (\<forall>x \<in> set (refresh_tokens s). \<exists>k < id_seq s. tk_family x = G k) \<and>
     (\<forall>x \<in> set (refresh_tokens s). \<forall>y \<in> set (refresh_tokens s). tk_family x = tk_family y \<longrightarrow> tk_user x = tk_user y)"

lemma vivos_upd: "filter (\<lambda>x. tk_revoked x = None) (upd_where P (\<lambda>x. x\<lparr>tk_revoked := Some n\<rparr>) xs) =
    filter (\<lambda>x. \<not> P x) (filter (\<lambda>x. tk_revoked x = None) xs)"
  by (induction xs) auto

lemma upd_familia: "x \<in> set (upd_where P (\<lambda>x. x\<lparr>tk_revoked := Some n\<rparr>) xs) \<Longrightarrow>
    \<exists>y \<in> set xs. tk_family x = tk_family y \<and> tk_user x = tk_user y"
  by (auto simp: set_upd_where split: if_splits)

lemma familias_okD:
  assumes "familias_ok G s"
  shows "distinct (map tk_family (vivos s))"
    and "x \<in> set (refresh_tokens s) \<Longrightarrow> \<exists>k < id_seq s. tk_family x = G k"
    and "x \<in> set (refresh_tokens s) \<Longrightarrow> y \<in> set (refresh_tokens s) \<Longrightarrow> tk_family x = tk_family y \<Longrightarrow> tk_user x = tk_user y"
  using assms unfolding familias_ok_def by blast+

text \<open>A state whose tokens continue those of another one, but for the new families.\<close>

lemma familias_sigue:
  assumes "familias_ok G s" and "distinct (map tk_family (vivos t))" and "id_seq s \<le> id_seq t"
    and "\<And>x. x \<in> set (refresh_tokens t) \<Longrightarrow> \<exists>y \<in> set (refresh_tokens s). tk_family x = tk_family y \<and> tk_user x = tk_user y"
  shows "familias_ok G t"
  unfolding familias_ok_def
proof (intro conjI ballI impI)
  fix x assume "x \<in> set (refresh_tokens t)"
  from assms(4)[OF this] familias_okD(2)[OF assms(1)] assms(3)
  show "\<exists>k < id_seq t. tk_family x = G k" by (metis less_le_trans)
next
  fix x y assume "x \<in> set (refresh_tokens t)" "y \<in> set (refresh_tokens t)" "tk_family x = tk_family y"
  then show "tk_user x = tk_user y" using assms(4) familias_okD(3)[OF assms(1)] by metis
qed (rule assms(2))

lemma familias_paso:
  assumes "tok_paso G s t" and "inj G" and "familias_ok G s"
  shows "familias_ok G t"
  using assms(1)
proof cases
  case igual
  then show ?thesis
    by (intro familias_sigue[OF assms(3)]) (use familias_okD(1)[OF assms(3)] in \<open>auto simp: tok_frame_def vivos_def\<close>)
next
  case (abrir x k)
  have n: "tk_family y \<noteq> G k" if y: "y \<in> set (refresh_tokens s)" for y
  proof -
    obtain j where "j < id_seq s" "tk_family y = G j" using familias_okD(2)[OF assms(3) y] by blast
    then show ?thesis using abrir(3) injD[OF assms(2), of j k] by auto
  qed
  have v: "vivos t = vivos s @ (if tk_revoked x = None then [x] else [])" by (simp add: vivos_def abrir(1))
  have s: "set (refresh_tokens t) = insert x (set (refresh_tokens s))" by (simp add: abrir(1))
  show ?thesis unfolding familias_ok_def s
  proof (intro conjI ballI impI)
    show "distinct (map tk_family (vivos t))"
      unfolding v using familias_okD(1)[OF assms(3)] abrir(2) by (auto simp: vivos_def dest: n)
  next
    fix y assume "y \<in> insert x (set (refresh_tokens s))"
    then show "\<exists>k < id_seq t. tk_family y = G k"
      using familias_okD(2)[OF assms(3)] abrir(2-4) by (metis insertE less_le_trans less_imp_le)
  next
    fix y z assume "y \<in> insert x (set (refresh_tokens s))" "z \<in> insert x (set (refresh_tokens s))" "tk_family y = tk_family z"
    then show "tk_user y = tk_user z" using familias_okD(3)[OF assms(3)] n abrir(2) by (metis insertE)
  qed
next
  case (revocar P n)
  have "vivos t = filter (\<lambda>x. \<not> P x) (vivos s)" by (simp add: revocar(1) vivos_def vivos_upd)
  then have "distinct (map tk_family (vivos t))" using familias_okD(1)[OF assms(3)] by (simp add: distinct_map_filter)
  then show ?thesis using familias_sigue[OF assms(3) _ revocar(2)] upd_familia[of _ P n "refresh_tokens s"]
    by (simp add: revocar(1))
next
  case (rotar y P x n)
  have v: "vivos t = filter (\<lambda>x. \<not> P x) (vivos s) @ (if tk_revoked x = None then [x] else [])"
    by (simp add: vivos_def rotar(5) vivos_upd)
  have y: "y \<in> set (vivos s)" "P y" "y \<in> set (refresh_tokens s)" using rotar(1,2) by (auto simp: vivos_def)
  have d: "distinct (map tk_family (vivos s))" using familias_okD(1)[OF assms(3)] .
  have f: "tk_family x \<notin> tk_family ` set (filter (\<lambda>x. \<not> P x) (vivos s))"
    using y d rotar(3) by (auto simp: distinct_map dest: inj_onD)
  have "distinct (map tk_family (vivos t))"
    using f d by (cases "tk_revoked x") (simp_all add: v distinct_map_filter)
  moreover have "\<exists>w \<in> set (refresh_tokens s). tk_family z = tk_family w \<and> tk_user z = tk_user w"
    if "z \<in> set (refresh_tokens t)" for z
    using that y(3) rotar(3,4) upd_familia[of z P n "refresh_tokens s"] by (auto simp: rotar(5))
  ultimately show ?thesis using familias_sigue[OF assms(3) _ rotar(6)] by blast
qed


end
