(* ===== verification/IdentPropiedades.thy ===== *)
theory IdentPropiedades
  imports IdentTokens
begin

text \<open>
  The identity as a whole: the steps of the server and of its administrators, and what holds in every
  state that they reach: the families of refresh tokens, the reuse of a token, the limit of failed
  logins; and two flaws, the race of two rotations and the second factor that can be avoided.
\<close>

subsection \<open>The steps\<close>

text \<open>
  An environment of the server: its clock and its configuration may change from one step to the next,
  the identifiers come from one generator.
\<close>

definition servidor :: "(nat \<Rightarrow> uuid) \<Rightarrow> auth_env \<Rightarrow> bool" where
  "servidor G ae \<longleftrightarrow> env_ok (ae_ev ae) \<and> uuid_gen (ae_ev ae) = G"

text \<open>The login attempts are only added, with new identifiers.\<close>

definition at_frame :: "(nat \<Rightarrow> uuid) \<Rightarrow> ident_db \<Rightarrow> ident_db \<Rightarrow> bool" where
  "at_frame G s t \<longleftrightarrow> id_seq s \<le> id_seq t \<and> (\<exists>as. login_attempts t = login_attempts s @ as \<and>
     (\<forall>a \<in> set as. \<exists>k \<ge> id_seq s. k < id_seq t \<and> at_id a = G k))"

lemma at_frame_trans: "at_frame G s t \<Longrightarrow> at_frame G t u \<Longrightarrow> at_frame G s u"
  unfolding at_frame_def
proof (elim conjE exE, intro conjI)
  fix as bs :: "login_attempt list"
  assume a: "id_seq s \<le> id_seq t" "id_seq t \<le> id_seq u" "login_attempts t = login_attempts s @ as"
    "login_attempts u = login_attempts t @ bs" "\<forall>a\<in>set as. \<exists>k\<ge>id_seq s. k < id_seq t \<and> at_id a = G k"
    "\<forall>a\<in>set bs. \<exists>k\<ge>id_seq t. k < id_seq u \<and> at_id a = G k"
  have "\<exists>k\<ge>id_seq s. k < id_seq u \<and> at_id x = G k" if x: "x \<in> set (as @ bs)" for x
  proof (cases "x \<in> set as")
    case True
    then obtain k where "id_seq s \<le> k" "k < id_seq t" "at_id x = G k" using a(5) by blast
    then show ?thesis using a(2) by (intro exI[of _ k]) simp
  next
    case False
    then obtain k where "id_seq t \<le> k" "k < id_seq u" "at_id x = G k" using a(6) x by auto
    then show ?thesis using a(1) by (intro exI[of _ k]) simp
  qed
  then show "\<exists>as. login_attempts u = login_attempts s @ as \<and> (\<forall>a\<in>set as. \<exists>k\<ge>id_seq s. k < id_seq u \<and> at_id a = G k)"
    using a(3,4) by (intro exI[of _ "as @ bs"]) simp
qed simp

lemma at_frame_igual: "login_attempts t = login_attempts s \<Longrightarrow> id_seq s \<le> id_seq t \<Longrightarrow> at_frame G s t"
  by (simp add: at_frame_def)

interpretation at: ident_total "at_frame G" G for G
proof unfold_locales
  fix ev :: env and a i j k
  assume g: "uuid_gen ev = G"
  show "tx_rel (at_frame G) (record_attempt ev a i j k)"
    unfolding record_attempt_def by (auto simp: tx_rel_def tx_inv at_frame_def g)
next
  fix s t u :: ident_db
  show "at_frame G s t \<Longrightarrow> at_frame G t u \<Longrightarrow> at_frame G s u" by (rule at_frame_trans)
qed (simp_all add: at_frame_igual)

inductive ident_paso :: "(nat \<Rightarrow> uuid) \<Rightarrow> auth_st \<Rightarrow> auth_st \<Rightarrow> bool" for G where
  entrar: "servidor G ae \<Longrightarrow> ident_paso G s (snd (login ae e p ip s))"
| verificar: "servidor G ae \<Longrightarrow> ident_paso G s (snd (verify_mfa ae tk c ip s))"
| renovar: "servidor G ae \<Longrightarrow> ident_paso G s (snd (refresh ae plain s))"
| salir: "servidor G ae \<Longrightarrow> ident_paso G s (snd (logout ae plain s))"
| elegir: "servidor G ae \<Longrightarrow> ident_paso G s (snd (select_tenant ae u m s))"
| perfil: "servidor G ae \<Longrightarrow> ident_paso G s (snd (me ae cl s))"
| membresias: "servidor G ae \<Longrightarrow> ident_paso G s (snd (list_memberships ae cl s))"
| permisos: "servidor G ae \<Longrightarrow> ident_paso G s (snd (permissions_for_claims ae cl s))"
| preparar: "servidor G ae \<Longrightarrow> ident_paso G s (snd (setup_mfa ae u s))"
| confirmar: "servidor G ae \<Longrightarrow> ident_paso G s (snd (confirm_mfa ae u c s))"
| desactivar: "servidor G ae \<Longrightarrow> ident_paso G s (snd (disable_mfa ae u s))"
| administrar: "tok_frame (st_db s) (st_db t) \<Longrightarrow> at_frame G (st_db s) (st_db t) \<Longrightarrow> ident_paso G s t"

lemma op_rel_snd: "op_rel R m \<Longrightarrow> R (st_db s) (st_db (snd (m s)))"
  by (simp add: op_rel_def)

lemmas pa_snd = pa_login[THEN op_rel_snd] pa_verify[THEN op_rel_snd] pa_refresh[THEN op_rel_snd] pa_logout[THEN op_rel_snd]
lemmas fr_snd = fr.fr_ops[THEN op_rel_snd] fr.fr_confirm[THEN op_rel_snd]
lemmas at_snd = at.to_login[THEN op_rel_snd] at.to_verify[THEN op_rel_snd] at.to_refresh[THEN op_rel_snd]
  at.to_logout[THEN op_rel_snd] at.fr_ops[THEN op_rel_snd] at.fr_confirm[THEN op_rel_snd]

lemma paso_tokens:
  assumes "ident_paso G s t"
  shows "tok_paso G (st_db s) (st_db t)"
  using assms by cases (auto simp: servidor_def pa_snd fr_snd tok_paso.igual)

lemma paso_attempts:
  assumes "ident_paso G s t"
  shows "at_frame G (st_db s) (st_db t)"
  using assms by cases (auto simp: servidor_def at_snd)

subsection \<open>The families\<close>

lemma pasos_familias:
  assumes "(ident_paso G)\<^sup>*\<^sup>* s t" and "inj G" and "familias_ok G (st_db s)"
  shows "familias_ok G (st_db t)"
  using assms(1)
proof (induction rule: rtranclp_induct)
  case (step y z)
  show ?case by (rule familias_paso[OF paso_tokens[OF step.hyps(2)] assms(2) step.IH])
qed (rule assms(3))

lemma familias_inicio: "refresh_tokens s = [] \<Longrightarrow> familias_ok G s"
  by (simp add: familias_ok_def vivos_def)


subsection \<open>The reuse of a token\<close>

text \<open>A family without live tokens: it stays so.\<close>

definition muerta :: "(nat \<Rightarrow> uuid) \<Rightarrow> uuid \<Rightarrow> ident_db \<Rightarrow> bool" where
  "muerta G f s \<longleftrightarrow> (\<exists>k < id_seq s. f = G k) \<and> (\<forall>x \<in> set (vivos s). tk_family x \<noteq> f)"

lemma muerta_paso:
  assumes "tok_paso G s t" and "inj G" and "muerta G f s"
  shows "muerta G f t"
proof -
  obtain j where j: "j < id_seq s" "f = G j" using assms(3) by (auto simp: muerta_def)
  have v: "tk_family x \<noteq> f" if "x \<in> set (vivos s)" for x using assms(3) that by (simp add: muerta_def)
  from assms(1) have "id_seq s \<le> id_seq t \<and> (\<forall>x \<in> set (vivos t). tk_family x \<noteq> f)"
  proof cases
    case igual
    then have "vivos t = vivos s" by (simp add: vivos_def tok_frame_def)
    then show ?thesis using igual v by (simp add: tok_frame_def)
  next
    case (abrir x k)
    then have "tk_family x \<noteq> f" using j injD[OF assms(2), of k j] by auto
    moreover have "set (vivos t) \<subseteq> insert x (set (vivos s))" by (auto simp: vivos_def abrir(1))
    ultimately show ?thesis using v abrir(3,4) by auto
  next
    case (revocar P n)
    then have "set (vivos t) \<subseteq> set (vivos s)" by (auto simp: vivos_def vivos_upd)
    then show ?thesis using v revocar(2) by auto
  next
    case (rotar y P x n)
    then have "y \<in> set (vivos s)" by (simp add: vivos_def)
    then have "tk_family x \<noteq> f" using v rotar(3) by auto
    moreover have "set (vivos t) \<subseteq> insert x (set (vivos s))" by (auto simp: vivos_def rotar(5) vivos_upd)
    ultimately show ?thesis using v rotar(6) by auto
  qed
  then show ?thesis unfolding muerta_def using j less_le_trans by metis
qed

lemma muerta_pasos:
  assumes "(ident_paso G)\<^sup>*\<^sup>* s t" and "inj G" and "muerta G f (st_db s)"
  shows "muerta G f (st_db t)"
  using assms(1)
proof (induction rule: rtranclp_induct)
  case (step y z)
  show ?case by (rule muerta_paso[OF paso_tokens[OF step.hyps(2)] assms(2) step.IH])
qed (rule assms(3))

lemma revocar_familia_run:
  assumes "env_ok (ae_ev ae)"
  shows "revoke_family ae (uuid_show (ae_ev ae) u) f s = (Inr (), s\<lparr>st_db := (st_db s)\<lparr>refresh_tokens :=
    upd_where (\<lambda>x. tk_family x = f \<and> tk_revoked x = None \<and> u = tk_user x)
      (\<lambda>x. x\<lparr>tk_revoked := Some (reloj (ae_ev ae))\<rparr>) (refresh_tokens (st_db s))\<rparr>\<rparr>)"
  using assms by (simp add: revoke_family_def set_user_bind op_some_def op_tx_def op_q_def revoke_tokens_by_family_def
      tx_exec_def tx_bind_def tx_update_def tx_ret_def)

lemma reuso_run:
  assumes "env_ok (ae_ev ae)" and "buscar_token ae plain (st_db s) = Some tok" and "tk_revoked tok \<noteq> None"
  shows "refresh ae plain s = (Inl ErrRefreshTokenReused,
    snd (revoke_family ae (uuid_show (ae_ev ae) (tk_user tok)) (tk_family tok) s))"
  using assms by (simp add: refresh_def op_bind_def leer_run revocar_familia_run op_fail_def)

text \<open>
  C8. The reuse of a revoked token is detected and kills its family: no token of it is ever accepted
  again, whatever happens afterwards.
\<close>

theorem reuso_mata_familia:
  assumes "(ident_paso G)\<^sup>*\<^sup>* s0 s" and "inj G" and "refresh_tokens (st_db s0) = []"
    and "servidor G ae" and "buscar_token ae plain (st_db s) = Some tok" and "tk_revoked tok \<noteq> None"
    and "refresh ae plain s = (r, t)"
    and "(ident_paso G)\<^sup>*\<^sup>* t u" and "servidor G ae'"
    and "buscar_token ae' plain' (st_db u) = Some x" and "tk_family x = tk_family tok"
  shows "r = Inl ErrRefreshTokenReused \<and> fst (refresh ae' plain' u) = Inl ErrRefreshTokenReused"
proof -
  have ok: "familias_ok G (st_db s)" by (rule pasos_familias[OF assms(1,2) familias_inicio[OF assms(3)]])
  have e: "env_ok (ae_ev ae)" "env_ok (ae_ev ae')" using assms(4,9) by (simp_all add: servidor_def)
  have tok: "tok \<in> set (refresh_tokens (st_db s))" using assms(5) by (rule buscar_en)
  have run: "r = Inl ErrRefreshTokenReused" "t = s\<lparr>st_db := (st_db s)\<lparr>refresh_tokens :=
    upd_where (\<lambda>x. tk_family x = tk_family tok \<and> tk_revoked x = None \<and> tk_user tok = tk_user x)
      (\<lambda>x. x\<lparr>tk_revoked := Some (reloj (ae_ev ae))\<rparr>) (refresh_tokens (st_db s))\<rparr>\<rparr>"
    using assms(7) by (simp_all add: reuso_run[OF e(1) assms(5,6)] revocar_familia_run[OF e(1)])
  have "muerta G (tk_family tok) (st_db t)"
    using familias_okD(2)[OF ok tok] familias_okD(3)[OF ok tok] by (fastforce simp: muerta_def run(2) vivos_def vivos_upd)
  then have m: "muerta G (tk_family tok) (st_db u)" by (rule muerta_pasos[OF assms(8,2)])
  then have "tk_revoked x \<noteq> None" using assms(11) buscar_en[OF assms(10)] by (auto simp: muerta_def vivos_def)
  then show ?thesis using run(1) reuso_run[OF e(2) assms(10)] by simp
qed

subsection \<open>Two rotations of one token\<close>

text \<open>
  Two requests that read the same token before either rotates it both get a new one, and the family
  has two live tokens: the transaction does not look at the token again.
\<close>

theorem carrera_de_rotacion:
  assumes "servidor G ae" and "inj G"
    and "refresh_leer ae plain s = (Inr tok, s1)" and "refresh_leer ae plain s1 = (Inr tok', s2)"
    and "refresh_rotar ae tok s2 = (Inr a, t)" and "refresh_rotar ae tok' t = (Inr b, u)"
  shows "\<exists>x \<in> set (vivos (st_db u)). \<exists>y \<in> set (vivos (st_db u)).
    tk_id x \<noteq> tk_id y \<and> tk_family x = tk_family tok \<and> tk_family y = tk_family tok"
proof -
  have e: "env_ok (ae_ev ae)" "uuid_gen (ae_ev ae) = G" using assms(1) by (simp_all add: servidor_def)
  have s: "s1 = s" "s2 = s" "tok' = tok" "tok \<in> set (refresh_tokens (st_db s))"
    using assms(3,4) buscar_en by (auto simp: leer_Inr)
  from rotar_inv[OF assms(5)[unfolded s] e(1)] obtain p where
    1: "refresh_tokens (st_db t) =
      upd_where (\<lambda>x. tk_id x = tk_id tok \<and> tk_user x = tk_user tok) (\<lambda>x. x\<lparr>tk_revoked := Some (reloj (ae_ev ae))\<rparr>)
        (refresh_tokens (st_db s)) @
      [\<lparr>tk_id = G (Suc (id_seq (st_db s))), tk_session = tk_session tok, tk_user = tk_user tok,
        tk_hash = refresh_hash (ae_ev ae) p, tk_family = tk_family tok,
        tk_expires = reloj (ae_ev ae) + refresh_ttl ae, tk_revoked = None, tk_created = ahora (ae_ev ae)\<rparr>]"
    and n: "id_seq (st_db s) < id_seq (st_db t)" "G (Suc (id_seq (st_db s))) \<notin> tk_id ` set (refresh_tokens (st_db s))"
    unfolding e(2) by blast
  from rotar_inv[OF assms(6)[unfolded s] e(1)] obtain q where
    2: "refresh_tokens (st_db u) =
      upd_where (\<lambda>x. tk_id x = tk_id tok \<and> tk_user x = tk_user tok) (\<lambda>x. x\<lparr>tk_revoked := Some (reloj (ae_ev ae))\<rparr>)
        (refresh_tokens (st_db t)) @
      [\<lparr>tk_id = G (Suc (id_seq (st_db t))), tk_session = tk_session tok, tk_user = tk_user tok,
        tk_hash = refresh_hash (ae_ev ae) q, tk_family = tk_family tok,
        tk_expires = reloj (ae_ev ae) + refresh_ttl ae, tk_revoked = None, tk_created = ahora (ae_ev ae)\<rparr>]"
    unfolding e(2) by blast
  define x where "x = last (refresh_tokens (st_db t))"
  have x: "x \<in> set (refresh_tokens (st_db t))" "tk_id x = G (Suc (id_seq (st_db s)))" "tk_revoked x = None"
    "tk_family x = tk_family tok" unfolding x_def 1 last_snoc by simp_all
  have "tk_id x \<noteq> tk_id tok" using x(2) n(2) s(4) by (metis imageI)
  then have "x \<in> set (refresh_tokens (st_db u))" unfolding 2 using x(1) by (simp add: set_upd_where)
  then have "x \<in> set (vivos (st_db u))" using x(3) by (simp add: vivos_def)
  moreover define y where "y = last (refresh_tokens (st_db u))"
  have y: "y \<in> set (refresh_tokens (st_db u))" "tk_id y = G (Suc (id_seq (st_db t)))" "tk_revoked y = None"
    "tk_family y = tk_family tok" unfolding y_def 2 last_snoc by simp_all
  moreover have "y \<in> set (vivos (st_db u))" using y(1,3) by (simp add: vivos_def)
  moreover have "G (Suc (id_seq (st_db s))) \<noteq> G (Suc (id_seq (st_db t)))" 
    using injD[OF assms(2), of "Suc (id_seq (st_db s))" "Suc (id_seq (st_db t))"] n(1) by auto
  ultimately show ?thesis using x(2,4) by metis
qed

subsection \<open>The limit of failed logins\<close>

definition intentos_ok :: "(nat \<Rightarrow> uuid) \<Rightarrow> ident_db \<Rightarrow> bool" where
  "intentos_ok G s \<longleftrightarrow> (\<forall>a \<in> set (login_attempts s). \<exists>k < id_seq s. at_id a = G k)"

lemma intentos_paso:
  assumes "at_frame G s t" and "intentos_ok G s"
  shows "intentos_ok G t"
proof -
  obtain as where as: "id_seq s \<le> id_seq t" "login_attempts t = login_attempts s @ as"
    "\<forall>a \<in> set as. \<exists>k \<ge> id_seq s. k < id_seq t \<and> at_id a = G k" using assms(1) unfolding at_frame_def by blast
  show ?thesis unfolding intentos_ok_def as(2)
    using as(1,3) assms(2)[unfolded intentos_ok_def] by (metis Un_iff less_le_trans set_append)
qed

text \<open>
  \<open>n\<close> logins of one address for one account that are refused, not before \<open>t0\<close>, among any other steps.
\<close>

inductive fallos :: "(nat \<Rightarrow> uuid) \<Rightarrow> string \<Rightarrow> string \<Rightarrow> ts \<Rightarrow> auth_st \<Rightarrow> nat \<Rightarrow> auth_st \<Rightarrow> bool" for G em ip t0 s where
  cero: "fallos G em ip t0 s 0 s"
| otro: "fallos G em ip t0 s n t \<Longrightarrow> ident_paso G t u \<Longrightarrow> fallos G em ip t0 s n u"
| fallo: "fallos G em ip t0 s n t \<Longrightarrow> servidor G ae \<Longrightarrow> to_lower (trim_space e) = em \<Longrightarrow> t0 \<le> ahora (ae_ev ae) \<Longrightarrow>
    login ae e p ip t = (Inl ErrInvalidCredentials, u) \<Longrightarrow> fallos G em ip t0 s (Suc n) u"

definition fallidos :: "string \<Rightarrow> string \<Rightarrow> ts \<Rightarrow> ident_db \<Rightarrow> nat" where
  "fallidos em ip t0 s = count_where (\<lambda>a. at_email a = to_lower (btrim em) \<and> at_ip a = ip \<and> \<not> at_success a \<and>
     t0 \<le> at_created a) (login_attempts s)"

text \<open>An error that an operation never gives.\<close>

definition no_da :: "err \<Rightarrow> 'a op \<Rightarrow> bool" where
  "no_da e m \<longleftrightarrow> (\<forall>s. fst (m s) \<noteq> Inl e)"

lemma no_da_bind:
  assumes "no_da e m" and "\<And>x. no_da e (f x)"
  shows "no_da e (op_bind m f)"
  unfolding no_da_def
proof
  fix s
  obtain r u where m: "m s = (r, u)" by (cases "m s")
  show "fst (op_bind m f s) \<noteq> Inl e"
    using assms(1)[unfolded no_da_def, rule_format, of s] assms(2)[unfolded no_da_def, rule_format, of _ u]
    by (cases r) (simp_all add: op_bind_def m)
qed

lemma no_da_basico:
  "no_da e (op_ret x)" "e' \<noteq> e \<Longrightarrow> no_da e (op_fail e')" "e' \<noteq> e \<Longrightarrow> no_da e (op_some e' y)"
  "(\<And>s. q s \<noteq> Inl e) \<Longrightarrow> no_da e (op_q q)"
  by (auto simp: no_da_def op_ret_def op_fail_def op_some_def op_q_def split: option.split sum.split)

lemma no_da_tx: "no_da e m \<Longrightarrow> no_da e (op_tx m)"
  by (auto simp: no_da_def op_tx_def split: prod.split sum.split) (metis fst_conv)

lemma no_da_map: "(\<And>x. no_da e (f x)) \<Longrightarrow> no_da e (op_map f xs)"
  by (induction xs) (auto intro: no_da_bind no_da_basico)

lemma no_da_new: "no_da e (new_refresh_token ae)"
  by (simp add: no_da_def new_refresh_token_def Let_def)

lemma no_da_dto: "no_da e (membership_dto_de ae ev uid r)"
proof -
  have q: "no_da e (op_bind (op_q (list_roles_for_membership ev a)) (\<lambda>rls.
      op_bind (op_q (list_scopes_for_membership ev a)) (\<lambda>scs. \<lambda>t. (Inr (g rls scs), h rls scs t))))"
    for a and g :: "_ \<Rightarrow> _ \<Rightarrow> membership_dto" and h
    by (intro no_da_bind no_da_basico) (simp_all add: list_roles_for_membership_def list_scopes_for_membership_def tx_read_def no_da_def)
  show ?thesis unfolding no_da_def
    using q[unfolded no_da_def] by (auto simp: membership_dto_de_def Let_def split: option.split)
qed

lemmas no_da_rules = no_da_bind no_da_basico no_da_tx no_da_map no_da_new no_da_dto

lemma no_da_open: "no_da ErrInvalidCredentials (open_session ae user)"
proof -
  have i: "insert_session ev a b c d s \<noteq> Inl ErrInvalidCredentials" "insert_refresh_token ev a f h c d s \<noteq> Inl ErrInvalidCredentials"
    "nuevo_id ev s \<noteq> Inl ErrInvalidCredentials" "list_memberships_for_user ev a s \<noteq> Inl ErrInvalidCredentials" for ev a b c d f h s
    by (auto simp: insert_session_def insert_refresh_token_def nuevo_id_def list_memberships_for_user_def tx_read_def tx_eval
        split: option.splits if_splits)
  have "no_da ErrInvalidCredentials (abrir_sesion ae user)"
    unfolding abrir_sesion_def set_user_bind pg_uuid_def Let_def
    by (intro no_da_rules i) (auto split: list.split prod.split intro!: no_da_rules i)
  then show ?thesis unfolding open_session_def Let_def
    by (intro no_da_bind) (auto simp: no_da_def op_ret_def split: prod.split sum.split)
qed

lemma record_run:
  assumes "intentos_ok (uuid_gen ev) s" and "inj (uuid_gen ev)" and "source \<in> {''password'', ''totp''}"
  shows "record_attempt ev email ip source b s = Inr ((), s\<lparr>id_seq := Suc (id_seq s),
    login_attempts := login_attempts s @ [\<lparr>at_id = uuid_gen ev (id_seq s), at_email = to_lower (btrim email), at_ip = ip,
      at_source = source, at_success = b, at_created = ahora ev\<rparr>]\<rparr>)"
proof -
  have "\<not> (\<exists>y \<in> set (login_attempts s). at_id y = uuid_gen ev (id_seq s))"
    using assms(1) injD[OF assms(2)] unfolding intentos_ok_def by (metis less_irrefl)
  then show ?thesis using assms(3)
    by (simp add: record_attempt_def nuevo_id_def tx_exec_def tx_bind_def tx_ret_def tx_insert_def)
qed

lemma login_fallo:
  assumes "login ae e p ip s = (Inl ErrInvalidCredentials, t)"
    and "intentos_ok (uuid_gen (ae_ev ae)) (st_db s)" and "inj (uuid_gen (ae_ev ae))"
  shows "\<exists>a. login_attempts (st_db t) = login_attempts (st_db s) @ [a] \<and> at_email a = to_lower (btrim (to_lower (trim_space e))) \<and>
    at_ip a = ip \<and> \<not> at_success a \<and> at_created a = ahora (ae_ev ae)"
proof -
  let ?ev = "ae_ev ae" and ?n = "to_lower (trim_space e)"
  note rec = record_run[OF assms(2,3)]
  note defs = login_def Let_def op_bind_def op_q_def op_guard_def count_failures_def tx_read_def get_user_by_email_def tx_row_def
  have g: "\<not> login_max ae \<le> int (count_where (\<lambda>a. at_email a = to_lower (btrim ?n) \<and> at_ip a = ip \<and> \<not> at_success a \<and>
      ahora ?ev < at_created a + login_window ae) (login_attempts (st_db s)))"
    using assms(1) by (auto simp: defs op_fail_def op_ret_def split: if_splits)
  show ?thesis
  proof (cases "List.find (\<lambda>u. us_email u = ?n) (users (st_db s))")
    case None
    then show ?thesis using assms(1) g by (auto simp: defs op_ret_def op_fail_def op_ignore_def rec)
  next
    case (Some u)
    show ?thesis
    proof (cases "us_status u = ''active'' \<and> compare_password ae p (us_hash u) = Inr False")
      case True
      then show ?thesis using assms(1) g Some by (auto simp: defs op_ret_def op_fail_def op_sum_def op_ignore_def rec)
    next
      case False
      have o: "open_session ae u z \<noteq> (Inl ErrInvalidCredentials, w)" for z w
        using no_da_open[of ae u] unfolding no_da_def by (metis fst_conv)
      have m: "sign_mfa_token ae x z \<noteq> (Inl ErrInvalidCredentials, w)" for x z w
        by (auto simp: sign_mfa_token_def op_fail_def op_ret_def)
      have c: "compare_password ae p (us_hash u) \<noteq> Inl ErrInvalidCredentials"
        by (auto simp: compare_password_def Let_def split: option.splits if_splits)
      have False
        using assms(1) g Some False c
        by (auto simp: defs op_ret_def op_fail_def op_sum_def rec o m split: sum.splits if_splits prod.splits)
      then show ?thesis ..
    qed
  qed
qed

lemma fallos_cuenta:
  assumes "fallos G em ip t0 s n t" and "inj G" and "intentos_ok G (st_db s)"
  shows "intentos_ok G (st_db t) \<and> n \<le> fallidos em ip t0 (st_db t)"
  using assms(1)
proof induction
  case cero
  then show ?case using assms(3) by simp
next
  case (otro n t u)
  from paso_attempts[OF otro.hyps(2)] have f: "at_frame G (st_db t) (st_db u)" .
  then obtain as where "login_attempts (st_db u) = login_attempts (st_db t) @ as" by (auto simp: at_frame_def)
  then have "fallidos em ip t0 (st_db t) \<le> fallidos em ip t0 (st_db u)" by (simp add: fallidos_def count_where_def)
  then show ?case using otro.IH intentos_paso[OF f] by simp
next
  case (fallo n t ae e p u)
  have g: "uuid_gen (ae_ev ae) = G" using fallo.hyps(2) by (simp add: servidor_def)
  obtain a where a: "login_attempts (st_db u) = login_attempts (st_db t) @ [a]" "at_email a = to_lower (btrim em)"
    "at_ip a = ip" "\<not> at_success a" "at_created a = ahora (ae_ev ae)"
    using login_fallo[OF fallo.hyps(5)] fallo.IH assms(2) fallo.hyps(3) unfolding g by blast
  have "ident_paso G t u" using ident_paso.entrar[OF fallo.hyps(2), of t e p ip] fallo.hyps(5) by simp
  from intentos_paso[OF paso_attempts[OF this]] fallo.IH have "intentos_ok G (st_db u)" by blast
  moreover have "fallidos em ip t0 (st_db u) = Suc (fallidos em ip t0 (st_db t))"
    using a fallo.hyps(4) by (simp add: fallidos_def count_where_def)
  ultimately show ?case using fallo.IH by simp
qed

text \<open>
  C15. After as many refused logins as the limit, and while the window lasts, every login of the address
  for the account is refused without a look at the password, the right one included.
\<close>

theorem limite_de_intentos:
  assumes "fallos G em ip t0 s n t" and "inj G" and "intentos_ok G (st_db s)"
    and "login_max ae \<le> int n" and "ahora (ae_ev ae) < t0 + login_window ae" and "to_lower (trim_space e) = em"
  shows "login ae e p ip t = (Inl ErrTooManyAttempts, t)"
proof -
  let ?P = "\<lambda>a. at_email a = to_lower (btrim em) \<and> at_ip a = ip \<and> \<not> at_success a"
  have l: "length (filter Q xs) \<le> length (filter R xs)" if "\<And>x. Q x \<Longrightarrow> R x" for Q R and xs :: "login_attempt list"
    using that by (induction xs) auto
  have "fallidos em ip t0 (st_db t) \<le> count_where (\<lambda>a. ?P a \<and> ahora (ae_ev ae) < at_created a + login_window ae) (login_attempts (st_db t))"
    unfolding fallidos_def count_where_def by (rule l) (use assms(5) in auto)
  then have "login_max ae \<le> int (count_where (\<lambda>a. ?P a \<and> ahora (ae_ev ae) < at_created a + login_window ae) (login_attempts (st_db t)))"
    using fallos_cuenta[OF assms(1-3)] assms(4) by linarith
  then show ?thesis
    by (simp add: login_def Let_def assms(6) op_bind_def op_q_def count_failures_def tx_read_def op_guard_def op_fail_def conj_assoc)
qed

subsection \<open>The second factor\<close>

lemma open_session_mfa:
  assumes "open_session ae u s = (Inr lr, t)"
  shows "\<not> lr_mfa_required lr"
proof -
  obtain ms plain w where a: "abrir_sesion ae u s = (Inr (ms, plain), w)"
    using assms by (auto simp: open_session_def op_bind_Inr)
  obtain r z where "issue_access_for ae (uuid_show (ae_ev ae) (us_id u)) (mb_id (hd ms)) w = (r, z)" by fastforce
  then show ?thesis using assms a
    by (cases r) (auto simp: open_session_def op_bind_def Let_def split: if_splits)
qed

lemma login_inv:
  assumes "login ae e p ip s = (Inr lr, t)"
  shows "\<exists>u \<in> set (users (st_db s)). \<exists>s1. users (st_db s1) = users (st_db s) \<and>
    (if us_mfa u
      then op_bind (sign_mfa_token ae (uuid_show (ae_ev ae) (us_id u))) (\<lambda>token.
           op_ret \<lparr>lr_user = user_dto_de (ae_ev ae) u, lr_memberships = [], lr_refresh = '''', lr_access = '''',
             lr_mfa_required = True, lr_mfa_token = token\<rparr>)
      else open_session ae u) s1 = (Inr lr, t)"
proof -
  let ?ev = "ae_ev ae" and ?n = "to_lower (trim_space e)"
  note defs = login_def Let_def op_bind_def op_q_def op_guard_def count_failures_def tx_read_def get_user_by_email_def
    tx_row_def op_ret_def op_fail_def op_sum_def op_ignore_def
  show ?thesis
  proof (cases "List.find (\<lambda>u. us_email u = ?n) (users (st_db s))")
    case None
    then have False using assms by (auto simp: defs split: if_splits)
    then show ?thesis ..
  next
    case (Some u)
    show ?thesis
    proof (cases "us_status u = ''active'' \<and> compare_password ae p (us_hash u) = Inr True")
      case True
      obtain d where d: "record_attempt ?ev ?n ip ''password'' True (st_db s) = Inr ((), d)"
        using assms True Some by (cases "record_attempt ?ev ?n ip ''password'' True (st_db s)") (auto simp: defs split: if_splits)
      have "users d = users (st_db s)" using d by (auto simp: record_attempt_def tx_inv)
      moreover have "(if us_mfa u
      then op_bind (sign_mfa_token ae (uuid_show (ae_ev ae) (us_id u))) (\<lambda>token.
           op_ret \<lparr>lr_user = user_dto_de (ae_ev ae) u, lr_memberships = [], lr_refresh = '''', lr_access = '''',
             lr_mfa_required = True, lr_mfa_token = token\<rparr>)
      else open_session ae u) (s\<lparr>st_db := d\<rparr>) = (Inr lr, t)"
        using assms True Some d by (simp add: defs split: if_splits)
      moreover have "u \<in> set (users (st_db s))" using find_SomeD[OF Some] by blast
      ultimately show ?thesis by (intro bexI[of _ u] exI[of _ "s\<lparr>st_db := d\<rparr>"]) simp_all
    next
      case False
      then have False using assms Some by (auto simp: defs split: sum.splits if_splits)
      then show ?thesis ..
    qed
  qed
qed

lemma login_mfa:
  assumes "login ae email password ip s = (Inr lr, t)" and "lr_mfa_required lr"
  obtains u where "u \<in> set (users (st_db t))" and "lr_user lr = user_dto_de (ae_ev ae) u" and "con_clave ae"
    and "lr_mfa_token lr = sign_jwt ae \<lparr>cl_issuer = base_url ae, cl_subject = uuid_show (ae_ev ae) (us_id u),
        cl_issued = unix_now ae, cl_expires = unix_after ae (mfa_ttl ae), cl_purpose = ''mfa'', cl_email = '''', cl_name = '''',
        cl_membership = '''', cl_tenant = '''', cl_roles = [], cl_scope_type = '''', cl_scope_id = '''', cl_session_key = ''''\<rparr>"
proof -
  obtain u s1 where us: "u \<in> set (users (st_db s))" "users (st_db s1) = users (st_db s)" and
    l: "(if us_mfa u
      then op_bind (sign_mfa_token ae (uuid_show (ae_ev ae) (us_id u))) (\<lambda>token.
           op_ret \<lparr>lr_user = user_dto_de (ae_ev ae) u, lr_memberships = [], lr_refresh = '''', lr_access = '''',
             lr_mfa_required = True, lr_mfa_token = token\<rparr>)
      else open_session ae u) s1 = (Inr lr, t)"
    using login_inv[OF assms(1)] by blast
  have u: "u \<in> set (users (st_db s1))" using us by simp
  have m: "us_mfa u" using l assms(2) open_session_mfa by (cases "us_mfa u") auto
  have k: "con_clave ae" using l m by (auto simp: op_bind_Inr sign_mfa_token_def split: if_splits)
  show ?thesis
    by (rule that[of u]) (use l m k u in \<open>auto simp: op_bind_Inr sign_mfa_token_def\<close>)
qed

lemma membership_dto_run:
  "\<exists>w. membership_dto_de ae ev uid r s = (Inr (membership_from_parts ev r rs ss), w)" if
    "(rs, ss) = (case cache_get ae (st_cache s) (membership_cache_key (uuid_show ev uid) (uuid_show ev (md_membership r))) of
       Some p \<Rightarrow> p | None \<Rightarrow> (map fst (projr (map_sum id fst (list_roles_for_membership ev (md_membership r) (st_db s)))),
         scopes_codes ev (projr (map_sum id fst (list_scopes_for_membership ev (md_membership r) (st_db s))))))"
  using that by (auto simp: membership_dto_de_def Let_def op_bind_def op_q_def list_roles_for_membership_def
      list_scopes_for_membership_def tx_read_def split: option.splits prod.splits)

text \<open>
  C35. The token that a login gives when a second factor is due is a token like any other: the selection
  of the tenant takes it and answers with an access token for any active membership of the user.
\<close>

theorem mfa_evitable:
  assumes "servidor G ae" and "auth_ok ae" and "1000000 \<le> mfa_ttl ae" and "1000000 \<le> access_ttl ae"
    and "login ae email password ip s = (Inr lr, t)" and "lr_mfa_required lr"
    and "ud_id (lr_user lr) = uuid_show (ae_ev ae) uid"
    and "list_memberships_for_user ((ae_ev ae)\<lparr>usuario := Some uid\<rparr>) uid (st_db t) = Inr (rows, st_db t)"
    and "r \<in> set rows" and "md_membership r = mid" and "\<forall>q \<in> set rows. md_membership q = mid \<longrightarrow> md_status q = ''active''"
  shows "\<exists>m access u c. select_tenant_handler ae \<lparr>rq_authorization = '''', rq_access_cookie = Some (lr_mfa_token lr)\<rparr>
      (uuid_show (ae_ev ae) mid) t = (Inr (m, access), u) \<and>
    verify_access_token ae access = Inr c \<and> cl_purpose c = '''' \<and>
    cl_subject c = ud_id (lr_user lr) \<and> cl_membership c = uuid_show (ae_ev ae) mid"
proof -
  let ?ev = "ae_ev ae"
  have e: "env_ok ?ev" using assms(1) by (simp add: servidor_def)
  obtain u where u: "u \<in> set (users (st_db t))" "lr_user lr = user_dto_de ?ev u" "con_clave ae"
    and tk: "lr_mfa_token lr = sign_jwt ae \<lparr>cl_issuer = base_url ae, cl_subject = uuid_show (ae_ev ae) (us_id u),
        cl_issued = unix_now ae, cl_expires = unix_after ae (mfa_ttl ae), cl_purpose = ''mfa'', cl_email = '''', cl_name = '''',
        cl_membership = '''', cl_tenant = '''', cl_roles = [], cl_scope_type = '''', cl_scope_id = '''', cl_session_key = ''''\<rparr>"
    by (rule login_mfa[OF assms(5,6)])
  have uid: "us_id u = uid" using assms(7) u(2) e by (simp add: user_dto_de_def uuid_show_inj)
  have exp: "unix_now ae < unix_after ae d" if "1000000 \<le> d" for d
  proof -
    have "reloj ?ev div 1000000 + 1 = (reloj ?ev + 1000000) div 1000000" by simp
    also have "\<dots> \<le> (reloj ?ev + d) div 1000000" using that by (intro div_le_mono) simp
    finally show ?thesis by (simp add: unix_now_def unix_after_def)
  qed
  have v: "verify_access_token ae (sign_jwt ae c) = Inr c" if "cl_issuer c = base_url ae" "unix_now ae < cl_expires c" for c
    using that assms(2) u(3) by (simp add: verify_access_token_def jwt_leido)
  obtain w where w: "List.find (\<lambda>x. us_id x = uid) (users (st_db t)) = Some w"
    using u(1) uid by (cases "List.find (\<lambda>x. us_id x = uid) (users (st_db t))") (auto simp: find_None_iff)
  obtain q where q: "List.find (\<lambda>r. md_membership r = mid) rows = Some q"
    using assms(9,10) by (cases "List.find (\<lambda>r. md_membership r = mid) rows") (auto simp: find_None_iff)
  then have qs: "q \<in> set rows" "md_membership q = mid" by (auto dest: find_SomeD)
  then have qa: "md_status q = ''active''" using assms(11) by blast
  have show': "uuid_show (?ev\<lparr>usuario := x\<rparr>) = uuid_show ?ev" "uuid_parse (?ev\<lparr>usuario := x\<rparr>) = uuid_parse ?ev" for x by simp_all
  obtain rs ss where p: "(rs, ss) = (case cache_get ae (st_cache t) (membership_cache_key (uuid_show ?ev uid) (uuid_show ?ev (md_membership q))) of
       Some p \<Rightarrow> p | None \<Rightarrow> (map fst (projr (map_sum id fst (list_roles_for_membership (?ev\<lparr>usuario := Some uid\<rparr>) (md_membership q) (st_db t)))),
         scopes_codes (?ev\<lparr>usuario := Some uid\<rparr>) (projr (map_sum id fst (list_scopes_for_membership (?ev\<lparr>usuario := Some uid\<rparr>) (md_membership q) (st_db t))))))"
    by (metis surj_pair)
  obtain z where d: "membership_dto_de ae (?ev\<lparr>usuario := Some uid\<rparr>) uid q t = (Inr (membership_from_parts (?ev\<lparr>usuario := Some uid\<rparr>) q rs ss), z)"
    using membership_dto_run[where ae = ae and s = t and ev = "?ev\<lparr>usuario := Some uid\<rparr>" and uid = uid and r = q and rs = rs and ss = ss] p by auto
  let ?m = "membership_from_parts (?ev\<lparr>usuario := Some uid\<rparr>) q rs ss"
  obtain c where c: "sign_access_token ae uid mid ?m z = (Inr (sign_jwt ae c), z)" "cl_issuer c = base_url ae" "cl_purpose c = ''''"
    "cl_expires c = unix_after ae (access_ttl ae)" "cl_subject c = uuid_show ?ev uid" "cl_membership c = uuid_show ?ev mid"
    using u(3) by (simp add: sign_access_token_def op_ret_def)
  have "select_tenant_handler ae \<lparr>rq_authorization = '''', rq_access_cookie = Some (lr_mfa_token lr)\<rparr> (uuid_show ?ev mid) t =
      (Inr (\<lparr>me_user = user_dto_de (?ev\<lparr>usuario := Some uid\<rparr>) w, me_membership = ?m, me_permissions = permissions_for_roles (mb_roles ?m)\<rparr>,
        sign_jwt ae c), z)"
    using assms(3) exp qs qa q d c(1) assms(8) e w
    by (simp add: select_tenant_handler_def bearer_token_def tk v uid select_tenant_def op_bind_def op_q_def op_tx_def pg_uuid_def
        op_some_def op_ret_def set_user_bind get_user_by_id_def tx_row_def op_guard_def uuid_show_inj trim_space_def)
  then show ?thesis using v[of c] c exp[OF assms(4)] assms(7) by auto
qed


end
