(* ===== verification/IdentEjemplo.thy ===== *)
theory IdentEjemplo
  imports IdentPropiedades
begin

text \<open>
  The properties of the identity on a concrete server: one user, with and without the second factor,
  who logs in, refreshes the session, reuses a token and fails to log in.
\<close>

subsection \<open>The server\<close>

definition ej_auth :: auth_env where
  "ej_auth = ejemplo_auth\<lparr>cache_ttl := 0\<rparr>"

definition ej_user :: "bool \<Rightarrow> user" where
  "ej_user mfa = \<lparr>us_id = 7, us_email = ''ana@x'', us_hash = hash_password ej_auth ''clave'' ''sal'', us_name = ''Ana'',
     us_status = ''active'', us_mfa = mfa, us_created = 1, us_updated = 1, us_secret = (if mfa then Some ''s'' else None)\<rparr>"

definition ej_st :: "bool \<Rightarrow> auth_st" where
  "ej_st mfa = \<lparr>st_db = ejemplo_ident\<lparr>users := [ej_user mfa]\<rparr>, st_cache = (\<lambda>_. None)\<rparr>"

lemma ej_auth_simps [simp]:
  "ae_ev ej_auth = ejemplo_env\<lparr>reloj := 1000000000\<rparr>" "base_url ej_auth = ''u''" "access_ttl ej_auth = 900000000"
  "refresh_ttl ej_auth = 9000000000" "mfa_ttl ej_auth = 300000000" "login_window ej_auth = 900000000" "login_max ej_auth = 2"
  "cache_ttl ej_auth = 0" "con_clave ej_auth" "rand_token ej_auth n = show_nat n"
  by (simp_all add: ej_auth_def ejemplo_auth_def)

lemma ej_auth_ok: "auth_ok ej_auth"
  using ejemplo_auth_ok by (simp add: auth_ok_def ej_auth_def)

lemma ej_servidor: "servidor (uuid_gen ejemplo_env) ej_auth"
  using ejemplo_env_ok by (simp add: servidor_def env_ok_def)

lemma ej_inj: "inj (uuid_gen ejemplo_env)"
  by (rule injI) simp

lemma ej_clave:
  "compare_password ej_auth ''clave'' (hash_password ej_auth ''clave'' ''sal'') = Inr True"
  "compare_password ej_auth ''otra'' (hash_password ej_auth ''clave'' ''sal'') = Inr False"
proof -
  have "length (argon ej_auth ''clave'' ''sal'' 3 65536 2 32) = 32" by (simp add: ej_auth_def ejemplo_auth_def)
  note p = password_leido[OF this]
  show "compare_password ej_auth ''clave'' (hash_password ej_auth ''clave'' ''sal'') = Inr True"
    "compare_password ej_auth ''otra'' (hash_password ej_auth ''clave'' ''sal'') = Inr False"
    unfolding p by (simp_all add: ej_auth_def ejemplo_auth_def)
qed

lemmas op_eval = op_bind_def op_ret_def op_fail_def op_some_def op_guard_def op_q_def op_tx_def op_sum_def op_ignore_def
  op_catch_def

lemmas ident_eval = nuevo_id_def get_user_by_email_def get_user_by_id_def list_memberships_for_user_def
  list_roles_for_membership_def list_scopes_for_membership_def get_session_by_id_def insert_session_def
  insert_refresh_token_def lookup_refresh_token_def revoke_refresh_token_def record_attempt_def count_failures_def
  membresia_visible_def

lemma ej_ana: "to_lower (trim_space ''ana@x'') = ''ana@x''" "to_lower (btrim ''ana@x'') = ''ana@x''"
  by (simp_all add: trim_space_def btrim_def espacio_def lower_char_def)

lemma ej_uuid [simp]: "uuid_parse ejemplo_env (show_nat n) = Some n"
  using env_ok_uuid[OF ejemplo_env_ok, of n] by simp

lemma ej_show [simp]: "show_nat a = show_nat b \<longleftrightarrow> a = b"
  by (metis num_show_nat)

lemma ej_tres [simp]: "Suc (Suc (Suc 0)) = 3"
  by simp

lemmas sesion_eval = op_eval ident_eval tx_eval pg_uuid_def set_user_def Let_def membership_dto_de_def cache_get_def
  cache_set_def new_refresh_token_def refresh_hash_def membership_from_parts_def scopes_codes_def

text \<open>A token of the session, and the state after the login with some of them.\<close>

definition ej_tok :: "uuid \<Rightarrow> nat \<Rightarrow> ts option \<Rightarrow> refresh_token" where
  "ej_tok i h r = \<lparr>tk_id = i, tk_session = 1002, tk_user = 7, tk_hash = show_nat h, tk_family = 1004,
     tk_expires = 10000000000, tk_revoked = r, tk_created = 100\<rparr>"

definition ej_in :: "nat \<Rightarrow> refresh_token list \<Rightarrow> auth_st" where
  "ej_in n toks = \<lparr>st_db = (st_db (ej_st False))\<lparr>sessions := [\<lparr>se_id = 1002, se_user = 7, se_membership = 5, se_key = 1001,
       se_expires = 10000000000, se_revoked = None, se_created = 100, se_last_used = None\<rparr>], refresh_tokens := toks,
     login_attempts := [\<lparr>at_id = 1000, at_email = ''ana@x'', at_ip = ''ip'', at_source = ''password'', at_success = True,
       at_created = 100\<rparr>], id_seq := n\<rparr>, st_cache = (\<lambda>_. None)\<rparr>"

lemma ej_login: "snd (login ej_auth ''ana@x'' ''clave'' ''ip'' (ej_st False)) = ej_in 6 [ej_tok 1005 3 None]"
  by (simp add: login_def ej_ana ej_clave open_session_def abrir_sesion_def issue_access_for_def membership_by_id_def sign_access_token_def
      ej_st_def ejemplo_ident_def ej_in_def ej_tok_def ej_user_def count_where_def sesion_eval)

lemma ej_rotar:
  "\<exists>a. refresh_rotar ej_auth (ej_tok 1005 3 None) (ej_in 6 [ej_tok 1005 3 None]) =
    (Inr a, ej_in 8 [ej_tok 1005 3 (Some 1000000000), ej_tok 1007 6 None])"
  by (simp add: refresh_rotar_def membership_by_id_def sign_access_token_def
      ej_st_def ejemplo_ident_def ej_in_def ej_tok_def ej_user_def sesion_eval)

lemma ej_rotar2:
  "\<exists>a. refresh_rotar ej_auth (ej_tok 1005 3 None) (ej_in 8 [ej_tok 1005 3 (Some 1000000000), ej_tok 1007 6 None]) =
    (Inr a, ej_in 10 [ej_tok 1005 3 (Some 1000000000), ej_tok 1007 6 None, ej_tok 1009 8 None])"
  by (simp add: refresh_rotar_def membership_by_id_def sign_access_token_def
      ej_st_def ejemplo_ident_def ej_in_def ej_tok_def ej_user_def sesion_eval)

lemma ej_in_tokens [simp]: "refresh_tokens (st_db (ej_in n ts)) = ts"
  by (simp add: ej_in_def)

lemma ej_tok_simps [simp]: "tk_id (ej_tok i h r) = i" "tk_hash (ej_tok i h r) = show_nat h" "tk_family (ej_tok i h r) = 1004"
  "tk_revoked (ej_tok i h r) = r" "tk_user (ej_tok i h r) = 7" "tk_expires (ej_tok i h r) = 10000000000"
  by (simp_all add: ej_tok_def)

lemma ej_leer: "refresh_leer ej_auth (show_nat 3) (ej_in 6 [ej_tok 1005 3 None]) =
    (Inr (ej_tok 1005 3 None), ej_in 6 [ej_tok 1005 3 None])"
  by (simp add: leer_run buscar_token_def refresh_hash_def)

lemma ei_pasos: "(ident_paso (uuid_gen ejemplo_env))\<^sup>*\<^sup>* (ej_st False)
    (ej_in 8 [ej_tok 1005 3 (Some 1000000000), ej_tok 1007 6 None])"
proof -
  have 1: "ident_paso (uuid_gen ejemplo_env) (ej_st False) (ej_in 6 [ej_tok 1005 3 None])"
    using ident_paso.entrar[OF ej_servidor, of "ej_st False" "''ana@x''" "''clave''" "''ip''"] by (simp only: ej_login)
  have "snd (refresh ej_auth (show_nat 3) (ej_in 6 [ej_tok 1005 3 None])) =
      ej_in 8 [ej_tok 1005 3 (Some 1000000000), ej_tok 1007 6 None]"
    using ej_rotar by (auto simp: refresh_def op_bind_def ej_leer)
  then have 2: "ident_paso (uuid_gen ejemplo_env) (ej_in 6 [ej_tok 1005 3 None])
      (ej_in 8 [ej_tok 1005 3 (Some 1000000000), ej_tok 1007 6 None])"
    using ident_paso.renovar[OF ej_servidor, of "ej_in 6 [ej_tok 1005 3 None]" "show_nat 3"] by simp
  show ?thesis using 1 2 by (meson rtranclp.rtrancl_into_rtrancl rtranclp.rtrancl_refl)
qed

lemma ej_vacio: "refresh_tokens (st_db (ej_st False)) = []"
  by (simp add: ej_st_def ejemplo_ident_def)

subsection \<open>Witnesses\<close>


theorem reuso_mata_familia_witness:
  "fst (refresh ej_auth (show_nat 6) (ej_in 8 [ej_tok 1005 3 (Some 1000000000), ej_tok 1007 6 (Some 1000000000)])) =
    Inl ErrRefreshTokenReused"
proof -
  let ?s = "ej_in 8 [ej_tok 1005 3 (Some 1000000000), ej_tok 1007 6 None]"
  let ?t = "ej_in 8 [ej_tok 1005 3 (Some 1000000000), ej_tok 1007 6 (Some 1000000000)]"
  have b: "buscar_token ej_auth (show_nat 3) (st_db ?s) = Some (ej_tok 1005 3 (Some 1000000000))"
    "buscar_token ej_auth (show_nat 6) (st_db ?t) = Some (ej_tok 1007 6 (Some 1000000000))"
    by (simp_all add: buscar_token_def refresh_hash_def)
  have e: "env_ok (ae_ev ej_auth)" using ej_servidor by (simp add: servidor_def)
  have "refresh ej_auth (show_nat 3) ?s = (Inl ErrRefreshTokenReused, ?t)"
    using reuso_run[OF e b(1)] revocar_familia_run[OF e, of 7 1004 ?s] by (simp add: ej_in_def) (simp add: ej_tok_def)
  from reuso_mata_familia[OF ei_pasos ej_inj ej_vacio ej_servidor b(1) _ this _ ej_servidor b(2)]
  show ?thesis by simp
qed

theorem carrera_de_rotacion_witness:
  "\<exists>x \<in> set (vivos (st_db (ej_in 10 [ej_tok 1005 3 (Some 1000000000), ej_tok 1007 6 None, ej_tok 1009 8 None]))).
   \<exists>y \<in> set (vivos (st_db (ej_in 10 [ej_tok 1005 3 (Some 1000000000), ej_tok 1007 6 None, ej_tok 1009 8 None]))).
    tk_id x \<noteq> tk_id y \<and> tk_family x = 1004 \<and> tk_family y = 1004"
proof -
  obtain a b where
    "refresh_rotar ej_auth (ej_tok 1005 3 None) (ej_in 6 [ej_tok 1005 3 None]) =
      (Inr a, ej_in 8 [ej_tok 1005 3 (Some 1000000000), ej_tok 1007 6 None])"
    "refresh_rotar ej_auth (ej_tok 1005 3 None) (ej_in 8 [ej_tok 1005 3 (Some 1000000000), ej_tok 1007 6 None]) =
      (Inr b, ej_in 10 [ej_tok 1005 3 (Some 1000000000), ej_tok 1007 6 None, ej_tok 1009 8 None])"
    using ej_rotar ej_rotar2 by blast
  from carrera_de_rotacion[OF ej_servidor ej_inj ej_leer ej_leer this] show ?thesis by (simp only: ej_tok_simps)
qed

definition ej_fallos :: "nat \<Rightarrow> auth_st" where
  "ej_fallos n = \<lparr>st_db = (st_db (ej_st False))\<lparr>login_attempts := map (\<lambda>k. \<lparr>at_id = 1000 + k, at_email = ''ana@x'', at_ip = ''ip'',
     at_source = ''password'', at_success = False, at_created = 100\<rparr>) [0..<n], id_seq := n\<rparr>, st_cache = (\<lambda>_. None)\<rparr>"

lemma ej_fallido:
  "login ej_auth ''ana@x'' ''otra'' ''ip'' (ej_st False) = (Inl ErrInvalidCredentials, ej_fallos 1)"
  "login ej_auth ''ana@x'' ''otra'' ''ip'' (ej_fallos 1) = (Inl ErrInvalidCredentials, ej_fallos 2)"
  by (simp_all add: login_def ej_ana ej_clave ej_st_def ejemplo_ident_def ej_fallos_def ej_user_def count_where_def sesion_eval
      upt_rec)

theorem limite_de_intentos_witness:
  "login ej_auth ''ana@x'' ''clave'' ''ip'' (ej_fallos 2) = (Inl ErrTooManyAttempts, ej_fallos 2)"
proof -
  let ?F = "fallos (uuid_gen ejemplo_env) ''ana@x'' ''ip'' 100 (ej_st False)"
  have "?F 0 (ej_st False)" by (rule fallos.cero)
  from fallos.fallo[OF this ej_servidor ej_ana(1) _ ej_fallido(1)] have "?F (Suc 0) (ej_fallos 1)" by simp
  from fallos.fallo[OF this ej_servidor ej_ana(1) _ ej_fallido(2)] have f: "?F (Suc (Suc 0)) (ej_fallos 2)" by simp
  show ?thesis
    by (rule limite_de_intentos[OF f ej_inj _ _ _ ej_ana(1)]) (simp_all add: intentos_ok_def ej_st_def ejemplo_ident_def)
qed

lemma ej_login_mfa: "\<exists>lr t. login ej_auth ''ana@x'' ''clave'' ''ip'' (ej_st True) = (Inr lr, t) \<and> lr_mfa_required lr \<and>
    ud_id (lr_user lr) = show_nat 7 \<and> list_memberships_for_user (ejemplo_env\<lparr>reloj := 1000000000, usuario := Some 7\<rparr>) 7 (st_db t) =
      Inr ([\<lparr>md_membership = 5, md_tenant = 1, md_status = ''active'', md_created_at = 1, md_tenant_name = ''T'',
        md_tenant_status = ''active''\<rparr>], st_db t)"
  by (simp add: login_def ej_ana ej_clave ej_st_def ejemplo_ident_def ej_user_def count_where_def sesion_eval sign_mfa_token_def
      user_dto_de_def)

theorem mfa_evitable_witness:
  "\<exists>lr t m access u c. login ej_auth ''ana@x'' ''clave'' ''ip'' (ej_st True) = (Inr lr, t) \<and> lr_mfa_required lr \<and>
    select_tenant_handler ej_auth \<lparr>rq_authorization = '''', rq_access_cookie = Some (lr_mfa_token lr)\<rparr> (show_nat 5) t =
      (Inr (m, access), u) \<and> verify_access_token ej_auth access = Inr c \<and> cl_membership c = show_nat 5"
proof -
  obtain lr t where l: "login ej_auth ''ana@x'' ''clave'' ''ip'' (ej_st True) = (Inr lr, t)" "lr_mfa_required lr"
    "ud_id (lr_user lr) = uuid_show (ae_ev ej_auth) 7"
    "list_memberships_for_user ((ae_ev ej_auth)\<lparr>usuario := Some 7\<rparr>) 7 (st_db t) =
      Inr ([\<lparr>md_membership = 5, md_tenant = 1, md_status = ''active'', md_created_at = 1, md_tenant_name = ''T'',
        md_tenant_status = ''active''\<rparr>], st_db t)" using ej_login_mfa by auto
  from mfa_evitable[OF ej_servidor ej_auth_ok _ _ l(1,2,3,4), of _ 5]
  show ?thesis using l(1,2) by fastforce
qed


end
