(* ===== verification/Comunicados.thy ===== *)
theory Comunicados
  imports LiqConsultas Idempotencia
begin

text \<open>
  The announcements to the neighbours (\<open>internal/comunicaciones/comunicados.go\<close>,
  \<open>comunicaciones.sql.go\<close>): drafts that are published once, with an event for the worker.
\<close>

subsection \<open>Queries\<close>

definition mi_comunicado :: "env \<Rightarrow> uuid \<Rightarrow> comunicado \<Rightarrow> bool" where
  "mi_comunicado ev cid c \<longleftrightarrow> cm_tenant c = tenant ev \<and> cm_id c = cid"

definition comunicado_check :: "comunicado \<Rightarrow> bool" where
  "comunicado_check c \<longleftrightarrow> cm_estado c \<in> {''borrador'', ''publicado''} \<and>
     cm_scope c \<in> {''todos'', ''unidades''} \<and> 0 \<le> cm_destinatarios c"

definition list_comunicados_q :: "env \<Rightarrow> uuid \<Rightarrow> comunicado list query" where
  "list_comunicados_q ev cid = tx_read (\<lambda>s. rev (sort_key cm_created (sort_key cm_id
     (filter (\<lambda>c. cm_tenant c = tenant ev \<and> cm_consorcio c = cid) (comunicados s)))))"

definition get_comunicado_q :: "env \<Rightarrow> uuid \<Rightarrow> comunicado query" where
  "get_comunicado_q ev cid = tx_row (\<lambda>s. List.find (mi_comunicado ev cid) (comunicados s))"

definition create_comunicado_q :: "env \<Rightarrow> uuid \<Rightarrow> string \<Rightarrow> string \<Rightarrow> string \<Rightarrow> int \<Rightarrow> comunicado query" where
  "create_comunicado_q ev cid titulo cuerpo scope n =
     tx_bind (nuevo_uuid ev) (\<lambda>i. tx_insert comunicado_check
       (\<lambda>s r. if \<exists>x \<in> set (comunicados s). cm_tenant x = cm_tenant r \<and> cm_id x = cm_id r
              then Some ''comunicados_pkey'' else None)
       (\<lambda>s r. consorcio_existe ev cid s) comunicados_update
       \<lparr>cm_tenant = tenant ev, cm_consorcio = cid, cm_id = i, cm_titulo = titulo, cm_cuerpo = cuerpo,
        cm_scope = scope, cm_destinatarios = n, cm_estado = ''borrador'', cm_publicado = None,
        cm_created = ahora ev, cm_updated = ahora ev\<rparr>)"

text \<open>\<open>COALESCE(publicado_at, now())\<close>.\<close>

definition publicada :: "env \<Rightarrow> comunicado \<Rightarrow> comunicado" where
  "publicada ev c = c\<lparr>cm_estado := ''publicado'',
     cm_publicado := (case cm_publicado c of None \<Rightarrow> Some (ahora ev) | Some p \<Rightarrow> Some p),
     cm_updated := ahora ev\<rparr>"

definition publish_comunicado_q :: "env \<Rightarrow> uuid \<Rightarrow> comunicado query" where
  "publish_comunicado_q ev cid =
     tx_bind (get_comunicado_q ev cid) (\<lambda>c.
     tx_bind (tx_update (mi_comunicado ev cid) (publicada ev) comunicado_check comunicados comunicados_update) (\<lambda>_.
     tx_ret (publicada ev c)))"

subsection \<open>Operations\<close>

record comunicado_input =
  cmi_titulo :: string
  cmi_cuerpo :: string
  cmi_destinatarios :: string

text \<open>\<open>uuid.MustParse\<close> panics.\<close>

definition must_parse :: "env \<Rightarrow> string \<Rightarrow> uuid query" where
  "must_parse ev x = tx_some Panico (uuid_google ev x)"

definition comunicado_dto_de :: "env \<Rightarrow> comunicado \<Rightarrow> comunicado_dto" where
  "comunicado_dto_de ev c = \<lparr>cmd_id = uuid_show ev (cm_id c), cmd_titulo = cm_titulo c,
     cmd_estado = cm_estado c, cmd_destinatarios = cm_destinatarios c\<rparr>"

definition destinatarios_count :: "env \<Rightarrow> string \<Rightarrow> int query" where
  "destinatarios_count ev consorcio =
     tx_bind (must_parse ev consorcio) (\<lambda>cid.
     tx_bind (list_unidades ev cid '''') (\<lambda>units.
     tx_ret (int (count_where (\<lambda>u. to_lower (u_estado u) = ''activa'') units))))"

definition comunicado_hash :: "string \<Rightarrow> string \<Rightarrow> string" where
  "comunicado_hash comunicado key = trim_space comunicado @ ''|'' @ trim_space key"

definition comunicados_list :: "env \<Rightarrow> string \<Rightarrow> comunicado_dto list query" where
  "comunicados_list ev consorcio =
     tx_bind (must_parse ev consorcio) (\<lambda>cid.
     tx_bind (list_comunicados_q ev cid) (\<lambda>rows. tx_ret (map (comunicado_dto_de ev) rows)))"

definition comunicados_create :: "env \<Rightarrow> string \<Rightarrow> comunicado_input \<Rightarrow> comunicado_dto query" where
  "comunicados_create ev consorcio inp =
     tx_bind (tx_guard (trim_space (cmi_titulo inp) \<noteq> '''' \<and> trim_space (cmi_cuerpo inp) \<noteq> '''')
       (ErrTexto ''titulo y cuerpo son obligatorios'')) (\<lambda>_.
     let scope = (if cmi_destinatarios inp = '''' then ''todos'' else cmi_destinatarios inp) in
     tx_bind (destinatarios_count ev consorcio) (\<lambda>n.
     tx_bind (must_parse ev consorcio) (\<lambda>cid.
     tx_bind (create_comunicado_q ev cid (trim_space (cmi_titulo inp)) (trim_space (cmi_cuerpo inp)) scope n) (\<lambda>row.
     tx_ret (comunicado_dto_de ev row)))))"

text \<open>
  What the key holds: the response of an earlier publication, or the empty object. \<open>Publish\<close> goes on
  with the empty object; the scope keeps the responses of the other packages apart.
\<close>

fun leer_comunicado :: "respuesta \<Rightarrow> comunicado_dto option" where
  "leer_comunicado (RComunicado d) = Some d"
| "leer_comunicado _ = None"

definition comunicado_guardado :: "env \<Rightarrow> string \<Rightarrow> string \<Rightarrow> comunicado_dto option query" where
  "comunicado_guardado ev hash key =
     tx_bind (insert_idempotency_key ev key ''comunicaciones.publish'' hash RVacia) (\<lambda>inserted.
     if inserted = 0 then
       tx_bind (get_idempotency_key ev ''comunicaciones.publish'' key) (\<lambda>existing.
       tx_bind (tx_guard (k_hash existing = hash) ErrIdempotencyConflict) (\<lambda>_.
       if k_response existing \<noteq> RVacia
       then tx_bind (tx_some ErrJson (leer_comunicado (k_response existing))) (\<lambda>d. tx_ret (Some d))
       else tx_ret None))
     else tx_ret None)"

definition comunicado_evento :: "env \<Rightarrow> comunicado \<Rightarrow> payload" where
  "comunicado_evento ev c = PComunicado \<lparr>oc_comunicado = uuid_show ev (cm_id c),
     oc_consorcio = uuid_show ev (cm_consorcio c), oc_titulo = cm_titulo c, oc_cuerpo = cm_cuerpo c,
     oc_destinatarios = cm_destinatarios c\<rparr>"

definition comunicados_publish :: "env \<Rightarrow> string \<Rightarrow> string \<Rightarrow> comunicado_dto query" where
  "comunicados_publish ev comunicado key =
     tx_bind (tx_guard (trim_space key \<noteq> '''') (ErrTexto ''Idempotency-Key requerida'')) (\<lambda>_.
     tx_bind (comunicado_guardado ev (comunicado_hash comunicado key) key) (\<lambda>hit.
     case hit of Some cached \<Rightarrow> tx_ret cached
     | None \<Rightarrow>
       tx_bind (must_parse ev comunicado) (\<lambda>cid.
       tx_bind (get_comunicado_q ev cid) (\<lambda>actual.
       tx_bind (if cm_estado actual \<noteq> ''publicado'' then
           tx_bind (publish_comunicado_q ev cid) (\<lambda>row.
           tx_bind (insert_outbox_event ev (uuid_show ev (cm_id row)) ''comunicado.publicado''
             (comunicado_evento ev row)) (\<lambda>_. tx_ret row))
         else tx_ret actual) (\<lambda>row.
       let dto = comunicado_dto_de ev row in
       tx_bind (update_idempotency_key ev (RComunicado dto) ''comunicaciones.publish'' key) (\<lambda>_.
       tx_ret dto))))))"

subsection \<open>Tenant isolation\<close>

lemma ais_comunicados_q:
  "tx_rel (aislado ev) (list_comunicados_q ev a)" "tx_rel (aislado ev) (get_comunicado_q ev a)"
  "tx_rel (aislado ev) (create_comunicado_q ev a b c d e)" "tx_rel (aislado ev) (publish_comunicado_q ev a)"
  "tx_rel (aislado ev) (must_parse ev x)"
  unfolding list_comunicados_q_def get_comunicado_q_def create_comunicado_q_def publish_comunicado_q_def must_parse_def
  by (intro ais.rules rel_queries;
      auto simp: aislado_def ajenas_def mi_comunicado_def publicada_def intro!: filter_upd_where_outside)+

lemma comunicados_aislados_ops:
  "tx_rel (aislado ev) (comunicados_create ev co inp)" "tx_rel (aislado ev) (comunicados_publish ev cm key)"
  unfolding comunicados_create_def comunicados_publish_def comunicado_guardado_def destinatarios_count_def Let_def
  by (auto split: option.split intro!: ais.rules ais_reads ais_outbox ais_insert_key ais_get_key ais_update_key ais_comunicados_q)

end
