(* ===== verification/Notificaciones.thy ===== *)
theory Notificaciones
  imports Comunicados
begin

text \<open>
  The notices to the users (\<open>internal/notificaciones/notificaciones.go\<close>, \<open>notificaciones.sql.go\<close>):
  a publication is fanned out to the users that have a current link to a unit of the consorcio.
  The policies of the table of notices ask for the user of the request, on reading and on writing:
  \<open>rls\<close> says whether the role of the connection is subject to them (\<open>consorcio_app\<close> is, the owner
  of the tables is not).
\<close>

subsection \<open>Queries\<close>

text \<open>A link that is valid today.\<close>

definition vinculo_hoy :: "env \<Rightarrow> vinculo \<Rightarrow> bool" where
  "vinculo_hoy ev v \<longleftrightarrow> v_from v \<le> hoy ev \<and> (case v_to v of None \<Rightarrow> True | Some d \<Rightarrow> hoy ev \<le> d)"

definition destinatarios_de :: "env \<Rightarrow> uuid \<Rightarrow> db \<Rightarrow> uuid list" where
  "destinatarios_de ev cid s = sort (remdups
     [u. x \<leftarrow> unidades s, u_tenant x = tenant ev \<and> u_consorcio x = cid,
         v \<leftarrow> vinculos s, v_tenant v = u_tenant x \<and> v_unidad v = u_id x \<and> vinculo_hoy ev v,
         p \<leftarrow> personas s, pe_tenant p = v_tenant v \<and> pe_id p = v_persona v,
         u \<leftarrow> (case pe_user p of None \<Rightarrow> [] | Some u \<Rightarrow> [u])])"

definition list_destinatarios :: "env \<Rightarrow> uuid \<Rightarrow> uuid list query" where
  "list_destinatarios ev cid = tx_read (destinatarios_de ev cid)"

text \<open>The key of the unique index, and the conflict that \<open>ON CONFLICT DO NOTHING\<close> skips.\<close>

definition clave_aviso :: "notificacion \<Rightarrow> uuid \<times> uuid \<times> string \<times> uuid option" where
  "clave_aviso n = (n_tenant n, n_user n, n_tipo n, n_recurso n)"

definition choca_aviso :: "notificacion \<Rightarrow> notificacion \<Rightarrow> bool" where
  "choca_aviso n x \<longleftrightarrow> (n_tenant x = n_tenant n \<and> n_id x = n_id n) \<or>
     (n_recurso n \<noteq> None \<and> clave_aviso x = clave_aviso n)"

text \<open>
  \<open>INSERT \<dots> RETURNING\<close> needs the new row to be visible to the reader: the policy of \<open>SELECT\<close> is
  checked, before the conflict. \<open>None\<close> is \<open>pgx.ErrNoRows\<close>.
\<close>

definition insert_notificacion :: "bool \<Rightarrow> env \<Rightarrow> uuid \<Rightarrow> string \<Rightarrow> string \<Rightarrow> string \<Rightarrow> string \<Rightarrow> uuid
    \<Rightarrow> notificacion option query" where
  "insert_notificacion rls ev user tipo titulo cuerpo recurso_type recurso =
     tx_bind (nuevo_uuid ev) (\<lambda>i.
     let n = \<lparr>n_tenant = tenant ev, n_id = i, n_user = user, n_tipo = tipo, n_titulo = titulo,
              n_cuerpo = cuerpo, n_recurso_type = recurso_type, n_recurso = Some recurso, n_leida = None,
              n_created = ahora ev\<rparr> in
     tx_bind (tx_guard (rls \<longrightarrow> usuario ev = Some user) PgRls) (\<lambda>_.
     tx_bind (tx_guard (tipo \<in> {''comunicado'', ''liquidacion''}) PgCheck) (\<lambda>_.
     tx_bind (tx_read (\<lambda>s. \<exists>x \<in> set (notificaciones s). choca_aviso n x)) (\<lambda>choca.
     if choca then tx_ret None
     else tx_bind (tx_insert (\<lambda>_. True) (\<lambda>_ _. None) (\<lambda>_ _. True) notificaciones_update n) (\<lambda>r.
       tx_ret (Some r))))))"

definition mi_aviso :: "env \<Rightarrow> notificacion \<Rightarrow> bool" where
  "mi_aviso ev n \<longleftrightarrow> n_tenant n = tenant ev \<and> Some (n_user n) = usuario ev"

definition list_notificaciones_q :: "env \<Rightarrow> bool \<Rightarrow> nat \<Rightarrow> notificacion list query" where
  "list_notificaciones_q ev solo limite = tx_read (\<lambda>s. take limite (rev (sort_key n_created
     (filter (\<lambda>n. mi_aviso ev n \<and> (\<not> solo \<or> n_leida n = None)) (notificaciones s)))))"

definition count_no_leidas :: "env \<Rightarrow> int query" where
  "count_no_leidas ev = tx_read (\<lambda>s. int (count_where (\<lambda>n. mi_aviso ev n \<and> n_leida n = None) (notificaciones s)))"

definition marcar_leida_q :: "env \<Rightarrow> uuid \<Rightarrow> notificacion query" where
  "marcar_leida_q ev nid =
     (let P = (\<lambda>n. mi_aviso ev n \<and> n_id n = nid \<and> n_leida n = None);
          f = (\<lambda>n. n\<lparr>n_leida := Some (ahora ev)\<rparr>) in
     tx_bind (tx_row (\<lambda>s. List.find P (notificaciones s))) (\<lambda>n.
     tx_bind (tx_update P f (\<lambda>_. True) notificaciones notificaciones_update) (\<lambda>_. tx_ret (f n))))"

subsection \<open>Operations\<close>

record notificacion_dto =
  nd_id :: string
  nd_tipo :: string
  nd_titulo :: string
  nd_cuerpo :: string
  nd_recurso_type :: string
  nd_recurso :: "string option"
  nd_leida :: "ts option"
  nd_created :: ts

record listado =
  ls_data :: "notificacion_dto list"
  ls_no_leidas :: int

record resultado =
  re_destinatarios :: nat
  re_creadas :: nat
  re_omitidas :: nat

definition to_aviso :: "env \<Rightarrow> notificacion \<Rightarrow> notificacion_dto" where
  "to_aviso ev n = \<lparr>nd_id = uuid_show ev (n_id n), nd_tipo = n_tipo n, nd_titulo = n_titulo n,
     nd_cuerpo = n_cuerpo n, nd_recurso_type = n_recurso_type n,
     nd_recurso = map_option (uuid_show ev) (n_recurso n), nd_leida = n_leida n, nd_created = n_created n\<rparr>"

definition aviso_uuid :: "env \<Rightarrow> string \<Rightarrow> uuid query" where
  "aviso_uuid ev x = tx_some (Dom (ErrLimiteInvalido x)) (uuid_google ev (trim_space x))"

text \<open>The text of the error for an empty title, in UTF-8.\<close>

definition titulo_vacio :: string where
  "titulo_vacio = ''t'' @ [CHR 0xC3, CHR 0xAD] @ ''tulo vac'' @ [CHR 0xC3, CHR 0xAD] @ ''o''"

fun avisar :: "bool \<Rightarrow> env \<Rightarrow> string \<Rightarrow> string \<Rightarrow> string \<Rightarrow> string \<Rightarrow> uuid \<Rightarrow> uuid list \<Rightarrow> resultado \<Rightarrow> resultado query" where
  "avisar rls ev tipo rtype titulo cuerpo recurso [] res = tx_ret res"
| "avisar rls ev tipo rtype titulo cuerpo recurso (u # us) res =
     tx_bind (insert_notificacion rls ev u tipo titulo cuerpo rtype recurso) (\<lambda>n.
     avisar rls ev tipo rtype titulo cuerpo recurso us
       (case n of Some _ \<Rightarrow> res\<lparr>re_creadas := Suc (re_creadas res)\<rparr>
        | None \<Rightarrow> res\<lparr>re_omitidas := Suc (re_omitidas res)\<rparr>))"

definition notificar :: "bool \<Rightarrow> env \<Rightarrow> string \<Rightarrow> string \<Rightarrow> string \<Rightarrow> string \<Rightarrow> string \<Rightarrow> string \<Rightarrow> resultado query" where
  "notificar rls ev consorcio_id recurso_id tipo rtype titulo cuerpo =
     tx_bind (aviso_uuid ev consorcio_id) (\<lambda>cid.
     tx_bind (aviso_uuid ev recurso_id) (\<lambda>rid.
     tx_bind (tx_guard (trim_space titulo \<noteq> '''') (Dom (ErrLimiteInvalido titulo_vacio))) (\<lambda>_.
     tx_bind (list_destinatarios ev cid) (\<lambda>us.
     avisar rls ev tipo rtype (trim_space titulo) cuerpo rid us
       \<lparr>re_destinatarios = length us, re_creadas = 0, re_omitidas = 0\<rparr>))))"

definition notificar_comunicado :: "bool \<Rightarrow> env \<Rightarrow> string \<Rightarrow> string \<Rightarrow> string \<Rightarrow> string \<Rightarrow> resultado query" where
  "notificar_comunicado rls ev consorcio comunicado titulo cuerpo =
     notificar rls ev consorcio comunicado ''comunicado'' ''comunicado'' titulo cuerpo"

definition notificar_liquidacion :: "bool \<Rightarrow> env \<Rightarrow> string \<Rightarrow> string \<Rightarrow> string \<Rightarrow> string \<Rightarrow> resultado query" where
  "notificar_liquidacion rls ev consorcio liquidacion titulo cuerpo =
     notificar rls ev consorcio liquidacion ''liquidacion'' ''liquidacion'' titulo cuerpo"

definition notificaciones_listar :: "env \<Rightarrow> bool \<Rightarrow> int \<Rightarrow> listado query" where
  "notificaciones_listar ev solo limite =
     (let l1 = (if limite \<le> 0 then 50 else limite);
          l2 = (if 200 < l1 then 200 else l1) in
     tx_bind (list_notificaciones_q ev solo (nat l2)) (\<lambda>rows.
     tx_bind (count_no_leidas ev) (\<lambda>n.
     tx_ret \<lparr>ls_data = map (to_aviso ev) rows, ls_no_leidas = n\<rparr>)))"

definition notificaciones_marcar :: "env \<Rightarrow> string \<Rightarrow> notificacion_dto query" where
  "notificaciones_marcar ev i =
     tx_bind (aviso_uuid ev i) (\<lambda>nid.
     tx_bind (tx_catch (no_rows_as (Dom ErrNotificacionNotFound)) (marcar_leida_q ev nid)) (\<lambda>n.
     tx_ret (to_aviso ev n)))"

subsection \<open>The fan-out\<close>

text \<open>A notice is there.\<close>

definition avisado :: "env \<Rightarrow> string \<Rightarrow> uuid \<Rightarrow> uuid \<Rightarrow> db \<Rightarrow> bool" where
  "avisado ev tipo recurso u s \<longleftrightarrow> (\<exists>n \<in> set (notificaciones s). clave_aviso n = (tenant ev, u, tipo, Some recurso))"

text \<open>The identifiers that the database will generate are not in use.\<close>

definition frescos :: "env \<Rightarrow> db \<Rightarrow> bool" where
  "frescos ev s \<longleftrightarrow> inj (uuid_gen ev) \<and>
     (\<forall>n \<in> set (notificaciones s). \<forall>k \<ge> seq s. n_id n \<noteq> uuid_gen ev k)"

definition aviso_nuevo :: "env \<Rightarrow> string \<Rightarrow> string \<Rightarrow> string \<Rightarrow> string \<Rightarrow> uuid \<Rightarrow> nat \<times> uuid \<Rightarrow> notificacion" where
  "aviso_nuevo ev tipo rtype titulo cuerpo recurso ku =
     \<lparr>n_tenant = tenant ev, n_id = uuid_gen ev (fst ku), n_user = snd ku, n_tipo = tipo, n_titulo = titulo,
      n_cuerpo = cuerpo, n_recurso_type = rtype, n_recurso = Some recurso, n_leida = None,
      n_created = ahora ev\<rparr>"

text \<open>The notices that a fan-out adds: one for each user that has none.\<close>

definition avisos_nuevos :: "env \<Rightarrow> string \<Rightarrow> string \<Rightarrow> string \<Rightarrow> string \<Rightarrow> uuid \<Rightarrow> uuid list \<Rightarrow> db \<Rightarrow> notificacion list" where
  "avisos_nuevos ev tipo rtype titulo cuerpo recurso us s = map (aviso_nuevo ev tipo rtype titulo cuerpo recurso)
     (filter (\<lambda>ku. \<not> avisado ev tipo recurso (snd ku) s) (enumerate (seq s) us))"

lemma aviso_nuevo_simps [simp]:
  "clave_aviso (aviso_nuevo ev tipo rtype titulo cuerpo recurso ku) = (tenant ev, snd ku, tipo, Some recurso)"
  "n_id (aviso_nuevo ev tipo rtype titulo cuerpo recurso ku) = uuid_gen ev (fst ku)"
  "n_tenant (aviso_nuevo ev tipo rtype titulo cuerpo recurso ku) = tenant ev"
  "n_user (aviso_nuevo ev tipo rtype titulo cuerpo recurso ku) = snd ku"
  "n_leida (aviso_nuevo ev tipo rtype titulo cuerpo recurso ku) = None"
  by (simp_all add: aviso_nuevo_def clave_aviso_def)

lemma insert_notificacion_libre:
  assumes "frescos ev s" and "tipo \<in> {''comunicado'', ''liquidacion''}"
  shows "insert_notificacion False ev u tipo titulo cuerpo rtype recurso s =
    (if avisado ev tipo recurso u s then Inr (None, s\<lparr>seq := Suc (seq s)\<rparr>)
     else let n = aviso_nuevo ev tipo rtype titulo cuerpo recurso (seq s, u) in
       Inr (Some n, s\<lparr>notificaciones := notificaciones s @ [n], seq := Suc (seq s)\<rparr>))"
proof -
  let ?n = "aviso_nuevo ev tipo rtype titulo cuerpo recurso (seq s, u)"
  have "(\<exists>x \<in> set (notificaciones s). choca_aviso ?n x) \<longleftrightarrow> avisado ev tipo recurso u s"
    using assms(1) by (force simp: choca_aviso_def avisado_def frescos_def aviso_nuevo_def clave_aviso_def)
  with assms(2) show ?thesis
    by (simp add: insert_notificacion_def tx_bind_def nuevo_uuid_def tx_guard_def tx_ret_def tx_read_def
        tx_insert_def Let_def aviso_nuevo_def)
qed

text \<open>With row-level security, a connection without a user can write no notice at all.\<close>

lemma insert_notificacion_rls:
  "usuario ev = None \<Longrightarrow> insert_notificacion True ev u tipo titulo cuerpo rtype recurso s = Inl PgRls"
  by (simp add: insert_notificacion_def tx_bind_def nuevo_uuid_def tx_guard_def tx_fail_def Let_def)

lemma snd_enumerate: "snd ` set (enumerate k us) = set us"
  by (metis list.set_map map_snd_enumerate)

lemma avisar_exacto:
  assumes "distinct us" and "frescos ev s" and "tipo \<in> {''comunicado'', ''liquidacion''}"
  shows "avisar False ev tipo rtype titulo cuerpo recurso us res s =
    (let ns = avisos_nuevos ev tipo rtype titulo cuerpo recurso us s in
     Inr (res\<lparr>re_creadas := re_creadas res + length ns, re_omitidas := re_omitidas res + (length us - length ns)\<rparr>,
       s\<lparr>notificaciones := notificaciones s @ ns, seq := seq s + length us\<rparr>))"
  using assms(1,2)
proof (induction us arbitrary: res s)
  case Nil
  then show ?case by (simp add: avisos_nuevos_def tx_ret_def)
next
  case (Cons u us)
  let ?A = "avisado ev tipo recurso"
  let ?N = "avisos_nuevos ev tipo rtype titulo cuerpo recurso"
  note ins = insert_notificacion_libre[OF Cons.prems(2) assms(3)]
  have le: "length (filter P (enumerate k us)) \<le> length us" for P k
    using length_filter_le[of P "enumerate k us"] by simp
  show ?case
  proof (cases "?A u s")
    case True
    let ?s = "s\<lparr>seq := Suc (seq s)\<rparr>"
    have f: "frescos ev ?s" using Cons.prems(2) by (simp add: frescos_def)
    have N: "?N (u # us) s = ?N us ?s"
      using True by (simp add: avisos_nuevos_def avisado_def)
    have "length (?N us ?s) \<le> length us" by (simp add: avisos_nuevos_def le)
    then show ?thesis
      using Cons.IH[of ?s "res\<lparr>re_omitidas := Suc (re_omitidas res)\<rparr>"] Cons.prems(1) f True
      by (simp add: ins tx_bind_def N Let_def Suc_diff_le)
  next
    case False
    let ?n = "aviso_nuevo ev tipo rtype titulo cuerpo recurso (seq s, u)"
    let ?s = "s\<lparr>notificaciones := notificaciones s @ [?n], seq := Suc (seq s)\<rparr>"
    have f: "frescos ev ?s" using Cons.prems(2) by (auto simp: frescos_def dest: injD)
    have "?A v ?s = ?A v s" if "v \<in> set us" for v
      using that Cons.prems(1) by (auto simp: avisado_def)
    then have "filter (\<lambda>ku. \<not> ?A (snd ku) ?s) (enumerate k us) = filter (\<lambda>ku. \<not> ?A (snd ku) s) (enumerate k us)" for k
      using snd_enumerate[of k us] by (intro filter_cong) auto
    then have N: "?N (u # us) s = ?n # ?N us ?s"
      using False by (simp add: avisos_nuevos_def)
    show ?thesis
      using Cons.IH[of ?s "res\<lparr>re_creadas := Suc (re_creadas res)\<rparr>"] Cons.prems(1) f False
      by (simp add: ins tx_bind_def N Let_def)
  qed
qed

lemma frescos_nuevos:
  "frescos ev s \<Longrightarrow> frescos ev (s\<lparr>notificaciones := notificaciones s @ avisos_nuevos ev tipo rtype titulo cuerpo recurso us s,
     seq := seq s + length us\<rparr>)"
  by (fastforce simp: frescos_def avisos_nuevos_def in_set_enumerate_eq dest: injD)

lemma avisado_nuevos:
  "avisado ev tipo recurso u (s\<lparr>notificaciones := notificaciones s @ avisos_nuevos ev tipo rtype titulo cuerpo recurso us s, seq := k\<rparr>)
   \<longleftrightarrow> avisado ev tipo recurso u s \<or> u \<in> set us"
proof -
  have "(\<exists>k. (k, u) \<in> set (enumerate (seq s) us)) \<longleftrightarrow> u \<in> set us"
    using snd_enumerate[of "seq s" us] by force
  then show ?thesis
    unfolding avisado_def avisos_nuevos_def by (auto simp: bex_Un)
qed

lemma avisos_nuevos_nada:
  "\<forall>u \<in> set us. avisado ev tipo recurso u s \<Longrightarrow> avisos_nuevos ev tipo rtype titulo cuerpo recurso us s = []"
  by (auto simp: avisos_nuevos_def filter_empty_conv in_set_enumerate_eq)

lemma distinct_destinatarios [simp]: "distinct (destinatarios_de ev cid s)"
  by (simp add: destinatarios_de_def)

lemma destinatarios_cong:
  assumes "unidades t = unidades s" "vinculos t = vinculos s" "personas t = personas s"
  shows "destinatarios_de ev cid t = destinatarios_de ev cid s"
  unfolding destinatarios_de_def assms by (rule refl)

end
