(* ===== verification/Pdf.thy ===== *)
theory Pdf
  imports Cobranzas
begin

text \<open>
  The documents in PDF: the notice of a settlement (\<open>internal/outbox/pdf.go\<close>) and the receipt of a
  payment (\<open>BuildReciboPDF\<close> of \<open>internal/cobranzas/ledger.go\<close>). Both write the same file format: the
  objects, a table with the offset of each, and the offset of the table. The theorems read the file
  as a viewer does: from its end to the table, from the table to the objects, and the literal
  strings of the page back to the texts.
\<close>

subsection \<open>Literal strings\<close>

text \<open>\<open>strings.ReplaceAll\<close> of a character.\<close>

definition reemplazar :: "char \<Rightarrow> string \<Rightarrow> string \<Rightarrow> string" where
  "reemplazar x r s = concat (map (\<lambda>c. if c = x then r else [c]) s)"

definition escape_pdf :: "string \<Rightarrow> string" where
  "escape_pdf s = reemplazar (CHR 0x29) [CHR 0x5C, CHR 0x29]
     (reemplazar (CHR 0x28) [CHR 0x5C, CHR 0x28]
     (reemplazar (CHR 0x5C) [CHR 0x5C, CHR 0x5C] s))"

text \<open>
  The reader of a literal string after its opening parenthesis: a backslash takes the next
  character as it is, parentheses nest. (The other escapes of the format are not written.)
\<close>

fun leer_literal :: "nat \<Rightarrow> string \<Rightarrow> (string \<times> string) option" where
  "leer_literal d [] = None"
| "leer_literal d (c # cs) =
     (if c = CHR 0x5C then
        (case cs of [] \<Rightarrow> None
         | e # es \<Rightarrow> map_option (\<lambda>(t, r). (e # t, r)) (leer_literal d es))
      else if c = CHR 0x29 then
        (if d = 0 then Some ([], cs) else map_option (\<lambda>(t, r). (c # t, r)) (leer_literal (d - 1) cs))
      else if c = CHR 0x28 then map_option (\<lambda>(t, r). (c # t, r)) (leer_literal (Suc d) cs)
      else map_option (\<lambda>(t, r). (c # t, r)) (leer_literal d cs))"

lemma reemplazar_simps [simp]:
  "reemplazar x r [] = []"
  "reemplazar x r (c # cs) = (if c = x then r else [c]) @ reemplazar x r cs"
  "reemplazar x r (s @ t) = reemplazar x r s @ reemplazar x r t"
  by (simp_all add: reemplazar_def)

lemma escape_pdf_Cons:
  "escape_pdf (c # cs) = (if c \<in> {CHR 0x5C, CHR 0x28, CHR 0x29} then [CHR 0x5C, c] else [c]) @ escape_pdf cs"
  by (auto simp: escape_pdf_def)

lemma escape_pdf_Nil [simp]: "escape_pdf [] = []"
  by (simp add: escape_pdf_def)

lemma leer_escape: "leer_literal 0 (escape_pdf s @ CHR 0x29 # r) = Some (s, r)"
  by (induction s) (auto simp: escape_pdf_Cons)

subsection \<open>The file\<close>

definition nl :: string where
  "nl = [CHR 0x0A]"

fun pdf_offsets :: "nat \<Rightarrow> string list \<Rightarrow> nat list" where
  "pdf_offsets n [] = []"
| "pdf_offsets n (ob # obs) = n # pdf_offsets (n + length ob) obs"

definition pdf_cabecera :: string where
  "pdf_cabecera = ''%PDF-1.4'' @ nl"

definition pdf_entrada :: "nat \<Rightarrow> string" where
  "pdf_entrada off = pad 10 (show_nat off) @ '' 00000 n '' @ nl"

definition pdf_tabla :: "nat list \<Rightarrow> string" where
  "pdf_tabla offs = ''xref'' @ nl @ ''0 '' @ show_nat (Suc (length offs)) @ nl @ ''0000000000 65535 f '' @ nl @
     concat (map pdf_entrada offs)"

definition pdf_final :: "nat \<Rightarrow> nat \<Rightarrow> string" where
  "pdf_final n xref = ''trailer'' @ nl @ ''<< /Size '' @ show_nat (Suc n) @ '' /Root 1 0 R >>'' @ nl @
     ''startxref'' @ nl @ show_nat xref @ nl @ ''%%EOF'' @ nl"

text \<open>The objects with their numbers, and the file of them.\<close>

definition pdf_objeto :: "nat \<Rightarrow> string \<Rightarrow> string" where
  "pdf_objeto i texto = show_nat i @ '' 0 obj'' @ nl @ texto @ nl @ ''endobj'' @ nl"

definition pdf_documento :: "string list \<Rightarrow> string" where
  "pdf_documento objects =
     (let obs = map (\<lambda>(i, t). pdf_objeto i t) (enumerate 1 objects);
          cuerpo = pdf_cabecera @ concat obs
      in cuerpo @ pdf_tabla (pdf_offsets (length pdf_cabecera) obs) @ pdf_final (length objects) (length cuerpo))"

definition pdf_stream :: "string \<Rightarrow> string" where
  "pdf_stream s = ''<< /Length '' @ show_nat (length s) @ '' >>'' @ nl @ ''stream'' @ nl @ s"

subsection \<open>The notice of a settlement\<close>

definition pdf_generate :: "liquidacion_payload \<Rightarrow> string" where
  "pdf_generate p =
     (let lines = [''BT'', ''/F1 18 Tf'', ''72 720 Td'', ''(Liquidacion de Expensas) Tj'', ''/F1 12 Tf'',
        ''0 -30 Td (Periodo: '' @ escape_pdf (op_periodo p) @ '') Tj'',
        ''0 -20 Td (Liquidacion ID: '' @ escape_pdf (op_liquidacion p) @ '') Tj'',
        ''0 -20 Td (Consorcio ID: '' @ escape_pdf (op_consorcio p) @ '') Tj'',
        ''0 -40 Td (Documento generado por ConsorcioAbierto) Tj'', ''ET''];
          stream = unir nl lines
      in pdf_documento [
        ''<< /Type /Catalog /Pages 2 0 R >>'',
        ''<< /Type /Pages /Kids [3 0 R] /Count 1 >>'',
        ''<< /Type /Page /Parent 2 0 R /MediaBox [0 0 612 792] /Contents 4 0 R /Resources << /Font << /F1 5 0 R >> >> >>'',
        pdf_stream stream @ nl @ ''endstream'',
        ''<< /Type /Font /Subtype /Type1 /BaseFont /Helvetica >>''])"

subsection \<open>The receipt of a payment\<close>

text \<open>The quotient and the remainder of Go, towards zero, by a positive divisor; \<open>%02d\<close>.\<close>

definition go_div :: "int \<Rightarrow> int \<Rightarrow> int" where
  "go_div a b = (if a < 0 then - ((- a) div b) else a div b)"

definition go_mod :: "int \<Rightarrow> int \<Rightarrow> int" where
  "go_mod a b = a - b * go_div a b"

definition fmt_02d :: "int \<Rightarrow> string" where
  "fmt_02d n = (if n < 0 then ''-'' @ pad 1 (show_nat (nat (- n))) else pad 2 (show_nat (nat n)))"

definition money_to_string :: "int \<Rightarrow> string" where
  "money_to_string cents =
     (if cents < 0 then ''-ARS '' @ show_int (go_div (i64 (- cents)) 100) @ ''.'' @ fmt_02d (go_mod (i64 (- cents)) 100)
      else ''ARS '' @ show_int (go_div cents 100) @ ''.'' @ fmt_02d (go_mod cents 100))"

definition recibo_linea :: "nat \<times> string \<Rightarrow> string" where
  "recibo_linea il = (if 0 < fst il then ''0 -16 Td'' @ nl else '''') @ ''('' @ escape_pdf (snd il) @ '') Tj'' @ nl"

definition build_simple_pdf :: "string list \<Rightarrow> string" where
  "build_simple_pdf lines =
     (let content = ''BT'' @ nl @ ''/F1 12 Tf'' @ nl @ ''72 760 Td'' @ nl @
            concat (map recibo_linea (enumerate 0 lines)) @ ''ET'' @ nl
      in pdf_documento [
        ''<< /Type /Catalog /Pages 2 0 R >>'',
        ''<< /Type /Pages /Kids [3 0 R] /Count 1 >>'',
        ''<< /Type /Page /Parent 2 0 R /MediaBox [0 0 612 792] /Resources << /Font << /F1 4 0 R >> >> /Contents 5 0 R >>'',
        ''<< /Type /Font /Subtype /Type1 /BaseFont /Helvetica >>'',
        pdf_stream content @ ''endstream''])"

definition recibo_lineas :: "acreditacion_dto \<Rightarrow> string list" where
  "recibo_lineas d =
     [''ConsorcioAbierto'', ''Recibo de cobranza'',
      ''Cobranza: '' @ cd_id (ac_cobranza d), ''Unidad: '' @ cd_unidad (ac_cobranza d),
      ''Fecha: '' @ cd_fecha (ac_cobranza d), ''Canal: '' @ cd_canal (ac_cobranza d),
      ''Importe: '' @ money_to_string (md_amount (cd_importe (ac_cobranza d)))] @
     map (\<lambda>a. ''Asignacion '' @ ad_charge a @ '' -> '' @ money_to_string (ad_amount a)) (ac_asignaciones d) @
     [''Saldo a favor: '' @ money_to_string (ac_saldo d)]"

definition build_recibo_pdf :: "acreditacion_dto \<Rightarrow> string" where
  "build_recibo_pdf d = build_simple_pdf (recibo_lineas d)"

subsection \<open>Reading the file\<close>

text \<open>
  The offset of the table is the last number of the file, the line of an object in the table has
  20 bytes, and its first ten digits are the offset of the object.
\<close>

definition pdf_startxref :: "string \<Rightarrow> nat" where
  "pdf_startxref pdf = num (rev (takeWhile digito (drop 7 (rev pdf))))"

definition pdf_lineas :: "string \<Rightarrow> string" where
  "pdf_lineas pdf = tl (dropWhile (\<lambda>c. c \<noteq> CHR 0x0A) (drop 5 (drop (pdf_startxref pdf) pdf)))"

definition pdf_leer_objeto :: "string \<Rightarrow> nat \<Rightarrow> string" where
  "pdf_leer_objeto pdf i = drop (num (take 10 (drop (20 * i) (pdf_lineas pdf)))) pdf"

lemma takeWhile_rev_show_nat:
  "takeWhile digito (rev (show_nat n) @ CHR 0x0A # r) = rev (show_nat n)"
proof -
  have "\<not> digito (CHR 0x0A)" by code_simp
  moreover have "digito c" if "c \<in> set (rev (show_nat n))" for c
    using that digitos_show_nat[of n] by (simp del: digitos_show_nat)
  ultimately show ?thesis by (subst takeWhile_append2) simp_all
qed

lemma pdf_startxref_final:
  assumes "pdf = x @ nl @ show_nat n @ nl @ ''%%EOF'' @ nl"
  shows "pdf_startxref pdf = n"
proof -
  have "drop 7 (rev pdf) = rev (show_nat n) @ CHR 0x0A # rev x"
    by (simp add: assms nl_def)
  then show ?thesis by (simp add: pdf_startxref_def takeWhile_rev_show_nat)
qed

lemma length_pdf_offsets [simp]: "length (pdf_offsets n obs) = length obs"
  by (induction obs arbitrary: n) simp_all

lemma pdf_offsets_le: "off \<in> set (pdf_offsets n obs) \<Longrightarrow> off \<le> n + length (concat obs)"
proof (induction obs arbitrary: n)
  case (Cons ob obs)
  have "off \<in> set (pdf_offsets (n + length ob) obs) \<Longrightarrow> off \<le> n + length ob + length (concat obs)"
    by (rule Cons.IH)
  then show ?case using Cons.prems by auto
qed simp

lemma drop_pdf_offsets:
  "i < length obs \<Longrightarrow> length h = n \<Longrightarrow>
   drop (pdf_offsets n obs ! i) (h @ concat obs @ r) = concat (drop i obs) @ r"
proof (induction obs arbitrary: n i h)
  case (Cons ob obs)
  show ?case
  proof (cases i)
    case (Suc j)
    then show ?thesis using Cons.IH[of j "h @ ob"] Cons.prems by simp
  qed (use Cons.prems in simp)
qed simp

lemma drop_concat_fijo:
  "(\<And>x. x \<in> set xs \<Longrightarrow> length x = k) \<Longrightarrow> i \<le> length xs \<Longrightarrow> drop (k * i) (concat xs) = concat (drop i xs)"
proof (induction xs arbitrary: i)
  case (Cons x xs)
  then show ?case by (cases i) simp_all
qed simp

lemma length_pdf_entrada: "off < 10 ^ 10 \<Longrightarrow> length (pdf_entrada off) = 20"
  by (simp add: pdf_entrada_def length_pad nl_def)

lemma num_pdf_entrada: "off < 10 ^ 10 \<Longrightarrow> num (take 10 (pdf_entrada off @ r)) = off"
  by (simp add: pdf_entrada_def length_pad)

text \<open>
  The table of a file leads to its objects, as long as the offsets have ten digits.
\<close>

lemma pdf_documento_leido:
  assumes "i < length objects" and "length (pdf_documento objects) < 10 ^ 10"
  shows "\<exists>r. pdf_leer_objeto (pdf_documento objects) (Suc i) = pdf_objeto (Suc i) (objects ! i) @ r"
    and "take 4 (drop (pdf_startxref (pdf_documento objects)) (pdf_documento objects)) = ''xref''"
proof -
  define obs where "obs = map (\<lambda>(i, t). pdf_objeto i t) (enumerate 1 objects)"
  define cuerpo where "cuerpo = pdf_cabecera @ concat obs"
  define offs where "offs = pdf_offsets (length pdf_cabecera) obs"
  define tab where "tab = ''0000000000 65535 f '' @ nl @ concat (map pdf_entrada offs)"
  let ?pdf = "pdf_documento objects"
  have len: "length obs = length objects" "length offs = length objects"
    by (simp_all add: obs_def offs_def)
  have pdf: "?pdf = cuerpo @ pdf_tabla offs @ pdf_final (length objects) (length cuerpo)"
    by (simp add: pdf_documento_def Let_def obs_def cuerpo_def offs_def)
  then have sx: "pdf_startxref ?pdf = length cuerpo"
    by (intro pdf_startxref_final[where x = "cuerpo @ pdf_tabla offs @ ''trailer'' @ nl @ ''<< /Size '' @
      show_nat (Suc (length objects)) @ '' /Root 1 0 R >>'' @ nl @ ''startxref''"]) (simp add: pdf_final_def)
  then show "take 4 (drop (pdf_startxref ?pdf) ?pdf) = ''xref''"
    by (simp add: pdf pdf_tabla_def)
  have "\<forall>c \<in> set (show_nat n). c \<noteq> CHR 0x0A" for n
    using digitos_show_nat[of n] by (auto simp: digito_def)
  then have dw: "dropWhile (\<lambda>c. c \<noteq> CHR 0x0A) (''0 '' @ show_nat n @ nl @ r) = nl @ r" for n r
    by (auto simp: dropWhile_append2 nl_def)
  let ?F = "pdf_final (length objects) (length cuerpo)"
  have "drop 5 (drop (length cuerpo) ?pdf) = ''0 '' @ show_nat (Suc (length offs)) @ nl @ tab @ ?F"
    unfolding pdf pdf_tabla_def tab_def by (simp add: nl_def)
  then have lineas: "pdf_lineas ?pdf = tab @ ?F"
    unfolding pdf_lineas_def sx by (simp only: dw) (simp add: nl_def)
  have off: "off < 10 ^ 10" if "off \<in> set offs" for off
    using pdf_offsets_le[of off] that assms(2) by (fastforce simp: offs_def pdf cuerpo_def)
  define h where "h = ''0000000000 65535 f '' @ nl"
  have h: "length h = 20" "tab = h @ concat (map pdf_entrada offs)"
    by (simp_all add: h_def tab_def nl_def)
  then have "drop (20 * Suc i) tab = drop (20 * i) (concat (map pdf_entrada offs))"
    by simp
  also have "\<dots> = concat (drop i (map pdf_entrada offs))"
    by (rule drop_concat_fijo) (use off length_pdf_entrada assms(1) len in auto)
  also have "\<dots> = pdf_entrada (offs ! i) @ concat (drop (Suc i) (map pdf_entrada offs))"
    using assms(1) len by (simp add: Cons_nth_drop_Suc[symmetric])
  finally have e: "drop (20 * Suc i) tab = \<dots>" .
  have "offs ! i \<in> set offs" using assms(1) len by simp
  note o = off[OF this]
  have "length (drop (20 * Suc i) tab) \<ge> 20" using e length_pdf_entrada[OF o] by simp
  then have d: "drop (20 * Suc i) (tab @ r) = drop (20 * Suc i) tab @ r" for r by simp
  have n: "num (take 10 (drop (20 * Suc i) (pdf_lineas ?pdf))) = offs ! i"
    unfolding lineas d e append_assoc by (rule num_pdf_entrada[OF o])
  have "drop (offs ! i) ?pdf = concat (drop i obs) @ pdf_tabla offs @ pdf_final (length objects) (length cuerpo)"
    unfolding offs_def pdf cuerpo_def append_assoc by (rule drop_pdf_offsets) (use assms(1) len in simp_all)
  moreover have "concat (drop i obs) = obs ! i @ concat (drop (Suc i) obs)"
    using assms(1) len by (simp add: Cons_nth_drop_Suc[symmetric])
  moreover have "obs ! i = pdf_objeto (Suc i) (objects ! i)"
    using assms(1) by (simp add: obs_def nth_enumerate_eq)
  ultimately show "\<exists>r. pdf_leer_objeto ?pdf (Suc i) = pdf_objeto (Suc i) (objects ! i) @ r"
    unfolding pdf_leer_objeto_def n by auto
qed

subsection \<open>Reading a page\<close>

text \<open>
  The stream of an object, by its length, and the texts that the operators of the stream show.
\<close>

definition pdf_leer_stream :: "string \<Rightarrow> nat \<Rightarrow> string" where
  "pdf_leer_stream pdf i =
     (let d = drop 11 (tl (dropWhile (\<lambda>c. c \<noteq> CHR 0x0A) (pdf_leer_objeto pdf i)))
      in take (num (takeWhile digito d)) (drop 11 (dropWhile digito d)))"

lemma leer_literal_length: "leer_literal d s = Some (t, r) \<Longrightarrow> length r < length s"
  by (induction d s arbitrary: t r rule: leer_literal.induct) (fastforce split: if_splits list.splits)+

function textos :: "string \<Rightarrow> string list" where
  "textos s = (case dropWhile (\<lambda>c. c \<noteq> CHR 0x28) s of [] \<Rightarrow> []
     | c # cs \<Rightarrow> (case leer_literal 0 cs of None \<Rightarrow> [] | Some (t, r) \<Rightarrow> t # textos r))"
  by auto

termination
proof (relation "measure length", simp)
  fix s c cs p t r
  assume d: "dropWhile (\<lambda>c. c \<noteq> CHR 0x28) s = c # cs" and l: "leer_literal 0 cs = Some p" "(t, r) = p"
  have "length (c # cs) \<le> length s" by (metis d length_dropWhile_le)
  then show "(r, s) \<in> measure length" using leer_literal_length[of 0 cs t r] l by auto
qed

declare textos.simps [simp del]

lemma textos_sin: "\<forall>c \<in> set a. c \<noteq> CHR 0x28 \<Longrightarrow> textos a = []"
  by (simp add: textos.simps[of a] dropWhile_eq_Nil_conv[THEN iffD2])

lemma textos_literal:
  "\<forall>c \<in> set a. c \<noteq> CHR 0x28 \<Longrightarrow> textos (a @ ''('' @ escape_pdf t @ '')'' @ r) = t # textos r"
  using leer_escape[of t r] by (subst textos.simps) (simp add: dropWhile_append2)

lemma escape_pdf_id: "\<forall>c \<in> set s. c \<notin> {CHR 0x5C, CHR 0x28, CHR 0x29} \<Longrightarrow> escape_pdf s = s"
  by (induction s) (auto simp: escape_pdf_Cons)

lemma escape_pdf_append [simp]: "escape_pdf (s @ t) = escape_pdf s @ escape_pdf t"
  by (simp add: escape_pdf_def)

lemma textos_pre: "\<forall>c \<in> set a. c \<noteq> CHR 0x28 \<Longrightarrow> textos (a @ r) = textos r"
  by (subst (1 2) textos.simps) (simp add: dropWhile_append2)

text \<open>The stream of an object is found.\<close>

lemma pdf_stream_leido:
  assumes i: "i < length objects" "objects ! i = pdf_stream s @ suf" and len: "length (pdf_documento objects) < 10 ^ 10"
  shows "pdf_leer_stream (pdf_documento objects) (Suc i) = s"
proof -
  obtain r where r: "pdf_leer_objeto (pdf_documento objects) (Suc i) = pdf_objeto (Suc i) (pdf_stream s @ suf) @ r"
    using pdf_documento_leido(1)[OF i(1) len] i(2) by auto
  have nn: "\<forall>c \<in> set (show_nat n). c \<noteq> CHR 0x0A" for n
    using digitos_show_nat[of n] by (auto simp: digito_def)
  have "dropWhile (\<lambda>c. c \<noteq> CHR 0x0A) (show_nat (Suc i) @ '' 0 obj'' @ nl @ x) = nl @ x" for x
    using nn[of "Suc i"] by (auto simp: dropWhile_append2 nl_def)
  then have d: "drop 11 (tl (dropWhile (\<lambda>c. c \<noteq> CHR 0x0A) (pdf_leer_objeto (pdf_documento objects) (Suc i)))) =
      show_nat (length s) @ '' >>'' @ nl @ ''stream'' @ nl @ s @ suf @ nl @ ''endobj'' @ nl @ r"
    unfolding r pdf_objeto_def append_assoc by (simp add: pdf_stream_def nl_def)
  have dig: "digito c" if "c \<in> set (show_nat (length s))" for c
    using that digitos_show_nat[of "length s"] by (simp del: digitos_show_nat)
  have "\<not> digito (CHR '' '')" by code_simp
  then have "takeWhile digito (show_nat (length s) @ '' >>'' @ x) = show_nat (length s)"
    "dropWhile digito (show_nat (length s) @ '' >>'' @ x) = '' >>'' @ x" for x
    using dig by (subst takeWhile_append2 dropWhile_append2; simp)+
  then show ?thesis
    unfolding pdf_leer_stream_def d by (simp add: nl_def)
qed

lemma textos_lineas:
  "textos (concat (map recibo_linea (enumerate k ls)) @ ''ET'' @ nl) = ls"
proof (induction ls arbitrary: k)
  case Nil
  show ?case by (simp add: textos_sin nl_def)
next
  case (Cons l ls)
  let ?a = "if 0 < k then ''0 -16 Td'' @ nl else ''''"
  let ?r = "concat (map recibo_linea (enumerate (Suc k) ls)) @ ''ET'' @ nl"
  have a: "\<forall>c \<in> set ?a. c \<noteq> CHR 0x28" by (auto simp: nl_def)
  have tj: "textos ('' Tj'' @ nl @ x) = textos x" for x
    using textos_pre[of "'' Tj'' @ nl" x] by (simp add: nl_def)
  have "concat (map recibo_linea (enumerate k (l # ls))) @ ''ET'' @ nl =
      ?a @ ''('' @ escape_pdf l @ '')'' @ '' Tj'' @ nl @ ?r"
    by (simp add: recibo_linea_def)
  then show ?case unfolding textos_literal[OF a] using textos_literal[OF a, of l "'' Tj'' @ nl @ ?r"] tj Cons.IH by simp
qed

text \<open>
  C31. The receipt of a payment is a file that a viewer reads back: the table of the file leads to the
  page, and the page shows exactly the lines of the receipt, whatever characters they have.
\<close>

theorem recibo_leido:
  assumes "length (build_recibo_pdf d) < 10 ^ 10"
  shows "textos (pdf_leer_stream (build_recibo_pdf d) 5) = recibo_lineas d"
proof -
  let ?c = "''BT'' @ nl @ ''/F1 12 Tf'' @ nl @ ''72 760 Td'' @ nl @
    concat (map recibo_linea (enumerate 0 (recibo_lineas d))) @ ''ET'' @ nl"
  have s: "pdf_leer_stream (build_recibo_pdf d) (Suc 4) = ?c"
    using assms unfolding build_recibo_pdf_def build_simple_pdf_def Let_def
    by (intro pdf_stream_leido[where suf = "''endstream''"]) simp_all
  have "textos ?c = textos (concat (map recibo_linea (enumerate 0 (recibo_lineas d))) @ ''ET'' @ nl)"
    using textos_pre[of "''BT'' @ nl @ ''/F1 12 Tf'' @ nl @ ''72 760 Td'' @ nl"] by (simp add: nl_def)
  with s show ?thesis by (simp only: textos_lineas eval_nat_numeral BitM.simps)
qed

lemma aviso_pdf_leido:
  assumes "length (pdf_generate p) < 10 ^ 10"
  shows "textos (pdf_leer_stream (pdf_generate p) 4) =
    [''Liquidacion de Expensas'', ''Periodo: '' @ op_periodo p, ''Liquidacion ID: '' @ op_liquidacion p,
     ''Consorcio ID: '' @ op_consorcio p, ''Documento generado por ConsorcioAbierto'']"
proof -
  let ?t = "[''Liquidacion de Expensas'', ''Periodo: '' @ op_periodo p, ''Liquidacion ID: '' @ op_liquidacion p,
     ''Consorcio ID: '' @ op_consorcio p, ''Documento generado por ConsorcioAbierto'']"
  let ?c = "(''BT'' @ nl @ ''/F1 18 Tf'' @ nl @ ''72 720 Td'' @ nl) @ ''('' @ escape_pdf (?t ! 0) @ '')'' @
    ('' Tj'' @ nl @ ''/F1 12 Tf'' @ nl @ ''0 -30 Td '') @ ''('' @ escape_pdf (?t ! 1) @ '')'' @
    ('' Tj'' @ nl @ ''0 -20 Td '') @ ''('' @ escape_pdf (?t ! 2) @ '')'' @
    ('' Tj'' @ nl @ ''0 -20 Td '') @ ''('' @ escape_pdf (?t ! 3) @ '')'' @
    ('' Tj'' @ nl @ ''0 -40 Td '') @ ''('' @ escape_pdf (?t ! 4) @ '')'' @ ('' Tj'' @ nl @ ''ET'')"
  have "pdf_leer_stream (pdf_generate p) (Suc 3) = ?c"
    unfolding pdf_generate_def Let_def
    by (intro pdf_stream_leido[where suf = "nl @ ''endstream''"])
      (simp, simp add: escape_pdf_Cons, use assms in \<open>simp add: pdf_generate_def Let_def\<close>)
  moreover have "textos ?c = [?t ! 0, ?t ! 1, ?t ! 2, ?t ! 3, ?t ! 4]"
  proof -
    have h: "\<forall>c \<in> set (''BT'' @ nl @ ''/F1 18 Tf'' @ nl @ ''72 720 Td'' @ nl). c \<noteq> CHR 0x28"
      "\<forall>c \<in> set ('' Tj'' @ nl @ ''/F1 12 Tf'' @ nl @ ''0 -30 Td ''). c \<noteq> CHR 0x28"
      "\<forall>c \<in> set ('' Tj'' @ nl @ ''0 -20 Td ''). c \<noteq> CHR 0x28"
      "\<forall>c \<in> set ('' Tj'' @ nl @ ''0 -40 Td ''). c \<noteq> CHR 0x28"
      "\<forall>c \<in> set ('' Tj'' @ nl @ ''ET''). c \<noteq> CHR 0x28"
      by (simp_all add: nl_def)
    show ?thesis by (simp only: textos_literal[OF h(1)] textos_literal[OF h(2)] textos_literal[OF h(3)]
      textos_literal[OF h(4)] textos_sin[OF h(5)])
  qed
  then have "textos ?c = ?t" by simp
  ultimately show ?thesis by (simp only: eval_nat_numeral BitM.simps)
qed

end
