(* ===== verification/Outbox.thy ===== *)
theory Outbox
  imports Notificaciones Pdf
begin

text \<open>
  The worker (\<open>internal/outbox/outbox.go\<close>): every second it claims the pending events of all the
  tenants with \<open>app.claim_pending_outbox_events\<close> (migration 00024) and processes each one in its own
  transaction, as the tenant of the event and without a user.
\<close>

subsection \<open>The table of events\<close>

definition clave_evento :: "outbox_event \<Rightarrow> uuid \<times> uuid" where
  "clave_evento e = (ob_tenant e, ob_id e)"

definition reclamable :: "env \<Rightarrow> outbox_event \<Rightarrow> bool" where
  "reclamable ev e \<longleftrightarrow> ob_estado e \<in> {''pendiente'', ''fallido''} \<and> ob_intentos e < 3 \<and> ob_next e \<le> ahora ev"

definition elegidos :: "env \<Rightarrow> nat \<Rightarrow> db \<Rightarrow> outbox_event list" where
  "elegidos ev limite s = take limite (sort_key ob_created (sort_key ob_id (filter (reclamable ev) (outbox s))))"

definition tomado :: "env \<Rightarrow> outbox_event \<Rightarrow> outbox_event" where
  "tomado ev e = e\<lparr>ob_estado := ''procesando'', ob_intentos := ob_intentos e + 1, ob_updated := ahora ev\<rparr>"

text \<open>The function is of the owner of the tables, so that it sees the events of every tenant.\<close>

definition claim_pending_outbox_events :: "env \<Rightarrow> nat \<Rightarrow> outbox_event list query" where
  "claim_pending_outbox_events ev limite =
     tx_bind (tx_read (elegidos ev limite)) (\<lambda>picked.
     tx_bind (tx_update (\<lambda>e. clave_evento e \<in> set (map clave_evento picked)) (tomado ev) (\<lambda>_. True)
       outbox outbox_update) (\<lambda>_. tx_ret (map (tomado ev) picked)))"

definition mi_evento :: "env \<Rightarrow> uuid \<Rightarrow> outbox_event \<Rightarrow> bool" where
  "mi_evento ev i e \<longleftrightarrow> ob_tenant e = tenant ev \<and> ob_id e = i"

definition mark_outbox_event_processed :: "env \<Rightarrow> uuid \<Rightarrow> unit query" where
  "mark_outbox_event_processed ev i = tx_exec (tx_update (mi_evento ev i)
     (\<lambda>e. e\<lparr>ob_estado := ''procesado'', ob_last_error := '''', ob_updated := ahora ev\<rparr>) (\<lambda>_. True)
     outbox outbox_update)"

definition mark_outbox_event_failed :: "env \<Rightarrow> uuid \<Rightarrow> string \<Rightarrow> ts \<Rightarrow> unit query" where
  "mark_outbox_event_failed ev i error siguiente = tx_exec (tx_update (mi_evento ev i)
     (\<lambda>e. e\<lparr>ob_estado := ''fallido'', ob_last_error := error, ob_next := siguiente, ob_updated := ahora ev\<rparr>)
     (\<lambda>_. True) outbox outbox_update)"

subsection \<open>The events\<close>

text \<open>
  \<open>wk_rls\<close>: the role of the worker's connection is subject to row-level security; \<open>wk_pdf\<close>: the
  generator of documents, which answers the text of an error or the bytes.
\<close>

record worker =
  wk_rls :: bool
  wk_pdf :: "(liquidacion_payload \<Rightarrow> string + string) option"

text \<open>\<open>json.Unmarshal\<close>: the fields that the other type of payload does not have are zero.\<close>

fun leer_payload_comunicado :: "payload \<Rightarrow> comunicado_payload" where
  "leer_payload_comunicado (PComunicado p) = p"
| "leer_payload_comunicado (PLiquidacion p) = \<lparr>oc_comunicado = '''', oc_consorcio = op_consorcio p,
     oc_titulo = '''', oc_cuerpo = '''', oc_destinatarios = 0\<rparr>"

fun leer_payload_liquidacion :: "payload \<Rightarrow> liquidacion_payload" where
  "leer_payload_liquidacion (PLiquidacion p) = p"
| "leer_payload_liquidacion (PComunicado p) = \<lparr>op_liquidacion = '''', op_periodo = '''',
     op_consorcio = oc_consorcio p\<rparr>"

text \<open>The texts, in UTF-8.\<close>

definition disponible :: string where
  "disponible = ''Ya est'' @ [CHR 0xC3, CHR 0xA1] @ '' disponible en el portal.''"

definition titulo_liquidacion :: "string \<Rightarrow> string" where
  "titulo_liquidacion periodo = ''Liquidaci'' @ [CHR 0xC3, CHR 0xB3] @ ''n '' @
     (let p = trim_space periodo in if p \<noteq> '''' then p else ''publicada'')"

definition cuerpo_liquidacion :: "string \<Rightarrow> string" where
  "cuerpo_liquidacion periodo = (let p = trim_space periodo in
     if p \<noteq> '''' then ''Per'' @ [CHR 0xC3, CHR 0xAD] @ ''odo '' @ p @ ''. '' @ disponible else disponible)"

text \<open>
  A failed statement aborts its transaction. The other errors of the worker have a text, which is
  stored with the event; they arise before the transaction writes.
\<close>

fun aborta :: "err \<Rightarrow> bool" where
  "aborta (ErrTexto t) = False"
| "aborta (Dom e) = False"
| "aborta _ = True"

fun err_texto :: "err \<Rightarrow> string" where
  "err_texto (ErrTexto t) = t"
| "err_texto (Dom (ErrLimiteInvalido t)) = ''l'' @ [CHR 0xC3, CHR 0xAD] @ ''mite inv'' @ [CHR 0xC3, CHR 0xA1] @ ''lido: '' @ t"
| "err_texto _ = ''''"

definition envolver :: "string \<Rightarrow> err \<Rightarrow> err" where
  "envolver prefijo e = (if aborta e then e else ErrTexto (prefijo @ err_texto e))"

definition process_publicacion :: "worker \<Rightarrow> env \<Rightarrow> outbox_event \<Rightarrow> unit query" where
  "process_publicacion wk ev e =
     (let p = leer_payload_liquidacion (ob_payload e) in
     tx_bind (tx_some (ErrTexto ''outbox: PDF generator no configurado'') (wk_pdf wk)) (\<lambda>gen.
     tx_bind (case gen p of Inl t \<Rightarrow> tx_fail (ErrTexto (''generar PDF: '' @ t)) | Inr bytes \<Rightarrow> tx_ret bytes) (\<lambda>_.
     tx_bind (tx_catch (envolver (''notificar liquidaci'' @ [CHR 0xC3, CHR 0xB3] @ ''n: ''))
       (notificar_liquidacion (wk_rls wk) ev (op_consorcio p) (op_liquidacion p)
         (titulo_liquidacion (op_periodo p)) (cuerpo_liquidacion (op_periodo p)))) (\<lambda>_.
     tx_ret ()))))"

definition manejar_evento :: "worker \<Rightarrow> env \<Rightarrow> outbox_event \<Rightarrow> unit query" where
  "manejar_evento wk ev e =
     (if ob_type e = ''comunicado.publicado'' then
        let p = leer_payload_comunicado (ob_payload e) in
        tx_exec (notificar_comunicado (wk_rls wk) ev (oc_consorcio p) (oc_comunicado p) (oc_titulo p) (oc_cuerpo p))
      else if ob_type e = ''liquidacion.publicada'' then process_publicacion wk ev e
      else tx_fail (ErrTexto (''evento outbox desconocido: '' @ ob_type e)))"

text \<open>\<open>SetTenant\<close> in a transaction of the worker: the tenant of the event and no user.\<close>

definition env_worker :: "env \<Rightarrow> outbox_event \<Rightarrow> env" where
  "env_worker ev e = ev\<lparr>tenant := ob_tenant e, usuario := None\<rparr>"

text \<open>
  \<open>markFailed\<close> runs in the same transaction: after an error of the database its statement fails too,
  and the transaction is rolled back.
\<close>

definition mark_failed :: "env \<Rightarrow> outbox_event \<Rightarrow> err \<Rightarrow> db \<Rightarrow> err \<times> db" where
  "mark_failed ev e cause s =
     (if aborta cause then (PgAborted, s)
      else case mark_outbox_event_failed ev (ob_id e) (err_texto cause) (reloj ev + 5 * 1000000) s of
        Inl x \<Rightarrow> (x, s)
      | Inr (_, t) \<Rightarrow> (cause, t))"

definition worker_process :: "worker \<Rightarrow> env \<Rightarrow> outbox_event \<Rightarrow> db \<Rightarrow> err option \<times> db" where
  "worker_process wk ev e s =
     (let ev' = env_worker ev e in
      case manejar_evento wk ev' e s of
        Inl cause \<Rightarrow> (let (x, t) = mark_failed ev' e cause s in (Some x, t))
      | Inr (_, t) \<Rightarrow>
          (case mark_outbox_event_processed ev' (ob_id e) t of Inl x \<Rightarrow> (Some x, s) | Inr (_, u) \<Rightarrow> (None, u)))"

text \<open>A tick: claim 25 events, then process them one after another; an error is logged.\<close>

definition worker_drain :: "worker \<Rightarrow> env \<Rightarrow> db \<Rightarrow> db" where
  "worker_drain wk ev s = (case claim_pending_outbox_events ev 25 s of
       Inl _ \<Rightarrow> s
     | Inr (events, t) \<Rightarrow> foldl (\<lambda>u e. snd (worker_process wk ev e u)) t events)"

text \<open>The worker of \<open>apps/worker/main.go\<close>, with the role of its connection.\<close>

definition worker_main :: "bool \<Rightarrow> worker" where
  "worker_main rls = \<lparr>wk_rls = rls, wk_pdf = Some (\<lambda>p. Inr (pdf_generate p))\<rparr>"

end
