(* ===== verification/OutboxPropiedades.thy ===== *)
theory OutboxPropiedades
  imports Outbox LiqCiclo
begin

text \<open>
  The announcements, the settlements that are published, the worker and the readers as one system:
  the requests of every tenant and the transactions of the workers interleave, a worker holds the
  events that it has claimed and loses them when it stops. The invariants of the events, of the
  announcements and of the notices, and what the worker delivers.
\<close>

subsection \<open>The system\<close>

text \<open>A request or a transaction of the worker: its tenant, its user and the clocks.\<close>

definition ambito :: "env \<Rightarrow> uuid \<Rightarrow> uuid option \<Rightarrow> ts \<Rightarrow> ts \<Rightarrow> fecha \<Rightarrow> env" where
  "ambito ev t u a r h = ev\<lparr>tenant := t, usuario := u, ahora := a, reloj := r, hoy := h\<rparr>"

lemma ambito_simps [simp]:
  "tenant (ambito ev t u a r h) = t" "usuario (ambito ev t u a r h) = u" "ahora (ambito ev t u a r h) = a"
  "uuid_show (ambito ev t u a r h) = uuid_show ev" "uuid_gen (ambito ev t u a r h) = uuid_gen ev"
  "uuid_google (ambito ev t u a r h) = uuid_google ev"
  by (simp_all add: ambito_def)

lemma env_ok_ambito [simp]: "env_ok (ambito ev t u a r h) = env_ok ev"
  by (simp add: env_ok_def ambito_def)

lemma env_worker_simps [simp]:
  "tenant (env_worker ev e) = ob_tenant e" "usuario (env_worker ev e) = None" "ahora (env_worker ev e) = ahora ev"
  "uuid_show (env_worker ev e) = uuid_show ev" "uuid_gen (env_worker ev e) = uuid_gen ev"
  "uuid_google (env_worker ev e) = uuid_google ev" "hoy (env_worker ev e) = hoy ev"
  by (simp_all add: env_worker_def)

record mundo =
  base :: db
  mano :: "outbox_event list"

inductive mundo_paso :: "env \<Rightarrow> worker \<Rightarrow> mundo \<Rightarrow> mundo \<Rightarrow> bool" for ev wk where
  crear: "comunicados_create (ambito ev t u a r h) co inp (base m) = Inr (d, s) \<Longrightarrow>
    mundo_paso ev wk m (m\<lparr>base := s\<rparr>)"
| publicar: "comunicados_publish (ambito ev t u a r h) cm key (base m) = Inr (d, s) \<Longrightarrow>
    mundo_paso ev wk m (m\<lparr>base := s\<rparr>)"
| liquidacion: "publicar_liquidacion (ambito ev t u a r h) co li n key (base m) = Inr (ld, s) \<Longrightarrow>
    mundo_paso ev wk m (m\<lparr>base := s\<rparr>)"
| leer: "notificaciones_marcar (ambito ev t u a r h) i (base m) = Inr (nd, s) \<Longrightarrow>
    mundo_paso ev wk m (m\<lparr>base := s\<rparr>)"
| reclamar: "claim_pending_outbox_events (ambito ev t u a r h) limite (base m) = Inr (es, s) \<Longrightarrow>
    mundo_paso ev wk m (m\<lparr>base := s, mano := mano m @ es\<rparr>)"
| procesar: "e \<in> set (mano m) \<Longrightarrow> worker_process wk (ambito ev t u a r h) e (base m) = (x, s) \<Longrightarrow>
    mundo_paso ev wk m (m\<lparr>base := s, mano := removeAll e (mano m)\<rparr>)"
| caida: "mundo_paso ev wk m (m\<lparr>mano := []\<rparr>)"
| otra: "outbox s = outbox (base m) \<Longrightarrow> comunicados s = comunicados (base m) \<Longrightarrow>
    notificaciones s = notificaciones (base m) \<Longrightarrow> mundo_paso ev wk m (m\<lparr>base := s\<rparr>)"

definition mundo_inicial :: "mundo \<Rightarrow> bool" where
  "mundo_inicial m \<longleftrightarrow> outbox (base m) = [] \<and> comunicados (base m) = [] \<and> notificaciones (base m) = [] \<and> mano m = []"

definition mundo_alcanza :: "env \<Rightarrow> worker \<Rightarrow> mundo \<Rightarrow> mundo \<Rightarrow> bool" where
  "mundo_alcanza ev wk = (mundo_paso ev wk)\<^sup>*\<^sup>*"

subsection \<open>What each operation does to the events\<close>

text \<open>A request adds events that are pending, and changes none.\<close>

definition agrega :: "db \<Rightarrow> db \<Rightarrow> bool" where
  "agrega s t \<longleftrightarrow> (\<exists>es. outbox t = outbox s @ es \<and> (\<forall>e \<in> set es. ob_estado e = ''pendiente'' \<and> ob_intentos e = 0)) \<and>
     (distinct (map clave_evento (outbox s)) \<longrightarrow> distinct (map clave_evento (outbox t)))"

interpretation ag: step_rel agrega
proof
  show "agrega s s" for s by (auto simp: agrega_def)
  show "agrega s u" if st: "agrega s t" and tu: "agrega t u" for s t u
  proof -
    obtain es where es: "outbox t = outbox s @ es" "\<forall>e \<in> set es. ob_estado e = ''pendiente'' \<and> ob_intentos e = 0"
      using st by (auto simp: agrega_def)
    obtain fs where fs: "outbox u = outbox t @ fs" "\<forall>e \<in> set fs. ob_estado e = ''pendiente'' \<and> ob_intentos e = 0"
      using tu by (auto simp: agrega_def)
    have "outbox u = outbox s @ (es @ fs)" using es fs by simp
    moreover have "\<forall>e \<in> set (es @ fs). ob_estado e = ''pendiente'' \<and> ob_intentos e = 0" using es fs by auto
    moreover have "distinct (map clave_evento (outbox s)) \<longrightarrow> distinct (map clave_evento (outbox u))"
      using st tu by (simp add: agrega_def)
    ultimately show ?thesis unfolding agrega_def by blast
  qed
qed

lemma agrega_same: "outbox t = outbox s \<Longrightarrow> agrega s t"
  by (simp add: agrega_def)

lemma agrega_evento: "tx_rel agrega (insert_outbox_event ev a b c)"
  unfolding insert_outbox_event_def
  by (rule tx_relI) (auto simp: tx_inv agrega_def clave_evento_def split: if_splits)

text \<open>Operations that touch none of the three tables.\<close>

definition quieto :: "db \<Rightarrow> db \<Rightarrow> bool" where
  "quieto s t \<longleftrightarrow> outbox t = outbox s \<and> comunicados t = comunicados s \<and> notificaciones t = notificaciones s"

interpretation qt: step_rel quieto
  by unfold_locales (simp_all add: quieto_def)

lemma quieto_solo: "tx_rel solo_claves m \<Longrightarrow> tx_rel quieto m"
  by (erule tx_rel_mono) (auto simp: solo_claves_def quieto_def dest!: arg_cong[where f = "\<lambda>s. (outbox s, comunicados s, notificaciones s)"])

lemma quieto_mover: "tx_rel quieto (liq_mover ev P n)"
  by (rule tx_relI) (auto dest!: liq_mover_movida simp: quieto_def)

lemma quieto_ops:
  "tx_rel quieto (get_liquidacion ev co li)" "tx_rel quieto (stamp_si ev scope li key)"
  "tx_rel quieto (transicionar ev n cid lid e scope v co li key)"
  unfolding get_liquidacion_def stamp_si_def stamp_liq_def transicionar_def save_liq_def
    transition_liquidacion_q_def get_liquidacion_q_def
  by (intro qt.rules quieto_mover quieto_solo solo_claves_stamp solo_claves_update rel_row qt.refl)+

lemma quieto_reads:
  "tx_rel quieto (must_parse ev x)" "tx_rel quieto (list_unidades ev a e)" "tx_rel quieto (get_comunicado_q ev a)"
  "tx_rel quieto (insert_idempotency_key ev b c d r)" "tx_rel quieto (get_idempotency_key ev b c)"
  "tx_rel quieto (update_idempotency_key ev r b c)" "tx_rel quieto (aviso_uuid ev x)"
  unfolding must_parse_def list_unidades_def get_comunicado_q_def aviso_uuid_def
  by (intro qt.rules rel_row qt.refl quieto_solo solo_claves_insert solo_claves_get solo_claves_update)+

text \<open>
  A relation that the quiet operations and the event of a settlement keep is kept by the publication
  of a settlement.
\<close>

locale rel_avisos = step_rel R for R :: "db \<Rightarrow> db \<Rightarrow> bool" +
  assumes quieto_R: "quieto s t \<Longrightarrow> R s t"
    and evento_R: "tx_rel R (insert_outbox_event ev c ''liquidacion.publicada'' p)"
begin

lemma tx_quieto: "tx_rel quieto m \<Longrightarrow> tx_rel R m"
  by (erule tx_rel_mono) (rule quieto_R)

lemma hit: "tx_rel R m \<Longrightarrow> tx_rel R (case x of Some d \<Rightarrow> tx_ret d | None \<Rightarrow> m)"
  by (cases x) (simp_all add: ret)

lemma publicar_liquidacion: "tx_rel R (publicar_liquidacion ev co li n key)"
  unfolding publicar_liquidacion_def
  by (intro rules tx_quieto[OF quieto_ops(1)] tx_quieto[OF quieto_ops(2)] tx_quieto[OF quieto_ops(3)] hit evento_R)

lemma guardado: "tx_rel R (comunicado_guardado ev h key)"
  unfolding comunicado_guardado_def
  by (intro rules tx_quieto[OF quieto_reads(4)] tx_quieto[OF quieto_reads(5)])

end

interpretation aga: rel_avisos agrega
  by unfold_locales (auto simp: quieto_def agrega_same intro: agrega_evento)

text \<open>The announcements and the events that publish them.\<close>

definition publicaciones :: "db \<Rightarrow> (uuid \<times> string) list" where
  "publicaciones s = map (\<lambda>e. (ob_tenant e, ob_correlation e)) (filter (\<lambda>e. ob_type e = ''comunicado.publicado'') (outbox s))"

definition marco_com :: "db \<Rightarrow> db \<Rightarrow> bool" where
  "marco_com s t \<longleftrightarrow> comunicados t = comunicados s \<and> publicaciones t = publicaciones s"

interpretation mcom: step_rel marco_com
  by unfold_locales (simp_all add: marco_com_def)

interpretation mca: rel_avisos marco_com
  by unfold_locales (auto simp: quieto_def marco_com_def publicaciones_def insert_outbox_event_def tx_inv
      intro!: tx_relI split: if_splits)

text \<open>The notices are the worker's.\<close>

definition mismos_avisos :: "db \<Rightarrow> db \<Rightarrow> bool" where
  "mismos_avisos s t \<longleftrightarrow> notificaciones t = notificaciones s"

interpretation mav: step_rel mismos_avisos
  by unfold_locales (simp_all add: mismos_avisos_def)

interpretation mva: rel_avisos mismos_avisos
  by unfold_locales (auto simp: quieto_def mismos_avisos_def insert_outbox_event_def tx_inv
      intro!: tx_relI split: if_splits)

lemma mismos_avisos_ops:
  "tx_rel mismos_avisos (comunicados_create ev co inp)" "tx_rel mismos_avisos (comunicados_publish ev cm key)"
proof -
  have q: "tx_rel mismos_avisos (create_comunicado_q ev a b c d e)" "tx_rel mismos_avisos (publish_comunicado_q ev a)"
    "tx_rel mismos_avisos (insert_outbox_event ev b c p)" for a b c d e p
    unfolding create_comunicado_q_def publish_comunicado_q_def get_comunicado_q_def insert_outbox_event_def
    by (intro mav.rules rel_queries; simp add: mismos_avisos_def)+
  note r = quieto_reads[THEN mva.tx_quieto]
  show "tx_rel mismos_avisos (comunicados_create ev co inp)" "tx_rel mismos_avisos (comunicados_publish ev cm key)"
    unfolding comunicados_create_def comunicados_publish_def destinatarios_count_def Let_def
    by (intro mav.rules mva.hit mva.guardado r q)+
qed

lemma agrega_ops:
  "tx_rel agrega (comunicados_create ev co inp)" "tx_rel agrega (comunicados_publish ev cm key)"
proof -
  have q: "tx_rel agrega (create_comunicado_q ev a b c d e)" "tx_rel agrega (publish_comunicado_q ev a)" for a b c d e
    unfolding create_comunicado_q_def publish_comunicado_q_def get_comunicado_q_def
    by (intro ag.rules rel_queries; simp add: agrega_same ag.refl)+
  note r = quieto_reads[THEN aga.tx_quieto]
  show "tx_rel agrega (comunicados_create ev co inp)" "tx_rel agrega (comunicados_publish ev cm key)"
    unfolding comunicados_create_def comunicados_publish_def destinatarios_count_def Let_def
    by (intro ag.rules aga.hit aga.guardado r q agrega_evento)+
qed

lemma agrega_marcar: "tx_rel agrega (notificaciones_marcar ev i)"
  unfolding notificaciones_marcar_def marcar_leida_q_def Let_def
  by (intro ag.rules rel_queries aga.tx_quieto[OF quieto_reads(7)]; simp add: agrega_same ag.refl)

subsection \<open>What the worker does to the events\<close>

definition mismo_outbox :: "db \<Rightarrow> db \<Rightarrow> bool" where
  "mismo_outbox s t \<longleftrightarrow> outbox t = outbox s \<and> comunicados t = comunicados s"

interpretation mo: step_rel mismo_outbox
  by unfold_locales (simp_all add: mismo_outbox_def)

lemma mo_insert: "tx_rel mismo_outbox (insert_notificacion rls ev u a b c d r)"
  unfolding insert_notificacion_def Let_def
  by (intro mo.rules rel_queries; simp add: mismo_outbox_def)

lemma mo_avisar: "tx_rel mismo_outbox (avisar rls ev a b c d r us res)"
  by (induction us arbitrary: res) (simp_all add: mo.ret mo.bind mo_insert)

lemma mo_notificar: "tx_rel mismo_outbox (notificar rls ev a b c d e f)"
  unfolding notificar_def aviso_uuid_def list_destinatarios_def by (intro mo.rules mo_avisar)

lemma mo_manejar: "tx_rel mismo_outbox (manejar_evento wk ev e)"
  unfolding manejar_evento_def process_publicacion_def notificar_comunicado_def notificar_liquidacion_def Let_def
  by (intro mo.rules rel_exec mo_notificar; simp split: sum.split add: mo.rules)

text \<open>A transaction of the worker changes the state of its event, or nothing.\<close>

definition cambio :: "(outbox_event \<Rightarrow> outbox_event) \<Rightarrow> bool" where
  "cambio f \<longleftrightarrow> (\<forall>y. clave_evento (f y) = clave_evento y \<and> ob_type (f y) = ob_type y \<and>
     ob_correlation (f y) = ob_correlation y \<and> ob_intentos (f y) = ob_intentos y \<and>
     ob_estado (f y) \<in> {''procesado'', ''fallido''})"

lemma mi_evento_clave: "mi_evento (env_worker ev e) (ob_id e) = (\<lambda>x. clave_evento x = clave_evento e)"
  by (auto simp: mi_evento_def clave_evento_def fun_eq_iff)

lemma process_cambio:
  assumes "worker_process wk ev e s = (x, t)"
  shows "comunicados t = comunicados s \<and> (outbox t = outbox s \<or>
    (\<exists>f. cambio f \<and> outbox t = upd_where (\<lambda>y. clave_evento y = clave_evento e) f (outbox s)))"
proof (cases "manejar_evento wk (env_worker ev e) e s")
  case (Inl cause)
  then show ?thesis using assms
    by (auto simp: worker_process_def mark_failed_def mark_outbox_event_failed_def tx_exec_def tx_bind_def tx_update_def
        tx_ret_def mi_evento_clave Let_def cambio_def clave_evento_def split: if_splits
        intro!: exI[of _ "\<lambda>e'. e'\<lparr>ob_estado := ''fallido'', ob_last_error := err_texto cause,
          ob_next := reloj (env_worker ev e) + 5000000, ob_updated := ahora ev\<rparr>"])
next
  case (Inr r)
  then obtain u where u: "manejar_evento wk (env_worker ev e) e s = Inr ((), u)" by (cases r) auto
  then have "mismo_outbox s u" using mo_manejar tx_relD by metis
  with u assms show ?thesis
    by (auto simp: worker_process_def mark_outbox_event_processed_def tx_exec_def tx_bind_def tx_update_def
        tx_ret_def mi_evento_clave Let_def cambio_def clave_evento_def mismo_outbox_def
        intro!: exI[of _ "\<lambda>e'. e'\<lparr>ob_estado := ''procesado'', ob_last_error := '''', ob_updated := ahora ev\<rparr>"])
qed

subsection \<open>Attempts\<close>

definition evento_ok :: "outbox_event \<Rightarrow> bool" where
  "evento_ok e \<longleftrightarrow> ob_estado e \<in> {''pendiente'', ''procesando'', ''procesado'', ''fallido''} \<and>
     0 \<le> ob_intentos e \<and> ob_intentos e \<le> 3 \<and> (ob_estado e = ''pendiente'' \<longleftrightarrow> ob_intentos e = 0)"

definition outbox_ok :: "mundo \<Rightarrow> bool" where
  "outbox_ok m \<longleftrightarrow> distinct (map clave_evento (outbox (base m))) \<and> (\<forall>e \<in> set (outbox (base m)). evento_ok e) \<and>
     distinct (map clave_evento (mano m)) \<and> set (mano m) \<subseteq> set (outbox (base m)) \<and>
     (\<forall>e \<in> set (mano m). ob_estado e = ''procesando'')"

lemma outbox_ok_agrega: "agrega (base m) s \<Longrightarrow> outbox_ok m \<Longrightarrow> outbox_ok (m\<lparr>base := s\<rparr>)"
  unfolding agrega_def outbox_ok_def by (auto simp: evento_ok_def)

lemma clave_unica:
  "distinct (map clave_evento es) \<Longrightarrow> x \<in> set es \<Longrightarrow> y \<in> set es \<Longrightarrow> clave_evento x = clave_evento y \<Longrightarrow> x = y"
  by (metis distinct_map inj_onD)

lemma tomado_simps [simp]:
  "clave_evento (tomado ev e) = clave_evento e" "ob_estado (tomado ev e) = ''procesando''"
  "ob_intentos (tomado ev e) = ob_intentos e + 1" "ob_type (tomado ev e) = ob_type e"
  "ob_correlation (tomado ev e) = ob_correlation e" "ob_tenant (tomado ev e) = ob_tenant e"
  "ob_id (tomado ev e) = ob_id e" "ob_payload (tomado ev e) = ob_payload e"
  by (simp_all add: tomado_def clave_evento_def)

lemma elegidos_set: "e \<in> set (elegidos ev n s) \<Longrightarrow> e \<in> set (outbox s) \<and> reclamable ev e"
  by (auto simp: elegidos_def dest: in_set_takeD)

lemma elegidos_distinct: "distinct (map clave_evento (outbox s)) \<Longrightarrow> distinct (map clave_evento (elegidos ev n s))"
proof -
  assume d: "distinct (map clave_evento (outbox s))"
  have "distinct (map clave_evento (sort_key ob_created (sort_key ob_id (filter (reclamable ev) (outbox s)))))"
    using d by (auto simp: distinct_map inj_on_def)
  then show ?thesis unfolding elegidos_def take_map[symmetric] by (rule distinct_take)
qed

lemma claim_Inr:
  "claim_pending_outbox_events ev n s = Inr (es, t) \<longleftrightarrow>
   es = map (tomado ev) (elegidos ev n s) \<and>
   t = s\<lparr>outbox := upd_where (\<lambda>e. clave_evento e \<in> set (map clave_evento (elegidos ev n s))) (tomado ev) (outbox s)\<rparr>"
  by (auto simp: claim_pending_outbox_events_def tx_inv)

text \<open>With distinct keys, the rows that the claim updates are the chosen ones.\<close>

lemma claim_outbox:
  assumes "distinct (map clave_evento (outbox s))"
  shows "upd_where (\<lambda>e. clave_evento e \<in> set (map clave_evento (elegidos ev n s))) (tomado ev) (outbox s) =
    upd_where (\<lambda>e. e \<in> set (elegidos ev n s)) (tomado ev) (outbox s)"
proof -
  have "clave_evento e \<in> set (map clave_evento (elegidos ev n s)) \<longleftrightarrow> e \<in> set (elegidos ev n s)"
    if e: "e \<in> set (outbox s)" for e
  proof
    assume "clave_evento e \<in> set (map clave_evento (elegidos ev n s))"
    then obtain x where x: "x \<in> set (elegidos ev n s)" "clave_evento x = clave_evento e" by auto
    then have "x = e" using clave_unica[OF assms _ e] elegidos_set by blast
    with x show "e \<in> set (elegidos ev n s)" by simp
  qed simp
  then show ?thesis unfolding upd_where_def by (intro map_cong[OF refl]) presburger
qed

lemma outbox_ok_reclamar:
  assumes ok: "outbox_ok m" and c: "claim_pending_outbox_events ev n (base m) = Inr (es, s)"
  shows "outbox_ok (m\<lparr>base := s, mano := mano m @ es\<rparr>)"
proof -
  let ?E = "elegidos ev n (base m)"
  have d: "distinct (map clave_evento (outbox (base m)))" and
    o: "\<And>e. e \<in> set (outbox (base m)) \<Longrightarrow> evento_ok e" and
    h: "distinct (map clave_evento (mano m))" "\<And>e. e \<in> set (mano m) \<Longrightarrow> e \<in> set (outbox (base m)) \<and> ob_estado e = ''procesando''"
    using ok unfolding outbox_ok_def by blast+
  have s: "outbox s = upd_where (\<lambda>e. e \<in> set ?E) (tomado ev) (outbox (base m))" and es: "es = map (tomado ev) ?E"
    using c claim_outbox[OF d] by (auto simp: claim_Inr)
  have E: "e \<in> set (outbox (base m))" "ob_estado e \<in> {''pendiente'', ''fallido''}" "ob_intentos e < 3"
    if "e \<in> set ?E" for e
    using elegidos_set[OF that] by (auto simp: reclamable_def)
  have keys: "map clave_evento (outbox s) = map clave_evento (outbox (base m))"
    unfolding s by (rule map_upd_where_same) simp
  have "evento_ok (tomado ev e)" if "e \<in> set ?E" for e
    using o[OF E(1)[OF that]] E(3)[OF that] by (simp add: evento_ok_def)
  then have ok1: "\<forall>e \<in> set (outbox s). evento_ok e"
    using o unfolding s set_upd_where by auto
  have m: "e \<notin> set ?E" if "e \<in> set (mano m)" for e
    using h(2)[OF that] E(2)[of e] by auto
  have m': "e \<in> set (outbox s)" if "e \<in> set (mano m)" for e
    using h(2)[OF that] m[OF that] unfolding s set_upd_where by (intro image_eqI[where x = e]) simp_all
  have n': "tomado ev e \<in> set (outbox s)" if "e \<in> set ?E" for e
    using E(1)[OF that] that unfolding s set_upd_where by (intro image_eqI[where x = e]) simp_all
  have di: "distinct (map clave_evento (mano m @ es))"
  proof -
    have "clave_evento x \<noteq> clave_evento e" if "x \<in> set (mano m)" "e \<in> set ?E" for x e
      using clave_unica[OF d, of x e] h(2)[OF that(1)] that m E(1) by blast
    then have "clave_evento ` set (mano m) \<inter> clave_evento ` set ?E = {}" by blast
    moreover have "map clave_evento es = map clave_evento ?E" by (simp add: es)
    ultimately show ?thesis
      using h(1) elegidos_distinct[OF d, of ev n] by (simp del: distinct_map)
  qed
  show ?thesis
    unfolding outbox_ok_def
  proof (intro conjI ballI subsetI)
    show "distinct (map clave_evento (outbox (base (m\<lparr>base := s, mano := mano m @ es\<rparr>))))" using d by (simp add: keys)
    show "evento_ok e" if "e \<in> set (outbox (base (m\<lparr>base := s, mano := mano m @ es\<rparr>)))" for e using ok1 that by simp
    show "distinct (map clave_evento (mano (m\<lparr>base := s, mano := mano m @ es\<rparr>)))" using di by simp
    fix e assume "e \<in> set (mano (m\<lparr>base := s, mano := mano m @ es\<rparr>))"
    then have "e \<in> set (mano m) \<or> (\<exists>x \<in> set ?E. e = tomado ev x)" by (auto simp: es)
    then show "e \<in> set (outbox (base (m\<lparr>base := s, mano := mano m @ es\<rparr>)))" "ob_estado e = ''procesando''"
      using m' n' h(2) by auto
  qed
qed

lemma outbox_ok_procesar:
  assumes ok: "outbox_ok m" and e: "e \<in> set (mano m)" and p: "worker_process wk ev e (base m) = (x, s)"
  shows "outbox_ok (m\<lparr>base := s, mano := removeAll e (mano m)\<rparr>)"
proof -
  have d: "distinct (map clave_evento (outbox (base m)))" and
    o: "\<And>e. e \<in> set (outbox (base m)) \<Longrightarrow> evento_ok e" and
    h: "distinct (map clave_evento (mano m))" "\<And>e. e \<in> set (mano m) \<Longrightarrow> e \<in> set (outbox (base m)) \<and> ob_estado e = ''procesando''"
    using ok unfolding outbox_ok_def by blast+
  have dm: "distinct (map clave_evento (removeAll e (mano m)))"
    using h(1) by (simp add: removeAll_filter_not_eq distinct_map_filter)
  from process_cambio[OF p] consider "outbox s = outbox (base m)"
    | f where "cambio f" "outbox s = upd_where (\<lambda>y. clave_evento y = clave_evento e) f (outbox (base m))"
    by blast
  then show ?thesis
  proof cases
    case 1
    then show ?thesis using d o h dm unfolding outbox_ok_def by auto
  next
    case (2 f)
    have keys: "map clave_evento (outbox s) = map clave_evento (outbox (base m))"
      unfolding 2(2) by (rule map_upd_where_same) (use 2(1) in \<open>simp add: cambio_def\<close>)
    have "evento_ok (f y)" if "y \<in> set (outbox (base m))" "clave_evento y = clave_evento e" for y
    proof -
      have "y = e" using clave_unica[OF d that(1) _ that(2)] h(2)[OF e] by simp
      then have "ob_intentos y \<noteq> 0" using h(2)[OF e] o[of e] by (auto simp: evento_ok_def)
      moreover have "ob_estado (f y) = ''procesado'' \<or> ob_estado (f y) = ''fallido''" "ob_intentos (f y) = ob_intentos y"
        using 2(1) by (auto simp: cambio_def)
      ultimately show ?thesis using o[OF that(1)] by (auto simp: evento_ok_def)
    qed
    then have ok1: "evento_ok y" if "y \<in> set (outbox s)" for y
      using that o unfolding 2(2) set_upd_where by (auto split: if_splits)
    have m: "y \<in> set (outbox s)" if "y \<in> set (mano m)" "y \<noteq> e" for y
    proof -
      have "clave_evento y \<noteq> clave_evento e" using clave_unica[OF h(1) that(1) e] that(2) by blast
      then show ?thesis using h(2)[OF that(1)] unfolding 2(2) set_upd_where by (intro image_eqI[where x = y]) simp_all
    qed
    show ?thesis unfolding outbox_ok_def using d keys ok1 dm m h(2) by auto
  qed
qed

lemma outbox_ok_paso: "mundo_paso ev wk m m' \<Longrightarrow> outbox_ok m \<Longrightarrow> outbox_ok m'"
proof (induction rule: mundo_paso.induct)
  case (caida m)
  then show ?case by (simp add: outbox_ok_def)
next
  case (otra s m)
  then show ?case by (simp add: outbox_ok_def)
qed (auto intro: outbox_ok_reclamar outbox_ok_procesar outbox_ok_agrega dest: agrega_ops[THEN tx_relD]
    aga.publicar_liquidacion[THEN tx_relD] agrega_marcar[THEN tx_relD])

lemma outbox_ok_alcanza: "mundo_alcanza ev wk m m' \<Longrightarrow> outbox_ok m \<Longrightarrow> outbox_ok m'"
  unfolding mundo_alcanza_def by (induction rule: rtranclp_induct) (auto intro: outbox_ok_paso)

lemma outbox_ok_inicial: "mundo_inicial m \<Longrightarrow> outbox_ok m"
  by (simp add: mundo_inicial_def outbox_ok_def)


subsection \<open>Final events\<close>

definition fuera :: "outbox_event \<Rightarrow> mundo \<Rightarrow> bool" where
  "fuera e m \<longleftrightarrow> e \<in> set (outbox (base m)) \<and> e \<notin> set (mano m) \<and>
     \<not> (ob_estado e \<in> {''pendiente'', ''fallido''} \<and> ob_intentos e < 3)"

lemma fuera_paso:
  assumes "mundo_paso ev wk m m'" and ok: "outbox_ok m" and f: "fuera e m"
  shows "fuera e m'"
proof -
  have d: "distinct (map clave_evento (outbox (base m)))" and
    h: "\<And>e. e \<in> set (mano m) \<Longrightarrow> e \<in> set (outbox (base m))"
    using ok unfolding outbox_ok_def by blast+
  have ag: "fuera e (m\<lparr>base := s\<rparr>)" if "agrega (base m) s" for s
    using that f by (auto simp: agrega_def fuera_def)
  show ?thesis using assms(1)
  proof cases
    case (reclamar t u a r h limite es s)
    let ?E = "elegidos (ambito ev t u a r h) limite (base m)"
    have s: "outbox s = upd_where (\<lambda>x. x \<in> set ?E) (tomado (ambito ev t u a r h)) (outbox (base m))"
      and es: "es = map (tomado (ambito ev t u a r h)) ?E"
      using reclamar(2) claim_outbox[OF d] by (auto simp: claim_Inr)
    have n: "e \<notin> set ?E" using f elegidos_set by (fastforce simp: fuera_def reclamable_def)
    then have "e \<in> set (outbox s)"
      using f unfolding s set_upd_where fuera_def by (intro image_eqI[where x = e]) simp_all
    moreover have "e \<notin> set es"
    proof
      assume "e \<in> set es"
      then obtain x where x: "x \<in> set ?E" "e = tomado (ambito ev t u a r h) x" by (auto simp: es)
      have "clave_evento x = clave_evento e" unfolding x(2) by simp
      then have "x = e" using clave_unica[OF d] elegidos_set[OF x(1)] f unfolding fuera_def by blast
      with x(1) n show False by simp
    qed
    ultimately show ?thesis using f reclamar(1) by (simp add: fuera_def)
  next
    case (procesar e' t u a r h x s)
    then have e': "e' \<in> set (outbox (base m))" "e \<noteq> e'" using h f by (auto simp: fuera_def)
    then have "clave_evento e \<noteq> clave_evento e'" using clave_unica[OF d, of e e'] f by (auto simp: fuera_def)
    then have "e \<in> set (upd_where (\<lambda>y. clave_evento y = clave_evento e') g (outbox (base m)))" for g
      using f unfolding set_upd_where fuera_def by (intro image_eqI[where x = e]) simp_all
    then have "e \<in> set (outbox s)"
      using process_cambio[OF procesar(3)] f unfolding fuera_def by metis
    then show ?thesis using f procesar(1) by (simp add: fuera_def)
  next
    case (crear t u a r h co inp d s)
    then show ?thesis using ag tx_relD[OF agrega_ops(1)] by blast
  next
    case (publicar t u a r h cm key d s)
    then show ?thesis using ag tx_relD[OF agrega_ops(2)] by blast
  next
    case (liquidacion t u a r h co li n key ld s)
    then show ?thesis using ag tx_relD[OF aga.publicar_liquidacion] by blast
  next
    case (leer t u a r h i nd s)
    then show ?thesis using ag tx_relD[OF agrega_marcar] by blast
  next
    case caida
    then show ?thesis using f by (simp add: fuera_def)
  next
    case (otra s)
    then show ?thesis using ag agrega_same by simp
  qed
qed

lemma fuera_alcanza:
  "mundo_alcanza ev wk m m' \<Longrightarrow> outbox_ok m \<Longrightarrow> fuera e m \<Longrightarrow> fuera e m'"
  unfolding mundo_alcanza_def
proof (induction rule: rtranclp_induct)
  case (step y z)
  then have "outbox_ok y" using outbox_ok_alcanza by (auto simp: mundo_alcanza_def)
  then show ?case using step fuera_paso by blast
qed

text \<open>
  C24. An event that is processed, that has failed three times, or that was being processed by a worker
  that stopped, is never touched again: a lost event is neither retried nor marked as failed.
\<close>

theorem evento_final:
  assumes "mundo_inicial m0" and "mundo_alcanza ev wk m0 m" and "mundo_alcanza ev wk m m'"
    and e: "e \<in> set (outbox (base m))"
    and "ob_estado e = ''procesado'' \<or> ob_estado e = ''fallido'' \<and> ob_intentos e = 3 \<or>
      ob_estado e = ''procesando'' \<and> e \<notin> set (mano m)"
  shows "e \<in> set (outbox (base m')) \<and> e \<notin> set (mano m')"
proof -
  have ok: "outbox_ok m" using outbox_ok_alcanza[OF assms(2) outbox_ok_inicial[OF assms(1)]] .
  then have "fuera e m" using assms(4,5) by (auto simp: fuera_def outbox_ok_def)
  then show ?thesis using fuera_alcanza[OF assms(3) ok] by (simp add: fuera_def)
qed

end
