(* ===== verification/Avisos.thy ===== *)
theory Avisos
  imports OutboxPropiedades
begin

text \<open>
  What the neighbours receive: an announcement is published with one event, a notice is unique for
  its user and its publication, an event that is processed notifies everyone with a current link,
  and under row-level security nobody is ever notified.
\<close>

subsection \<open>One event for an announcement\<close>

definition clave_com :: "env \<Rightarrow> comunicado \<Rightarrow> uuid \<times> string" where
  "clave_com ev c = (cm_tenant c, uuid_show ev (cm_id c))"

definition com_ok :: "env \<Rightarrow> db \<Rightarrow> bool" where
  "com_ok ev s \<longleftrightarrow> distinct (map (clave_com ev) (comunicados s)) \<and>
     (\<forall>c \<in> set (comunicados s). trim_space (cm_titulo c) \<noteq> '''' \<and>
        count_list (publicaciones s) (clave_com ev c) = (if cm_estado c = ''publicado'' then 1 else 0)) \<and>
     set (publicaciones s) \<subseteq> clave_com ev ` set (comunicados s)"

lemma com_ok_marco: "marco_com s t \<Longrightarrow> com_ok ev s \<Longrightarrow> com_ok ev t"
  by (simp add: com_ok_def marco_com_def)

lemma com_ok_ambito [simp]: "com_ok (ambito ev t u a r h) = com_ok ev"
proof -
  have k: "clave_com (ambito ev t u a r h) = clave_com ev" by (simp add: fun_eq_iff clave_com_def)
  have "com_ok (ambito ev t u a r h) s = com_ok ev s" for s
    unfolding com_ok_def k by (rule refl)
  then show ?thesis by (simp add: fun_eq_iff)
qed

lemma create_Inr:
  assumes "comunicados_create ev co inp s = Inr (d, t)"
  shows "\<exists>c. comunicados t = comunicados s @ [c] \<and> outbox t = outbox s \<and> cm_tenant c = tenant ev \<and>
    cm_estado c = ''borrador'' \<and> trim_space (cm_titulo c) \<noteq> '''' \<and>
    (\<forall>x \<in> set (comunicados s). cm_tenant x = tenant ev \<longrightarrow> cm_id x \<noteq> cm_id c)"
  using assms
  by (auto simp: comunicados_create_def create_comunicado_q_def destinatarios_count_def must_parse_def
      list_unidades_def Let_def tx_inv split: if_splits)

lemma com_ok_create:
  assumes e: "env_ok ev" and c: "comunicados_create ev co inp s = Inr (d, t)" and ok: "com_ok ev s"
  shows "com_ok ev t"
proof -
  obtain c where c: "comunicados t = comunicados s @ [c]" "outbox t = outbox s" "cm_tenant c = tenant ev"
    "cm_estado c = ''borrador''" "trim_space (cm_titulo c) \<noteq> ''''"
    "\<forall>x \<in> set (comunicados s). cm_tenant x = tenant ev \<longrightarrow> cm_id x \<noteq> cm_id c"
    using create_Inr[OF c] by blast
  have p: "publicaciones t = publicaciones s" by (simp add: publicaciones_def c(2))
  have n: "clave_com ev c \<notin> clave_com ev ` set (comunicados s)"
    using c(3,6) uuid_show_inj[OF e] by (fastforce simp: clave_com_def)
  then have "count_list (publicaciones s) (clave_com ev c) = 0"
    using ok by (auto simp: com_ok_def count_list_0_iff)
  then show ?thesis using ok n c(1,4,5) by (auto simp: com_ok_def p)
qed

text \<open>A publication: the answer is from the key, or the announcement was out, or it goes out with its event.\<close>

lemma guardado_solo: "tx_rel solo_claves (comunicado_guardado ev h key)"
  unfolding comunicado_guardado_def
  by (intro sk.rules solo_claves_insert solo_claves_get)

lemma solo_claves_campos:
  assumes "solo_claves s t"
  shows "comunicados t = comunicados s" "outbox t = outbox s" "notificaciones t = notificaciones s"
    "unidades t = unidades s" "vinculos t = vinculos s" "personas t = personas s"
  using assms by (auto simp: solo_claves_def dest!: arg_cong[where f = "\<lambda>s. (comunicados s, outbox s,
    notificaciones s, unidades s, vinculos s, personas s)"])

definition evento_de :: "env \<Rightarrow> comunicado \<Rightarrow> outbox_event \<Rightarrow> bool" where
  "evento_de ev c e \<longleftrightarrow> ob_tenant e = tenant ev \<and> ob_type e = ''comunicado.publicado'' \<and>
     ob_correlation e = uuid_show ev (cm_id c) \<and> ob_payload e = comunicado_evento ev c \<and> ob_estado e = ''pendiente''"

lemma insert_outbox_Inr:
  "insert_outbox_event ev a b p s = Inr (e, t) \<Longrightarrow>
   t = s\<lparr>outbox := outbox s @ [e], seq := Suc (seq s)\<rparr> \<and> ob_tenant e = tenant ev \<and> ob_correlation e = a \<and>
   ob_type e = b \<and> ob_payload e = p \<and> ob_estado e = ''pendiente''"
  by (auto simp: insert_outbox_event_def tx_inv split: if_splits)

lemma publish_q_Inr:
  "publish_comunicado_q ev cid s = Inr (row, t) \<Longrightarrow> List.find (mi_comunicado ev cid) (comunicados s) = Some c \<Longrightarrow>
   row = publicada ev c \<and> t = s\<lparr>comunicados := upd_where (mi_comunicado ev cid) (publicada ev) (comunicados s)\<rparr>"
  by (auto simp: publish_comunicado_q_def get_comunicado_q_def tx_inv)

lemma publish_Inr:
  assumes run: "comunicados_publish ev cm key s = Inr (d, t)"
  obtains (igual) "comunicados t = comunicados s" "outbox t = outbox s"
  | (sale) cid c e where "uuid_google ev cm = Some cid" "List.find (mi_comunicado ev cid) (comunicados s) = Some c"
      "cm_estado c \<noteq> ''publicado''"
      "comunicados t = upd_where (mi_comunicado ev cid) (publicada ev) (comunicados s)"
      "outbox t = outbox s @ [e]" "evento_de ev (publicada ev c) e"
      "d = comunicado_dto_de ev (publicada ev c)" "notificaciones t = notificaciones s"
      "unidades t = unidades s \<and> vinculos t = vinculos s \<and> personas t = personas s"
proof -
  obtain hit s1 where h: "comunicado_guardado ev (comunicado_hash cm key) key s = Inr (hit, s1)"
    using run by (auto simp: comunicados_publish_def tx_inv)
  note so = solo_claves_campos[OF tx_relD[OF guardado_solo h]]
  show ?thesis
  proof (cases hit)
    case (Some c)
    then have "t = s1" using run h by (auto simp: comunicados_publish_def tx_inv)
    then show ?thesis using igual so by simp
  next
    case None
    obtain cid c s2 row where c: "uuid_google ev cm = Some cid"
      "List.find (mi_comunicado ev cid) (comunicados s1) = Some c" and
      r: "(if cm_estado c \<noteq> ''publicado'' then
           tx_bind (publish_comunicado_q ev cid) (\<lambda>row.
           tx_bind (insert_outbox_event ev (uuid_show ev (cm_id row)) ''comunicado.publicado''
             (comunicado_evento ev row)) (\<lambda>_. tx_ret row))
         else tx_ret c) s1 = Inr (row, s2)" and
      u: "update_idempotency_key ev (RComunicado (comunicado_dto_de ev row)) ''comunicaciones.publish'' key s2 = Inr ((), t)"
      "d = comunicado_dto_de ev row"
      using run h None by (auto simp: comunicados_publish_def tx_inv must_parse_def get_comunicado_q_def Let_def)
    note su = solo_claves_campos[OF tx_relD[OF solo_claves_update u(1)]]
    show ?thesis
    proof (cases "cm_estado c = ''publicado''")
      case True
      then have "s2 = s1" using r by simp
      then show ?thesis using igual so su by simp
    next
      case False
      then obtain s3 e where p: "publish_comunicado_q ev cid s1 = Inr (row, s3)" and
        i: "insert_outbox_event ev (uuid_show ev (cm_id row)) ''comunicado.publicado'' (comunicado_evento ev row) s3 = Inr (e, s2)"
        using r by (auto simp: tx_inv)
      note p' = publish_q_Inr[OF p c(2)]
      note i' = insert_outbox_Inr[OF i]
      have "evento_de ev (publicada ev c) e" using i' p' by (simp add: evento_de_def)
      then show ?thesis using sale[of cid c e] False c so su u(2) p' i' by simp
    qed
  qed
qed

lemma publicada_simps [simp]:
  "cm_tenant (publicada ev c) = cm_tenant c" "cm_id (publicada ev c) = cm_id c" "cm_titulo (publicada ev c) = cm_titulo c"
  "cm_estado (publicada ev c) = ''publicado''" "cm_consorcio (publicada ev c) = cm_consorcio c"
  "clave_com ev' (publicada ev c) = clave_com ev' c" "cm_cuerpo (publicada ev c) = cm_cuerpo c"
  by (simp_all add: publicada_def clave_com_def)

lemma com_ok_publish:
  assumes e: "env_ok ev" and run: "comunicados_publish ev cm key s = Inr (d, t)" and ok: "com_ok ev s"
  shows "com_ok ev t"
  using run
proof (cases rule: publish_Inr)
  case igual
  then show ?thesis using ok by (auto intro: com_ok_marco simp: marco_com_def publicaciones_def)
next
  case (sale cid c ob)
  have c: "c \<in> set (comunicados s)" "cm_tenant c = tenant ev" "cm_id c = cid"
    using find_SomeD[OF sale(2)] by (auto simp: mi_comunicado_def)
  have mine: "mi_comunicado ev cid x \<longleftrightarrow> clave_com ev x = clave_com ev c" for x
    using c(2,3) uuid_show_inj[OF e] by (auto simp: mi_comunicado_def clave_com_def)
  have p: "publicaciones t = publicaciones s @ [clave_com ev c]"
    using sale(5,6) c by (simp add: publicaciones_def evento_de_def clave_com_def)
  have k: "map (clave_com ev) (comunicados t) = map (clave_com ev) (comunicados s)"
    unfolding sale(4) by (rule map_upd_where_same) simp
  then have ks: "clave_com ev ` set (comunicados t) = clave_com ev ` set (comunicados s)"
    by (metis list.set_map)
  have "trim_space (cm_titulo y) \<noteq> '''' \<and>
    count_list (publicaciones t) (clave_com ev y) = (if cm_estado y = ''publicado'' then 1 else 0)"
    if y: "y \<in> set (comunicados t)" for y
  proof -
    obtain x where x: "x \<in> set (comunicados s)" "y = (if mi_comunicado ev cid x then publicada ev x else x)"
      using y unfolding sale(4) set_upd_where by blast
    show ?thesis
    proof (cases "mi_comunicado ev cid x")
      case True
      then have "x = c" using mine x(1) c(1) ok by (auto simp: com_ok_def distinct_map dest: inj_onD)
      then show ?thesis using x ok c(1) sale(3) True by (simp add: p com_ok_def)
    next
      case False
      then show ?thesis using x ok mine by (simp add: p com_ok_def)
    qed
  qed
  then show ?thesis using ok k ks c(1) unfolding com_ok_def p by auto
qed

lemma publicaciones_upd:
  "(\<And>y. ob_type (f y) = ob_type y \<and> ob_tenant (f y) = ob_tenant y \<and> ob_correlation (f y) = ob_correlation y) \<Longrightarrow>
   publicaciones (s\<lparr>outbox := upd_where P f (outbox s)\<rparr>) = publicaciones s"
proof -
  assume f: "\<And>y. ob_type (f y) = ob_type y \<and> ob_tenant (f y) = ob_tenant y \<and> ob_correlation (f y) = ob_correlation y"
  have "filter (\<lambda>e. ob_type e = ''comunicado.publicado'') (upd_where P f (outbox s)) =
    upd_where P f (filter (\<lambda>e. ob_type e = ''comunicado.publicado'') (outbox s))"
    by (rule filter_upd_where) (simp add: f)
  then show ?thesis unfolding publicaciones_def by (simp add: map_upd_where_same f)
qed

lemma com_ok_paso: "mundo_paso ev wk m m' \<Longrightarrow> env_ok ev \<Longrightarrow> com_ok ev (base m) \<Longrightarrow> com_ok ev (base m')"
proof (induction rule: mundo_paso.induct)
  case (crear t u a r h co inp m d s)
  then show ?case using com_ok_create[OF _ crear(1)] by simp
next
  case (publicar t u a r h cm key m d s)
  then show ?case using com_ok_publish[OF _ publicar(1)] by simp
next
  case (liquidacion t u a r h co li n key m ld s)
  then show ?case using com_ok_marco tx_relD[OF mca.publicar_liquidacion] by fastforce
next
  case (leer t u a r h i m nd s)
  have "tx_rel marco_com (notificaciones_marcar ev' i)" for ev'
    unfolding notificaciones_marcar_def marcar_leida_q_def Let_def
    by (intro mcom.rules rel_queries mca.tx_quieto[OF quieto_reads(7)]; simp add: marco_com_def publicaciones_def)
  then show ?case using leer com_ok_marco tx_relD by fastforce
next
  case (reclamar t u a r h limite m es s)
  then have "marco_com (base m) s"
    by (auto simp: claim_Inr marco_com_def intro!: publicaciones_upd)
  then show ?case using reclamar com_ok_marco by auto
next
  case (procesar e m t u a r h x s)
  have "publicaciones s = publicaciones (base m)"
  proof -
    from process_cambio[OF procesar(2)] consider "outbox s = outbox (base m)"
      | f where "cambio f" "outbox s = upd_where (\<lambda>y. clave_evento y = clave_evento e) f (outbox (base m))"
      by blast
    then show ?thesis
    proof cases
      case (2 f)
      have "publicaciones s = publicaciones ((base m)\<lparr>outbox := upd_where (\<lambda>y. clave_evento y = clave_evento e) f (outbox (base m))\<rparr>)"
        by (simp add: publicaciones_def 2(2))
      also have "\<dots> = publicaciones (base m)"
        by (rule publicaciones_upd) (use 2(1) in \<open>simp add: cambio_def clave_evento_def\<close>)
      finally show ?thesis .
    qed (simp add: publicaciones_def)
  qed
  then show ?case using procesar com_ok_marco process_cambio[OF procesar(2)] by (auto simp: marco_com_def)
next
  case (otra s m)
  then show ?case using com_ok_marco by (auto simp: marco_com_def publicaciones_def)
qed simp

lemma com_ok_alcanza: "mundo_alcanza ev wk m m' \<Longrightarrow> env_ok ev \<Longrightarrow> com_ok ev (base m) \<Longrightarrow> com_ok ev (base m')"
  unfolding mundo_alcanza_def by (induction rule: rtranclp_induct) (auto intro: com_ok_paso)

text \<open>
  C16. In every reachable state a published announcement has exactly one event for the worker, whatever
  requests were repeated and with whatever keys, and a draft has none.
\<close>

theorem un_evento_por_comunicado:
  assumes "env_ok ev" and "mundo_inicial m0" and "mundo_alcanza ev wk m0 m" and c: "c \<in> set (comunicados (base m))"
  shows "length (filter (\<lambda>e. ob_type e = ''comunicado.publicado'' \<and> ob_tenant e = cm_tenant c \<and>
      ob_correlation e = uuid_show ev (cm_id c)) (outbox (base m))) =
    (if cm_estado c = ''publicado'' then 1 else 0)"
proof -
  have "com_ok ev (base m0)" using assms(2) by (simp add: com_ok_def mundo_inicial_def publicaciones_def)
  then have "count_list (publicaciones (base m)) (clave_com ev c) = (if cm_estado c = ''publicado'' then 1 else 0)"
    using com_ok_alcanza[OF assms(3,1)] c by (simp add: com_ok_def)
  moreover have "count_list (publicaciones s) (t, x) = length (filter (\<lambda>e. ob_type e = ''comunicado.publicado'' \<and>
      ob_tenant e = t \<and> ob_correlation e = x) (outbox s))" for s t x
    unfolding publicaciones_def count_list_eq_length_filter filter_map length_map filter_filter comp_def
    by (rule arg_cong[where f = length], rule filter_cong) auto
  ultimately show ?thesis by (simp add: clave_com_def)
qed

subsection \<open>A notice for a user and a publication\<close>

definition avisos_distintos :: "db \<Rightarrow> bool" where
  "avisos_distintos s \<longleftrightarrow> distinct (map clave_aviso (notificaciones s)) \<and> (\<forall>n \<in> set (notificaciones s). n_recurso n \<noteq> None)"

lemma avisos_mismos: "tx_rel mismos_avisos m \<Longrightarrow> tx_rel (keeps avisos_distintos) m"
  by (erule tx_rel_mono) (simp add: keeps_def avisos_distintos_def mismos_avisos_def)

lemma insert_notificacion_Inr:
  "insert_notificacion rls ev u tipo titulo cuerpo rtype r s = Inr (x, t) \<Longrightarrow>
   (notificaciones t = notificaciones s \<or>
    (\<exists>n. notificaciones t = notificaciones s @ [n] \<and> clave_aviso n = (tenant ev, u, tipo, Some r) \<and>
       n_recurso n = Some r \<and> (\<forall>y \<in> set (notificaciones s). clave_aviso y \<noteq> clave_aviso n))) \<and>
   (rls \<longrightarrow> usuario ev = Some u)"
  by (auto simp: insert_notificacion_def tx_inv Let_def choca_aviso_def clave_aviso_def split: if_splits)

lemma avisar_distintos: "tx_rel (keeps avisos_distintos) (avisar rls ev a b c d r us res)"
proof (induction us arbitrary: res)
  case (Cons u us)
  have "tx_rel (keeps avisos_distintos) (insert_notificacion rls ev u a c d b r)"
    by (rule tx_relI) (fastforce dest: insert_notificacion_Inr simp: keeps_def avisos_distintos_def)
  then show ?case using Cons by (simp add: kp.bind)
qed (simp add: kp.ret)

lemma avisar_rls: "usuario ev = None \<Longrightarrow> tx_rel mismos_avisos (avisar True ev a b c d r us res)"
  by (induction us arbitrary: res) (auto simp: mav.ret tx_bind_def tx_rel_def insert_notificacion_rls mismos_avisos_def)

lemma manejar_avisos:
  "tx_rel (keeps avisos_distintos) (manejar_evento wk ev e)"
  "wk_rls wk \<Longrightarrow> usuario ev = None \<Longrightarrow> tx_rel mismos_avisos (manejar_evento wk ev e)"
  unfolding manejar_evento_def process_publicacion_def notificar_comunicado_def notificar_liquidacion_def notificar_def
    aviso_uuid_def list_destinatarios_def Let_def
  by (intro kp.rules rel_exec avisar_distintos; simp split: sum.split add: kp.rules)
    (intro mav.rules rel_exec; simp split: sum.split add: mav.rules avisar_rls)

lemma process_avisos:
  assumes p: "worker_process wk ev e s = (x, t)"
  shows "avisos_distintos s \<Longrightarrow> avisos_distintos t"
    and "wk_rls wk \<Longrightarrow> notificaciones t = notificaciones s"
proof -
  have "(avisos_distintos s \<longrightarrow> avisos_distintos t) \<and> (wk_rls wk \<longrightarrow> notificaciones t = notificaciones s)"
  proof (cases "manejar_evento wk (env_worker ev e) e s")
    case (Inl c)
    then have "notificaciones t = notificaciones s" using p
      by (auto simp: worker_process_def mark_failed_def mark_outbox_event_failed_def tx_exec_def tx_bind_def tx_update_def
        tx_ret_def Let_def split: if_splits)
    then show ?thesis by (simp add: avisos_distintos_def)
  next
    case (Inr r)
    then obtain u where u: "manejar_evento wk (env_worker ev e) e s = Inr ((), u)" by (cases r) auto
    then have t: "notificaciones t = notificaciones u" using p
      by (auto simp: worker_process_def mark_outbox_event_processed_def tx_exec_def tx_bind_def tx_update_def tx_ret_def Let_def)
    have "keeps avisos_distintos s u" using manejar_avisos(1) u by (rule tx_relD)
    moreover have "mismos_avisos s u" if "wk_rls wk"
      using tx_relD[OF manejar_avisos(2)[OF that, of "env_worker ev e"] u] by simp
    ultimately show ?thesis unfolding keeps_def avisos_distintos_def mismos_avisos_def t by blast
  qed
  then show "avisos_distintos s \<Longrightarrow> avisos_distintos t" "wk_rls wk \<Longrightarrow> notificaciones t = notificaciones s" by blast+
qed

lemma marcar_avisos: "tx_rel (keeps avisos_distintos) (notificaciones_marcar ev i)"
proof -
  have up: "tx_rel (keeps avisos_distintos) (tx_update P (\<lambda>n. n\<lparr>n_leida := l\<rparr>) (\<lambda>_. True) notificaciones notificaciones_update)" for P l
    by (rule rel_update) (auto simp: keeps_def avisos_distintos_def set_upd_where clave_aviso_def map_upd_where_same)
  then show ?thesis
    unfolding notificaciones_marcar_def marcar_leida_q_def Let_def
    by (intro kp.rules rel_row up avisos_mismos[OF mva.tx_quieto[OF quieto_reads(7)]]) (simp_all add: keeps_def)
qed

lemma avisos_paso: "mundo_paso ev wk m m' \<Longrightarrow> avisos_distintos (base m) \<Longrightarrow> avisos_distintos (base m')"
proof (induction rule: mundo_paso.induct)
  case (procesar e m t u a r h x s)
  then show ?case using process_avisos(1) by simp
next
  case (otra s m)
  then show ?case by (simp add: avisos_distintos_def)
next
  case (reclamar t u a r h limite m es s)
  then show ?case by (simp add: avisos_distintos_def claim_Inr)
next
  case (leer t u a r h i m nd s)
  then show ?case using tx_relD[OF marcar_avisos] by (fastforce simp: keeps_def)
next
  case (crear t u a r h co inp m d s)
  then show ?case using tx_relD[OF avisos_mismos[OF mismos_avisos_ops(1)]] by (fastforce simp: keeps_def)
next
  case (publicar t u a r h cm key m d s)
  then show ?case using tx_relD[OF avisos_mismos[OF mismos_avisos_ops(2)]] by (fastforce simp: keeps_def)
next
  case (liquidacion t u a r h co li n key m ld s)
  then show ?case using tx_relD[OF avisos_mismos[OF mva.publicar_liquidacion]] by (fastforce simp: keeps_def)
qed simp

text \<open>
  C23. However often an event is retried, a user has at most one notice of a publication.
\<close>

theorem aviso_unico:
  assumes "mundo_inicial m0" and "mundo_alcanza ev wk m0 m"
    and "n \<in> set (notificaciones (base m))" and "n' \<in> set (notificaciones (base m))"
    and "clave_aviso n = clave_aviso n'"
  shows "n = n'"
proof -
  have "avisos_distintos (base m0)" using assms(1) by (simp add: mundo_inicial_def avisos_distintos_def)
  with assms(2) have "avisos_distintos (base m)"
    unfolding mundo_alcanza_def by (induction rule: rtranclp_induct) (auto intro: avisos_paso)
  then show ?thesis using assms(3-5) by (auto simp: avisos_distintos_def distinct_map dest: inj_onD)
qed

lemma rls_paso:
  assumes "mundo_paso ev wk m m'" and "wk_rls wk" and "notificaciones (base m) = []"
  shows "notificaciones (base m') = []"
  using assms(1)
proof cases
  case (procesar e t u a r h x s)
  then show ?thesis using process_avisos(2) assms(2,3) by simp
next
  case (leer t u a r h i nd s)
  then show ?thesis using assms(3)
    by (auto simp: notificaciones_marcar_def marcar_leida_q_def aviso_uuid_def Let_def tx_inv)
qed (use assms(3) tx_relD[OF mismos_avisos_ops(1)] tx_relD[OF mismos_avisos_ops(2)] tx_relD[OF mva.publicar_liquidacion]
     in \<open>fastforce simp: mismos_avisos_def claim_Inr\<close>)+

text \<open>
  C32. If the role of the worker is subject to row-level security, as that of \<open>consorcio_app\<close> is, nobody
  is ever notified of anything: the policy of the notices asks for a user, and the worker has none.
\<close>

theorem sin_avisos_con_rls:
  assumes "wk_rls wk" and "mundo_inicial m0" and "mundo_alcanza ev wk m0 m"
  shows "notificaciones (base m) = []"
  using assms(3) unfolding mundo_alcanza_def
  by (induction rule: rtranclp_induct) (use assms(1,2) rls_paso in \<open>auto simp: mundo_inicial_def\<close>)

subsection \<open>Delivery\<close>

lemma snd_filter_enumerate: "map snd (filter (\<lambda>ku. P (snd ku)) (enumerate k us)) = filter P us"
  by (induction us arbitrary: k) auto

lemma notificar_exacto:
  assumes "uuid_google ev (trim_space co) = Some cid" and "uuid_google ev (trim_space re) = Some rid"
    and "trim_space titulo \<noteq> ''''" and "frescos ev s" and "tipo \<in> {''comunicado'', ''liquidacion''}"
  shows "notificar False ev co re tipo rtype titulo cuerpo s =
    (let us = destinatarios_de ev cid s; ns = avisos_nuevos ev tipo rtype (trim_space titulo) cuerpo rid us s in
     Inr (\<lparr>re_destinatarios = length us, re_creadas = length ns, re_omitidas = length us - length ns\<rparr>,
       s\<lparr>notificaciones := notificaciones s @ ns, seq := seq s + length us\<rparr>))"
  using assms(1-3) avisar_exacto[OF distinct_destinatarios[of ev cid s] assms(4,5), of rtype "trim_space titulo" cuerpo rid]
  by (simp add: notificar_def aviso_uuid_def tx_bind_def tx_some_def tx_ret_def tx_guard_def list_destinatarios_def
      tx_read_def Let_def)

text \<open>
  Without row-level security, an event of a published announcement is processed, and then every user
  with a current link to a unit of the consorcio has its notice; the ones that had it get no second one.
\<close>

lemma comunicado_entregado:
  assumes env: "env_ok ev" and wk: "\<not> wk_rls wk" and fr: "frescos ev s"
    and e: "ob_type e = ''comunicado.publicado''" "ob_payload e = comunicado_evento ev c" "ob_tenant e = cm_tenant c"
    and t: "trim_space (cm_titulo c) \<noteq> ''''"
  shows "\<exists>t us ns. worker_process wk ev e s = (None, t) \<and> us = destinatarios_de (env_worker ev e) (cm_consorcio c) s \<and>
    notificaciones t = notificaciones s @ ns \<and>
    map n_user ns = filter (\<lambda>u. \<not> avisado (env_worker ev e) ''comunicado'' (cm_id c) u s) us \<and>
    (\<forall>u \<in> set us. avisado (env_worker ev e) ''comunicado'' (cm_id c) u t) \<and>
    (\<forall>x \<in> set (outbox t). clave_evento x = clave_evento e \<longrightarrow> ob_estado x = ''procesado'')"
proof -
  let ?ev = "env_worker ev e"
  let ?us = "destinatarios_de ?ev (cm_consorcio c) s"
  let ?ns = "avisos_nuevos ?ev ''comunicado'' ''comunicado'' (trim_space (cm_titulo c)) (cm_cuerpo c) (cm_id c) ?us s"
  let ?s = "s\<lparr>notificaciones := notificaciones s @ ?ns, seq := seq s + length ?us\<rparr>"
  let ?f = "\<lambda>x. x\<lparr>ob_estado := ''procesado'', ob_last_error := '''', ob_updated := ahora ev\<rparr>"
  have g: "uuid_google ?ev (trim_space (uuid_show ev u)) = Some u" for u
    using env by (simp add: env_ok_def)
  have "frescos ?ev s" using fr by (simp add: frescos_def)
  note n = notificar_exacto[OF g g t this, of "''comunicado''" "cm_consorcio c" "cm_id c" "''comunicado''" "cm_cuerpo c"]
  have m: "manejar_evento wk ?ev e s = Inr ((), ?s)"
    using wk e n by (simp add: manejar_evento_def comunicado_evento_def notificar_comunicado_def tx_exec_def tx_bind_def
        tx_ret_def Let_def)
  let ?t = "?s\<lparr>outbox := upd_where (\<lambda>x. clave_evento x = clave_evento e) ?f (outbox s)\<rparr>"
  have p: "worker_process wk ev e s = (None, ?t)"
    by (simp add: worker_process_def m mark_outbox_event_processed_def tx_exec_def tx_bind_def tx_update_def tx_ret_def
        mi_evento_clave Let_def)
  have "map n_user ?ns = map snd (filter (\<lambda>ku. \<not> avisado ?ev ''comunicado'' (cm_id c) (snd ku) s) (enumerate (seq s) ?us))"
    by (simp add: avisos_nuevos_def comp_def)
  then have users: "map n_user ?ns = filter (\<lambda>u. \<not> avisado ?ev ''comunicado'' (cm_id c) u s) ?us"
    by (simp only: snd_filter_enumerate[of "\<lambda>u. \<not> avisado ?ev ''comunicado'' (cm_id c) u s"])
  have "avisado ?ev ''comunicado'' (cm_id c) u ?t" if "u \<in> set ?us" for u
    using avisado_nuevos[of ?ev "''comunicado''" "cm_id c" u "seq s + length ?us" s "''comunicado''" "trim_space (cm_titulo c)"
        "cm_cuerpo c" ?us] that
    unfolding avisado_def by simp
  moreover have "ob_estado x = ''procesado''" if "x \<in> set (outbox ?t)" "clave_evento x = clave_evento e" for x
    using that by (auto simp: set_upd_where clave_evento_def)
  ultimately show ?thesis using p users by (intro exI[of _ ?t] exI[of _ ?us] exI[of _ ?ns]) simp
qed


end
