(* ===== verification/AvisosEjemplo.thy ===== *)
theory AvisosEjemplo
  imports Avisos
begin

text \<open>
  An announcement from its draft to the notice of the only neighbour, and a worker whose role is
  under row-level security: the witnesses of the theorems on the worker, the announcements and
  the notices.
\<close>

definition av_env :: env where
  "av_env = ambito ejemplo_env 1 (Some 7) 100 100 (Fecha 2026 3 15)"

definition av_db :: db where
  "av_db = ejemplo_db\<lparr>
     personas := [\<lparr>pe_tenant = 1, pe_id = 60, pe_nombre = ''Ana'', pe_documento = None, pe_email = None,
       pe_telefono = None, pe_user = Some 7, pe_created = 1, pe_updated = 1\<rparr>],
     vinculos := [\<lparr>v_tenant = 1, v_id = 61, v_unidad = 21, v_persona = 60, v_vinculo = ''propietario'',
       v_porcentaje = None, v_from = Fecha 2026 1 1, v_to = None, v_created = 1\<rparr>]\<rparr>"

definition av_inp :: comunicado_input where
  "av_inp = \<lparr>cmi_titulo = ''Corte'', cmi_cuerpo = ''Agua'', cmi_destinatarios = ''''\<rparr>"

definition av_com :: "string \<Rightarrow> ts option \<Rightarrow> comunicado" where
  "av_com e p = \<lparr>cm_tenant = 1, cm_consorcio = 10, cm_id = 1000, cm_titulo = ''Corte'', cm_cuerpo = ''Agua'',
     cm_scope = ''todos'', cm_destinatarios = 2, cm_estado = e, cm_publicado = p, cm_created = 100, cm_updated = 100\<rparr>"

definition av_evento :: "string \<Rightarrow> int \<Rightarrow> outbox_event" where
  "av_evento e n = \<lparr>ob_tenant = 1, ob_id = 1002, ob_correlation = ''1000'', ob_type = ''comunicado.publicado'',
     ob_payload = comunicado_evento av_env (av_com ''publicado'' (Some 100)), ob_estado = e, ob_intentos = n,
     ob_last_error = '''', ob_next = 100, ob_created = 100, ob_updated = 100\<rparr>"

definition av_aviso :: notificacion where
  "av_aviso = \<lparr>n_tenant = 1, n_id = 1003, n_user = 7, n_tipo = ''comunicado'', n_titulo = ''Corte'',
     n_cuerpo = ''Agua'', n_recurso_type = ''comunicado'', n_recurso = Some 1000, n_leida = None, n_created = 100\<rparr>"

definition av_db1 :: db where
  "av_db1 = av_db\<lparr>comunicados := [av_com ''borrador'' None], seq := 1\<rparr>"

definition av_publicado :: "outbox_event list \<Rightarrow> db" where
  "av_publicado es = av_db\<lparr>comunicados := [av_com ''publicado'' (Some 100)], outbox := es,
     idem_keys := [\<lparr>k_id = 1001, k_tenant = 1, k_key = ''k'', k_scope = ''comunicaciones.publish'', k_hash = ''1000|k'',
       k_response = RComunicado (comunicado_dto_de av_env (av_com ''publicado'' (Some 100))), k_created = 100\<rparr>], seq := 3\<rparr>"

definition av_db4 :: db where
  "av_db4 = (av_publicado [av_evento ''procesado'' 1])\<lparr>notificaciones := [av_aviso], seq := 4\<rparr>"

lemma av_env: "av_env = ejemplo_env"
  by (simp add: av_env_def ambito_def ejemplo_env_def)

lemma av_texto: "trim_space ''Corte'' = ''Corte''" "trim_space ''Agua'' = ''Agua''" "trim_space ''k'' = ''k''"
  "trim_space ''1000'' = ''1000''" "trim_space ''10'' = ''10''" "to_lower ''activa'' = ''activa''"
  by code_simp+

lemma av_google: "uuid_google av_env s = (if s \<noteq> [] \<and> list_all digito s then Some (num s) else None)"
  by (simp add: av_env ejemplo_env_def)

lemma av_show: "uuid_show av_env 1000 = ''1000''" "uuid_show av_env 10 = ''10''"
  by (simp_all add: av_env ejemplo_env_def, code_simp+)

lemma av_campos: "tenant av_env = 1" "usuario av_env = Some 7" "ahora av_env = 100" "hoy av_env = Fecha 2026 3 15"
  "uuid_gen av_env n = 1000 + n"
  by (simp_all add: av_env ejemplo_env_def)

lemmas av_datos = av_db_def av_db1_def av_publicado_def av_db4_def av_com_def av_aviso_def ejemplo_db_def ejemplo_unidad_def

lemma av_crear: "map_sum id snd (comunicados_create av_env ''10'' av_inp av_db) = Inr av_db1"
  by (simp add: comunicados_create_def destinatarios_count_def must_parse_def av_google digitos_eval tx_eval av_inp_def av_texto
      create_comunicado_q_def comunicado_check_def consorcio_existe_def list_unidades_def av_campos count_where_def
      lower_char_def av_datos Let_def)

lemma av_publicar: "map_sum id snd (comunicados_publish av_env ''1000'' ''k'' av_db1) = Inr (av_publicado [av_evento ''pendiente'' 0])"
  by (simp add: comunicados_publish_def comunicado_guardado_def comunicado_hash_def insert_idempotency_key_def clave_def
      must_parse_def av_google digitos_eval tx_eval av_texto get_comunicado_q_def mi_comunicado_def publish_comunicado_q_def
      publicada_def comunicado_check_def insert_outbox_event_def update_idempotency_key_def av_campos av_show av_evento_def
      av_datos Let_def)

lemma av_reclamar: "claim_pending_outbox_events av_env 25 (av_publicado [av_evento ''pendiente'' 0]) =
    Inr ([av_evento ''procesando'' 1], av_publicado [av_evento ''procesando'' 1])"
  by (simp add: claim_pending_outbox_events_def elegidos_def reclamable_def tomado_def clave_evento_def tx_eval av_campos
      av_evento_def av_publicado_def)

lemma av_procesar:
  "worker_process (worker_main False) av_env (av_evento ''procesando'' 1) (av_publicado [av_evento ''procesando'' 1]) = (None, av_db4)"
  by (simp add: worker_process_def manejar_evento_def worker_main_def env_worker_def notificar_comunicado_def notificar_def
      aviso_uuid_def comunicado_evento_def list_destinatarios_def destinatarios_de_def vinculo_hoy_def insert_notificacion_def
      choca_aviso_def mark_outbox_event_processed_def mi_evento_def tx_eval av_google digitos_eval av_texto av_campos av_show
      av_evento_def av_datos Let_def less_eq_fecha_def clave_fecha_def)

definition av_m0 :: mundo where
  "av_m0 = \<lparr>base = av_db, mano = []\<rparr>"

lemma av_alcanza:
  "mundo_alcanza av_env wk av_m0 \<lparr>base = av_publicado [av_evento ''procesando'' 1], mano = [av_evento ''procesando'' 1]\<rparr>"
  "mundo_alcanza av_env (worker_main False) av_m0 \<lparr>base = av_db4, mano = []\<rparr>"
proof -
  have a: "ambito av_env 1 (Some 7) 100 100 (Fecha 2026 3 15) = av_env" by (simp add: av_env_def ambito_def)
  let ?m2 = "\<lparr>base = av_publicado [av_evento ''pendiente'' 0], mano = []\<rparr>"
  let ?m3 = "\<lparr>base = av_publicado [av_evento ''procesando'' 1], mano = [av_evento ''procesando'' 1]\<rparr>"
  obtain d1 d2 where "comunicados_create av_env ''10'' av_inp av_db = Inr (d1, av_db1)"
    "comunicados_publish av_env ''1000'' ''k'' av_db1 = Inr (d2, av_publicado [av_evento ''pendiente'' 0])"
    using mapsum_Inr[OF av_crear] mapsum_Inr[OF av_publicar] by blast
  note s = mundo_paso.crear[of av_env 1 "Some 7" 100 100 "Fecha 2026 3 15" "''10''" av_inp av_m0, unfolded a av_m0_def, simplified, OF this(1)]
    mundo_paso.publicar[of av_env 1 "Some 7" 100 100 "Fecha 2026 3 15" "''1000''" "''k''" "\<lparr>base = av_db1, mano = []\<rparr>", unfolded a, simplified, OF this(2)]
    mundo_paso.reclamar[of av_env 1 "Some 7" 100 100 "Fecha 2026 3 15" 25 ?m2, unfolded a, simplified, OF av_reclamar]
    mundo_paso.procesar[of "av_evento ''procesando'' 1" ?m3 "worker_main False" av_env 1 "Some 7" 100 100 "Fecha 2026 3 15", unfolded a, simplified, OF av_procesar]
  have r: "(mundo_paso av_env wk)\<^sup>*\<^sup>* av_m0 ?m3" for wk
    unfolding av_m0_def
    by (rule rtranclp.rtrancl_into_rtrancl[of "mundo_paso av_env wk", OF rtranclp.rtrancl_into_rtrancl[of "mundo_paso av_env wk",
        OF r_into_rtranclp[of "mundo_paso av_env wk", OF s(1)] s(2)] s(3)])
  show "mundo_alcanza av_env wk av_m0 ?m3" using r by (simp add: mundo_alcanza_def)
  show "mundo_alcanza av_env (worker_main False) av_m0 \<lparr>base = av_db4, mano = []\<rparr>"
    unfolding mundo_alcanza_def
    by (rule rtranclp.rtrancl_into_rtrancl[of "mundo_paso av_env (worker_main False)", OF r s(4)])
qed

lemma av_inicial: "mundo_inicial av_m0"
  by (simp add: mundo_inicial_def av_m0_def av_db_def ejemplo_db_def)

lemma av_env_ok: "env_ok av_env"
  by (simp add: av_env ejemplo_env_ok)

subsection \<open>Witnesses\<close>


theorem evento_final_witness:
  "av_evento ''procesado'' 1 \<in> set (outbox av_db4)"
proof -
  let ?m = "\<lparr>base = av_db4, mano = []\<rparr>"
  have "mundo_alcanza av_env (worker_main False) ?m ?m" by (simp add: mundo_alcanza_def)
  from evento_final[OF av_inicial av_alcanza(2) this, of "av_evento ''procesado'' 1"] show ?thesis
    by (simp add: av_db4_def av_publicado_def av_evento_def)
qed

theorem un_evento_por_comunicado_witness:
  "length (filter (\<lambda>e. ob_type e = ''comunicado.publicado'' \<and> ob_tenant e = 1 \<and> ob_correlation e = ''1000'') (outbox av_db4)) = 1"
  using un_evento_por_comunicado[OF av_env_ok av_inicial av_alcanza(2), of "av_com ''publicado'' (Some 100)"]
  by (simp add: av_db4_def av_publicado_def av_com_def av_show)

theorem aviso_unico_witness: "hd (notificaciones av_db4) = av_aviso"
  using aviso_unico[OF av_inicial av_alcanza(2), of "hd (notificaciones av_db4)" av_aviso] by (simp add: av_db4_def av_publicado_def)

theorem sin_avisos_con_rls_witness:
  "notificaciones (av_publicado [av_evento ''procesando'' 1]) = []"
  using sin_avisos_con_rls[OF _ av_inicial av_alcanza(1), of "worker_main True"] by (simp add: worker_main_def)




definition av_recibo :: acreditacion_dto where
  "av_recibo = \<lparr>ac_cobranza = \<lparr>cd_id = ''7'', cd_unidad = ''A(1)'', cd_fecha = ''2026-03-15'', cd_canal = ''otros'',
     cd_importe = \<lparr>md_amount = 150005, md_currency = ''ARS''\<rparr>, cd_referencia = None, cd_estado = ''acreditado'',
     cd_saldo_a_favor = 0, cd_psp_provider = None, cd_psp_preference = None, cd_psp_url = None, cd_created = 1\<rparr>,
     ac_asignaciones = [\<lparr>ad_charge = ''9'', ad_amount = 150005\<rparr>], ac_saldo = 0\<rparr>"

lemma show_nat_corto: "length (show_nat n) \<le> Suc n"
proof (rule length_show_nat)
  have "n < 10 ^ n" by (induction n) simp_all
  then show "n < 10 ^ Suc n" by simp
qed simp

text \<open>A coarse bound on the length of a file, from the length of its objects.\<close>

lemma pdf_offsets_cota: "\<forall>x \<in> set (pdf_offsets n obs). x \<le> n + length (concat obs)"
  by (induction obs arbitrary: n) (auto, fastforce)

lemma pdf_objetos_cortos: "length (concat (map (\<lambda>(i, t). pdf_objeto i t) (enumerate k ts))) \<le>
    (\<Sum>t \<leftarrow> ts. length t + k + length ts + 20)"
proof (induction ts arbitrary: k)
  case (Cons t ts)
  have "length (pdf_objeto k t) \<le> length t + k + 20" using show_nat_corto[of k] by (simp add: pdf_objeto_def nl_def)
  then show ?case using Cons.IH[of "Suc k"] by simp
qed simp

lemma pdf_documento_corto:
  assumes "length objects = 5" and "(\<Sum>t \<leftarrow> objects. length t + 26) \<le> 10000"
  shows "length (pdf_documento objects) < 10 ^ 10"
proof -
  have cuerpo: "length (concat (map (\<lambda>(i, t). pdf_objeto i t) (enumerate 1 objects))) \<le> 10000"
    using pdf_objetos_cortos[of 1 objects] assms by (simp add: ac_simps)
  let ?obs = "map (\<lambda>(i, t). pdf_objeto i t) (enumerate 1 objects)"
  let ?offs = "pdf_offsets (length pdf_cabecera) ?obs"
  have c: "length pdf_cabecera = 9" by (simp add: pdf_cabecera_def nl_def)
  have n: "length (pdf_offsets k obs) = length obs" for k obs by (induction obs arbitrary: k) auto
  have e: "length (pdf_entrada x) \<le> 20000" if "x \<in> set ?offs" for x
    using bspec[OF pdf_offsets_cota that] show_nat_corto[of x] cuerpo c
    by (simp add: pdf_entrada_def pad_def nl_def)
  have "length (concat (map pdf_entrada ?offs)) \<le> (\<Sum>x \<leftarrow> ?offs. 20000)"
    unfolding length_concat map_map comp_def by (rule sum_list_mono) (use e in simp)
  then have t: "length (pdf_tabla ?offs) \<le> 100100"
    using assms(1) show_nat_corto[of 6] by (simp add: pdf_tabla_def nl_def n sum_list_triv)
  have "length (pdf_final 5 x) \<le> 100 + x" for x
    using show_nat_corto[of x] show_nat_corto[of 6] by (simp add: pdf_final_def nl_def)
  from this[of "length (pdf_cabecera @ concat ?obs)"] t assms(1) cuerpo c show ?thesis
    by (simp add: pdf_documento_def Let_def)
qed

lemma recibo_linea_corta: "length (recibo_linea (i, l)) \<le> 2 * length l + 40"
proof -
  have "length (escape_pdf l) \<le> 2 * length l" by (induction l) (simp_all add: escape_pdf_Cons)
  then show ?thesis by (simp add: recibo_linea_def nl_def)
qed

lemma recibo_lineas_cortas: "length (concat (map recibo_linea (enumerate k ls))) \<le> (\<Sum>l \<leftarrow> ls. 2 * length l + 40)"
  by (induction ls arbitrary: k) (simp_all add: add_mono recibo_linea_corta)

lemma av_recibo_corto: "length (build_recibo_pdf av_recibo) < 10 ^ 10"
proof -
  have "(\<Sum>l \<leftarrow> recibo_lineas av_recibo. 2 * length l + 40) \<le> 1000"
    by (simp add: recibo_lineas_def av_recibo_def money_to_string_def show_int_def go_div_def go_mod_def fmt_02d_def pad_def
        show_nat.simps[of "numeral w" for w] show_nat.simps[of 0] show_nat.simps[of "Suc 0"])
  then have c: "length (concat (map recibo_linea (enumerate 0 (recibo_lineas av_recibo)))) \<le> 1000"
    using recibo_lineas_cortas[of 0 "recibo_lineas av_recibo"] by linarith
  have "length (pdf_stream t) \<le> 2 * length t + 40" for t
    using show_nat_corto[of "length t"] by (simp add: pdf_stream_def nl_def)
  from this[of "''BT'' @ nl @ ''/F1 12 Tf'' @ nl @ ''72 760 Td'' @ nl @
      concat (map recibo_linea (enumerate 0 (recibo_lineas av_recibo))) @ ''ET'' @ nl"] c
  show ?thesis
    unfolding build_recibo_pdf_def build_simple_pdf_def Let_def
    by (intro pdf_documento_corto) (simp_all add: nl_def)
qed

theorem recibo_leido_witness:
  "textos (pdf_leer_stream (build_recibo_pdf av_recibo) 5) ! 3 = ''Unidad: A(1)''"
  by (subst recibo_leido[OF av_recibo_corto]) (simp add: recibo_lineas_def av_recibo_def)

end
