(* ===== verification/Decimales.thy ===== *)
theory Decimales
  imports Modelo
begin

text \<open>
  Decimal numbers: Go's \<open>strconv.ParseFloat\<close> and \<open>strconv.FormatFloat(f, 'f', -1, 64)\<close>, the
  numbers \<open>n / 10 ^ k\<close> of pgx (\<open>pgtype.Numeric\<close>, with its column types), and the conversions of
  \<open>internal/consorcios/ufs.go\<close> between them.
\<close>

subsection \<open>The shortest decimal\<close>

text \<open>A decimal that reads back as the float with significand \<open>m\<close> and exponent \<open>e\<close>.\<close>

definition f_igual :: "int \<Rightarrow> int \<Rightarrow> f64 \<Rightarrow> bool" where
  "f_igual m e x = (case x of Fin m' e' \<Rightarrow> shl m (e - e') = shl m' (e' - e) | _ \<Rightarrow> False)"

text \<open>The number of digits before the point of \<open>n / d\<close>, or minus the zeros after it.\<close>

function ceros :: "nat \<Rightarrow> nat \<Rightarrow> nat" where
  "ceros n d = (if n = 0 \<or> d \<le> 10 * n then 0 else Suc (ceros (10 * n) d))"
  by pat_completeness auto
termination by (relation "measure (\<lambda>(n, d). d - n)") auto

declare ceros.simps [simp del]

definition orden :: "nat \<Rightarrow> nat \<Rightarrow> int" where
  "orden n d = (if d \<le> n then int (length (show_nat (n div d))) else - int (ceros n d))"

text \<open>
  The decimals \<open>c / 10 ^ s\<close> with \<open>j\<close> significant digits next to \<open>n / d\<close>, below and above; the
  nearest of those that read back as the float.
\<close>

definition diez :: "int \<Rightarrow> int" where
  "diez k = 10 ^ nat k"

definition lee_igual :: "int \<Rightarrow> int \<Rightarrow> int \<Rightarrow> int \<Rightarrow> bool" where
  "lee_igual m e s c = f_igual m e (fl (c * diez (- s)) (diez s) 0)"

definition con_digitos :: "int \<Rightarrow> int \<Rightarrow> nat \<Rightarrow> (int \<times> int) option" where
  "con_digitos m e j =
     (let n = shl m e; d = shl 1 (- e);
          s = int j - orden (nat n) (nat d);
          N = n * diez s; D = d * diez (- s);
          q = N div D; r = N mod D;
          lejos = (D < 2 * r \<or> (2 * r = D \<and> odd q)) in
      if lee_igual m e s q \<and> \<not> (lejos \<and> lee_igual m e s (q + 1)) then Some (q, s)
      else if lee_igual m e s (q + 1) then Some (q + 1, s)
      else None)"

definition mas_corto :: "int \<Rightarrow> int \<Rightarrow> int \<times> int" where
  "mas_corto m e = (case List.map_filter (con_digitos m e) [1..<18] of [] \<Rightarrow> (0, 0) | x # _ \<Rightarrow> x)"

definition show_decimal :: "int \<times> int \<Rightarrow> string" where
  "show_decimal cs = (case cs of (c, s) \<Rightarrow>
     if s \<le> 0 then show_int (c * diez (- s))
     else show_int (c div diez s) @ ''.'' @ pad (nat s) (show_nat (nat (c mod diez s))))"

fun format_float :: "f64 \<Rightarrow> string" where
  "format_float (Fin m e) =
     (if m = 0 then ''0''
      else (if m < 0 then ''-'' else '''') @ show_decimal (mas_corto \<bar>m\<bar> e))"
| "format_float (Inf s) = (if s then ''+Inf'' else ''-Inf'')"
| "format_float NaN = ''NaN''"

subsection \<open>Reading a float\<close>

definition hexadigito :: "char \<Rightarrow> bool" where
  "hexadigito c \<longleftrightarrow> digito c \<or> lower_char c \<in> set ''abcdef''"

definition valor_hex :: "char \<Rightarrow> nat" where
  "valor_hex c = (if digito c then valor c else of_char (lower_char c) - 87)"

text \<open>\<open>underscoreOK\<close>: an underscore stands between digits, or after the prefix.\<close>

fun subrayado_ok :: "bool \<Rightarrow> char \<Rightarrow> string \<Rightarrow> bool" where
  "subrayado_ok hex visto [] = (visto \<noteq> CHR ''_'')"
| "subrayado_ok hex visto (c # cs) =
     (if digito c \<or> hex \<and> hexadigito c then subrayado_ok hex (CHR ''0'') cs
      else if c = CHR ''_'' then visto = CHR ''0'' \<and> subrayado_ok hex (CHR ''_'') cs
      else visto \<noteq> CHR ''_'' \<and> subrayado_ok hex (CHR ''!'') cs)"

definition prefijo_base :: "string \<Rightarrow> bool" where
  "prefijo_base s \<longleftrightarrow> 2 \<le> length s \<and> s ! 0 = CHR ''0'' \<and> lower_char (s ! 1) \<in> set ''box''"

definition underscore_ok :: "string \<Rightarrow> bool" where
  "underscore_ok s =
     (if prefijo_base s then subrayado_ok (lower_char (s ! 1) = CHR ''x'') (CHR ''0'') (drop 2 s)
      else subrayado_ok False (CHR ''^'') s)"

text \<open>
  The mantissa: its value, the digits after the point, whether a point and a digit were seen, and
  the rest.
\<close>

fun leer_mantisa :: "bool \<Rightarrow> int \<Rightarrow> int \<Rightarrow> bool \<Rightarrow> bool \<Rightarrow> string \<Rightarrow> int \<times> int \<times> bool \<times> string" where
  "leer_mantisa hex v k punto alguno [] = (v, k, alguno, [])"
| "leer_mantisa hex v k punto alguno (c # cs) =
     (if c = CHR ''_'' then leer_mantisa hex v k punto alguno cs
      else if c = CHR ''.'' then
        (if punto then (v, k, alguno, c # cs) else leer_mantisa hex v k True alguno cs)
      else if digito c \<or> hex \<and> hexadigito c then
        leer_mantisa hex ((if hex then 16 else 10) * v + int (valor_hex c)) (if punto then k + 1 else k) punto True cs
      else (v, k, alguno, c # cs))"

fun leer_exponente :: "int \<Rightarrow> string \<Rightarrow> int \<times> string" where
  "leer_exponente e [] = (e, [])"
| "leer_exponente e (c # cs) =
     (if c = CHR ''_'' then leer_exponente e cs
      else if digito c then leer_exponente (if e < 10000 then 10 * e + int (valor c) else e) cs
      else (e, c # cs))"

definition con_signo :: "string \<Rightarrow> bool \<times> string" where
  "con_signo s = (case s of c # cs \<Rightarrow> if c = CHR ''-'' then (True, cs) else if c = CHR ''+'' then (False, cs) else (False, s)
     | [] \<Rightarrow> (False, s))"

text \<open>\<open>None\<close> is a syntax error or a value out of range.\<close>

definition redondear :: "bool \<Rightarrow> bool \<Rightarrow> int \<Rightarrow> int \<Rightarrow> int \<Rightarrow> f64 option" where
  "redondear hex neg v k ex =
     (let x = (if hex then fl v 1 (ex - 4 * k) else fl (v * diez (ex - k)) (diez (k - ex)) 0) in
      case x of Fin m e \<Rightarrow> Some (Fin (if neg then - m else m) e) | _ \<Rightarrow> None)"

definition leer_numero :: "string \<Rightarrow> f64 option" where
  "leer_numero s =
     (let (neg, t) = con_signo s;
          hex = (2 \<le> length t \<and> t ! 0 = CHR ''0'' \<and> lower_char (t ! 1) = CHR ''x'');
          (v, k, alguno, r) = leer_mantisa hex 0 0 False False (if hex then drop 2 t else t) in
      if \<not> alguno then None
      else case r of
        [] \<Rightarrow> if hex \<or> CHR ''_'' \<in> set s \<and> \<not> underscore_ok t then None else redondear hex neg v k 0
      | c # cs \<Rightarrow>
          if lower_char c \<noteq> (if hex then CHR ''p'' else CHR ''e'') then None
          else let (eneg, u) = con_signo cs in
            if u = [] \<or> \<not> digito (hd u) then None
            else let (ex, w) = leer_exponente 0 u in
              if w \<noteq> [] \<or> CHR ''_'' \<in> set s \<and> \<not> underscore_ok t then None
              else redondear hex neg v k (if eneg then - ex else ex))"

definition parse_float :: "string \<Rightarrow> f64 option" where
  "parse_float s =
     (let (neg, t) = con_signo s; l = map lower_char t in
      if l \<in> {''inf'', ''infinity''} then Some (Inf (\<not> neg))
      else if map lower_char s = ''nan'' then Some NaN
      else leer_numero s)"

subsection \<open>Comparisons\<close>

text \<open>\<open>x < 0\<close> and \<open>x > n\<close> for an integer \<open>n\<close>.\<close>

definition f_gt :: "f64 \<Rightarrow> int \<Rightarrow> bool" where
  "f_gt x n = (case x of Fin m e \<Rightarrow> n * shl 1 (- e) < shl m e | Inf s \<Rightarrow> s | NaN \<Rightarrow> False)"

subsection \<open>Decimal numbers of the database\<close>

text \<open>\<open>(n, k)\<close> is \<open>n / 10 ^ k\<close>.\<close>

type_synonym numeric = "int \<times> nat"

text \<open>
  The value of a column \<open>NUMERIC(p, s)\<close> in units of \<open>10 ^ (- s)\<close>: rounded, ties away from zero;
  \<open>None\<close> is the error of a numeric field overflow.
\<close>

definition columna :: "nat \<Rightarrow> nat \<Rightarrow> numeric \<Rightarrow> int option" where
  "columna p s x = (case x of (n, k) \<Rightarrow>
     let v = (if k \<le> s then n * 10 ^ (s - k) else rha n (10 ^ (k - s))) in
     if \<bar>v\<bar> < 10 ^ p then Some v else None)"

text \<open>The patterns \<open>^([0-9]+(\.[0-9]{1,k})?|0)$\<close> and \<open>^[0-9]{4}-[0-9]{2}-[0-9]{2}$\<close>.\<close>

definition decimal_re :: "nat \<Rightarrow> string \<Rightarrow> bool" where
  "decimal_re k s \<longleftrightarrow> takeWhile digito s \<noteq> [] \<and>
     (case dropWhile digito s of [] \<Rightarrow> True
      | c # t \<Rightarrow> c = CHR ''.'' \<and> t \<noteq> [] \<and> length t \<le> k \<and> list_all digito t)"

definition coef_re :: "string \<Rightarrow> bool" where
  "coef_re = decimal_re 8"

definition pct_re :: "string \<Rightarrow> bool" where
  "pct_re = decimal_re 2"

definition date_re :: "string \<Rightarrow> bool" where
  "date_re s \<longleftrightarrow> length s = 10 \<and> s ! 4 = CHR ''-'' \<and> s ! 7 = CHR ''-'' \<and>
     list_all digito (take 4 s @ take 2 (drop 5 s) @ drop 8 s)"

text \<open>\<open>strings.SplitN(body, ".", 2)\<close> and the digits without the point.\<close>

definition parse_numeric :: "string \<Rightarrow> numeric option" where
  "parse_numeric s =
     (if \<not> coef_re s then None
      else let neg = (take 1 s = ''-''); body = (if neg then tl s else s);
               ent = takeWhile (\<lambda>c. c \<noteq> CHR ''.'') body;
               frac = tl (dropWhile (\<lambda>c. c \<noteq> CHR ''.'') body);
               n = int (num (ent @ frac)) in
           Some (if neg then - n else n, length frac))"

definition numeric_to_string :: "env \<Rightarrow> int \<Rightarrow> string" where
  "numeric_to_string ev n = format_float (num_float ev n)"

text \<open>\<open>int64(f)\<close>, with the value of amd64 out of range.\<close>

fun f_trunc64 :: "f64 \<Rightarrow> int" where
  "f_trunc64 (Fin m e) =
     (let t = sgn m * (shl \<bar>m\<bar> e div shl 1 (- e)) in if is_i64 t then t else - (2 ^ 63))"
| "f_trunc64 x = - (2 ^ 63)"

definition float_to_numeric :: "f64 \<Rightarrow> numeric" where
  "float_to_numeric f = (case parse_numeric (format_float f) of
     Some n \<Rightarrow> n | None \<Rightarrow> (f_trunc64 f, 0))"

end
