(* ===== verification/Unidades.thy ===== *)
theory Unidades
  imports Decimales LiqConsultas
begin

text \<open>
  The units of a consorcio, their persons and the links between them
  (\<open>internal/consorcios/ufs.go\<close>, \<open>ufs.sql.go\<close>). A link is closed and another one is opened; it
  is never overwritten. A coefficient is counted in units of 1e-8, an area in units of 1e-4, a
  percentage in units of 1e-2. The date of the process and of the database is \<open>hoy\<close>.
\<close>

subsection \<open>Queries\<close>

definition tipos_uf :: "string set" where
  "tipos_uf = {''departamento'', ''cochera'', ''local'', ''unidad_edificio'', ''otros''}"

definition valid_vinculos :: "string set" where
  "valid_vinculos = {''propietario'', ''inquilino'', ''apoderado''}"

definition unidad_check :: "unidad \<Rightarrow> bool" where
  "unidad_check u \<longleftrightarrow> 1 \<le> runas (u_codigo u) \<and> runas (u_codigo u) \<le> 50 \<and> u_tipo u \<in> tipos_uf \<and>
     u_estado u \<in> {''activa'', ''inactiva''} \<and> 0 \<le> u_coeficiente u"

definition persona_check :: "persona \<Rightarrow> bool" where
  "persona_check p \<longleftrightarrow> 1 \<le> runas (pe_nombre p) \<and> runas (pe_nombre p) \<le> 200"

definition vinculo_check :: "vinculo \<Rightarrow> bool" where
  "vinculo_check v \<longleftrightarrow> v_vinculo v \<in> valid_vinculos \<and>
     (case v_porcentaje v of None \<Rightarrow> True | Some p \<Rightarrow> 0 \<le> p \<and> p \<le> 10000) \<and>
     (case v_to v of None \<Rightarrow> True | Some d \<Rightarrow> v_from v < d)"

definition clave_unidad :: "unidad \<Rightarrow> uuid \<times> uuid \<times> string" where
  "clave_unidad u = (u_tenant u, u_consorcio u, u_codigo u)"

definition unidad_clash :: "db \<Rightarrow> unidad \<Rightarrow> string option" where
  "unidad_clash s r =
     (if \<exists>x \<in> set (unidades s). u_tenant x = u_tenant r \<and> u_id x = u_id r then Some ''unidades_pkey''
      else if \<exists>x \<in> set (unidades s). clave_unidad x = clave_unidad r then Some ''unidades_consorcio_codigo_idx''
      else None)"

text \<open>A nullable number of a statement, as a value of its column.\<close>

definition num_col :: "nat \<Rightarrow> nat \<Rightarrow> numeric option \<Rightarrow> int option query" where
  "num_col p sc x = (case x of None \<Rightarrow> tx_ret None
     | Some n \<Rightarrow> tx_bind (tx_some PgRange (columna p sc n)) (\<lambda>v. tx_ret (Some v)))"

definition create_unidad_q :: "env \<Rightarrow> uuid \<Rightarrow> string \<Rightarrow> string \<Rightarrow> numeric option \<Rightarrow> numeric option \<Rightarrow> unidad query" where
  "create_unidad_q ev cid codigo tipo superficie coeficiente =
     tx_bind (nuevo_uuid ev) (\<lambda>i.
     tx_bind (num_col 12 4 superficie) (\<lambda>superf.
     tx_bind (num_col 12 8 coeficiente) (\<lambda>coef.
     tx_bind (tx_some PgNotNull coef) (\<lambda>c.
     tx_insert unidad_check unidad_clash (\<lambda>s r. consorcio_existe ev cid s) unidades_update
       \<lparr>u_tenant = tenant ev, u_consorcio = cid, u_id = i, u_codigo = codigo, u_tipo = tipo,
        u_superficie = superf, u_coeficiente = c, u_estado = ''activa'', u_created = ahora ev,
        u_updated = ahora ev\<rparr>))))"

definition mi_codigo :: "env \<Rightarrow> uuid \<Rightarrow> string \<Rightarrow> unidad \<Rightarrow> bool" where
  "mi_codigo ev cid codigo u \<longleftrightarrow> u_tenant u = tenant ev \<and> u_consorcio u = cid \<and> u_codigo u = codigo"

definition get_unidad_by_codigo :: "env \<Rightarrow> uuid \<Rightarrow> string \<Rightarrow> unidad query" where
  "get_unidad_by_codigo ev cid codigo = tx_row (\<lambda>s. List.find (mi_codigo ev cid codigo) (unidades s))"

text \<open>\<open>COALESCE\<close>: a null keeps the column. The code of a unit is never changed by the program.\<close>

definition editada :: "env \<Rightarrow> string option \<Rightarrow> int option \<Rightarrow> int option \<Rightarrow> string option \<Rightarrow> unidad \<Rightarrow> unidad" where
  "editada ev tipo superf coef estado u = u\<lparr>
     u_tipo := (case tipo of None \<Rightarrow> u_tipo u | Some t \<Rightarrow> t),
     u_superficie := (case superf of None \<Rightarrow> u_superficie u | Some x \<Rightarrow> Some x),
     u_coeficiente := (case coef of None \<Rightarrow> u_coeficiente u | Some x \<Rightarrow> x),
     u_estado := (case estado of None \<Rightarrow> u_estado u | Some t \<Rightarrow> t), u_updated := ahora ev\<rparr>"

definition mi_unidad :: "env \<Rightarrow> uuid \<Rightarrow> uuid \<Rightarrow> unidad \<Rightarrow> bool" where
  "mi_unidad ev cid uid u \<longleftrightarrow> u_tenant u = tenant ev \<and> u_consorcio u = cid \<and> u_id u = uid"

definition update_unidad_q :: "env \<Rightarrow> uuid \<Rightarrow> uuid \<Rightarrow> string option \<Rightarrow> numeric option \<Rightarrow> numeric option \<Rightarrow>
    string option \<Rightarrow> unidad query" where
  "update_unidad_q ev cid uid tipo superficie coeficiente estado =
     tx_bind (num_col 12 4 superficie) (\<lambda>superf.
     tx_bind (num_col 12 8 coeficiente) (\<lambda>coef.
     tx_update_row (mi_unidad ev cid uid) (editada ev tipo superf coef estado) unidad_check (\<lambda>_ _. None)
       unidades unidades_update))"

definition documento_clash :: "db \<Rightarrow> persona \<Rightarrow> string option" where
  "documento_clash s r =
     (if \<exists>x \<in> set (personas s). pe_tenant x = pe_tenant r \<and> pe_id x = pe_id r then Some ''personas_pkey''
      else if pe_documento r \<noteq> None \<and> (\<exists>x \<in> set (personas s). pe_tenant x = pe_tenant r \<and> pe_documento x = pe_documento r)
      then Some ''personas_documento_idx'' else None)"

definition create_persona_q :: "env \<Rightarrow> string \<Rightarrow> string option \<Rightarrow> string option \<Rightarrow> string option \<Rightarrow> persona query" where
  "create_persona_q ev nombre documento email telefono =
     tx_bind (nuevo_uuid ev) (\<lambda>i.
     tx_insert persona_check documento_clash (\<lambda>_ _. True) personas_update
       \<lparr>pe_tenant = tenant ev, pe_id = i, pe_nombre = nombre, pe_documento = documento, pe_email = email,
        pe_telefono = telefono, pe_user = None, pe_created = ahora ev, pe_updated = ahora ev\<rparr>)"

definition get_persona_by_documento :: "env \<Rightarrow> string \<Rightarrow> persona query" where
  "get_persona_by_documento ev documento = tx_row (\<lambda>s.
     List.find (\<lambda>p. pe_tenant p = tenant ev \<and> pe_documento p = Some documento) (personas s))"

definition abierto_de :: "env \<Rightarrow> uuid \<Rightarrow> vinculo \<Rightarrow> bool" where
  "abierto_de ev uid v \<longleftrightarrow> v_tenant v = tenant ev \<and> v_unidad v = uid \<and> v_to v = None"

definition vinculo_vigente_por_persona :: "env \<Rightarrow> uuid \<Rightarrow> uuid \<Rightarrow> string \<Rightarrow> uuid query" where
  "vinculo_vigente_por_persona ev uid pid vinculo = tx_row (\<lambda>s. map_option v_id
     (List.find (\<lambda>v. abierto_de ev uid v \<and> v_persona v = pid \<and> v_vinculo v = vinculo) (vinculos s)))"

definition cerrado_el :: "fecha \<Rightarrow> vinculo \<Rightarrow> vinculo" where
  "cerrado_el f v = v\<lparr>v_to := Some f\<rparr>"

definition close_vinculo_vigente :: "env \<Rightarrow> uuid \<Rightarrow> uuid \<Rightarrow> fecha \<Rightarrow> int query" where
  "close_vinculo_vigente ev uid pid f =
     tx_update (\<lambda>v. abierto_de ev uid v \<and> v_persona v = pid) (cerrado_el f) vinculo_check vinculos vinculos_update"

definition close_all_vinculos_vigentes :: "env \<Rightarrow> uuid \<Rightarrow> fecha \<Rightarrow> int query" where
  "close_all_vinculos_vigentes ev uid f =
     tx_update (abierto_de ev uid) (cerrado_el f) vinculo_check vinculos vinculos_update"

definition persona_existe :: "env \<Rightarrow> uuid \<Rightarrow> db \<Rightarrow> bool" where
  "persona_existe ev pid s \<longleftrightarrow> (\<exists>p \<in> set (personas s). pe_tenant p = tenant ev \<and> pe_id p = pid)"

definition create_vinculo :: "env \<Rightarrow> uuid \<Rightarrow> uuid \<Rightarrow> string \<Rightarrow> numeric option \<Rightarrow> fecha \<Rightarrow> uuid query" where
  "create_vinculo ev uid pid vinculo porcentaje desde =
     tx_bind (nuevo_uuid ev) (\<lambda>i.
     tx_bind (num_col 5 2 porcentaje) (\<lambda>pct.
     tx_bind (tx_insert vinculo_check
       (\<lambda>s r. if \<exists>x \<in> set (vinculos s). v_tenant x = v_tenant r \<and> v_id x = v_id r
              then Some ''unidad_personas_pkey'' else None)
       (\<lambda>s r. unidad_existe ev uid s \<and> persona_existe ev pid s) vinculos_update
       \<lparr>v_tenant = tenant ev, v_id = i, v_unidad = uid, v_persona = pid, v_vinculo = vinculo,
        v_porcentaje = pct, v_from = desde, v_to = None, v_created = ahora ev\<rparr>) (\<lambda>_. tx_ret i)))"

definition list_vinculos_vigentes :: "env \<Rightarrow> uuid \<Rightarrow> (persona \<times> vinculo) list query" where
  "list_vinculos_vigentes ev uid = tx_read (\<lambda>s.
     sort_key (\<lambda>r. v_vinculo (snd r)) (sort_key (\<lambda>r. pe_nombre (fst r)) (sort_key (\<lambda>r. pe_id (fst r))
       [(p, v). v \<leftarrow> vinculos s, abierto_de ev uid v,
                p \<leftarrow> personas s, pe_tenant p = v_tenant v \<and> pe_id p = v_persona v])))"

definition list_unidades_for_current_user :: "env \<Rightarrow> unidad list query" where
  "list_unidades_for_current_user ev = tx_read (\<lambda>s.
     sort_key u_codigo (sort_key u_id (filter (\<lambda>u. u_tenant u = tenant ev \<and>
       (\<exists>p \<in> set (personas s). pe_tenant p = u_tenant u \<and> pe_user p \<noteq> None \<and> pe_user p = usuario ev \<and>
         (\<exists>v \<in> set (vinculos s). v_tenant v = u_tenant u \<and> v_unidad v = u_id u \<and> v_persona v = pe_id p \<and>
            v_from v \<le> hoy ev \<and> (case v_to v of None \<Rightarrow> True | Some d \<Rightarrow> hoy ev \<le> d)))) (unidades s))))"

subsection \<open>Inputs and answers\<close>

record persona_dto =
  pd_id :: string
  pd_nombre :: string
  pd_documento :: "string option"
  pd_email :: "string option"
  pd_telefono :: "string option"
  pd_user :: "string option"

record vinculo_dto =
  vd_persona :: persona_dto
  vd_vinculo :: string
  vd_porcentaje :: "string option"
  vd_from :: string

record unidad_dto =
  un_id :: string
  un_consorcio :: string
  un_codigo :: string
  un_tipo :: string
  un_superficie :: "f64 option"
  un_coeficiente :: string
  un_estado :: string
  un_personas :: "vinculo_dto list"

record persona_input =
  pi_nombre :: string
  pi_documento :: "string option"
  pi_email :: "string option"
  pi_telefono :: "string option"

record vinculo_input =
  vi_persona :: persona_input
  vi_vinculo :: string
  vi_porcentaje :: "string option"
  vi_from :: "string option"

record unidad_input =
  ui_codigo :: string
  ui_tipo :: string
  ui_superficie :: "f64 option"
  ui_coeficiente :: string
  ui_personas :: "vinculo_input list"

record validated_vinculo =
  vv_nombre :: string
  vv_documento :: string
  vv_email :: string
  vv_telefono :: string
  vv_vinculo :: string
  vv_porcentaje :: "numeric option"
  vv_from :: fecha

record validated_unidad =
  vu_codigo :: string
  vu_tipo :: string
  vu_superficie :: "numeric option"
  vu_coeficiente :: numeric
  vu_vinculos :: "validated_vinculo list"

definition unidad_to_dto :: "env \<Rightarrow> unidad \<Rightarrow> unidad_dto" where
  "unidad_to_dto ev u = \<lparr>un_id = uuid_show ev (u_id u), un_consorcio = uuid_show ev (u_consorcio u),
     un_codigo = u_codigo u, un_tipo = u_tipo u,
     un_superficie = map_option (\<lambda>x. num_float ev (x * 10 ^ 4)) (u_superficie u),
     un_coeficiente = numeric_to_string ev (u_coeficiente u), un_estado = u_estado u, un_personas = []\<rparr>"

definition vinculo_to_dto :: "env \<Rightarrow> persona \<times> vinculo \<Rightarrow> vinculo_dto" where
  "vinculo_to_dto ev r = (case r of (p, v) \<Rightarrow>
     \<lparr>vd_persona = \<lparr>pd_id = uuid_show ev (pe_id p), pd_nombre = pe_nombre p, pd_documento = pe_documento p,
        pd_email = pe_email p, pd_telefono = pe_telefono p, pd_user = map_option (uuid_show ev) (pe_user p)\<rparr>,
      vd_vinculo = v_vinculo v, vd_porcentaje = map_option (\<lambda>x. numeric_to_string ev (x * 10 ^ 6)) (v_porcentaje v),
      vd_from = format_fecha (v_from v)\<rparr>)"

subsection \<open>Validation\<close>

text \<open>\<open>Float64Value\<close> of a number of at most 8 decimals.\<close>

definition numeric_float :: "env \<Rightarrow> numeric \<Rightarrow> f64" where
  "numeric_float ev x = num_float ev (fst x * 10 ^ (8 - snd x))"

definition opt_trim :: "string option \<Rightarrow> string" where
  "opt_trim x = (case x of None \<Rightarrow> '''' | Some t \<Rightarrow> trim_space t)"

definition text_or_nil :: "string \<Rightarrow> string option" where
  "text_or_nil t = (if t = '''' then None else Some t)"

definition validate_vinculo :: "env \<Rightarrow> vinculo_input \<Rightarrow> validated_vinculo query" where
  "validate_vinculo ev inp =
     (let nombre = trim_space (pi_nombre (vi_persona inp)) in
     tx_bind (tx_guard (nombre \<noteq> '''' \<and> length nombre \<le> 200) (Dom ErrVinculoInvalid)) (\<lambda>_.
     tx_bind (tx_guard (vi_vinculo inp \<in> valid_vinculos) (Dom ErrVinculoInvalid)) (\<lambda>_.
     tx_bind (case vi_porcentaje inp of None \<Rightarrow> tx_ret None
       | Some p \<Rightarrow>
           tx_bind (tx_guard (pct_re p) (Dom ErrVinculoInvalid)) (\<lambda>_.
           tx_bind (tx_some (Dom ErrVinculoInvalid) (parse_numeric p)) (\<lambda>n.
           tx_bind (tx_guard (\<not> f_gt (numeric_float ev n) 100) (Dom ErrVinculoInvalid)) (\<lambda>_.
           tx_ret (Some n))))) (\<lambda>pct.
     tx_bind (case vi_from inp of None \<Rightarrow> tx_ret (hoy ev)
       | Some d \<Rightarrow>
           tx_bind (tx_guard (date_re d) (Dom ErrVinculoInvalid)) (\<lambda>_.
           tx_some (Dom ErrVinculoInvalid) (parse_fecha d))) (\<lambda>desde.
     tx_ret \<lparr>vv_nombre = nombre, vv_documento = opt_trim (pi_documento (vi_persona inp)),
       vv_email = opt_trim (pi_email (vi_persona inp)), vv_telefono = opt_trim (pi_telefono (vi_persona inp)),
       vv_vinculo = vi_vinculo inp, vv_porcentaje = pct, vv_from = desde\<rparr>)))))"

definition validate_unidad :: "env \<Rightarrow> unidad_input \<Rightarrow> validated_unidad query" where
  "validate_unidad ev inp =
     (let codigo = trim_space (ui_codigo inp) in
     tx_bind (tx_guard (codigo \<noteq> '''' \<and> length codigo \<le> 50) (Dom ErrUnidadInvalid)) (\<lambda>_.
     tx_bind (tx_guard (ui_tipo inp \<in> tipos_uf) (Dom ErrUnidadInvalid)) (\<lambda>_.
     tx_bind (tx_guard (case ui_superficie inp of None \<Rightarrow> True | Some x \<Rightarrow> \<not> f_neg x) (Dom ErrUnidadInvalid)) (\<lambda>_.
     tx_bind (if ui_coeficiente inp = '''' then tx_ret (0, 0)
       else tx_some (Dom ErrUnidadInvalid) (parse_numeric (ui_coeficiente inp))) (\<lambda>coef.
     tx_bind (tx_map (validate_vinculo ev) (ui_personas inp)) (\<lambda>vs.
     tx_ret \<lparr>vu_codigo = codigo, vu_tipo = ui_tipo inp,
       vu_superficie = map_option float_to_numeric (ui_superficie inp), vu_coeficiente = coef, vu_vinculos = vs\<rparr>))))))"

subsection \<open>Operations\<close>

text \<open>\<open>isUniqueViolation\<close>.\<close>

definition unique_as :: "err \<Rightarrow> err \<Rightarrow> err" where
  "unique_as e x = (case x of PgUnique c \<Rightarrow> e | _ \<Rightarrow> x)"

definition attach_persona :: "env \<Rightarrow> uuid \<Rightarrow> validated_vinculo \<Rightarrow> unit query" where
  "attach_persona ev uid v =
     tx_bind (if vv_documento v \<noteq> '''' then tx_opt (get_persona_by_documento ev (vv_documento v)) else tx_ret None) (\<lambda>found.
     tx_bind (case found of Some p \<Rightarrow> tx_ret p
       | None \<Rightarrow> tx_catch (unique_as (Dom ErrDuplicateDocumento)) (create_persona_q ev (vv_nombre v)
           (text_or_nil (vv_documento v)) (text_or_nil (vv_email v)) (text_or_nil (vv_telefono v)))) (\<lambda>p.
     tx_bind (tx_opt (vinculo_vigente_por_persona ev uid (pe_id p) (vv_vinculo v))) (\<lambda>vigente.
     tx_bind (if vigente \<noteq> None then tx_exec (close_vinculo_vigente ev uid (pe_id p) (hoy ev)) else tx_ret ()) (\<lambda>_.
     tx_exec (create_vinculo ev uid (pe_id p) (vv_vinculo v) (vv_porcentaje v) (vv_from v))))))"

definition con_vinculos :: "env \<Rightarrow> unidad \<Rightarrow> unidad_dto query" where
  "con_vinculos ev u = tx_bind (list_vinculos_vigentes ev (u_id u)) (\<lambda>vs.
     tx_ret ((unidad_to_dto ev u)\<lparr>un_personas := map (vinculo_to_dto ev) vs\<rparr>))"

definition unidades_list :: "env \<Rightarrow> string \<Rightarrow> string \<Rightarrow> unidad_dto list query" where
  "unidades_list ev consorcio estado =
     tx_bind (tx_some (Dom ErrUnidadInvalid) (uuid_parse ev consorcio)) (\<lambda>cid.
     tx_bind (list_unidades ev cid estado) (\<lambda>rows. tx_map (con_vinculos ev) rows))"

definition unidades_get :: "env \<Rightarrow> string \<Rightarrow> string \<Rightarrow> unidad_dto query" where
  "unidades_get ev consorcio unidad =
     tx_bind (tx_some (Dom ErrUnidadInvalid) (uuid_parse ev consorcio)) (\<lambda>cid.
     tx_bind (tx_some (Dom ErrUnidadInvalid) (uuid_parse ev unidad)) (\<lambda>uid.
     tx_bind (tx_catch (no_rows_as (Dom ErrUnidadNotFound)) (get_unidad ev cid uid)) (con_vinculos ev)))"

definition unidades_create :: "env \<Rightarrow> string \<Rightarrow> unidad_input \<Rightarrow> unidad_dto query" where
  "unidades_create ev consorcio inp =
     tx_bind (validate_unidad ev inp) (\<lambda>u.
     tx_bind (tx_some (Dom ErrUnidadInvalid) (uuid_parse ev consorcio)) (\<lambda>cid.
     tx_bind (tx_catch (unique_as (Dom ErrDuplicateCodigo))
       (create_unidad_q ev cid (vu_codigo u) (vu_tipo u) (vu_superficie u) (Some (vu_coeficiente u)))) (\<lambda>created.
     tx_bind (tx_map (attach_persona ev (u_id created)) (vu_vinculos u)) (\<lambda>_.
     unidades_get ev consorcio (uuid_show ev (u_id created))))))"

end
