(* ===== verification/Consorcios.thy ===== *)
theory Consorcios
  imports Unidades
begin

text \<open>
  The consorcios of a tenant and their suppliers (\<open>internal/consorcios/consorcios.go\<close>,
  \<open>proveedores.go\<close>, \<open>consorcios.sql.go\<close>, \<open>proveedores.sql.go\<close>).
\<close>

subsection \<open>Patterns\<close>

text \<open>The bytes that continue a rune, and \<open>LIKE\<close>.\<close>

definition continua :: "char \<Rightarrow> bool" where
  "continua c \<longleftrightarrow> 128 \<le> (of_char c :: nat) \<and> (of_char c :: nat) < 192"

function like :: "string \<Rightarrow> string \<Rightarrow> bool" where
  "like [] s = (s = [])"
| "like (p # ps) [] = (p = CHR ''%'' \<and> like ps [])"
| "like (p # ps) (c # cs) =
     (if p = CHR ''%'' then like ps (c # cs) \<or> like (p # ps) cs
      else if p = CHR ''_'' then like ps (dropWhile continua cs)
      else if p = CHR 0x5C then (case ps of [] \<Rightarrow> False | e # es \<Rightarrow> e = c \<and> like es cs)
      else p = c \<and> like ps cs)"
  by pat_completeness auto
termination by (relation "measures [\<lambda>(p, s). length p, \<lambda>(p, s). length s]") auto

definition contiene_texto :: "env \<Rightarrow> string \<Rightarrow> string \<Rightarrow> bool" where
  "contiene_texto ev q t \<longleftrightarrow> q = '''' \<or> like (sql_lower ev (''%'' @ q @ ''%'')) (sql_lower ev t)"

definition cuit_re :: "string \<Rightarrow> bool" where
  "cuit_re s \<longleftrightarrow> length s = 11 \<and> list_all digito s"

subsection \<open>Queries of the consorcios\<close>

definition tipos_consorcio :: "string set" where
  "tipos_consorcio = {''edificio'', ''barrio'', ''complejo'', ''otros''}"

definition estados_alta :: "string set" where
  "estados_alta = {''activo'', ''inactivo''}"

definition consorcio_check :: "consorcio \<Rightarrow> bool" where
  "consorcio_check c \<longleftrightarrow> 1 \<le> runas (co_nombre c) \<and> runas (co_nombre c) \<le> 200 \<and>
     (case co_cuit c of None \<Rightarrow> True | Some t \<Rightarrow> cuit_re t) \<and>
     co_tipo c \<in> tipos_consorcio \<and> co_estado c \<in> estados_alta"

definition clave_consorcio :: "env \<Rightarrow> consorcio \<Rightarrow> uuid \<times> string" where
  "clave_consorcio ev c = (co_tenant c, sql_lower ev (co_nombre c))"

definition consorcio_clash :: "env \<Rightarrow> db \<Rightarrow> consorcio \<Rightarrow> string option" where
  "consorcio_clash ev s r =
     (if \<exists>x \<in> set (consorcios s). co_tenant x = co_tenant r \<and> co_id x = co_id r then Some ''consorcios_pkey''
      else if \<exists>x \<in> set (consorcios s). clave_consorcio ev x = clave_consorcio ev r
      then Some ''consorcios_tenant_nombre_idx'' else None)"

definition create_consorcio_q :: "env \<Rightarrow> string \<Rightarrow> string option \<Rightarrow> string option \<Rightarrow> string \<Rightarrow> consorcio query" where
  "create_consorcio_q ev nombre cuit domicilio tipo =
     tx_bind (nuevo_uuid ev) (\<lambda>i.
     tx_insert consorcio_check (consorcio_clash ev) (\<lambda>_ _. True) consorcios_update
       \<lparr>co_tenant = tenant ev, co_id = i, co_nombre = nombre, co_cuit = cuit, co_domicilio = domicilio,
        co_tipo = tipo, co_estado = ''activo'', co_config = ''{}'', co_created = ahora ev, co_updated = ahora ev\<rparr>)"

definition mi_consorcio :: "env \<Rightarrow> uuid \<Rightarrow> consorcio \<Rightarrow> bool" where
  "mi_consorcio ev cid c \<longleftrightarrow> co_tenant c = tenant ev \<and> co_id c = cid"

definition get_consorcio_q :: "env \<Rightarrow> uuid \<Rightarrow> consorcio query" where
  "get_consorcio_q ev cid = tx_row (\<lambda>s. List.find (mi_consorcio ev cid) (consorcios s))"

definition list_consorcios_q :: "env \<Rightarrow> string \<Rightarrow> string \<Rightarrow> consorcio list query" where
  "list_consorcios_q ev q estado = tx_read (\<lambda>s.
     rev (sort_key co_created (sort_key co_id (filter (\<lambda>c. co_tenant c = tenant ev \<and>
       contiene_texto ev q (co_nombre c) \<and> (estado = '''' \<or> co_estado c = estado)) (consorcios s)))))"

definition otra :: "'a option \<Rightarrow> 'a \<Rightarrow> 'a" where
  "otra x y = (case x of None \<Rightarrow> y | Some z \<Rightarrow> z)"

definition consorcio_editado :: "env \<Rightarrow> string option \<Rightarrow> string option \<Rightarrow> string option \<Rightarrow> string option \<Rightarrow>
    string option \<Rightarrow> consorcio \<Rightarrow> consorcio" where
  "consorcio_editado ev nombre cuit domicilio tipo estado c = c\<lparr>
     co_nombre := otra nombre (co_nombre c), co_cuit := (if cuit = None then co_cuit c else cuit),
     co_domicilio := (if domicilio = None then co_domicilio c else domicilio),
     co_tipo := otra tipo (co_tipo c), co_estado := otra estado (co_estado c), co_updated := ahora ev\<rparr>"

definition update_consorcio_q :: "env \<Rightarrow> string option \<Rightarrow> string option \<Rightarrow> string option \<Rightarrow> string option \<Rightarrow>
    string option \<Rightarrow> uuid \<Rightarrow> consorcio query" where
  "update_consorcio_q ev nombre cuit domicilio tipo estado cid =
     tx_update_row (mi_consorcio ev cid) (consorcio_editado ev nombre cuit domicilio tipo estado) consorcio_check
       (\<lambda>s r. if \<exists>x \<in> set (consorcios s). \<not> mi_consorcio ev cid x \<and> clave_consorcio ev x = clave_consorcio ev r
              then Some ''consorcios_tenant_nombre_idx'' else None)
       consorcios consorcios_update"

subsection \<open>Operations of the consorcios\<close>

record consorcio_dto =
  kd_id :: string
  kd_tenant :: string
  kd_nombre :: string
  kd_cuit :: "string option"
  kd_domicilio :: "string option"
  kd_tipo :: string
  kd_estado :: string
  kd_created :: ts

record consorcio_input =
  ki_nombre :: "string option"
  ki_cuit :: "string option"
  ki_domicilio :: "string option"
  ki_tipo :: "string option"
  ki_estado :: "string option"

record validated_consorcio =
  vk_nombre :: string
  vk_cuit :: string
  vk_domicilio :: string
  vk_tipo :: string

definition consorcio_to_dto :: "env \<Rightarrow> consorcio \<Rightarrow> consorcio_dto" where
  "consorcio_to_dto ev c = \<lparr>kd_id = uuid_show ev (co_id c), kd_tenant = uuid_show ev (co_tenant c),
     kd_nombre = co_nombre c, kd_cuit = co_cuit c, kd_domicilio = co_domicilio c, kd_tipo = co_tipo c,
     kd_estado = co_estado c, kd_created = co_created c\<rparr>"

definition check_nombre :: "string \<Rightarrow> unit query" where
  "check_nombre n = tx_guard (trim_space n \<noteq> '''' \<and> length (trim_space n) \<le> 200) (Dom ErrConsorcioInvalid)"

text \<open>A field that is given has to satisfy \<open>P\<close>.\<close>

definition campo_ok :: "('a \<Rightarrow> bool) \<Rightarrow> 'a option \<Rightarrow> bool" where
  "campo_ok P x = (case x of None \<Rightarrow> True | Some t \<Rightarrow> P t)"

definition validate_consorcio :: "consorcio_input \<Rightarrow> bool \<Rightarrow> validated_consorcio query" where
  "validate_consorcio inp require_nombre =
     tx_bind (tx_guard (\<not> require_nombre \<or> (ki_nombre inp \<noteq> None \<and> trim_space (the (ki_nombre inp)) \<noteq> ''''))
       (Dom ErrConsorcioInvalid)) (\<lambda>_.
     tx_bind (case ki_nombre inp of None \<Rightarrow> tx_ret '''' | Some n \<Rightarrow> tx_bind (check_nombre n) (\<lambda>_. tx_ret (trim_space n))) (\<lambda>nombre.
     tx_bind (tx_guard (campo_ok cuit_re (ki_cuit inp)) (Dom ErrConsorcioInvalid)) (\<lambda>_.
     tx_bind (tx_guard (campo_ok (\<lambda>d. length d \<le> 300) (ki_domicilio inp)) (Dom ErrConsorcioInvalid)) (\<lambda>_.
     tx_bind (tx_guard (campo_ok (\<lambda>t. t \<in> tipos_consorcio) (ki_tipo inp)) (Dom ErrConsorcioInvalid)) (\<lambda>_.
     tx_ret \<lparr>vk_nombre = nombre, vk_cuit = otra (ki_cuit inp) '''', vk_domicilio = otra (ki_domicilio inp) '''',
       vk_tipo = otra (ki_tipo inp) (if require_nombre then ''edificio'' else '''')\<rparr>)))))"

definition consorcios_create :: "env \<Rightarrow> consorcio_input \<Rightarrow> consorcio_dto query" where
  "consorcios_create ev inp =
     tx_bind (validate_consorcio inp True) (\<lambda>v.
     tx_bind (tx_catch (unique_as (Dom ErrDuplicateName)) (create_consorcio_q ev (vk_nombre v) (text_or_nil (vk_cuit v))
       (text_or_nil (vk_domicilio v)) (vk_tipo v))) (\<lambda>c. tx_ret (consorcio_to_dto ev c)))"

definition consorcios_get :: "env \<Rightarrow> string \<Rightarrow> consorcio_dto query" where
  "consorcios_get ev i =
     tx_bind (tx_some (Dom ErrConsorcioInvalid) (uuid_parse ev i)) (\<lambda>cid.
     tx_bind (tx_catch (no_rows_as (Dom ErrConsorcioNotFound)) (get_consorcio_q ev cid)) (\<lambda>c.
     tx_ret (consorcio_to_dto ev c)))"

definition consorcios_list :: "env \<Rightarrow> string \<Rightarrow> string \<Rightarrow> consorcio_dto list query" where
  "consorcios_list ev q estado =
     tx_bind (list_consorcios_q ev q estado) (\<lambda>rows. tx_ret (map (consorcio_to_dto ev) rows))"

definition consorcios_update_op :: "env \<Rightarrow> string \<Rightarrow> consorcio_input \<Rightarrow> consorcio_dto query" where
  "consorcios_update_op ev i inp =
     tx_bind (tx_some (Dom ErrConsorcioInvalid) (uuid_parse ev i)) (\<lambda>cid.
     tx_bind (case ki_nombre inp of None \<Rightarrow> tx_ret None | Some n \<Rightarrow> tx_bind (check_nombre n) (\<lambda>_. tx_ret (Some (trim_space n)))) (\<lambda>nombre.
     tx_bind (tx_guard (campo_ok cuit_re (ki_cuit inp)) (Dom ErrConsorcioInvalid)) (\<lambda>_.
     tx_bind (tx_guard (campo_ok (\<lambda>d. length d \<le> 300) (ki_domicilio inp)) (Dom ErrConsorcioInvalid)) (\<lambda>_.
     tx_bind (tx_guard (campo_ok (\<lambda>t. t \<in> tipos_consorcio) (ki_tipo inp)) (Dom ErrConsorcioInvalid)) (\<lambda>_.
     tx_bind (tx_guard (campo_ok (\<lambda>t. t \<in> estados_alta) (ki_estado inp)) (Dom ErrConsorcioInvalid)) (\<lambda>_.
     tx_bind (tx_catch (\<lambda>e. unique_as (Dom ErrDuplicateName) (no_rows_as (Dom ErrConsorcioNotFound) e))
       (update_consorcio_q ev nombre (ki_cuit inp) (ki_domicilio inp) (ki_tipo inp) (ki_estado inp) cid)) (\<lambda>c.
     tx_ret (consorcio_to_dto ev c))))))))"

subsection \<open>Queries of the suppliers\<close>

definition proveedor_check :: "proveedor \<Rightarrow> bool" where
  "proveedor_check p \<longleftrightarrow> cuit_re (pv_cuit p) \<and> 1 \<le> runas (pv_razon p) \<and> runas (pv_razon p) \<le> 200 \<and>
     pv_estado p \<in> estados_alta"

definition clave_proveedor :: "proveedor \<Rightarrow> uuid \<times> uuid \<times> string" where
  "clave_proveedor p = (pv_tenant p, pv_consorcio p, pv_cuit p)"

definition mi_proveedor :: "env \<Rightarrow> uuid \<Rightarrow> proveedor \<Rightarrow> bool" where
  "mi_proveedor ev pid p \<longleftrightarrow> pv_tenant p = tenant ev \<and> pv_id p = pid"

definition create_proveedor_q :: "env \<Rightarrow> uuid \<Rightarrow> string \<Rightarrow> string \<Rightarrow> string option \<Rightarrow> string option \<Rightarrow>
    string option \<Rightarrow> proveedor query" where
  "create_proveedor_q ev cid cuit razon nombre email telefono =
     tx_bind (nuevo_uuid ev) (\<lambda>i.
     tx_insert proveedor_check
       (\<lambda>s r. if \<exists>x \<in> set (proveedores s). mi_proveedor ev i x then Some ''proveedores_pkey''
              else if \<exists>x \<in> set (proveedores s). clave_proveedor x = clave_proveedor r
              then Some ''proveedores_consorcio_cuit_idx'' else None)
       (\<lambda>s r. consorcio_existe ev cid s) proveedores_update
       \<lparr>pv_tenant = tenant ev, pv_consorcio = cid, pv_id = i, pv_cuit = cuit, pv_razon = razon, pv_nombre = nombre,
        pv_email = email, pv_telefono = telefono, pv_estado = ''activo'', pv_created = ahora ev, pv_updated = ahora ev\<rparr>)"

definition get_proveedor_q :: "env \<Rightarrow> uuid \<Rightarrow> proveedor query" where
  "get_proveedor_q ev pid = tx_row (\<lambda>s. List.find (mi_proveedor ev pid) (proveedores s))"

definition list_proveedores_q :: "env \<Rightarrow> uuid \<Rightarrow> string \<Rightarrow> string \<Rightarrow> proveedor list query" where
  "list_proveedores_q ev cid q estado = tx_read (\<lambda>s.
     rev (sort_key pv_created (sort_key pv_id (filter (\<lambda>p. pv_tenant p = tenant ev \<and> pv_consorcio p = cid \<and>
       contiene_texto ev q (pv_razon p) \<and> (estado = '''' \<or> pv_estado p = estado)) (proveedores s)))))"

definition proveedor_editado :: "env \<Rightarrow> string \<Rightarrow> string \<Rightarrow> string option \<Rightarrow> string option \<Rightarrow> string option \<Rightarrow>
    proveedor \<Rightarrow> proveedor" where
  "proveedor_editado ev cuit razon nombre email telefono p = p\<lparr>
     pv_cuit := cuit, pv_razon := razon, pv_nombre := (if nombre = None then pv_nombre p else nombre),
     pv_email := (if email = None then pv_email p else email),
     pv_telefono := (if telefono = None then pv_telefono p else telefono), pv_updated := ahora ev\<rparr>"

definition update_proveedor_q :: "env \<Rightarrow> string \<Rightarrow> string \<Rightarrow> string option \<Rightarrow> string option \<Rightarrow> string option \<Rightarrow>
    uuid \<Rightarrow> proveedor query" where
  "update_proveedor_q ev cuit razon nombre email telefono pid =
     tx_update_row (mi_proveedor ev pid) (proveedor_editado ev cuit razon nombre email telefono) proveedor_check
       (\<lambda>s r. if \<exists>x \<in> set (proveedores s). \<not> mi_proveedor ev pid x \<and> clave_proveedor x = clave_proveedor r
              then Some ''proveedores_consorcio_cuit_idx'' else None)
       proveedores proveedores_update"

definition update_proveedor_estado_q :: "env \<Rightarrow> string \<Rightarrow> uuid \<Rightarrow> proveedor query" where
  "update_proveedor_estado_q ev estado pid =
     tx_update_row (mi_proveedor ev pid) (\<lambda>p. p\<lparr>pv_estado := estado, pv_updated := ahora ev\<rparr>) proveedor_check
       (\<lambda>_ _. None) proveedores proveedores_update"

subsection \<open>Operations of the suppliers\<close>

record proveedor_dto =
  xd_id :: string
  xd_consorcio :: string
  xd_cuit :: string
  xd_razon :: string
  xd_nombre :: "string option"
  xd_email :: "string option"
  xd_telefono :: "string option"
  xd_estado :: string
  xd_created :: ts

record proveedor_input =
  xi_cuit :: string
  xi_razon :: string
  xi_nombre :: "string option"
  xi_email :: "string option"
  xi_telefono :: "string option"

record validated_proveedor =
  vx_cuit :: string
  vx_razon :: string
  vx_nombre :: "string option"
  vx_email :: "string option"
  vx_telefono :: "string option"

definition proveedor_to_dto :: "env \<Rightarrow> proveedor \<Rightarrow> proveedor_dto" where
  "proveedor_to_dto ev p = \<lparr>xd_id = uuid_show ev (pv_id p), xd_consorcio = uuid_show ev (pv_consorcio p),
     xd_cuit = pv_cuit p, xd_razon = pv_razon p, xd_nombre = pv_nombre p, xd_email = pv_email p,
     xd_telefono = pv_telefono p, xd_estado = pv_estado p, xd_created = pv_created p\<rparr>"

text \<open>\<open>textOrNil(ptrStr(normalizePtr(x)))\<close>.\<close>

definition normalize_ptr :: "string option \<Rightarrow> string option" where
  "normalize_ptr x = (case x of None \<Rightarrow> None | Some t \<Rightarrow> if trim_space t = '''' then None else Some (trim_space t))"

definition validate_proveedor :: "proveedor_input \<Rightarrow> bool \<Rightarrow> validated_proveedor query" where
  "validate_proveedor inp require_basicos =
     (let v = \<lparr>vx_cuit = trim_space (xi_cuit inp), vx_razon = trim_space (xi_razon inp),
        vx_nombre = normalize_ptr (xi_nombre inp), vx_email = normalize_ptr (xi_email inp),
        vx_telefono = normalize_ptr (xi_telefono inp)\<rparr> in
     tx_bind (tx_guard (require_basicos \<longrightarrow> cuit_re (vx_cuit v) \<and> vx_razon v \<noteq> '''' \<and> length (vx_razon v) \<le> 200)
       (Dom ErrProveedorInvalid)) (\<lambda>_.
     tx_bind (tx_guard (vx_razon v = '''' \<or> length (vx_razon v) \<le> 200) (Dom ErrProveedorInvalid)) (\<lambda>_.
     tx_bind (tx_guard (campo_ok (\<lambda>t. length t \<le> 100) (vx_email v)) (Dom ErrProveedorInvalid)) (\<lambda>_.
     tx_bind (tx_guard (campo_ok (\<lambda>t. length t \<le> 200) (vx_nombre v)) (Dom ErrProveedorInvalid)) (\<lambda>_.
     tx_bind (tx_guard (campo_ok (\<lambda>t. length t \<le> 30) (vx_telefono v)) (Dom ErrProveedorInvalid)) (\<lambda>_.
     tx_ret v))))))"

definition list_proveedores_op :: "env \<Rightarrow> string \<Rightarrow> string \<Rightarrow> string \<Rightarrow> proveedor_dto list query" where
  "list_proveedores_op ev consorcio q estado =
     tx_bind (tx_some (Dom ErrProveedorInvalid) (uuid_parse ev consorcio)) (\<lambda>cid.
     tx_bind (list_proveedores_q ev cid (trim_space q) (trim_space estado)) (\<lambda>rows.
     tx_ret (map (proveedor_to_dto ev) rows)))"

definition create_proveedor :: "env \<Rightarrow> string \<Rightarrow> proveedor_input \<Rightarrow> proveedor_dto query" where
  "create_proveedor ev consorcio inp =
     tx_bind (validate_proveedor inp True) (\<lambda>v.
     tx_bind (tx_some (Dom ErrProveedorInvalid) (uuid_parse ev consorcio)) (\<lambda>cid.
     tx_bind (tx_catch (unique_as (Dom ErrProveedorDuplicateCuit)) (create_proveedor_q ev cid (vx_cuit v) (vx_razon v)
       (vx_nombre v) (vx_email v) (vx_telefono v))) (\<lambda>p.
     tx_ret (proveedor_to_dto ev p))))"

definition get_proveedor :: "env \<Rightarrow> string \<Rightarrow> proveedor_dto query" where
  "get_proveedor ev i =
     tx_bind (tx_some (Dom ErrProveedorNotFound) (uuid_parse ev i)) (\<lambda>pid.
     tx_bind (tx_catch (no_rows_as (Dom ErrProveedorNotFound)) (get_proveedor_q ev pid)) (\<lambda>p.
     tx_ret (proveedor_to_dto ev p)))"

definition update_proveedor :: "env \<Rightarrow> string \<Rightarrow> proveedor_input \<Rightarrow> proveedor_dto query" where
  "update_proveedor ev i inp =
     tx_bind (validate_proveedor inp True) (\<lambda>v.
     tx_bind (tx_some (Dom ErrProveedorNotFound) (uuid_parse ev i)) (\<lambda>pid.
     tx_bind (tx_catch (\<lambda>e. unique_as (Dom ErrProveedorDuplicateCuit) (no_rows_as (Dom ErrProveedorNotFound) e))
       (update_proveedor_q ev (vx_cuit v) (vx_razon v) (vx_nombre v) (vx_email v) (vx_telefono v) pid)) (\<lambda>p.
     tx_ret (proveedor_to_dto ev p))))"

definition set_proveedor_estado :: "env \<Rightarrow> string \<Rightarrow> string \<Rightarrow> proveedor_dto query" where
  "set_proveedor_estado ev i estado =
     (let e = (if trim_space estado = '''' then ''activo'' else trim_space estado) in
     tx_bind (tx_guard (e \<in> estados_alta) (Dom ErrProveedorInvalid)) (\<lambda>_.
     tx_bind (tx_some (Dom ErrProveedorNotFound) (uuid_parse ev i)) (\<lambda>pid.
     tx_bind (tx_catch (no_rows_as (Dom ErrProveedorNotFound)) (update_proveedor_estado_q ev e pid)) (\<lambda>p.
     tx_ret (proveedor_to_dto ev p)))))"

end
