(* ===== verification/Importaciones.thy ===== *)
theory Importaciones
  imports Consorcios Idempotencia
begin

text \<open>
  The import of units from a CSV file (\<open>internal/consorcios/imports.go\<close>, \<open>import_jobs.sql.go\<close>): an
  upload is read, validated and stored as a job, its confirmation applies the valid rows in the mode
  of the job. The reader of \<open>encoding/csv\<close> is a machine over the bytes of the file.
\<close>

subsection \<open>The reader of encoding/csv\<close>

text \<open>A carriage return before a line feed, or at the end of the file, is dropped.\<close>

fun sin_cr :: "string \<Rightarrow> string" where
  "sin_cr [] = []"
| "sin_cr [c] = (if c = CHR 0x0D then [] else [c])"
| "sin_cr (c # d # cs) = (if c = CHR 0x0D \<and> d = CHR 0x0A then d # sin_cr cs else c # sin_cr (d # cs))"

text \<open>
  The reader is before a record, before a field, in a plain field, in a quoted one, or after a quote
  in a quoted one. It holds the records, the fields of the record and the bytes of the field that
  it has read, the last ones first.
\<close>

datatype modo_csv = Inicio | Campo | Libre | Citado | TrasCita

fun leer_csv :: "modo_csv \<Rightarrow> string list list \<Rightarrow> string list \<Rightarrow> string \<Rightarrow> string \<Rightarrow> string list list option" where
  "leer_csv m rs fs f [] = (case m of Inicio \<Rightarrow> Some (rev rs) | Citado \<Rightarrow> None
     | _ \<Rightarrow> Some (rev (rev (rev f # fs) # rs)))"
| "leer_csv m rs fs f (c # cs) = (case m of
     Citado \<Rightarrow> if c = CHR ''\"'' then leer_csv TrasCita rs fs f cs else leer_csv Citado rs fs (c # f) cs
   | _ \<Rightarrow>
     if c = CHR 0x0A then (if m = Inicio then leer_csv Inicio rs [] [] cs
       else leer_csv Inicio (rev (rev f # fs) # rs) [] [] cs)
     else if c = CHR '','' then leer_csv Campo rs (rev f # fs) [] cs
     else if c = CHR ''\"'' then (case m of Libre \<Rightarrow> None | TrasCita \<Rightarrow> leer_csv Citado rs fs (c # f) cs
       | _ \<Rightarrow> leer_csv Citado rs fs f cs)
     else if m = TrasCita then None else leer_csv Libre rs fs (c # f) cs)"

text \<open>\<open>ReadAll\<close> with \<open>FieldsPerRecord\<close>.\<close>

definition read_all :: "nat \<Rightarrow> string \<Rightarrow> string list list option" where
  "read_all n bytes = (case leer_csv Inicio [] [] [] (sin_cr bytes) of None \<Rightarrow> None
     | Some rs \<Rightarrow> if list_all (\<lambda>r. length r = n) rs then Some rs else None)"

subsection \<open>The template\<close>

definition encabezado_ufs_csv :: "string list" where
  "encabezado_ufs_csv = [''codigo'', ''tipo'', ''superficie'', ''coeficiente'', ''nombre'', ''documento'',
     ''email'', ''telefono'', ''vinculo'', ''porcentaje'']"

definition quitar_bom :: "string \<Rightarrow> string" where
  "quitar_bom s = (if take 3 s = [CHR 0xEF, CHR 0xBB, CHR 0xBF] then drop 3 s else s)"

definition normalize_csv_record :: "string list \<Rightarrow> string list" where
  "normalize_csv_record = map (\<lambda>c. trim_space (quitar_bom c))"

definition pct_gt100 :: "string \<Rightarrow> bool" where
  "pct_gt100 s = (case parse_float s of None \<Rightarrow> True | Some v \<Rightarrow> f_gt v 100)"

definition optional_str :: "string \<Rightarrow> string option" where
  "optional_str s = text_or_nil (trim_space s)"

text \<open>The texts of the errors, in UTF-8.\<close>

definition err_codigo :: "string \<times> string" where
  "err_codigo = (''codigo'', ''c'' @ [CHR 0xC3, CHR 0xB3] @ ''digo obligatorio (m'' @ [CHR 0xC3, CHR 0xA1] @ ''x 50 caracteres)'')"

definition err_codigo_duplicado :: "string \<times> string" where
  "err_codigo_duplicado = (''codigo'', ''c'' @ [CHR 0xC3, CHR 0xB3] @ ''digo duplicado en el archivo'')"

definition err_tipo :: "string \<times> string" where
  "err_tipo = (''tipo'', ''tipo inv'' @ [CHR 0xC3, CHR 0xA1] @ ''lido (departamento|cochera|local|unidad_edificio|otros)'')"

definition err_superficie :: "string \<times> string" where
  "err_superficie = (''superficie'', ''superficie inv'' @ [CHR 0xC3, CHR 0xA1] @ ''lida (num'' @ [CHR 0xC3, CHR 0xA9] @ ''rico >= 0)'')"

definition err_coeficiente :: "string \<times> string" where
  "err_coeficiente = (''coeficiente'', ''coeficiente inv'' @ [CHR 0xC3, CHR 0xA1] @ ''lido (hasta 8 decimales)'')"

definition err_nombre :: "string \<times> string" where
  "err_nombre = (''nombre'', ''nombre obligatorio si se declara una persona (m'' @ [CHR 0xC3, CHR 0xA1] @ ''x 200)'')"

definition err_vinculo :: "string \<times> string" where
  "err_vinculo = (''vinculo'', ''v'' @ [CHR 0xC3, CHR 0xAD] @ ''nculo inv'' @ [CHR 0xC3, CHR 0xA1] @ ''lido (propietario|inquilino|apoderado)'')"

definition err_porcentaje :: "string \<times> string" where
  "err_porcentaje = (''porcentaje'', ''porcentaje inv'' @ [CHR 0xC3, CHR 0xA1] @ ''lido (0-100, hasta 2 decimales)'')"

definition err_codigo_existe :: "string \<times> string" where
  "err_codigo_existe = (''codigo'', ''c'' @ [CHR 0xC3, CHR 0xB3] @ ''digo ya existe'')"

definition err_codigo_no_existe :: "string \<times> string" where
  "err_codigo_no_existe = (''codigo'', ''c'' @ [CHR 0xC3, CHR 0xB3] @ ''digo no existe'')"

text \<open>
  A row of the file: the fields that are stored, and the errors in the order of the checks. \<open>vistos\<close>
  are the codes of the rows before.
\<close>

definition superficie_csv :: "string \<Rightarrow> f64 option option" where
  "superficie_csv s = (if trim_space s = '''' then Some None
     else case parse_float (trim_space s) of None \<Rightarrow> None
     | Some v \<Rightarrow> if f_neg v then None else Some (Some v))"

definition si_error :: "bool \<Rightarrow> 'a \<Rightarrow> 'a list" where
  "si_error b e = (if b then [e] else [])"

definition fila_csv :: "string list \<Rightarrow> int \<Rightarrow> string list \<Rightarrow> fila_import \<times> (string \<times> string) list" where
  "fila_csv vistos n rec0 =
     (let r = normalize_csv_record rec0;
          codigo = trim_space (r ! 0);
          tipo = trim_space (r ! 1);
          superf = superficie_csv (r ! 2);
          coef_mal = (trim_space (r ! 3) \<noteq> '''' \<and> \<not> coef_re (trim_space (r ! 3)));
          nombre = trim_space (r ! 4);
          vinculo = (if trim_space (r ! 8) = '''' then ''propietario'' else trim_space (r ! 8));
          documento = optional_str (r ! 5); email = optional_str (r ! 6); telefono = optional_str (r ! 7);
          porcentaje = optional_str (r ! 9);
          persona = (nombre \<noteq> '''' \<or> documento \<noteq> None \<or> email \<noteq> None \<or> telefono \<noteq> None);
          campos = (if codigo = '''' \<or> 50 < length codigo then [err_codigo]
                    else si_error (codigo \<in> set vistos) err_codigo_duplicado) @
            si_error (tipo \<notin> tipos_uf) err_tipo @
            si_error (superf = None) err_superficie @
            si_error coef_mal err_coeficiente @
            (if persona then
               si_error (nombre = '''' \<or> 200 < length nombre) err_nombre @
               si_error (vinculo \<notin> valid_vinculos) err_vinculo @
               si_error (case porcentaje of None \<Rightarrow> False | Some p \<Rightarrow> \<not> pct_re p \<or> pct_gt100 p) err_porcentaje
             else [])
      in (\<lparr>fi_fila = n, fi_codigo = codigo, fi_tipo = tipo, fi_superficie = otra superf None,
           fi_coeficiente = (if coef_mal then r ! 3 else trim_space (r ! 3)), fi_nombre = nombre,
           fi_documento = documento, fi_email = email, fi_telefono = telefono,
           fi_vinculo = (if persona then vinculo else ''''), fi_porcentaje = (if persona then porcentaje else None),
           fi_valida = (campos = [])\<rparr>, campos))"

fun filas_csv :: "string list \<Rightarrow> int \<Rightarrow> string list list \<Rightarrow> (fila_import \<times> (string \<times> string) list) list" where
  "filas_csv vistos n [] = []"
| "filas_csv vistos n (r # rs) = fila_csv vistos n r #
     filas_csv (fi_codigo (fst (fila_csv vistos n r)) # vistos) (n + 1) rs"

definition parse_plantilla_ufs_csv :: "string \<Rightarrow> (fila_import list \<times> import_error list) query" where
  "parse_plantilla_ufs_csv bytes =
     tx_bind (tx_some (Dom ErrImportInvalid) (read_all (length encabezado_ufs_csv) bytes)) (\<lambda>records.
     tx_bind (tx_guard (2 \<le> length records) (Dom ErrImportInvalid)) (\<lambda>_.
     tx_bind (tx_guard (normalize_csv_record (hd records) = encabezado_ufs_csv) (Dom ErrImportInvalid)) (\<lambda>_.
     let fs = filas_csv [] 2 (tl records) in
     tx_ret (map fst fs, [\<lparr>ie_fila = fi_fila f, ie_campos = cs\<rparr>. (f, cs) \<leftarrow> fs, cs \<noteq> []]))))"

subsection \<open>The columns of a job\<close>

text \<open>
  \<open>json.Marshal\<close> writes a byte that is not of a rune in UTF-8 as the replacement character. The
  length of the rune that a text starts with, or 0.
\<close>

definition entre :: "nat \<Rightarrow> nat \<Rightarrow> char \<Rightarrow> bool" where
  "entre a b c \<longleftrightarrow> a \<le> (of_char c :: nat) \<and> (of_char c :: nat) \<le> b"

definition seguir :: "(char \<Rightarrow> bool) list \<Rightarrow> string \<Rightarrow> bool" where
  "seguir ps s \<longleftrightarrow> length ps \<le> length s \<and> list_all2 (\<lambda>p c. p c) ps (take (length ps) s)"

definition runa_len :: "string \<Rightarrow> nat" where
  "runa_len s = (case s of [] \<Rightarrow> 0 | c # cs \<Rightarrow>
     let k = entre 128 191 in
     if entre 0 127 c then 1
     else if entre 194 223 c \<and> seguir [k] cs then 2
     else if entre 224 224 c \<and> seguir [entre 160 191, k] cs then 3
     else if (entre 225 236 c \<or> entre 238 239 c) \<and> seguir [k, k] cs then 3
     else if entre 237 237 c \<and> seguir [entre 128 159, k] cs then 3
     else if entre 240 240 c \<and> seguir [entre 144 191, k, k] cs then 4
     else if entre 241 243 c \<and> seguir [k, k, k] cs then 4
     else if entre 244 244 c \<and> seguir [entre 128 143, k, k] cs then 4
     else 0)"

fun json_texto :: "string \<Rightarrow> string" where
  "json_texto [] = []"
| "json_texto (c # cs) = (case runa_len (c # cs) of
     0 \<Rightarrow> [CHR 0xEF, CHR 0xBF, CHR 0xBD] @ json_texto cs
   | Suc n \<Rightarrow> c # take n cs @ json_texto (drop n cs))"

definition fila_textos :: "(string \<Rightarrow> string) \<Rightarrow> fila_import \<Rightarrow> fila_import" where
  "fila_textos g f = f\<lparr>fi_codigo := g (fi_codigo f), fi_tipo := g (fi_tipo f), fi_coeficiente := g (fi_coeficiente f),
     fi_nombre := g (fi_nombre f), fi_documento := map_option g (fi_documento f), fi_email := map_option g (fi_email f),
     fi_telefono := map_option g (fi_telefono f), fi_vinculo := g (fi_vinculo f),
     fi_porcentaje := map_option g (fi_porcentaje f)\<rparr>"

definition fila_todos :: "fila_import \<Rightarrow> string" where
  "fila_todos f = concat ([fi_codigo f, fi_tipo f, fi_coeficiente f, fi_nombre f, fi_vinculo f] @
     concat (map (\<lambda>x. case x of None \<Rightarrow> [] | Some t \<Rightarrow> [t])
       [fi_documento f, fi_email f, fi_telefono f, fi_porcentaje f]))"

text \<open>\<open>json.Marshal\<close> of the rows, read back: there is no JSON of an infinity or a NaN.\<close>

definition filas_json :: "fila_import list \<Rightarrow> fila_import list query" where
  "filas_json fs = tx_bind (tx_guard (\<forall>f \<in> set fs. case fi_superficie f of None \<Rightarrow> True | Some (Fin m e) \<Rightarrow> True | _ \<Rightarrow> False)
     ErrJson) (\<lambda>_. tx_ret (map (fila_textos json_texto) fs))"

subsection \<open>Queries\<close>

definition import_check :: "import_job \<Rightarrow> bool" where
  "import_check j \<longleftrightarrow> ij_estado j \<in> {''validando'', ''listo'', ''confirmando'', ''procesado'', ''fallido''} \<and>
     ij_modo j \<in> {''crear'', ''actualizar'', ''crear_y_actualizar''}"

definition mi_import :: "env \<Rightarrow> uuid \<Rightarrow> import_job \<Rightarrow> bool" where
  "mi_import ev i j \<longleftrightarrow> ij_tenant j = tenant ev \<and> ij_id j = i"

text \<open>A column \<open>JSONB\<close> does not admit the character 0: the statement is a data exception.\<close>

definition create_import_job_q :: "env \<Rightarrow> uuid \<Rightarrow> string \<Rightarrow> string \<Rightarrow> int \<Rightarrow> fila_import list \<Rightarrow> import_error list \<Rightarrow>
    import_job query" where
  "create_import_job_q ev cid modo plantilla cuantas filas errores =
     tx_bind (tx_guard (\<forall>f \<in> set filas. CHR 0x00 \<notin> set (fila_todos f)) PgRange) (\<lambda>_.
     tx_bind (nuevo_uuid ev) (\<lambda>i.
     tx_insert import_check
       (\<lambda>s r. if \<exists>x \<in> set (import_jobs s). mi_import ev i x then Some ''import_jobs_pkey'' else None)
       (\<lambda>s r. consorcio_existe ev cid s) import_jobs_update
       \<lparr>ij_tenant = tenant ev, ij_consorcio = cid, ij_id = i, ij_estado = ''validando'', ij_modo = modo,
        ij_plantilla = plantilla, ij_total = cuantas, ij_filas = filas, ij_errores = errores, ij_creados = 0,
        ij_actualizados = 0, ij_rechazados = 0, ij_url = None, ij_created = ahora ev, ij_updated = ahora ev\<rparr>))"

definition get_import_job_q :: "env \<Rightarrow> uuid \<Rightarrow> import_job query" where
  "get_import_job_q ev i = tx_row (\<lambda>s. List.find (mi_import ev i) (import_jobs s))"

definition job_en_estado :: "env \<Rightarrow> string \<Rightarrow> import_job \<Rightarrow> import_job" where
  "job_en_estado ev e j = j\<lparr>ij_estado := e, ij_updated := ahora ev\<rparr>"

definition set_import_job_estado :: "env \<Rightarrow> uuid \<Rightarrow> string \<Rightarrow> unit query" where
  "set_import_job_estado ev i e =
     tx_exec (tx_update (mi_import ev i) (job_en_estado ev e) import_check import_jobs import_jobs_update)"

definition terminado :: "env \<Rightarrow> string \<Rightarrow> int \<Rightarrow> int \<Rightarrow> int \<Rightarrow> import_error list \<Rightarrow> import_job \<Rightarrow> import_job" where
  "terminado ev e c a r errores j = j\<lparr>ij_estado := e, ij_creados := c, ij_actualizados := a, ij_rechazados := r,
     ij_errores := errores, ij_updated := ahora ev\<rparr>"

definition finish_import_job :: "env \<Rightarrow> string \<Rightarrow> int \<Rightarrow> int \<Rightarrow> int \<Rightarrow> import_error list \<Rightarrow> uuid \<Rightarrow> import_job query" where
  "finish_import_job ev e c a r errores i =
     tx_update_row (mi_import ev i) (terminado ev e c a r errores) import_check (\<lambda>_ _. None) import_jobs import_jobs_update"

subsection \<open>Operations\<close>

definition import_job_dto :: "env \<Rightarrow> import_job \<Rightarrow> import_dto" where
  "import_job_dto ev j = \<lparr>ijd_id = uuid_show ev (ij_id j), ijd_estado = ij_estado j, ijd_total = ij_total j,
     ijd_creados = ij_creados j, ijd_actualizados = ij_actualizados j, ijd_rechazados = ij_rechazados j,
     ijd_errores = ij_errores j, ijd_url = ij_url j\<rparr>"

definition create_import_job :: "env \<Rightarrow> string \<Rightarrow> string \<Rightarrow> string \<Rightarrow> import_dto query" where
  "create_import_job ev consorcio modo bytes =
     tx_bind (tx_guard (modo \<in> {''crear'', ''actualizar'', ''crear_y_actualizar''}) (Dom ErrImportInvalid)) (\<lambda>_.
     tx_bind (tx_some (Dom ErrImportInvalid) (uuid_parse ev consorcio)) (\<lambda>cid.
     tx_bind (tx_catch (no_rows_as (Dom ErrConsorcioNotFound)) (get_consorcio_q ev cid)) (\<lambda>_.
     tx_bind (parse_plantilla_ufs_csv bytes) (\<lambda>(filas, errores).
     tx_bind (filas_json filas) (\<lambda>filas_col.
     tx_bind (create_import_job_q ev cid modo ''ufs-v1'' (i32 (int (length filas))) filas_col errores) (\<lambda>created.
     tx_bind (set_import_job_estado ev (ij_id created) ''listo'') (\<lambda>_.
     tx_ret (import_job_dto ev (created\<lparr>ij_estado := ''listo''\<rparr>)))))))))"

definition get_import_job :: "env \<Rightarrow> string \<Rightarrow> import_dto query" where
  "get_import_job ev job =
     tx_bind (tx_some (Dom ErrImportJobNotFound) (uuid_parse ev job)) (\<lambda>jid.
     tx_bind (tx_catch (no_rows_as (Dom ErrImportJobNotFound)) (get_import_job_q ev jid)) (\<lambda>row.
     tx_ret (import_job_dto ev row)))"

definition tiene_persona :: "fila_import \<Rightarrow> bool" where
  "tiene_persona f \<longleftrightarrow> fi_nombre f \<noteq> '''' \<or> fi_documento f \<noteq> None \<or> fi_email f \<noteq> None \<or> fi_telefono f \<noteq> None"

definition fila_to_validated_vinculo :: "env \<Rightarrow> fila_import \<Rightarrow> validated_vinculo query" where
  "fila_to_validated_vinculo ev f = validate_vinculo ev
     \<lparr>vi_persona = \<lparr>pi_nombre = fi_nombre f, pi_documento = fi_documento f, pi_email = fi_email f, pi_telefono = fi_telefono f\<rparr>,
      vi_vinculo = fi_vinculo f, vi_porcentaje = fi_porcentaje f, vi_from = None\<rparr>"

definition crear_unidad_desde_fila :: "env \<Rightarrow> uuid \<Rightarrow> fila_import \<Rightarrow> unit query" where
  "crear_unidad_desde_fila ev cid f =
     tx_bind (create_unidad_q ev cid (fi_codigo f) (fi_tipo f) (map_option float_to_numeric (fi_superficie f))
       (parse_numeric (fi_coeficiente f))) (\<lambda>u.
     if tiene_persona f then
       tx_bind (fila_to_validated_vinculo ev f) (\<lambda>v. attach_persona ev (u_id u) v)
     else tx_ret ())"

definition actualizar_unidad_desde_fila :: "env \<Rightarrow> uuid \<Rightarrow> uuid \<Rightarrow> fila_import \<Rightarrow> unit query" where
  "actualizar_unidad_desde_fila ev cid uid f =
     tx_bind (update_unidad_q ev cid uid (Some (fi_tipo f)) (map_option float_to_numeric (fi_superficie f))
       (parse_numeric (fi_coeficiente f)) None) (\<lambda>_.
     if \<not> tiene_persona f then tx_ret ()
     else
       tx_bind (fila_to_validated_vinculo ev f) (\<lambda>v.
       tx_bind (close_all_vinculos_vigentes ev uid (hoy ev)) (\<lambda>_.
       attach_persona ev uid v)))"

text \<open>What becomes of a row: it is created, updated, rejected with an error, or was not valid.\<close>

datatype destino_fila = Creada | Actualizada | Rechazada import_error | Salteada

definition procesar_fila :: "env \<Rightarrow> import_job \<Rightarrow> fila_import \<Rightarrow> destino_fila query" where
  "procesar_fila ev j f =
     (if \<not> fi_valida f then tx_ret Salteada
      else if ij_modo j = ''crear'' then
        tx_bind (tx_opt (get_unidad_by_codigo ev (ij_consorcio j) (fi_codigo f))) (\<lambda>existente.
        if existente \<noteq> None then tx_ret (Rechazada \<lparr>ie_fila = fi_fila f, ie_campos = [err_codigo_existe]\<rparr>)
        else tx_bind (crear_unidad_desde_fila ev (ij_consorcio j) f) (\<lambda>_. tx_ret Creada))
      else if ij_modo j \<in> {''actualizar'', ''crear_y_actualizar''} then
        tx_bind (tx_opt (get_unidad_by_codigo ev (ij_consorcio j) (fi_codigo f))) (\<lambda>existente.
        case existente of
          None \<Rightarrow> if ij_modo j = ''actualizar''
            then tx_ret (Rechazada \<lparr>ie_fila = fi_fila f, ie_campos = [err_codigo_no_existe]\<rparr>)
            else tx_bind (crear_unidad_desde_fila ev (ij_consorcio j) f) (\<lambda>_. tx_ret Creada)
        | Some u \<Rightarrow> tx_bind (actualizar_unidad_desde_fila ev (ij_consorcio j) (u_id u) f) (\<lambda>_. tx_ret Actualizada))
      else tx_ret Salteada)"

definition procesar_filas :: "env \<Rightarrow> import_job \<Rightarrow> (int \<times> int \<times> import_error list) query" where
  "procesar_filas ev j =
     tx_bind (tx_map (procesar_fila ev j) (ij_filas j)) (\<lambda>ds.
     tx_ret (int (count_where (\<lambda>d. d = Creada) ds), int (count_where (\<lambda>d. d = Actualizada) ds),
       ij_errores j @ concat (map (\<lambda>d. case d of Rechazada e \<Rightarrow> [e] | _ \<Rightarrow> []) ds)))"

text \<open>\<open>json.Unmarshal\<close> of the stored answer.\<close>

fun leer_import :: "respuesta \<Rightarrow> import_dto option" where
  "leer_import RVacia = Some \<lparr>ijd_id = '''', ijd_estado = '''', ijd_total = 0, ijd_creados = 0, ijd_actualizados = 0,
     ijd_rechazados = 0, ijd_errores = [], ijd_url = None\<rparr>"
| "leer_import (RImport d) = Some d"
| "leer_import _ = None"

text \<open>The confirmation after its key is reserved.\<close>

definition aplicar_import :: "env \<Rightarrow> uuid \<Rightarrow> import_job \<Rightarrow> string \<Rightarrow> import_dto query" where
  "aplicar_import ev jid j key =
     tx_bind (set_import_job_estado ev jid ''confirmando'') (\<lambda>_.
     tx_bind (procesar_filas ev j) (\<lambda>(creados, actualizados, errores).
     let rechazados = ij_total j - creados - actualizados in
     tx_bind (finish_import_job ev ''procesado'' (i32 creados) (i32 actualizados) (i32 rechazados) errores jid) (\<lambda>finished.
     let dto = import_job_dto ev finished in
     tx_bind (update_idempotency_key ev (RImport dto) ''import_jobs.confirm'' key) (\<lambda>_.
     tx_ret dto))))"

definition confirm_import_job :: "env \<Rightarrow> string \<Rightarrow> string \<Rightarrow> import_dto query" where
  "confirm_import_job ev job key =
     tx_bind (tx_some (Dom ErrImportJobNotFound) (uuid_parse ev job)) (\<lambda>jid.
     tx_bind (tx_catch (no_rows_as (Dom ErrImportJobNotFound)) (get_import_job_q ev jid)) (\<lambda>j.
     if ij_estado j = ''procesado'' then tx_ret (import_job_dto ev j)
     else
     tx_bind (tx_guard (ij_estado j = ''listo'') (Dom ErrImportJobEstado)) (\<lambda>_.
     let hash = sha_hex ev (job @ ''|'' @ key) in
     tx_bind (stamp_clave ev leer_import ''import_jobs.confirm'' hash key) (\<lambda>hit.
     case hit of Some previo \<Rightarrow> tx_ret previo | None \<Rightarrow> aplicar_import ev jid j key))))"

end
