(* ===== verification/UfPropiedades.thy ===== *)
theory UfPropiedades
  imports Importaciones
begin

text \<open>
  The properties of the units, their links and their imports. What a relation between states has to
  admit for the operations to respect it is a locale; the isolation of the tenants, the history of
  the links and the effect of the modes of an import on the units are its instances.
\<close>

text \<open>A row by the mode of its job.\<close>

lemma procesar_fila_crear: "ij_modo j = ''crear'' \<Longrightarrow> procesar_fila ev j f =
    (if \<not> fi_valida f then tx_ret Salteada
     else tx_bind (tx_opt (get_unidad_by_codigo ev (ij_consorcio j) (fi_codigo f))) (\<lambda>existente.
        if existente \<noteq> None then tx_ret (Rechazada \<lparr>ie_fila = fi_fila f, ie_campos = [err_codigo_existe]\<rparr>)
        else tx_bind (crear_unidad_desde_fila ev (ij_consorcio j) f) (\<lambda>_. tx_ret Creada)))"
  by (simp add: procesar_fila_def)

lemma procesar_fila_actualizar: "ij_modo j = ''actualizar'' \<Longrightarrow> procesar_fila ev j f =
    (if \<not> fi_valida f then tx_ret Salteada
     else tx_bind (tx_opt (get_unidad_by_codigo ev (ij_consorcio j) (fi_codigo f))) (\<lambda>existente.
        case existente of
          None \<Rightarrow> tx_ret (Rechazada \<lparr>ie_fila = fi_fila f, ie_campos = [err_codigo_no_existe]\<rparr>)
        | Some u \<Rightarrow> tx_bind (actualizar_unidad_desde_fila ev (ij_consorcio j) (u_id u) f) (\<lambda>_. tx_ret Actualizada)))"
  by (simp add: procesar_fila_def)

subsection \<open>Relations that the operations respect\<close>

lemma cerrar_rel:
  assumes "\<And>P f s. (\<And>v. P v \<Longrightarrow> v_tenant v = tenant ev \<and> v_to v = None) \<Longrightarrow>
      R s (vinculos_update (upd_where P (cerrado_el f)) s)"
  shows "tx_rel R (close_vinculo_vigente ev uid pid d)" "tx_rel R (close_all_vinculos_vigentes ev uid d)"
  unfolding close_vinculo_vigente_def close_all_vinculos_vigentes_def
  by (intro rel_update assms; simp add: abierto_de_def)+

locale rel_vinculos = step_rel R for R :: "db \<Rightarrow> db \<Rightarrow> bool" +
  fixes ev :: env
  assumes r_seq: "R s (s\<lparr>seq := n\<rparr>)"
    and r_cerrar: "tx_rel R (close_vinculo_vigente ev uid pid (hoy ev))"
    and r_cerrar_todos: "tx_rel R (close_all_vinculos_vigentes ev uid (hoy ev))"
begin

lemma uuid_q: "tx_rel R (nuevo_uuid ev)"
  by (rule rel_uuid) (rule r_seq)

lemma row_q: "tx_rel R (tx_row f)"
  by (rule rel_row) (rule refl)

lemma num_col_q: "tx_rel R (num_col p sc x)"
  unfolding num_col_def by (auto split: option.split intro!: rules)

lemma validate_q: "tx_rel R (validate_vinculo ev inp)"
  unfolding validate_vinculo_def Let_def by (auto split: option.split intro!: rules)

end

locale rel_personas = rel_vinculos +
  assumes r_persona: "pe_tenant p = tenant ev \<Longrightarrow> R s (personas_update (\<lambda>ps. ps @ [p]) s)"
    and r_vinculo: "v_tenant v = tenant ev \<Longrightarrow> R s (vinculos_update (\<lambda>vs. vs @ [v]) s)"
begin

lemma attach_q: "tx_rel R (attach_persona ev uid v)"
  unfolding attach_persona_def get_persona_by_documento_def create_persona_q_def vinculo_vigente_por_persona_def
    create_vinculo_def
  by (auto split: option.split simp: r_persona r_vinculo refl
      intro!: rules rel_opt rel_exec rel_insert uuid_q row_q num_col_q r_cerrar)

end

text \<open>The rest uses of the links only that they are attached by the function and closed.\<close>

locale rel_attach = rel_vinculos +
  assumes r_attach: "tx_rel R (attach_persona ev uid v)"

locale rel_altas = rel_attach +
  assumes r_alta: "u_tenant u = tenant ev \<Longrightarrow> R s (unidades_update (\<lambda>us. us @ [u]) s)"
begin

lemma create_unidad_rel: "tx_rel R (create_unidad_q ev cid codigo tipo superf coef)"
  unfolding create_unidad_q_def by (auto simp: r_alta intro!: rules rel_insert uuid_q num_col_q)

lemma crear_fila: "tx_rel R (crear_unidad_desde_fila ev cid f)"
  unfolding crear_unidad_desde_fila_def fila_to_validated_vinculo_def
  by (intro rules create_unidad_rel validate_q r_attach)

lemma procesar_crear: "ij_modo j = ''crear'' \<Longrightarrow> tx_rel R (procesar_filas ev j)"
  unfolding procesar_filas_def
  by (auto simp: procesar_fila_crear get_unidad_by_codigo_def refl intro!: rules rel_opt row_q crear_fila)

lemma unidades_create_rel: "tx_rel R (unidades_create ev co inp)"
  unfolding unidades_create_def validate_unidad_def unidades_get_def con_vinculos_def list_vinculos_vigentes_def
    get_unidad_def Let_def
  by (auto split: option.split intro!: rules create_unidad_rel validate_q r_attach row_q)

end

locale rel_ediciones = rel_attach +
  assumes r_editar: "(\<And>u. P u \<Longrightarrow> u_tenant u = tenant ev) \<Longrightarrow>
      R s (unidades_update (upd_where P (editada ev a b c d)) s)"
begin

lemma update_unidad_rel: "tx_rel R (update_unidad_q ev cid uid a b c d)"
  unfolding update_unidad_q_def
  by (auto simp: mi_unidad_def intro!: rules rel_update_row num_col_q r_editar)

lemma actualizar_fila: "tx_rel R (actualizar_unidad_desde_fila ev cid uid f)"
  unfolding actualizar_unidad_desde_fila_def fila_to_validated_vinculo_def
  by (intro rules update_unidad_rel validate_q r_attach r_cerrar_todos)

lemma procesar_actualizar: "ij_modo j = ''actualizar'' \<Longrightarrow> tx_rel R (procesar_filas ev j)"
  unfolding procesar_filas_def
  by (auto simp: procesar_fila_actualizar get_unidad_by_codigo_def refl split: option.split
      intro!: rules rel_opt row_q actualizar_fila)

end

text \<open>The rows of an import, and its jobs and keys.\<close>

locale rel_filas = rel_altas + rel_ediciones
begin

lemma procesar_rel: "tx_rel R (procesar_filas ev j)"
  unfolding procesar_filas_def procesar_fila_def get_unidad_by_codigo_def
  by (auto split: option.split intro!: rules rel_opt row_q crear_fila actualizar_fila simp: refl)

end

locale rel_importes = rel_filas +
  assumes r_clave: "solo_claves s t \<Longrightarrow> aislado ev s t \<Longrightarrow> R s t"
    and r_job: "ij_tenant j = tenant ev \<Longrightarrow> R s (import_jobs_update (\<lambda>js. js @ [j]) s)"
    and r_jobs: "(\<And>x. P x \<Longrightarrow> ij_tenant x = tenant ev) \<Longrightarrow> (\<And>x. P x \<Longrightarrow> ij_tenant (g x) = ij_tenant x) \<Longrightarrow>
      R s (import_jobs_update (upd_where P g) s)"
begin

lemma create_job_rel: "tx_rel R (create_import_job ev co modo bytes)"
  unfolding create_import_job_def parse_plantilla_ufs_csv_def filas_json_def create_import_job_q_def get_consorcio_q_def
    set_import_job_estado_def Let_def
  by (auto simp: mi_import_def job_en_estado_def r_job
      intro!: rules rel_insert rel_exec rel_update row_q uuid_q r_jobs)

lemma stamp_rel: "tx_rel R (stamp_clave ev leer a b c)"
  using solo_claves_stamp[of ev leer a b c] ais_stamp[of ev leer a b c]
  unfolding tx_rel_def by (blast intro: r_clave)

lemma save_rel: "tx_rel R (update_idempotency_key ev r a b)"
  using solo_claves_update[of ev r a b] ais_update_key[of ev r a b]
  unfolding tx_rel_def by (blast intro: r_clave)

lemma confirm_rel: "tx_rel R (confirm_import_job ev job key)"
  unfolding confirm_import_job_def aplicar_import_def get_import_job_q_def set_import_job_estado_def finish_import_job_def Let_def
  by (auto simp: mi_import_def job_en_estado_def terminado_def split: option.split
      intro!: rules rel_exec rel_update rel_update_row row_q r_jobs procesar_rel stamp_rel save_rel)

end

subsection \<open>Tenant isolation\<close>

interpretation pais: rel_personas "aislado ev" ev for ev
  by unfold_locales
    (auto simp: aislado_def ajenas_def cerrado_el_def intro!: filter_upd_where_outside cerrar_rel)

interpretation uais: rel_importes "aislado ev" ev for ev
  by unfold_locales
    (auto simp: aislado_def ajenas_def editada_def intro!: filter_upd_where_outside pais.attach_q)

subsection \<open>The history of the links\<close>

text \<open>Every link is still there, as it was or closed, if it was open.\<close>

definition cierra :: "vinculo \<Rightarrow> vinculo \<Rightarrow> bool" where
  "cierra v w \<longleftrightarrow> w = v \<or> v_to v = None \<and> (\<exists>d. w = v\<lparr>v_to := Some d\<rparr>)"

definition historia_vinculos :: "db \<Rightarrow> db \<Rightarrow> bool" where
  "historia_vinculos s t \<longleftrightarrow> (\<exists>ws nuevos. vinculos t = ws @ nuevos \<and> list_all2 cierra (vinculos s) ws)"

lemma cierra_trans: "cierra u v \<Longrightarrow> cierra v w \<Longrightarrow> cierra u w"
  by (auto simp: cierra_def)

lemma cierra_refl [simp]: "cierra v v"
  by (simp add: cierra_def)

lemma historia_igual: "vinculos t = vinculos s \<Longrightarrow> historia_vinculos s t"
  unfolding historia_vinculos_def by (rule exI[of _ "vinculos s"], rule exI[of _ "[]"]) (simp add: list_all2_refl)

lemma historia_trans: "historia_vinculos s t \<Longrightarrow> historia_vinculos t u \<Longrightarrow> historia_vinculos s u"
proof -
  assume "historia_vinculos s t" "historia_vinculos t u"
  then obtain ws n xs m where 1: "vinculos t = ws @ n" "list_all2 cierra (vinculos s) ws"
    "vinculos u = xs @ m" "list_all2 cierra (ws @ n) xs"
    by (auto simp: historia_vinculos_def)
  then obtain as bs where "xs = as @ bs" "list_all2 cierra ws as" by (auto simp: list_all2_append1)
  then have "vinculos u = as @ (bs @ m)" "list_all2 cierra (vinculos s) as"
    using 1 list_all2_trans[OF cierra_trans] by auto
  then show ?thesis unfolding historia_vinculos_def by blast
qed

lemma historia_upd: "(\<And>v. P v \<Longrightarrow> v_to v = None) \<Longrightarrow> list_all2 cierra vs (upd_where P (cerrado_el f) vs)"
  by (induction vs) (auto simp: cierra_def cerrado_el_def)

lemma historia_insert: "historia_vinculos s (vinculos_update (\<lambda>vs. vs @ [v]) s)"
  unfolding historia_vinculos_def by (rule exI[of _ "vinculos s"], rule exI[of _ "[v]"]) (simp add: list_all2_refl)

lemma historia_cerrar: "(\<And>v. P v \<Longrightarrow> v_tenant v = tenant ev \<and> v_to v = None) \<Longrightarrow>
    historia_vinculos s (vinculos_update (upd_where P (cerrado_el f)) s)"
  unfolding historia_vinculos_def
  by (rule exI[of _ "upd_where P (cerrado_el f) (vinculos s)"], rule exI[of _ "[]"]) (simp add: historia_upd)

lemma solo_claves_vinculos: "solo_claves s t \<Longrightarrow> vinculos t = vinculos s"
  unfolding solo_claves_def by (drule arg_cong[of _ _ vinculos]) simp

interpretation phis: rel_personas historia_vinculos ev for ev
  by unfold_locales (auto intro: historia_igual historia_trans historia_insert historia_cerrar cerrar_rel)

interpretation uhis: rel_importes historia_vinculos ev for ev
  by unfold_locales (auto intro: historia_igual phis.attach_q dest: solo_claves_vinculos)

subsection \<open>One open link of a kind\<close>

definition clave_vinculo :: "vinculo \<Rightarrow> uuid \<times> uuid \<times> uuid \<times> string" where
  "clave_vinculo v = (v_tenant v, v_unidad v, v_persona v, v_vinculo v)"

definition abiertos_unicos :: "db \<Rightarrow> bool" where
  "abiertos_unicos s \<longleftrightarrow> distinct (map clave_vinculo (filter (\<lambda>v. v_to v = None) (vinculos s)))"

lemma abiertos_upd:
  assumes "distinct (map k (filter (\<lambda>v. v_to v = None) vs))"
  shows "distinct (map k (filter (\<lambda>v. v_to v = None) (upd_where P (cerrado_el f) vs)))"
  using assms by (induction vs) (auto simp: cerrado_el_def set_upd_where split: if_split_asm)

lemma keeps_abiertos_igual: "vinculos t = vinculos s \<Longrightarrow> keeps abiertos_unicos s t"
  by (simp add: keeps_def abiertos_unicos_def)

lemma keeps_abiertos_cerrar: "keeps abiertos_unicos s (vinculos_update (upd_where P (cerrado_el f)) s)"
  by (simp add: keeps_def abiertos_unicos_def abiertos_upd)

lemma create_vinculo_Inr:
  assumes "create_vinculo ev uid pid k pct d s = Inr (i, t)"
  shows "\<exists>v. vinculos t = vinculos s @ [v] \<and> clave_vinculo v = (tenant ev, uid, pid, k) \<and> v_to v = None"
  using assms by (auto simp: create_vinculo_def num_col_def tx_inv clave_vinculo_def split: option.splits)

lemma persona_vinculos:
  assumes "(case found of Some p \<Rightarrow> tx_ret p | None \<Rightarrow> tx_catch h (create_persona_q ev a b c e)) s = Inr (p, t)"
  shows "vinculos t = vinculos s"
  using assms by (auto simp: create_persona_q_def tx_inv split: option.splits)

lemma attach_abiertos: "tx_rel (keeps abiertos_unicos) (attach_persona ev uid v)"
proof (rule tx_relI, unfold keeps_def, rule impI)
  fix s x t
  assume a: "attach_persona ev uid v s = Inr (x, t)" and I: "abiertos_unicos s"
  obtain found s1 p s2 vig s2' y s3 where q:
    "(if vv_documento v \<noteq> '''' then tx_opt (get_persona_by_documento ev (vv_documento v)) else tx_ret None) s = Inr (found, s1)"
    "(case found of Some p \<Rightarrow> tx_ret p
       | None \<Rightarrow> tx_catch (unique_as (Dom ErrDuplicateDocumento)) (create_persona_q ev (vv_nombre v)
           (text_or_nil (vv_documento v)) (text_or_nil (vv_email v)) (text_or_nil (vv_telefono v)))) s1 = Inr (p, s2)"
    "tx_opt (vinculo_vigente_por_persona ev uid (pe_id p) (vv_vinculo v)) s2 = Inr (vig, s2')"
    "(if vig \<noteq> None then tx_exec (close_vinculo_vigente ev uid (pe_id p) (hoy ev)) else tx_ret ()) s2' = Inr (y, s3)"
    "tx_exec (create_vinculo ev uid (pe_id p) (vv_vinculo v) (vv_porcentaje v) (vv_from v)) s3 = Inr (x, t)"
    using a unfolding attach_persona_def by (elim tx_bindE) (rule that; assumption)
  have "s1 = s" using q(1) by (simp add: get_persona_by_documento_def tx_ret_def split: if_splits)
  then have e: "vinculos s2 = vinculos s" using persona_vinculos[OF q(2)] by simp
  have vig: "vig = map_option v_id (List.find (\<lambda>w. abierto_de ev uid w \<and> v_persona w = pe_id p \<and> v_vinculo w = vv_vinculo v) (vinculos s2))"
    and "s2' = s2" using q(3) by (auto simp: vinculo_vigente_por_persona_def)
  then have cerrar: "(if vig \<noteq> None then tx_exec (close_vinculo_vigente ev uid (pe_id p) (hoy ev)) else tx_ret ()) s2 = Inr (y, s3)"
    using q(4) by simp
  obtain i where crear: "create_vinculo ev uid (pe_id p) (vv_vinculo v) (vv_porcentaje v) (vv_from v) s3 = Inr (i, t)"
    using q(5) by auto
  define k where "k = (tenant ev, uid, pe_id p, vv_vinculo v)"
  have ambos: "abiertos_unicos s3 \<and> (\<forall>w \<in> set (vinculos s3). v_to w = None \<longrightarrow> clave_vinculo w \<noteq> k)"
  proof (cases vig)
    case None
    then have "s3 = s2" "\<forall>w \<in> set (vinculos s2). \<not> (abierto_de ev uid w \<and> v_persona w = pe_id p \<and> v_vinculo w = vv_vinculo v)"
      using vig cerrar by (simp_all add: find_None_iff_all)
    then have "\<forall>w \<in> set (vinculos s3). v_to w = None \<longrightarrow> clave_vinculo w \<noteq> k"
      by (auto simp: abierto_de_def clave_vinculo_def k_def)
    then show ?thesis using I e \<open>s3 = s2\<close> by (simp add: abiertos_unicos_def)
  next
    case (Some n)
    then have "vinculos s3 = upd_where (\<lambda>w. abierto_de ev uid w \<and> v_persona w = pe_id p) (cerrado_el (hoy ev)) (vinculos s2)"
      using cerrar by (auto simp: close_vinculo_vigente_def)
    note s3 = this
    have "abiertos_unicos s3" using I abiertos_upd unfolding abiertos_unicos_def s3 e by blast
    moreover have "v_to w = None \<longrightarrow> clave_vinculo w \<noteq> k" if "w \<in> set (vinculos s3)" for w
      using that unfolding s3 set_upd_where
      by (rule imageE) (simp add: k_def clave_vinculo_def abierto_de_def cerrado_el_def, fastforce)
    ultimately show ?thesis by blast
  qed
  have I3: "abiertos_unicos s3" using ambos by (rule conjunct1)
  have nuevo: "k \<notin> clave_vinculo ` {w \<in> set (vinculos s3). v_to w = None}"
    using ambos[THEN conjunct2] by auto
  obtain w where "vinculos t = vinculos s3 @ [w]" "clave_vinculo w = k" "v_to w = None"
    using create_vinculo_Inr[OF crear] k_def by blast
  with I3 nuevo show "abiertos_unicos t" unfolding abiertos_unicos_def by simp
qed

interpretation uabi: rel_importes "keeps abiertos_unicos" ev for ev
  by unfold_locales
    (simp_all add: attach_abiertos keeps_abiertos_igual keeps_abiertos_cerrar solo_claves_vinculos cerrar_rel)

subsection \<open>The effect of a mode on the units\<close>

text \<open>New units only; the same units, edited; the same links and units; the same jobs.\<close>

definition solo_altas :: "db \<Rightarrow> db \<Rightarrow> bool" where
  "solo_altas s t \<longleftrightarrow> (\<exists>nuevas. unidades t = unidades s @ nuevas)"

definition sin_altas :: "db \<Rightarrow> db \<Rightarrow> bool" where
  "sin_altas s t \<longleftrightarrow> map (\<lambda>u. (clave_unidad u, u_id u)) (unidades t) = map (\<lambda>u. (clave_unidad u, u_id u)) (unidades s)"

definition mismas_unidades :: "db \<Rightarrow> db \<Rightarrow> bool" where
  "mismas_unidades s t \<longleftrightarrow> unidades t = unidades s"

definition mismos_jobs :: "db \<Rightarrow> db \<Rightarrow> bool" where
  "mismos_jobs s t \<longleftrightarrow> import_jobs t = import_jobs s"

interpretation pmis: rel_personas mismas_unidades ev for ev
  by unfold_locales (simp_all add: mismas_unidades_def cerrar_rel)


interpretation ualt: rel_altas solo_altas ev for ev
proof (unfold_locales, goal_cases)
  case (2 s t u)
  then show ?case by (auto simp: solo_altas_def)
next
  case (6 uid v)
  show ?case by (rule tx_rel_mono[OF pmis.attach_q]) (simp add: solo_altas_def mismas_unidades_def)
qed (auto simp: solo_altas_def intro!: cerrar_rel)

interpretation usin: rel_ediciones sin_altas ev for ev
proof (unfold_locales, goal_cases)
  case (6 uid v)
  show ?case by (rule tx_rel_mono[OF pmis.attach_q]) (simp add: sin_altas_def mismas_unidades_def)
next
  case (7 P s a b c d)
  show ?case unfolding sin_altas_def by (simp add: map_upd_where_same clave_unidad_def editada_def)
qed (auto simp: sin_altas_def intro!: cerrar_rel)

interpretation pjob: rel_personas mismos_jobs ev for ev
  by unfold_locales (simp_all add: mismos_jobs_def cerrar_rel)

interpretation ujob: rel_filas mismos_jobs ev for ev
  by unfold_locales (simp_all add: mismos_jobs_def pjob.attach_q cerrar_rel)

lemma create_unidad_Inr:
  assumes "create_unidad_q ev cid codigo tipo superf coef s = Inr (u, t)"
  shows "unidades t = unidades s @ [u] \<and> clave_unidad u = (tenant ev, cid, codigo) \<and> coef \<noteq> None"
  using assms by (auto simp: create_unidad_q_def num_col_def tx_inv clave_unidad_def split: option.splits)

lemma crear_fila_Inr:
  assumes "crear_unidad_desde_fila ev cid f s = Inr (x, t)"
  shows "\<exists>u. unidades t = unidades s @ [u] \<and> clave_unidad u = (tenant ev, cid, fi_codigo f) \<and>
    parse_numeric (fi_coeficiente f) \<noteq> None"
proof -
  obtain u s1 where u: "create_unidad_q ev cid (fi_codigo f) (fi_tipo f) (map_option float_to_numeric (fi_superficie f))
      (parse_numeric (fi_coeficiente f)) s = Inr (u, s1)"
    and r: "(if tiene_persona f then tx_bind (fila_to_validated_vinculo ev f) (\<lambda>v. attach_persona ev (u_id u) v)
      else tx_ret ()) s1 = Inr (x, t)"
    using assms unfolding crear_unidad_desde_fila_def by (elim tx_bindE) (rule that; assumption)
  have m: "tx_rel mismas_unidades (if tiene_persona f then tx_bind (fila_to_validated_vinculo ev f)
      (\<lambda>v. attach_persona ev (u_id u) v) else tx_ret ())"
    unfolding fila_to_validated_vinculo_def by (intro pmis.rules pmis.validate_q pmis.attach_q)
  have "mismas_unidades s1 t" using m r unfolding tx_rel_def by blast
  with create_unidad_Inr[OF u] show ?thesis by (simp add: mismas_unidades_def)
qed

text \<open>A row creates a unit, or none.\<close>

lemma procesar_fila_cuenta:
  assumes "procesar_fila ev j f s = Inr (d, t)"
  shows "length (unidades t) = length (unidades s) + (if d = Creada then 1 else 0)"
proof -
  have c: "length (unidades t) = Suc (length (unidades s))" if "crear_unidad_desde_fila ev cid f s = Inr (x, t)" for cid x
    using crear_fila_Inr[OF that] by auto
  have a: "length (unidades t) = length (unidades s)" if "actualizar_unidad_desde_fila ev cid uid f s = Inr (x, t)" for cid uid x
    using tx_relD[OF usin.actualizar_fila that] unfolding sin_altas_def by (metis length_map)
  show ?thesis using assms
    by (auto simp: procesar_fila_def get_unidad_by_codigo_def tx_inv c a split: if_splits option.splits)
qed

lemma procesar_filas_cuenta:
  assumes "tx_map (procesar_fila ev j) fs s = Inr (ds, t)"
  shows "length (unidades t) = length (unidades s) + count_where (\<lambda>d. d = Creada) ds"
  using assms
proof (induction fs arbitrary: s ds)
  case Nil
  then show ?case by (simp add: count_where_def)
next
  case (Cons f fs)
  then obtain d s1 ds' where d: "procesar_fila ev j f s = Inr (d, s1)" "tx_map (procesar_fila ev j) fs s1 = Inr (ds', t)"
    "ds = d # ds'" by (auto simp: tx_inv)
  show ?case using Cons.IH[OF d(2)] procesar_fila_cuenta[OF d(1)] d(3) by (simp add: count_where_def)
qed

subsection \<open>The confirmation of an import\<close>

definition hechas :: "destino_fila \<Rightarrow> destino_fila list \<Rightarrow> int" where
  "hechas d ds = int (count_where (\<lambda>x. x = d) ds)"

definition rechazos :: "destino_fila list \<Rightarrow> import_error list" where
  "rechazos ds = concat (map (\<lambda>d. case d of Rechazada e \<Rightarrow> [e] | _ \<Rightarrow> []) ds)"

text \<open>The row of the job at the end.\<close>

definition cierre :: "env \<Rightarrow> destino_fila list \<Rightarrow> import_job \<Rightarrow> import_job \<Rightarrow> import_job" where
  "cierre ev ds j = terminado ev ''procesado'' (i32 (hechas Creada ds)) (i32 (hechas Actualizada ds))
     (i32 (ij_total j - hechas Creada ds - hechas Actualizada ds)) (ij_errores j @ rechazos ds)"

text \<open>What a confirmation that goes through the rows of its job does.\<close>

definition confirma :: "env \<Rightarrow> uuid \<Rightarrow> import_job \<Rightarrow> destino_fila list \<Rightarrow> db \<Rightarrow> db \<Rightarrow> db \<Rightarrow> db \<Rightarrow> bool" where
  "confirma ev jid j ds s s1 s2 t \<longleftrightarrow>
     tx_map (procesar_fila ev j) (ij_filas j) s1 = Inr (ds, s2) \<and>
     import_jobs t = upd_where (mi_import ev jid) (cierre ev ds j) (import_jobs s) \<and>
     unidades s1 = unidades s \<and> vinculos s1 = vinculos s \<and> personas s1 = personas s \<and>
     unidades t = unidades s2 \<and> vinculos t = vinculos s2"

lemma procesar_filas_Inr:
  assumes "procesar_filas ev j s = Inr ((c, a, es), t)"
  shows "\<exists>ds. tx_map (procesar_fila ev j) (ij_filas j) s = Inr (ds, t) \<and> c = hechas Creada ds \<and>
    a = hechas Actualizada ds \<and> es = ij_errores j @ rechazos ds"
  using assms by (auto simp: procesar_filas_def tx_inv hechas_def rechazos_def)

lemma mi_import_estado [simp]: "mi_import ev jid (job_en_estado ev e x) = mi_import ev jid x"
  by (simp add: mi_import_def job_en_estado_def)

lemma cierre_estado [simp]: "cierre ev ds j (job_en_estado ev e x) = cierre ev ds j x"
  by (simp add: cierre_def terminado_def job_en_estado_def)

lemma upd_estado_cierre:
  "upd_where (mi_import ev jid) (cierre ev ds j) (upd_where (mi_import ev jid) (job_en_estado ev e) js)
   = upd_where (mi_import ev jid) (cierre ev ds j) js"
  by (induction js) (simp_all add: cierre_def terminado_def job_en_estado_def mi_import_def)

lemma set_estado_Inr: "set_import_job_estado ev jid e s = Inr (x, t) \<Longrightarrow>
    t = import_jobs_update (upd_where (mi_import ev jid) (job_en_estado ev e)) s"
  by (auto simp: set_import_job_estado_def)

lemma finish_Inr: "finish_import_job ev e c a r es jid s = Inr (x, t) \<Longrightarrow>
    (\<exists>y. List.find (mi_import ev jid) (import_jobs s) = Some y \<and> x = terminado ev e c a r es y) \<and>
    t = import_jobs_update (upd_where (mi_import ev jid) (terminado ev e c a r es)) s"
  by (auto simp: finish_import_job_def)

lemma solo_claves_tablas: "solo_claves s t \<Longrightarrow> unidades t = unidades s \<and> vinculos t = vinculos s \<and>
    personas t = personas s \<and> import_jobs t = import_jobs s"
  unfolding solo_claves_def
  by (frule arg_cong[of _ _ unidades], frule arg_cong[of _ _ vinculos], frule arg_cong[of _ _ personas],
      drule arg_cong[of _ _ import_jobs]) simp

lemma aplicar_Inr:
  assumes "aplicar_import ev jid j key s0 = Inr (dto, t)" and "solo_claves s s0"
    and "List.find (mi_import ev jid) (import_jobs s) = Some j"
  shows "\<exists>ds s1 s2. confirma ev jid j ds s s1 s2 t \<and> dto = import_job_dto ev (cierre ev ds j j)"
proof -
  obtain x s1 c a es s2 y s3 z where q: "set_import_job_estado ev jid ''confirmando'' s0 = Inr (x, s1)"
    "procesar_filas ev j s1 = Inr ((c, a, es), s2)"
    "finish_import_job ev ''procesado'' (i32 c) (i32 a) (i32 (ij_total j - c - a)) es jid s2 = Inr (y, s3)"
    "update_idempotency_key ev (RImport (import_job_dto ev y)) ''import_jobs.confirm'' key s3 = Inr (z, t)"
    "dto = import_job_dto ev y"
    using assms(1) unfolding aplicar_import_def Let_def by (auto elim!: tx_bindE)
  have t: "solo_claves s3 t" using tx_relD[OF solo_claves_update q(4)] .
  obtain ds where ds: "tx_map (procesar_fila ev j) (ij_filas j) s1 = Inr (ds, s2)"
    "c = hechas Creada ds" "a = hechas Actualizada ds" "es = ij_errores j @ rechazos ds"
    using procesar_filas_Inr[OF q(2)] by blast
  have ci: "terminado ev ''procesado'' (i32 c) (i32 a) (i32 (ij_total j - c - a)) es = cierre ev ds j"
    unfolding ds cierre_def ..
  have j2: "import_jobs s2 = import_jobs s1"
    using ujob.procesar_rel[of ev j] q(2) unfolding tx_rel_def mismos_jobs_def by blast
  note s1 = set_estado_Inr[OF q(1)] and s3 = finish_Inr[OF q(3)]
  have "confirma ev jid j ds s s1 s2 t"
    unfolding confirma_def using solo_claves_tablas[OF assms(2)] solo_claves_tablas[OF t] s1 s3 ds(1) j2 ci
    by (simp add: upd_estado_cierre)
  moreover have "dto = import_job_dto ev (cierre ev ds j j)"
    using s3 ci j2 s1 solo_claves_tablas[OF assms(2)] assms(3) find_SomeD[OF assms(3)] q(5) by (simp add: find_upd_where)
  ultimately show ?thesis by blast
qed

text \<open>
  A confirmation finds its job. One that is processed is answered; one that waits is answered from
  its key, or its rows are applied.
\<close>

lemma confirm_caso:
  assumes "confirm_import_job ev job key s = Inr (dto, t)"
  obtains (hecho) jid j where "uuid_parse ev job = Some jid" "List.find (mi_import ev jid) (import_jobs s) = Some j"
      "ij_estado j = ''procesado''" "t = s" "dto = import_job_dto ev j"
    | (clave) r where "registro ev (''import_jobs.confirm'', key) s = Some r" "solo_claves s t"
    | (aplica) jid j ds s1 s2 where "uuid_parse ev job = Some jid" "List.find (mi_import ev jid) (import_jobs s) = Some j"
      "ij_estado j = ''listo''" "confirma ev jid j ds s s1 s2 t" "dto = import_job_dto ev (cierre ev ds j j)"
proof -
  obtain jid s' where 1: "tx_some (Dom ErrImportJobNotFound) (uuid_parse ev job) s = Inr (jid, s')"
    and r: "tx_bind (tx_catch (no_rows_as (Dom ErrImportJobNotFound)) (get_import_job_q ev jid)) (\<lambda>j.
     if ij_estado j = ''procesado'' then tx_ret (import_job_dto ev j)
     else tx_bind (tx_guard (ij_estado j = ''listo'') (Dom ErrImportJobEstado)) (\<lambda>_.
     let hash = sha_hex ev (job @ ''|'' @ key) in
     tx_bind (stamp_clave ev leer_import ''import_jobs.confirm'' hash key) (\<lambda>hit.
     case hit of Some previo \<Rightarrow> tx_ret previo | None \<Rightarrow> aplicar_import ev jid j key))) s' = Inr (dto, t)"
    using assms unfolding confirm_import_job_def by (rule tx_bindE)
  have jid: "uuid_parse ev job = Some jid" and s': "s' = s" using 1 by simp_all
  from r obtain j s1 where 2: "tx_catch (no_rows_as (Dom ErrImportJobNotFound)) (get_import_job_q ev jid) s' = Inr (j, s1)"
    and r: "(if ij_estado j = ''procesado'' then tx_ret (import_job_dto ev j)
     else tx_bind (tx_guard (ij_estado j = ''listo'') (Dom ErrImportJobEstado)) (\<lambda>_.
     let hash = sha_hex ev (job @ ''|'' @ key) in
     tx_bind (stamp_clave ev leer_import ''import_jobs.confirm'' hash key) (\<lambda>hit.
     case hit of Some previo \<Rightarrow> tx_ret previo | None \<Rightarrow> aplicar_import ev jid j key))) s1 = Inr (dto, t)"
    by (rule tx_bindE)
  have j: "List.find (mi_import ev jid) (import_jobs s) = Some j" and s1: "s1 = s"
    using 2 s' by (simp_all add: get_import_job_q_def)
  show thesis
  proof (cases "ij_estado j = ''procesado''")
    case True
    show thesis using hecho[OF jid j True] r s1 unfolding True by simp
  next
    case False
    obtain y s2 where 3: "tx_guard (ij_estado j = ''listo'') (Dom ErrImportJobEstado) s1 = Inr (y, s2)"
      and r: "tx_bind (stamp_clave ev leer_import ''import_jobs.confirm'' (sha_hex ev (job @ ''|'' @ key)) key) (\<lambda>hit.
        case hit of Some previo \<Rightarrow> tx_ret previo | None \<Rightarrow> aplicar_import ev jid j key) s2 = Inr (dto, t)"
      using r unfolding Let_def if_not_P[OF False] by (rule tx_bindE) (rule that; assumption)
    have e: "ij_estado j = ''listo''" and s2: "s2 = s" using 3 s1 unfolding tx_guard_Inr by simp_all
    from r obtain hit s0 where st: "stamp_clave ev leer_import ''import_jobs.confirm'' (sha_hex ev (job @ ''|'' @ key)) key s2 = Inr (hit, s0)"
      and r: "(case hit of Some previo \<Rightarrow> tx_ret previo | None \<Rightarrow> aplicar_import ev jid j key) s0 = Inr (dto, t)"
      by (rule tx_bindE)
    have s0: "solo_claves s s0" using tx_relD[OF solo_claves_stamp st] s2 by simp
    show thesis
    proof (cases hit)
      case (Some d)
      obtain h where "registro ev (''import_jobs.confirm'', key) s = Some h"
        using stamp_Some[OF st[unfolded Some]] s2 by auto
      moreover have "solo_claves s t" using r s0 Some by simp
      ultimately show thesis by (rule clave)
    next
      case None
      then obtain ds s1 s2 where "confirma ev jid j ds s s1 s2 t" "dto = import_job_dto ev (cierre ev ds j j)"
        using aplicar_Inr[of ev jid j key s0 dto t s] r s0 j by auto
      then show thesis by (rule aplica[OF jid j e])
    qed
  qed
qed

subsection \<open>The units of an import\<close>

definition ident_unidad :: "unidad \<Rightarrow> (uuid \<times> uuid \<times> string) \<times> uuid" where
  "ident_unidad u = (clave_unidad u, u_id u)"

definition clave_fila :: "env \<Rightarrow> import_job \<Rightarrow> fila_import \<Rightarrow> uuid \<times> uuid \<times> string" where
  "clave_fila ev j f = (tenant ev, ij_consorcio j, fi_codigo f)"

text \<open>
  The units after the rows \<open>fs\<close>: the ones before, with their keys and identifiers, and the new ones,
  each of a valid row whose key was not there.
\<close>

definition crecen :: "env \<Rightarrow> import_job \<Rightarrow> fila_import list \<Rightarrow> nat \<Rightarrow> db \<Rightarrow> db \<Rightarrow> bool" where
  "crecen ev j fs n s t \<longleftrightarrow> (\<exists>nuevas. map ident_unidad (unidades t) = map ident_unidad (unidades s) @ nuevas \<and>
     length nuevas = n \<and> (\<forall>k \<in> set nuevas. fst k \<notin> clave_unidad ` set (unidades s) \<and>
       (\<exists>f \<in> set fs. fi_valida f \<and> fst k = clave_fila ev j f)))"

lemma ident_fun: "(\<lambda>u. (clave_unidad u, u_id u)) = ident_unidad"
  by (simp add: fun_eq_iff ident_unidad_def)

lemma sin_altas_crecen: "sin_altas s t \<Longrightarrow> crecen ev j fs 0 s t"
  unfolding sin_altas_def crecen_def ident_fun by (rule exI[of _ "[]"]) simp

lemma crecen_claves: "crecen ev j fs n s t \<Longrightarrow> clave_unidad ` set (unidades s) \<subseteq> clave_unidad ` set (unidades t)"
proof -
  assume "crecen ev j fs n s t"
  then obtain nuevas where e: "map ident_unidad (unidades t) = map ident_unidad (unidades s) @ nuevas"
    unfolding crecen_def by blast
  have "set (map ident_unidad (unidades s)) \<subseteq> set (map ident_unidad (unidades t))" unfolding e by simp
  then have "fst ` ident_unidad ` set (unidades s) \<subseteq> fst ` ident_unidad ` set (unidades t)" by auto
  then show ?thesis by (simp add: image_image ident_unidad_def)
qed

lemma crecen_trans:
  assumes "crecen ev j fs m s t" and "crecen ev j gs n t u"
  shows "crecen ev j (fs @ gs) (m + n) s u"
proof -
  obtain ns ms where e: "map ident_unidad (unidades t) = map ident_unidad (unidades s) @ ns" "length ns = m"
    "map ident_unidad (unidades u) = map ident_unidad (unidades t) @ ms" "length ms = n"
    and n: "\<forall>k \<in> set ns. fst k \<notin> clave_unidad ` set (unidades s) \<and> (\<exists>f \<in> set fs. fi_valida f \<and> fst k = clave_fila ev j f)"
    and m: "\<forall>k \<in> set ms. fst k \<notin> clave_unidad ` set (unidades t) \<and> (\<exists>f \<in> set gs. fi_valida f \<and> fst k = clave_fila ev j f)"
    using assms unfolding crecen_def by blast
  have m': "\<forall>k \<in> set ms. fst k \<notin> clave_unidad ` set (unidades s) \<and> (\<exists>f \<in> set gs. fi_valida f \<and> fst k = clave_fila ev j f)"
    using m crecen_claves[OF assms(1)] by blast
  have "\<forall>k \<in> set (ns @ ms). fst k \<notin> clave_unidad ` set (unidades s) \<and>
      (\<exists>f \<in> set (fs @ gs). fi_valida f \<and> fst k = clave_fila ev j f)"
    unfolding set_append using n m' by blast
  then show ?thesis unfolding crecen_def using e by (intro exI[of _ "ns @ ms"]) simp
qed

lemma find_codigo_None:
  "List.find (mi_codigo ev cid cod) us = None \<longleftrightarrow> (tenant ev, cid, cod) \<notin> clave_unidad ` set us"
  unfolding find_None_iff_all mi_codigo_def clave_unidad_def image_iff by auto

lemma get_unidad_Inr: "tx_opt (get_unidad_by_codigo ev cid cod) s = Inr (x, t) \<longleftrightarrow>
    t = s \<and> x = List.find (mi_codigo ev cid cod) (unidades s)"
  by (auto simp: get_unidad_by_codigo_def)

lemma crear_fila_crecen:
  assumes "crear_unidad_desde_fila ev (ij_consorcio j) f s = Inr (x, t)" and "fi_valida f"
    and "clave_fila ev j f \<notin> clave_unidad ` set (unidades s)"
  shows "crecen ev j [f] 1 s t"
proof -
  obtain u where "unidades t = unidades s @ [u]" "clave_unidad u = clave_fila ev j f"
    using crear_fila_Inr[OF assms(1)] unfolding clave_fila_def by blast
  then show ?thesis using assms(2,3) unfolding crecen_def
    by (intro exI[of _ "[ident_unidad u]"]) (auto simp: ident_unidad_def)
qed

lemma procesar_fila_crecen:
  assumes "procesar_fila ev j f s = Inr (d, t)"
  shows "crecen ev j [f] (if d = Creada then 1 else 0) s t"
proof -
  have igual: "crecen ev j [f] 0 s s" by (rule sin_altas_crecen) (simp add: sin_altas_def)
  have a: "crecen ev j [f] 0 s t" if "actualizar_unidad_desde_fila ev cid uid f s = Inr (x, t)" for cid uid x
    using tx_relD[OF usin.actualizar_fila that] by (rule sin_altas_crecen)
  have c: "crecen ev j [f] (Suc 0) s t" if "crear_unidad_desde_fila ev (ij_consorcio j) f s = Inr (x, t)"
    "fi_valida f" "List.find (mi_codigo ev (ij_consorcio j) (fi_codigo f)) (unidades s) = None" for x
    using crear_fila_crecen[of ev j f s x t] that by (simp add: find_codigo_None clave_fila_def)
  show ?thesis using assms
    by (auto simp: procesar_fila_def get_unidad_Inr tx_inv c a igual split: if_split_asm option.split_asm)
qed

lemma procesar_filas_crecen:
  assumes "tx_map (procesar_fila ev j) fs s = Inr (ds, t)"
  shows "crecen ev j fs (count_where (\<lambda>d. d = Creada) ds) s t"
  using assms
proof (induction fs arbitrary: s ds)
  case Nil
  then show ?case using sin_altas_crecen[of s s] by (simp add: count_where_def sin_altas_def)
next
  case (Cons f fs)
  then obtain d s1 ds' where d: "procesar_fila ev j f s = Inr (d, s1)" "tx_map (procesar_fila ev j) fs s1 = Inr (ds', t)"
    "ds = d # ds'" by (auto simp: tx_inv)
  show ?case using crecen_trans[OF procesar_fila_crecen[OF d(1)] Cons.IH[OF d(2)]] d(3)
    by (cases "d = Creada") (simp_all add: count_where_def)
qed

text \<open>The unit with a code stays the unit with the code.\<close>

lemma find_codigo_ident:
  assumes "map ident_unidad us' = map ident_unidad us @ ns" and "List.find (mi_codigo ev cid cod) us = Some u"
  shows "\<exists>u'. List.find (mi_codigo ev cid cod) us' = Some u' \<and> u_id u' = u_id u"
  using assms
proof (induction us arbitrary: us')
  case (Cons x us)
  then obtain x' us'' where us': "us' = x' # us''" by (cases us') auto
  have "ident_unidad x' = ident_unidad x" and r: "map ident_unidad us'' = map ident_unidad us @ ns"
    using Cons.prems(1) unfolding us' by simp_all
  then have x: "u_id x' = u_id x" "mi_codigo ev cid cod x' = mi_codigo ev cid cod x"
    by (auto simp: ident_unidad_def clave_unidad_def mi_codigo_def)
  show ?case using Cons.IH[OF r] Cons.prems(2) x us' by (auto split: if_splits)
qed simp

text \<open>A link that was opened today, or later, is never closed today: the table asks for a positive term.\<close>

lemma abierto_fijo:
  assumes "v_to v = None" and "hoy ev \<le> v_from v"
  shows "rel_filas (keeps (\<lambda>s. v \<in> set (vinculos s))) ev"
proof -
  have no: "\<not> vinculo_check (cerrado_el (hoy ev) v)"
    using leD[OF assms(2)] assms(1) by (simp add: vinculo_check_def cerrado_el_def)
  have c: "tx_rel (keeps (\<lambda>s. v \<in> set (vinculos s))) (tx_update P (cerrado_el (hoy ev)) vinculo_check vinculos vinculos_update)" for P
    using no by (auto simp: tx_rel_def keeps_def set_upd_where)
  have p: "rel_personas (keeps (\<lambda>s. v \<in> set (vinculos s))) ev"
    by unfold_locales (simp_all add: close_vinculo_vigente_def close_all_vinculos_vigentes_def c, simp_all add: keeps_def)
  then have "rel_vinculos (keeps (\<lambda>s. v \<in> set (vinculos s))) ev" by (simp add: rel_personas_def)
  then have a: "rel_attach (keeps (\<lambda>s. v \<in> set (vinculos s))) ev"
    by (rule rel_attach.intro) (rule rel_attach_axioms.intro, rule rel_personas.attach_q[OF p])
  show ?thesis
    by (intro rel_filas.intro rel_altas.intro rel_ediciones.intro a rel_altas_axioms.intro rel_ediciones_axioms.intro)
      (simp_all add: keeps_def)
qed

lemma actualizar_hoy_falla:
  assumes "v \<in> set (vinculos s)" and "abierto_de ev uid v" and "hoy ev \<le> v_from v" and "tiene_persona f"
  shows "actualizar_unidad_desde_fila ev cid uid f s \<noteq> Inr r"
proof
  assume "actualizar_unidad_desde_fila ev cid uid f s = Inr r"
  then obtain x s1 where u: "update_unidad_q ev cid uid (Some (fi_tipo f)) (map_option float_to_numeric (fi_superficie f))
       (parse_numeric (fi_coeficiente f)) None s = Inr (x, s1)"
    and "(if \<not> tiene_persona f then tx_ret () else
       tx_bind (fila_to_validated_vinculo ev f) (\<lambda>v.
       tx_bind (close_all_vinculos_vigentes ev uid (hoy ev)) (\<lambda>_. attach_persona ev uid v))) s1 = Inr r"
    unfolding actualizar_unidad_desde_fila_def by (rule tx_bindE)
  then have "tx_bind (fila_to_validated_vinculo ev f) (\<lambda>v.
       tx_bind (close_all_vinculos_vigentes ev uid (hoy ev)) (\<lambda>_. attach_persona ev uid v)) s1 = Inr r"
    using assms(4) by simp
  then obtain w s2 where w: "fila_to_validated_vinculo ev f s1 = Inr (w, s2)"
    and "tx_bind (close_all_vinculos_vigentes ev uid (hoy ev)) (\<lambda>_. attach_persona ev uid w) s2 = Inr r"
    by (rule tx_bindE)
  then obtain y s3 where y: "close_all_vinculos_vigentes ev uid (hoy ev) s2 = Inr (y, s3)" by (auto simp: tx_inv)
  have "vinculos s1 = vinculos s" using u by (auto simp: update_unidad_q_def num_col_def tx_inv split: option.splits)
  moreover have "vinculos s2 = vinculos s1" using w pmis.validate_q
    by (auto simp: fila_to_validated_vinculo_def validate_vinculo_def tx_inv Let_def split: option.splits)
  ultimately have v: "v \<in> set (vinculos s2)" using assms(1) by simp
  have "\<not> vinculo_check (cerrado_el (hoy ev) v)"
    using leD[OF assms(3)] by (simp add: vinculo_check_def cerrado_el_def)
  with y v assms(2) show False by (auto simp: close_all_vinculos_vigentes_def)
qed

end
