(* ===== verification/ImpTeoremas.thy ===== *)
theory ImpTeoremas
  imports UfPropiedades
begin

text \<open>
  The units, their links and the imports as one system: every sequence of creations of units,
  uploads and confirmations, by any tenant.
\<close>

inductive uf_paso :: "db \<Rightarrow> db \<Rightarrow> bool" where
  alta: "unidades_create ev co inp s = Inr (x, t) \<Longrightarrow> uf_paso s t"
| subir: "create_import_job ev co modo bytes s = Inr (d, t) \<Longrightarrow> uf_paso s t"
| confirmar: "confirm_import_job ev job key s = Inr (d, t) \<Longrightarrow> uf_paso s t"

text \<open>A relation that the operations of every tenant respect holds along every sequence of steps.\<close>

lemma rel_importes_step: "rel_importes R ev \<Longrightarrow> step_rel R"
  by (simp add: rel_importes_def rel_filas_def rel_altas_def rel_attach_def rel_vinculos_def)

lemma uf_pasos_rel:
  assumes "\<And>ev. rel_importes R ev" and "uf_paso\<^sup>*\<^sup>* s t"
  shows "R s t"
  using assms(2)
proof (induction rule: rtranclp_induct)
  case base
  show ?case by (rule step_rel.refl[OF rel_importes_step[OF assms(1)]])
next
  case (step y z)
  have "R y z" using step(2)
  proof cases
    case (alta ev co inp x)
    then show ?thesis using rel_altas.unidades_create_rel[of R ev] assms(1)[of ev]
      unfolding rel_importes_def rel_filas_def tx_rel_def by blast
  next
    case (subir ev co modo bytes d)
    then show ?thesis using rel_importes.create_job_rel[OF assms(1)] unfolding tx_rel_def by blast
  next
    case (confirmar ev job key d)
    then show ?thesis using rel_importes.confirm_rel[OF assms(1)] unfolding tx_rel_def by blast
  qed
  with step(3) show ?case by (rule step_rel.trans[OF rel_importes_step[OF assms(1)]])
qed

subsection \<open>The jobs\<close>

definition clave_job :: "import_job \<Rightarrow> uuid \<times> uuid" where
  "clave_job j = (ij_tenant j, ij_id j)"

definition job_ok :: "import_job \<Rightarrow> bool" where
  "job_ok j \<longleftrightarrow> ij_total j = i32 (int (length (ij_filas j))) \<and>
     (ij_estado j = ''listo'' \<and> ij_creados j = 0 \<and> ij_actualizados j = 0 \<and> ij_rechazados j = 0 \<or>
      ij_estado j = ''procesado'' \<and> (\<exists>ds. list_all2 (\<lambda>f d. fi_valida f \<or> d = Salteada) (ij_filas j) ds \<and>
        ij_creados j = i32 (hechas Creada ds) \<and> ij_actualizados j = i32 (hechas Actualizada ds) \<and>
        ij_rechazados j = i32 (ij_total j - hechas Creada ds - hechas Actualizada ds)))"

definition jobs_ok :: "db \<Rightarrow> bool" where
  "jobs_ok s \<longleftrightarrow> distinct (map clave_job (import_jobs s)) \<and> (\<forall>j \<in> set (import_jobs s). job_ok j)"

lemma create_job_Inr:
  assumes "create_import_job ev co modo bytes s = Inr (d, t)"
  shows "\<exists>j. import_jobs t = import_jobs s @ [j] \<and> clave_job j \<notin> clave_job ` set (import_jobs s) \<and>
    job_ok j \<and> ij_estado j = ''listo'' \<and> unidades t = unidades s \<and> personas t = personas s \<and> vinculos t = vinculos s"
proof -
  obtain cid errores c s1 and fs :: "(fila_import \<times> (string \<times> string) list) list" where
    q: "create_import_job_q ev cid modo ''ufs-v1'' (i32 (int (length fs))) (map (fila_textos json_texto \<circ> fst) fs) errores s = Inr (c, s1)"
      "set_import_job_estado ev (ij_id c) ''listo'' s1 = Inr ((), t)"
    using assms unfolding create_import_job_def parse_plantilla_ufs_csv_def filas_json_def get_consorcio_q_def Let_def
    by (auto simp: tx_inv)
  have c: "import_jobs s1 = import_jobs s @ [c]" "ij_tenant c = tenant ev" "ij_total c = i32 (int (length (ij_filas c)))"
    "ij_creados c = 0" "ij_actualizados c = 0" "ij_rechazados c = 0"
    "\<forall>x \<in> set (import_jobs s). \<not> mi_import ev (ij_id c) x"
    "unidades s1 = unidades s" "personas s1 = personas s" "vinculos s1 = vinculos s"
    using q(1) by (auto simp: create_import_job_q_def tx_inv split: if_splits)
  note t = set_estado_Inr[OF q(2)]
  have "upd_where (mi_import ev (ij_id c)) (job_en_estado ev ''listo'') (import_jobs s) = import_jobs s"
    by (rule upd_where_none) (use c(7) in blast)
  then have "import_jobs t = import_jobs s @ [job_en_estado ev ''listo'' c]"
    using t c(1,2) by (simp add: mi_import_def)
  moreover have "clave_job (job_en_estado ev ''listo'' c) \<notin> clave_job ` set (import_jobs s)"
    using c(2,7) by (auto simp: clave_job_def mi_import_def job_en_estado_def)
  moreover have "job_ok (job_en_estado ev ''listo'' c)" using c by (simp add: job_ok_def job_en_estado_def)
  ultimately show ?thesis using c(8-10) t by (auto simp: job_en_estado_def)
qed

lemma procesar_fila_salteada: "procesar_fila ev j f s = Inr (d, t) \<Longrightarrow> fi_valida f \<or> d = Salteada"
  by (cases "fi_valida f") (simp_all add: procesar_fila_def)

lemma procesar_filas_destinos:
  "tx_map (procesar_fila ev j) fs s = Inr (ds, t) \<Longrightarrow> list_all2 (\<lambda>f d. fi_valida f \<or> d = Salteada) fs ds"
  by (induction fs arbitrary: s ds) (auto simp: tx_inv dest: procesar_fila_salteada)

lemma cierre_campos [simp]:
  "ij_tenant (cierre ev ds j x) = ij_tenant x" "ij_id (cierre ev ds j x) = ij_id x" "ij_filas (cierre ev ds j x) = ij_filas x"
  "ij_total (cierre ev ds j x) = ij_total x" "ij_modo (cierre ev ds j x) = ij_modo x"
  "ij_consorcio (cierre ev ds j x) = ij_consorcio x" "ij_estado (cierre ev ds j x) = ''procesado''"
  "ij_creados (cierre ev ds j x) = i32 (hechas Creada ds)" "ij_actualizados (cierre ev ds j x) = i32 (hechas Actualizada ds)"
  "ij_rechazados (cierre ev ds j x) = i32 (ij_total j - hechas Creada ds - hechas Actualizada ds)"
  by (simp_all add: cierre_def terminado_def)

lemma job_unico:
  assumes "distinct (map clave_job js)" and "List.find (mi_import ev jid) js = Some j" and "x \<in> set js" and "mi_import ev jid x"
  shows "x = j"
  using assms(1,3,4) find_SomeD[OF assms(2)] inj_onD[of clave_job "set js" x j]
  by (simp add: distinct_map mi_import_def clave_job_def)

lemma jobs_ok_confirma:
  assumes "jobs_ok s" and "List.find (mi_import ev jid) (import_jobs s) = Some j" and "confirma ev jid j ds s s1 s2 t"
  shows "jobs_ok t"
proof -
  have d: "distinct (map clave_job (import_jobs s))" and ok: "\<forall>j \<in> set (import_jobs s). job_ok j"
    using assms(1) by (simp_all add: jobs_ok_def)
  have t: "import_jobs t = upd_where (mi_import ev jid) (cierre ev ds j) (import_jobs s)"
    and ds: "list_all2 (\<lambda>f d. fi_valida f \<or> d = Salteada) (ij_filas j) ds"
    using assms(3) procesar_filas_destinos unfolding confirma_def by blast+
  have "job_ok j" using ok find_SomeD[OF assms(2)] by blast
  then have "job_ok (cierre ev ds j j)" using ds by (auto simp: job_ok_def)
  then have "job_ok (if mi_import ev jid x then cierre ev ds j x else x)" if "x \<in> set (import_jobs s)" for x
    using job_unico[OF d assms(2) that] ok that by auto
  moreover have "distinct (map clave_job (import_jobs t))"
    unfolding t by (subst map_upd_where_same) (simp_all add: clave_job_def d)
  ultimately show ?thesis unfolding jobs_ok_def t set_upd_where by blast
qed

lemma jobs_ok_paso:
  assumes "uf_paso s t" and "jobs_ok s"
  shows "jobs_ok t"
  using assms(1)
proof cases
  case (alta ev co inp x)
  have "mismos_jobs s t" using ujob.unidades_create_rel[of ev co inp] alta unfolding tx_rel_def by blast
  then show ?thesis using assms(2) by (simp add: jobs_ok_def mismos_jobs_def)
next
  case (subir ev co modo bytes d)
  show ?thesis using create_job_Inr[OF subir] assms(2) by (auto simp: jobs_ok_def)
next
  case (confirmar ev job key d)
  then show ?thesis
  proof (cases rule: confirm_caso)
    case (hecho jid j)
    then show ?thesis using assms(2) by simp
  next
    case (clave r)
    then show ?thesis using assms(2) solo_claves_tablas[of s t] by (simp add: jobs_ok_def)
  next
    case (aplica jid j ds s1 s2)
    then show ?thesis using jobs_ok_confirma[OF assms(2)] by blast
  qed
qed

lemma jobs_ok_alcanzable: "uf_paso\<^sup>*\<^sup>* s t \<Longrightarrow> import_jobs s = [] \<Longrightarrow> jobs_ok t"
proof (induction rule: rtranclp_induct)
  case base
  then show ?case by (simp add: jobs_ok_def)
next
  case (step y z)
  then show ?case using jobs_ok_paso by blast
qed

text \<open>The counts of the destinations.\<close>

lemma hechas_nonneg [simp]: "0 \<le> hechas d ds"
  by (simp add: hechas_def)

lemma hechas_validas:
  assumes "list_all2 (\<lambda>f d. fi_valida f \<or> d = Salteada) fs ds"
  shows "hechas Creada ds + hechas Actualizada ds \<le> int (count_where fi_valida fs)"
  using assms by (induction fs ds rule: list_all2_induct) (auto simp: hechas_def count_where_def)

lemma count_where_split: "count_where P xs + count_where (\<lambda>x. \<not> P x) xs = length xs"
  by (induction xs) (auto simp: count_where_def)

lemma job_cuadra:
  assumes "job_ok j" and "length (ij_filas j) < 2 ^ 31"
  shows "ij_total j = int (length (ij_filas j))"
    and "ij_estado j = ''procesado'' \<Longrightarrow> ij_creados j + ij_actualizados j + ij_rechazados j = ij_total j \<and>
      0 \<le> ij_creados j \<and> 0 \<le> ij_actualizados j \<and>
      int (count_where (\<lambda>f. \<not> fi_valida f) (ij_filas j)) \<le> ij_rechazados j"
proof -
  let ?n = "int (length (ij_filas j))"
  have n: "0 \<le> ?n" "?n < 2 ^ 31" using assms(2) by simp_all
  show t: "ij_total j = ?n" using assms(1) n by (simp add: job_ok_def)
  assume "ij_estado j = ''procesado''"
  then obtain ds where ds: "list_all2 (\<lambda>f d. fi_valida f \<or> d = Salteada) (ij_filas j) ds"
      "ij_creados j = i32 (hechas Creada ds)" "ij_actualizados j = i32 (hechas Actualizada ds)"
      "ij_rechazados j = i32 (ij_total j - hechas Creada ds - hechas Actualizada ds)"
    using assms(1) by (auto simp: job_ok_def)
  define c a where ca: "c = hechas Creada ds" "a = hechas Actualizada ds"
  have p: "0 \<le> c" "0 \<le> a" unfolding ca by simp_all
  have v: "c + a \<le> int (count_where fi_valida (ij_filas j))" unfolding ca by (rule hechas_validas[OF ds(1)])
  have s: "int (count_where fi_valida (ij_filas j)) + int (count_where (\<lambda>f. \<not> fi_valida f) (ij_filas j)) = ?n"
    using count_where_split[of fi_valida "ij_filas j"] by linarith
  have "i32 c = c" "i32 a = a" "i32 (?n - c - a) = ?n - c - a"
    using p v s n by (intro i32_id; linarith)+
  then show "ij_creados j + ij_actualizados j + ij_rechazados j = ij_total j \<and> 0 \<le> ij_creados j \<and> 0 \<le> ij_actualizados j \<and>
      int (count_where (\<lambda>f. \<not> fi_valida f) (ij_filas j)) \<le> ij_rechazados j"
    using ds(2-4) ca t p v s by simp
qed

subsection \<open>Processed jobs\<close>

text \<open>A processed job is answered, whatever comes between.\<close>

definition fijos :: "db \<Rightarrow> db \<Rightarrow> bool" where
  "fijos s t \<longleftrightarrow> (\<forall>ev jid j. List.find (mi_import ev jid) (import_jobs s) = Some j \<and> ij_estado j = ''procesado'' \<longrightarrow>
     List.find (mi_import ev jid) (import_jobs t) = Some j)"

lemma fijos_confirma:
  assumes "List.find (mi_import ev jid) (import_jobs s) = Some j" and "ij_estado j \<noteq> ''procesado''"
    and "import_jobs t = upd_where (mi_import ev jid) (cierre ev ds j) (import_jobs s)"
  shows "fijos s t"
  unfolding fijos_def
proof (intro allI impI)
  fix ev' jid' j'
  assume "List.find (mi_import ev' jid') (import_jobs s) = Some j' \<and> ij_estado j' = ''procesado''"
  then have f: "List.find (mi_import ev' jid') (import_jobs s) = Some j'" and e: "ij_estado j' = ''procesado''" by simp_all
  have otro: "(tenant ev', jid') \<noteq> (tenant ev, jid)"
  proof
    assume "(tenant ev', jid') = (tenant ev, jid)"
    then have "mi_import ev' jid' = mi_import ev jid" by (simp add: mi_import_def fun_eq_iff)
    then show False using f e assms(1,2) by simp
  qed
  have inv: "mi_import ev' jid' (cierre ev ds j r) = mi_import ev' jid' r" for r by (simp add: mi_import_def)
  have "\<not> mi_import ev jid j'" using otro find_SomeD[OF f] by (auto simp: mi_import_def)
  then show "List.find (mi_import ev' jid') (import_jobs t) = Some j'"
    unfolding assms(3) by (simp add: find_upd_where inv f)
qed

lemma fijos_paso: "uf_paso s t \<Longrightarrow> fijos s t"
proof (induction rule: uf_paso.induct)
  case (alta ev co inp s x t)
  have "mismos_jobs s t" using ujob.unidades_create_rel[of ev co inp] alta unfolding tx_rel_def by blast
  then show ?case by (simp add: fijos_def mismos_jobs_def)
next
  case (subir ev co modo bytes s d t)
  show ?case using create_job_Inr[OF subir] by (auto simp: fijos_def find_append)
next
  case (confirmar ev job key s d t)
  then show ?case
  proof (cases rule: confirm_caso)
    case (hecho jid j)
    then show ?thesis by (simp add: fijos_def)
  next
    case (clave r)
    then show ?thesis using solo_claves_tablas[of s t] by (simp add: fijos_def)
  next
    case (aplica jid j ds s1 s2)
    show ?thesis using fijos_confirma[OF aplica(2), of t ds] aplica(3,4) unfolding confirma_def by simp
  qed
qed

lemma fijos_pasos: "uf_paso\<^sup>*\<^sup>* s t \<Longrightarrow> fijos s t"
proof (induction rule: rtranclp_induct)
  case base
  then show ?case by (simp add: fijos_def)
next
  case (step y z)
  then show ?case using fijos_paso[OF step(2)] unfolding fijos_def by blast
qed

subsection \<open>Properties\<close>


text \<open>
  C11. In every reachable state a person has at most one open link of a kind to a unit.
\<close>

theorem vinculo_abierto_unico:
  assumes "uf_paso\<^sup>*\<^sup>* s t" and "vinculos s = []"
  shows "distinct (map clave_vinculo (filter (\<lambda>v. v_to v = None) (vinculos t)))"
proof -
  have "keeps abiertos_unicos s t" by (rule uf_pasos_rel[OF uabi.rel_importes_axioms assms(1)])
  then show ?thesis using assms(2) by (simp add: keeps_def abiertos_unicos_def)
qed

text \<open>
  C38. The links are a history: whatever the creations and the imports do, a link stays in its place,
  as it was or, if it was open, with a last day; a closed link never changes.
\<close>

theorem vinculos_historia:
  assumes "uf_paso\<^sup>*\<^sup>* s t" and "i < length (vinculos s)"
  shows "i < length (vinculos t) \<and> (vinculos t ! i = vinculos s ! i \<or>
    v_to (vinculos s ! i) = None \<and> (\<exists>d. vinculos t ! i = (vinculos s ! i)\<lparr>v_to := Some d\<rparr>))"
proof -
  have "historia_vinculos s t" by (rule uf_pasos_rel[OF uhis.rel_importes_axioms assms(1)])
  then obtain ws nuevos where w: "vinculos t = ws @ nuevos" "list_all2 cierra (vinculos s) ws" by (auto simp: historia_vinculos_def)
  have "i < length ws" using list_all2_lengthD[OF w(2)] assms(2) by simp
  moreover have "cierra (vinculos s ! i) (ws ! i)" by (rule list_all2_nthD[OF w(2) assms(2)])
  ultimately show ?thesis unfolding w(1) by (auto simp: cierra_def nth_append)
qed

text \<open>
  C9. There is no silent upsert. The units after a confirmation are the units before, with their
  codes and identifiers, and as many new ones as the answer counts, each of a valid row whose code was
  not in use; the mode crear leaves the units before as they are, the mode actualizar creates none.
\<close>

theorem import_sin_upsert:
  assumes "confirm_import_job ev job key s = Inr (dto, t)" and "uuid_parse ev job = Some jid"
    and "List.find (mi_import ev jid) (import_jobs s) = Some j" and "ij_estado j = ''listo''"
    and "registro ev (''import_jobs.confirm'', key) s = None" and "length (ij_filas j) < 2 ^ 31"
  shows "\<exists>nuevas. map ident_unidad (unidades t) = map ident_unidad (unidades s) @ nuevas \<and>
     int (length nuevas) = ijd_creados dto \<and>
     (\<forall>k \<in> set nuevas. fst k \<notin> clave_unidad ` set (unidades s) \<and>
       (\<exists>f \<in> set (ij_filas j). fi_valida f \<and> fst k = (tenant ev, ij_consorcio j, fi_codigo f))) \<and>
     (ij_modo j = ''crear'' \<longrightarrow> take (length (unidades s)) (unidades t) = unidades s) \<and>
     (ij_modo j = ''actualizar'' \<longrightarrow> nuevas = [])"
  using assms(1)
proof (cases rule: confirm_caso)
  case (hecho jid' j')
  then show ?thesis using assms(2-4) by simp
next
  case (clave r)
  then show ?thesis using assms(5) by simp
next
  case (aplica jid' j' ds s1 s2)
  then have c: "confirma ev jid j ds s s1 s2 t" "dto = import_job_dto ev (cierre ev ds j j)" using assms(2,3) by simp_all
  note u = c(1)[unfolded confirma_def]
  define n where "n = count_where (\<lambda>d. d = Creada) ds"
  have "crecen ev j (ij_filas j) n s1 s2" using procesar_filas_crecen u unfolding n_def by blast
  then obtain nuevas where nu: "map ident_unidad (unidades t) = map ident_unidad (unidades s) @ nuevas" "length nuevas = n"
    "\<forall>k \<in> set nuevas. fst k \<notin> clave_unidad ` set (unidades s) \<and>
       (\<exists>f \<in> set (ij_filas j). fi_valida f \<and> fst k = (tenant ev, ij_consorcio j, fi_codigo f))"
    using u unfolding crecen_def clave_fila_def by auto
  have "n \<le> length ds" by (simp add: n_def count_where_def)
  also have "length ds = length (ij_filas j)" using tx_map_length[of "procesar_fila ev j" "ij_filas j" s1 ds s2] u by blast
  finally have "i32 (int n) = int n" using assms(6) by (intro i32_id) simp_all
  then have cr: "int (length nuevas) = ijd_creados dto"
    using c(2) nu(2) by (simp add: import_job_dto_def hechas_def n_def)
  have m1: "take (length (unidades s)) (unidades t) = unidades s" if "ij_modo j = ''crear''"
  proof -
    have "procesar_filas ev j s1 = Inr ((hechas Creada ds, hechas Actualizada ds, ij_errores j @ rechazos ds), s2)"
      using u by (simp add: procesar_filas_def tx_bind_def tx_ret_def hechas_def rechazos_def)
    then have "solo_altas s1 s2" using ualt.procesar_crear[OF that, of ev] unfolding tx_rel_def by blast
    then show ?thesis using u by (auto simp: solo_altas_def)
  qed
  have m2: "nuevas = []" if "ij_modo j = ''actualizar''"
  proof -
    have "procesar_filas ev j s1 = Inr ((hechas Creada ds, hechas Actualizada ds, ij_errores j @ rechazos ds), s2)"
      using u by (simp add: procesar_filas_def tx_bind_def tx_ret_def hechas_def rechazos_def)
    then have "sin_altas s1 s2" using usin.procesar_actualizar[OF that, of ev] unfolding tx_rel_def by blast
    then have "length (unidades s2) = length (unidades s1)" unfolding sin_altas_def by (rule map_eq_imp_length_eq)
    then have "length (unidades t) = length (unidades s)" using u by simp
    then show ?thesis using arg_cong[OF nu(1), of length] by simp
  qed
  show ?thesis by (intro exI[of _ nuevas] conjI impI nu(1,3) cr m1 m2)
qed

text \<open>
  A confirmation can be repeated: after it, and after any other requests, a confirmation of the
  job with any key is answered in the same way and changes nothing.
\<close>

theorem import_repetible:
  assumes "confirm_import_job ev job key s = Inr (dto, t)" and "registro ev (''import_jobs.confirm'', key) s = None"
    and "uf_paso\<^sup>*\<^sup>* t t'"
  shows "confirm_import_job ev job key' t' = Inr (dto, t')"
proof -
  obtain jid j where j: "uuid_parse ev job = Some jid" "List.find (mi_import ev jid) (import_jobs t) = Some j"
    "ij_estado j = ''procesado''" "dto = import_job_dto ev j"
    using assms(1)
  proof (cases rule: confirm_caso)
    case (hecho jid j)
    then show ?thesis using that by simp
  next
    case (clave r)
    then show ?thesis using assms(2) by simp
  next
    case (aplica jid j ds s1 s2)
    have "List.find (mi_import ev jid) (import_jobs t) = Some (cierre ev ds j j)"
      using aplica(2,4) find_SomeD[OF aplica(2)] unfolding confirma_def by (simp add: find_upd_where mi_import_def)
    then show ?thesis using that aplica(1,5) by simp
  qed
  have "List.find (mi_import ev jid) (import_jobs t') = Some j"
    using fijos_pasos[OF assms(3)] j(2,3) unfolding fijos_def by blast
  then show ?thesis using j
    by (simp add: confirm_import_job_def get_import_job_q_def tx_bind_def tx_some_def tx_ret_def tx_catch_def tx_row_def)
qed

subsection \<open>The preview and the confirmation\<close>

context rel_filas begin

lemma filas_rel: "tx_rel R (tx_map (procesar_fila ev j) fs)"
  unfolding procesar_fila_def get_unidad_by_codigo_def
  by (auto split: option.split intro!: rules rel_opt row_q crear_fila actualizar_fila simp: refl)

end

text \<open>The rows that fail.\<close>

lemma tx_map_falla:
  assumes "tx_map g xs s = Inr (ys, t)" and "x \<in> set xs"
  obtains as bs s1 s2 zs y where "xs = as @ x # bs" and "tx_map g as s = Inr (zs, s1)" and "g x s1 = Inr (y, s2)"
proof -
  have "\<exists>as bs s1 s2 zs y. xs = as @ x # bs \<and> tx_map g as s = Inr (zs, s1) \<and> g x s1 = Inr (y, s2)"
    using assms
  proof (induction xs arbitrary: s ys)
    case (Cons z xs)
    obtain y s' ys' where z: "g z s = Inr (y, s')" "tx_map g xs s' = Inr (ys', t)"
      using Cons.prems(1) by (auto simp: tx_inv)
    show ?case
    proof (cases "z = x")
      case True
      then have "z # xs = [] @ x # xs" "tx_map g [] s = Inr ([], s)" "g x s = Inr (y, s')" using z(1) by simp_all
      then show ?thesis by blast
    next
      case False
      then obtain as bs s1 s2 zs y' where a: "xs = as @ x # bs" "tx_map g as s' = Inr (zs, s1)" "g x s1 = Inr (y', s2)"
        using Cons.IH[OF z(2)] Cons.prems(2) by auto
      then have "z # xs = (z # as) @ x # bs" "tx_map g (z # as) s = Inr (y # zs, s1)"
        using z(1) by (simp_all add: tx_inv)
      then show ?thesis using a(3) by blast
    qed
  qed simp
  then show thesis using that by blast
qed

text \<open>A confirmation of a job that waits goes through its rows, or its key was used before.\<close>

lemma confirma_filas:
  assumes "confirm_import_job ev job key s = Inr (dto, t)" and "uuid_parse ev job = Some jid"
    and "List.find (mi_import ev jid) (import_jobs s) = Some j" and "ij_estado j = ''listo''"
    and "registro ev (''import_jobs.confirm'', key) s = None"
  obtains ds s1 s2 where "tx_map (procesar_fila ev j) (ij_filas j) s1 = Inr (ds, s2)"
    and "unidades s1 = unidades s" and "vinculos s1 = vinculos s"
  using assms(1)
proof (cases rule: confirm_caso)
  case (hecho jid' j')
  then show ?thesis using assms(2-4) by simp
next
  case (clave r)
  then show ?thesis using assms(5) by simp
next
  case (aplica jid' j' ds s1 s2)
  have "jid' = jid" "j' = j" using aplica(1,2) assms(2,3) by simp_all
  then show ?thesis using aplica(4) that[of s1 ds s2] unfolding confirma_def by blast
qed

text \<open>
  The preview admits a row without a coefficient, and no confirmation that has to create its
  unit succeeds: the column is not null, so that the whole import fails.
\<close>

theorem coeficiente_vacio:
  assumes "uuid_parse ev job = Some jid" and "List.find (mi_import ev jid) (import_jobs s) = Some j"
    and "ij_estado j = ''listo''" and "registro ev (''import_jobs.confirm'', key) s = None"
    and "ij_modo j = ''crear'' \<or> ij_modo j = ''crear_y_actualizar''"
    and "f \<in> set (ij_filas j)" and "fi_valida f" and "fi_coeficiente f = ''''"
    and "distinct (map fi_codigo (filter fi_valida (ij_filas j)))"
    and "(tenant ev, ij_consorcio j, fi_codigo f) \<notin> clave_unidad ` set (unidades s)"
  shows "confirm_import_job ev job key s \<noteq> Inr r"
proof
  assume a: "confirm_import_job ev job key s = Inr r"
  obtain dto t where r: "r = (dto, t)" by (cases r)
  obtain ds s1 s2 where m: "tx_map (procesar_fila ev j) (ij_filas j) s1 = Inr (ds, s2)" "unidades s1 = unidades s"
    using confirma_filas[OF a[unfolded r] assms(1-4)] by blast
  obtain as bs s3 s4 zs y where p: "ij_filas j = as @ f # bs" "tx_map (procesar_fila ev j) as s1 = Inr (zs, s3)"
    "procesar_fila ev j f s3 = Inr (y, s4)" using tx_map_falla[OF m(1) assms(6)] .
  have "crecen ev j as (count_where (\<lambda>d. d = Creada) zs) s1 s3" by (rule procesar_filas_crecen[OF p(2)])
  then obtain ns where ns: "map ident_unidad (unidades s3) = map ident_unidad (unidades s1) @ ns"
    "\<forall>k \<in> set ns. \<exists>g \<in> set as. fi_valida g \<and> fst k = clave_fila ev j g" unfolding crecen_def by blast
  have otro: "fi_codigo g \<noteq> fi_codigo f" if "g \<in> set as" "fi_valida g" for g
    using assms(7,9) that unfolding p(1) by (auto simp: image_iff)
  have "fst ` set (map ident_unidad (unidades s3)) = fst ` set (map ident_unidad (unidades s1)) \<union> fst ` set ns"
    unfolding ns(1) by (simp add: image_Un)
  then have "clave_unidad ` set (unidades s3) = clave_unidad ` set (unidades s) \<union> fst ` set ns"
    using m(2) by (simp add: image_image ident_unidad_def)
  moreover have "clave_fila ev j f \<notin> fst ` set ns"
  proof
    assume "clave_fila ev j f \<in> fst ` set ns"
    then obtain g where "g \<in> set as" "fi_valida g" "clave_fila ev j f = clave_fila ev j g" using ns(2) by force
    then show False using otro[of g] by (simp add: clave_fila_def)
  qed
  ultimately have "List.find (mi_codigo ev (ij_consorcio j) (fi_codigo f)) (unidades s3) = None"
    using assms(10) by (simp add: find_codigo_None clave_fila_def)
  then obtain x where "crear_unidad_desde_fila ev (ij_consorcio j) f s3 = Inr (x, s4)"
    using p(3) assms(5,7) by (auto simp: procesar_fila_def tx_inv get_unidad_Inr)
  then have "parse_numeric (fi_coeficiente f) \<noteq> None" using crear_fila_Inr by blast
  then show False using assms(8) by (simp add: parse_numeric_def coef_re_def decimal_re_def)
qed

text \<open>
  An import cannot replace a link on the day it was opened: the confirmation of a row that has a
  person and whose unit has an open link of today or later fails, with everything in it.
\<close>

theorem reimportar_hoy_falla:
  assumes "uuid_parse ev job = Some jid" and "List.find (mi_import ev jid) (import_jobs s) = Some j"
    and "ij_estado j = ''listo''" and "registro ev (''import_jobs.confirm'', key) s = None"
    and "ij_modo j = ''actualizar'' \<or> ij_modo j = ''crear_y_actualizar''"
    and "f \<in> set (ij_filas j)" and "fi_valida f" and "tiene_persona f"
    and "List.find (mi_codigo ev (ij_consorcio j) (fi_codigo f)) (unidades s) = Some u"
    and "v \<in> set (vinculos s)" and "abierto_de ev (u_id u) v" and "hoy ev \<le> v_from v"
  shows "confirm_import_job ev job key s \<noteq> Inr r"
proof
  assume a: "confirm_import_job ev job key s = Inr r"
  obtain dto t where r: "r = (dto, t)" by (cases r)
  obtain ds s1 s2 where m: "tx_map (procesar_fila ev j) (ij_filas j) s1 = Inr (ds, s2)" "unidades s1 = unidades s"
    "vinculos s1 = vinculos s"
    using confirma_filas[OF a[unfolded r] assms(1-4)] by blast
  obtain as bs s3 s4 zs y where p: "ij_filas j = as @ f # bs" "tx_map (procesar_fila ev j) as s1 = Inr (zs, s3)"
    "procesar_fila ev j f s3 = Inr (y, s4)" using tx_map_falla[OF m(1) assms(6)] .
  have vf: "rel_filas (keeps (\<lambda>s. v \<in> set (vinculos s))) ev"
    by (rule abierto_fijo) (use assms(11,12) in \<open>simp_all add: abierto_de_def\<close>)
  have v: "v \<in> set (vinculos s3)"
    using tx_relD[OF rel_filas.filas_rel[OF vf] p(2)] assms(10) m(3) unfolding keeps_def by simp
  have "crecen ev j as (count_where (\<lambda>d. d = Creada) zs) s1 s3" by (rule procesar_filas_crecen[OF p(2)])
  then obtain ns where "map ident_unidad (unidades s3) = map ident_unidad (unidades s) @ ns"
    using m(2) unfolding crecen_def by auto
  then obtain u' where u': "List.find (mi_codigo ev (ij_consorcio j) (fi_codigo f)) (unidades s3) = Some u'" "u_id u' = u_id u"
    using find_codigo_ident assms(9) by blast
  then obtain x where "actualizar_unidad_desde_fila ev (ij_consorcio j) (u_id u) f s3 = Inr (x, s4)"
    using p(3) assms(5,7) by (auto simp: procesar_fila_def tx_inv get_unidad_Inr)
  then show False using actualizar_hoy_falla[OF v assms(11,12,8)] by blast
qed

text \<open>What a row is when no check of its fields fails.\<close>

definition fila_buena :: "fila_import \<Rightarrow> bool" where
  "fila_buena f \<longleftrightarrow> fi_codigo f \<noteq> '''' \<and> length (fi_codigo f) \<le> 50 \<and> fi_tipo f \<in> tipos_uf \<and>
     (case fi_superficie f of None \<Rightarrow> True | Some x \<Rightarrow> \<not> f_neg x) \<and>
     (fi_coeficiente f = '''' \<or> coef_re (fi_coeficiente f)) \<and>
     (tiene_persona f \<longrightarrow> fi_nombre f \<noteq> '''' \<and> length (fi_nombre f) \<le> 200 \<and> fi_vinculo f \<in> valid_vinculos \<and>
       (case fi_porcentaje f of None \<Rightarrow> True | Some p \<Rightarrow> pct_re p \<and> \<not> pct_gt100 p))"

lemma si_error_Nil [simp]: "si_error b e = [] \<longleftrightarrow> \<not> b"
  by (simp add: si_error_def)

lemma superficie_csv_buena: "superficie_csv s = Some (Some x) \<Longrightarrow> \<not> f_neg x"
  by (auto simp: superficie_csv_def split: if_splits option.splits)

lemma fila_csv_valida:
  "fi_valida (fst (fila_csv vistos n r)) \<longleftrightarrow> snd (fila_csv vistos n r) = []"
  "fi_fila (fst (fila_csv vistos n r)) = n"
  by (simp_all add: fila_csv_def Let_def)

lemma fila_csv_buena:
  assumes "fi_valida (fst (fila_csv vistos n r))"
  shows "fila_buena (fst (fila_csv vistos n r)) \<and> fi_codigo (fst (fila_csv vistos n r)) \<notin> set vistos"
proof -
  let ?r = "normalize_csv_record r"
  have s: "case otra (superficie_csv (?r ! 2)) None of None \<Rightarrow> True | Some x \<Rightarrow> \<not> f_neg x"
    using superficie_csv_buena[of "?r ! 2"] by (auto simp: otra_def split: option.splits)
  show ?thesis using assms s
    by (auto simp: fila_csv_def Let_def fila_buena_def tiene_persona_def split: if_split_asm option.splits)
qed

lemma filas_csv_codigos:
  "distinct (map fi_codigo (filter fi_valida (map fst (filas_csv vistos n rs)))) \<and>
   fi_codigo ` set (filter fi_valida (map fst (filas_csv vistos n rs))) \<inter> set vistos = {}"
proof (induction rs arbitrary: vistos n)
  case (Cons r rs)
  let ?f = "fst (fila_csv vistos n r)"
  show ?case using Cons.IH[of "fi_codigo ?f # vistos" "n + 1"] fila_csv_buena[of vistos n r] by (auto simp: image_iff)
qed simp

lemma filas_csv_filas: "map (\<lambda>f. fi_fila (fst f)) (filas_csv vistos n rs) = map (\<lambda>i. n + int i) [0..<length rs]"
proof (induction rs arbitrary: vistos n)
  case (Cons r rs)
  have "map (\<lambda>i. n + int i) [0..<Suc (length rs)] = n # map (\<lambda>i. n + 1 + int i) [0..<length rs]"
    by (simp add: upt_conv_Cons map_Suc_upt[symmetric] del: upt_Suc)
  then show ?case using Cons by (simp add: fila_csv_valida del: upt_Suc)
qed simp

lemma filas_csv_errores:
  "map ie_fila [\<lparr>ie_fila = fi_fila f, ie_campos = cs\<rparr>. (f, cs) \<leftarrow> filas_csv vistos n rs, cs \<noteq> []]
   = map fi_fila (filter (\<lambda>f. \<not> fi_valida f) (map fst (filas_csv vistos n rs)))"
proof (induction rs arbitrary: vistos n)
  case (Cons r rs)
  then show ?case using fila_csv_valida[of vistos n r] by (cases "fila_csv vistos n r") auto
qed simp

lemma filas_csv_buenas: "f \<in> set (filas_csv vistos n rs) \<Longrightarrow> fi_valida (fst f) \<Longrightarrow> fila_buena (fst f)"
  by (induction rs arbitrary: vistos n) (auto dest: fila_csv_buena)


end
