(* ===== verification/ImpEjemplo.thy ===== *)
theory ImpEjemplo
  imports ImpTeoremas
begin

text \<open>
  A concrete run of the imports: a file is uploaded and confirmed, and the day after another one
  replaces the link.
\<close>

definition archivo :: "string \<Rightarrow> string" where
  "archivo fila = unir '','' encabezado_ufs_csv @ [CHR 0x0A] @ fila"

definition dia2 :: env where
  "dia2 = ejemplo_env\<lparr>hoy := Fecha 2026 3 16\<rparr>"

definition una_fila :: "string \<Rightarrow> string \<Rightarrow> string option \<Rightarrow> string \<Rightarrow> fila_import" where
  "una_fila coef nombre documento vinculo = \<lparr>fi_fila = 2, fi_codigo = ''A1'', fi_tipo = ''local'', fi_superficie = None,
     fi_coeficiente = coef, fi_nombre = nombre, fi_documento = documento, fi_email = None, fi_telefono = None,
     fi_vinculo = vinculo, fi_porcentaje = None, fi_valida = True\<rparr>"

definition un_job :: "uuid \<Rightarrow> string \<Rightarrow> string \<Rightarrow> fila_import \<Rightarrow> int \<Rightarrow> int \<Rightarrow> import_job" where
  "un_job i estado modo f c a = \<lparr>ij_tenant = 1, ij_consorcio = 10, ij_id = i, ij_estado = estado, ij_modo = modo,
     ij_plantilla = ''ufs-v1'', ij_total = 1, ij_filas = [f], ij_errores = [], ij_creados = c, ij_actualizados = a,
     ij_rechazados = 0, ij_url = None, ij_created = 100, ij_updated = 100\<rparr>"

definition fila_ana :: fila_import where "fila_ana = una_fila ''1'' ''Ana'' (Some ''1'') ''propietario''"
definition fila_eva :: fila_import where "fila_eva = una_fila ''1'' ''Eva'' (Some ''2'') ''propietario''"
definition fila_sin :: fila_import where "fila_sin = una_fila '''' '''' None ''''"

definition imp1 :: db where
  "imp1 = ejemplo_db\<lparr>import_jobs := [un_job 1000 ''listo'' ''crear'' fila_ana 0 0], seq := 1\<rparr>"

definition una_persona :: "uuid \<Rightarrow> string \<Rightarrow> string \<Rightarrow> persona" where
  "una_persona i n d = \<lparr>pe_tenant = 1, pe_id = i, pe_nombre = n, pe_documento = Some d, pe_email = None,
     pe_telefono = None, pe_user = None, pe_created = 100, pe_updated = 100\<rparr>"

definition un_vinculo :: "uuid \<Rightarrow> uuid \<Rightarrow> fecha \<Rightarrow> fecha option \<Rightarrow> vinculo" where
  "un_vinculo i p a b = \<lparr>v_tenant = 1, v_id = i, v_unidad = 1002, v_persona = p, v_vinculo = ''propietario'',
     v_porcentaje = None, v_from = a, v_to = b, v_created = 100\<rparr>"

definition unidad_a1 :: unidad where
  "unidad_a1 = \<lparr>u_tenant = 1, u_consorcio = 10, u_id = 1002, u_codigo = ''A1'', u_tipo = ''local'', u_superficie = None,
     u_coeficiente = 100000000, u_estado = ''activa'', u_created = 100, u_updated = 100\<rparr>"

definition una_respuesta :: "uuid \<Rightarrow> int \<Rightarrow> int \<Rightarrow> import_dto" where
  "una_respuesta i c a = \<lparr>ijd_id = show_nat i, ijd_estado = ''procesado'', ijd_total = 1, ijd_creados = c,
     ijd_actualizados = a, ijd_rechazados = 0, ijd_errores = [], ijd_url = None\<rparr>"

definition una_clave :: "uuid \<Rightarrow> string \<Rightarrow> string \<Rightarrow> import_dto \<Rightarrow> idempotency_key" where
  "una_clave i key h d = \<lparr>k_id = i, k_tenant = 1, k_key = key, k_scope = ''import_jobs.confirm'', k_hash = h,
     k_response = RImport d, k_created = 100\<rparr>"

definition imp2 :: db where
  "imp2 = ejemplo_db\<lparr>unidades := [ejemplo_unidad 21 ''A'', ejemplo_unidad 22 ''B'', unidad_a1],
     personas := [una_persona 1003 ''Ana'' ''1''], vinculos := [un_vinculo 1004 1003 (Fecha 2026 3 15) None],
     import_jobs := [un_job 1000 ''procesado'' ''crear'' fila_ana 1 0],
     idem_keys := [una_clave 1001 ''k'' ''1000|k'' (una_respuesta 1000 1 0)], seq := 5\<rparr>"

definition imp3 :: db where
  "imp3 = imp2\<lparr>import_jobs := [un_job 1000 ''procesado'' ''crear'' fila_ana 1 0,
     un_job 1005 ''listo'' ''actualizar'' fila_eva 0 0], seq := 6\<rparr>"

definition imp4 :: db where
  "imp4 = imp2\<lparr>personas := [una_persona 1003 ''Ana'' ''1'', una_persona 1007 ''Eva'' ''2''],
     vinculos := [un_vinculo 1004 1003 (Fecha 2026 3 15) (Some (Fecha 2026 3 16)), un_vinculo 1008 1007 (Fecha 2026 3 16) None],
     import_jobs := [un_job 1000 ''procesado'' ''crear'' fila_ana 1 0, un_job 1005 ''procesado'' ''actualizar'' fila_eva 0 1],
     idem_keys := [una_clave 1001 ''k'' ''1000|k'' (una_respuesta 1000 1 0),
       una_clave 1006 ''k2'' ''1005|k2'' (una_respuesta 1005 0 1)], seq := 9\<rparr>"

lemma imp1_ok: "map_sum id snd (create_import_job ejemplo_env ''10'' ''crear'' (archivo ''A1,local,,1,Ana,1,,,,'') ejemplo_db) = Inr imp1"
  by code_simp

lemma imp2_ok: "confirm_import_job ejemplo_env ''1000'' ''k'' imp1 = Inr (una_respuesta 1000 1 0, imp2)"
  by code_simp

lemma imp3_ok: "map_sum id snd (create_import_job dia2 ''10'' ''actualizar'' (archivo ''A1,local,,1,Eva,2,,,,'') imp2) = Inr imp3"
  by code_simp

lemma imp4_ok: "confirm_import_job dia2 ''1005'' ''k2'' imp3 = Inr (una_respuesta 1005 0 1, imp4)"
  by code_simp

lemma imp_paso1: "uf_paso ejemplo_db imp1"
  using mapsum_Inr[OF imp1_ok] by (auto intro: subir)

lemma imp_paso2: "uf_paso imp1 imp2"
  by (rule confirmar[OF imp2_ok])

lemma imp_paso3: "uf_paso imp2 imp3"
  using mapsum_Inr[OF imp3_ok] by (auto intro: subir)

lemma imp_paso4: "uf_paso imp3 imp4"
  by (rule confirmar[OF imp4_ok])

lemma imp_camino12: "uf_paso\<^sup>*\<^sup>* ejemplo_db imp2"
  using imp_paso1 imp_paso2 by (meson rtranclp.simps)

lemma imp_camino24: "uf_paso\<^sup>*\<^sup>* imp2 imp4"
  using imp_paso3 imp_paso4 by (meson rtranclp.simps)

lemma ejemplo_vacio: "import_jobs ejemplo_db = []" "vinculos ejemplo_db = []"
  by (simp_all add: ejemplo_db_def)

lemmas imp_eval = imp1_def imp2_def imp3_def imp4_def un_job_def una_fila_def fila_ana_def fila_eva_def fila_sin_def
  mi_import_def una_clave_def registro_def clave_def ejemplo_db_def

definition job2 :: import_job where
  "job2 = un_job 1000 ''procesado'' ''crear'' fila_ana 1 0"


theorem vinculo_abierto_unico_witness:
  "distinct (map clave_vinculo (filter (\<lambda>v. v_to v = None) (vinculos imp2)))"
  by (rule vinculo_abierto_unico[OF imp_camino12 ejemplo_vacio(2)])

theorem vinculos_historia_witness:
  "0 < length (vinculos imp4) \<and> (vinculos imp4 ! 0 = vinculos imp2 ! 0 \<or>
    v_to (vinculos imp2 ! 0) = None \<and> (\<exists>d. vinculos imp4 ! 0 = (vinculos imp2 ! 0)\<lparr>v_to := Some d\<rparr>))"
  by (rule vinculos_historia[OF imp_camino24]) (simp add: imp2_def)

lemma uuid1000: "uuid_parse ejemplo_env ''1000'' = Some 1000"
  by code_simp

theorem import_sin_upsert_witness:
  "\<exists>nuevas. map ident_unidad (unidades imp2) = map ident_unidad (unidades imp1) @ nuevas \<and>
     int (length nuevas) = ijd_creados (una_respuesta 1000 1 0)"
proof -
  let ?j = "un_job 1000 ''listo'' ''crear'' fila_ana 0 0"
  have "List.find (mi_import ejemplo_env 1000) (import_jobs imp1) = Some ?j" by (simp add: imp_eval)
  moreover have "ij_estado ?j = ''listo''" "length (ij_filas ?j) < 2 ^ 31" by (simp_all add: un_job_def)
  moreover have "registro ejemplo_env (''import_jobs.confirm'', ''k'') imp1 = None" by (simp add: imp_eval)
  ultimately show ?thesis using import_sin_upsert[OF imp2_ok uuid1000] by blast
qed

theorem import_repetible_witness:
  "confirm_import_job ejemplo_env ''1000'' ''otra'' imp4 = Inr (una_respuesta 1000 1 0, imp4)"
  by (rule import_repetible[OF imp2_ok _ imp_camino24]) (simp add: imp_eval)

text \<open>A row without a coefficient, and the same file on the same day.\<close>

definition imp5 :: db where
  "imp5 = ejemplo_db\<lparr>import_jobs := [un_job 1000 ''listo'' ''crear'' fila_sin 0 0], seq := 1\<rparr>"

lemma imp5_ok: "map_sum id snd (create_import_job ejemplo_env ''10'' ''crear'' (archivo ''A1,local,,,,,,,,'') ejemplo_db) = Inr imp5"
  by code_simp

theorem coeficiente_vacio_witness: "\<forall>r. confirm_import_job ejemplo_env ''1000'' ''k'' imp5 \<noteq> Inr r"
proof
  fix r
  let ?j = "un_job 1000 ''listo'' ''crear'' fila_sin 0 0"
  show "confirm_import_job ejemplo_env ''1000'' ''k'' imp5 \<noteq> Inr r"
    by (rule coeficiente_vacio[OF uuid1000, of imp5 ?j _ fila_sin])
      (simp_all add: imp5_def imp_eval ejemplo_unidad_def clave_unidad_def)
qed

definition imp6 :: db where
  "imp6 = imp2\<lparr>import_jobs := [un_job 1000 ''procesado'' ''crear'' fila_ana 1 0,
     un_job 1005 ''listo'' ''actualizar'' fila_eva 0 0], seq := 6\<rparr>"

theorem reimportar_hoy_falla_witness: "\<forall>r. confirm_import_job ejemplo_env ''1005'' ''k2'' imp6 \<noteq> Inr r"
proof
  fix r
  let ?j = "un_job 1005 ''listo'' ''actualizar'' fila_eva 0 0"
  let ?v = "un_vinculo 1004 1003 (Fecha 2026 3 15) None"
  have "uuid_parse ejemplo_env ''1005'' = Some 1005" by code_simp
  then show "confirm_import_job ejemplo_env ''1005'' ''k2'' imp6 \<noteq> Inr r"
    by (rule reimportar_hoy_falla[of _ _ _ imp6 ?j _ fila_eva unidad_a1 ?v])
      (simp_all add: imp6_def imp_eval ejemplo_unidad_def mi_codigo_def unidad_a1_def un_vinculo_def abierto_de_def
        tiene_persona_def less_eq_fecha_def clave_fecha_def)
qed

definition previa :: "fila_import list" where
  "previa = [fila_ana]"


end
