(* ===== verification/Auditoria.thy ===== *)
theory Auditoria
  imports Comunicados Base64 "HOL-Library.Product_Lexorder"
begin

text \<open>
  The audit of the tenant (\<open>internal/audit/audit.go\<close>, \<open>cursor.go\<close>, \<open>audit.sql.go\<close>, the handler of the
  list in \<open>apps/api/transport/http/auth.go\<close>): events are appended and listed by pages, whose cursor
  is the key of the last event of the page before.
\<close>

subsection \<open>Cursors\<close>

record audit_cursor =
  cu_created :: ts
  cu_id :: string

text \<open>\<open>json.Marshal\<close> and \<open>json.Unmarshal\<close> of a cursor, with their documented behaviour.\<close>

record cursor_codec =
  cc_json :: "audit_cursor \<Rightarrow> string"
  cc_parse :: "string \<Rightarrow> audit_cursor option"

definition codec_ok :: "cursor_codec \<Rightarrow> bool" where
  "codec_ok cc \<longleftrightarrow> (\<forall>c. cc_parse cc (cc_json cc c) = Some c \<and> cc_json cc c \<noteq> '''')"

definition encode_cursor :: "cursor_codec \<Rightarrow> audit_cursor \<Rightarrow> string" where
  "encode_cursor cc c = b64_enc True (cc_json cc c)"

text \<open>\<open>None\<close> is the error, \<open>Some None\<close> the absent cursor.\<close>

definition decode_cursor :: "cursor_codec \<Rightarrow> string \<Rightarrow> audit_cursor option option" where
  "decode_cursor cc s = (if s = '''' then Some None
     else case b64_dec True s of None \<Rightarrow> None | Some raw \<Rightarrow> map_option Some (cc_parse cc raw))"

subsection \<open>Recording\<close>

record audit_input =
  ai_tenant :: string
  ai_actor :: string
  ai_membership :: string
  ai_accion :: string
  ai_recurso_type :: string
  ai_recurso :: string
  ai_request :: string
  ai_ip :: string
  ai_agent :: string
  ai_diff :: "string option"

definition uuid_or_nil :: "env \<Rightarrow> string \<Rightarrow> uuid option" where
  "uuid_or_nil ev s = (if s = '''' then None else uuid_parse ev s)"

text \<open>The statement is a function of the database that inserts; no other one changes the table.\<close>

definition record_audit_event :: "env \<Rightarrow> uuid option \<Rightarrow> uuid option \<Rightarrow> uuid option \<Rightarrow> audit_input \<Rightarrow> uuid query" where
  "record_audit_event ev t actor membership e =
     tx_bind (nuevo_uuid ev) (\<lambda>i.
     tx_bind (tx_insert (\<lambda>_. True)
       (\<lambda>s r. if \<exists>x \<in> set (audit s). au_id x = au_id r then Some ''audit_events_pkey'' else None)
       (\<lambda>s r. t = None \<or> (\<exists>x \<in> set (tenants (ident s)). Some (te_id x) = t)) audit_update
       \<lparr>au_id = i, au_tenant = t, au_actor = actor, au_membership = membership, au_accion = ai_accion e,
        au_recurso_type = ai_recurso_type e, au_recurso = Some (ai_recurso e), au_request = Some (ai_request e),
        au_ip = Some (ai_ip e), au_agent = Some (ai_agent e), au_diff = ai_diff e, au_created = ahora ev\<rparr>) (\<lambda>_.
     tx_ret i))"

definition audit_record :: "env \<Rightarrow> audit_input \<Rightarrow> unit query" where
  "audit_record ev e =
     (if ai_accion e = '''' \<or> ai_recurso_type e = '''' then tx_ret ()
      else tx_exec (record_audit_event ev (uuid_or_nil ev (ai_tenant e)) (uuid_or_nil ev (ai_actor e))
        (uuid_or_nil ev (ai_membership e)) e))"

subsection \<open>Listing\<close>

record audit_filter =
  af_accion :: string
  af_recurso_type :: string
  af_desde :: "ts option"
  af_hasta :: "ts option"
  af_cursor :: "audit_cursor option"
  af_limit :: int

definition clave_auditoria :: "audit_event \<Rightarrow> ts \<times> uuid" where
  "clave_auditoria e = (au_created e, au_id e)"

definition evento_filtrado :: "env \<Rightarrow> string \<Rightarrow> string \<Rightarrow> ts option \<Rightarrow> ts option \<Rightarrow> audit_event \<Rightarrow> bool" where
  "evento_filtrado ev accion tipo desde hasta e \<longleftrightarrow> au_tenant e = Some (tenant ev) \<and>
     (accion = '''' \<or> au_accion e = accion) \<and> (tipo = '''' \<or> au_recurso_type e = tipo) \<and>
     (case desde of None \<Rightarrow> True | Some d \<Rightarrow> d \<le> au_created e) \<and> (case hasta of None \<Rightarrow> True | Some d \<Rightarrow> au_created e \<le> d)"

text \<open>The comparison of rows with a null identifier is decided by the first component only.\<close>

definition tras_cursor :: "(ts \<times> uuid option) option \<Rightarrow> audit_event \<Rightarrow> bool" where
  "tras_cursor c e = (case c of None \<Rightarrow> True
     | Some (t, Some i) \<Rightarrow> clave_auditoria e < (t, i) | Some (t, None) \<Rightarrow> au_created e < t)"

definition list_audit_events :: "env \<Rightarrow> string \<Rightarrow> string \<Rightarrow> ts option \<Rightarrow> ts option \<Rightarrow> (ts \<times> uuid option) option \<Rightarrow> nat \<Rightarrow>
    audit_event list query" where
  "list_audit_events ev accion tipo desde hasta c limite = tx_read (\<lambda>s. take limite (rev (sort_key clave_auditoria
     (filter (\<lambda>e. evento_filtrado ev accion tipo desde hasta e \<and> tras_cursor c e) (audit s)))))"

definition audit_list :: "env \<Rightarrow> audit_filter \<Rightarrow> audit_event list query" where
  "audit_list ev f = list_audit_events ev (af_accion f) (af_recurso_type f) (af_desde f) (af_hasta f)
     (map_option (\<lambda>c. (cu_created c, uuid_parse ev (cu_id c))) (af_cursor f))
     (nat (if af_limit f \<le> 0 \<or> 100 < af_limit f then 50 else af_limit f))"

record audit_dto =
  ud_id :: string
  ud_tenant :: string
  ud_actor :: string
  ud_membership :: string
  ud_accion :: string
  ud_recurso_type :: string
  ud_recurso :: string
  ud_request :: string
  ud_ip :: string
  ud_agent :: string
  ud_diff :: "string option"
  ud_created :: ts

definition audit_to_dto :: "env \<Rightarrow> audit_event \<Rightarrow> audit_dto" where
  "audit_to_dto ev e = (let u = (\<lambda>x. case x of None \<Rightarrow> '''' | Some i \<Rightarrow> uuid_show ev i);
       t = (\<lambda>x. case x of None \<Rightarrow> '''' | Some v \<Rightarrow> v) in
     \<lparr>ud_id = uuid_show ev (au_id e), ud_tenant = u (au_tenant e), ud_actor = u (au_actor e),
      ud_membership = u (au_membership e), ud_accion = au_accion e, ud_recurso_type = au_recurso_type e,
      ud_recurso = t (au_recurso e), ud_request = t (au_request e), ud_ip = t (au_ip e), ud_agent = t (au_agent e),
      ud_diff = au_diff e, ud_created = au_created e\<rparr>)"

text \<open>
  The handler: the query of the request, with its times parsed, and the answer with the cursor of the
  next page, which a full page has.
\<close>

record audit_pedido =
  ap_cursor :: string
  ap_accion :: string
  ap_recurso_type :: string
  ap_desde :: "ts option"
  ap_hasta :: "ts option"

definition list_audit_handler :: "env \<Rightarrow> cursor_codec \<Rightarrow> audit_pedido \<Rightarrow> (audit_dto list \<times> string option) query" where
  "list_audit_handler ev cc r =
     tx_bind (tx_some (Dom ErrCursorInvalido) (decode_cursor cc (ap_cursor r))) (\<lambda>c.
     let f = \<lparr>af_accion = ap_accion r, af_recurso_type = ap_recurso_type r, af_desde = ap_desde r, af_hasta = ap_hasta r,
       af_cursor = c, af_limit = 50\<rparr> in
     tx_bind (audit_list ev f) (\<lambda>events.
     tx_ret (map (audit_to_dto ev) events,
       if int (length events) = af_limit f
       then Some (encode_cursor cc \<lparr>cu_created = au_created (last events), cu_id = uuid_show ev (au_id (last events))\<rparr>)
       else None)))"

subsection \<open>Every event is on one page\<close>

text \<open>A client that follows the cursors, with fuel for \<open>n\<close> requests.\<close>

fun seguir_paginas :: "env \<Rightarrow> cursor_codec \<Rightarrow> audit_pedido \<Rightarrow> nat \<Rightarrow> string \<Rightarrow> db \<Rightarrow> audit_dto list option" where
  "seguir_paginas ev cc r 0 c s = None"
| "seguir_paginas ev cc r (Suc n) c s = (case list_audit_handler ev cc (r\<lparr>ap_cursor := c\<rparr>) s of
     Inl e \<Rightarrow> None
   | Inr ((xs, sig), t) \<Rightarrow> (case sig of None \<Rightarrow> Some xs | Some c' \<Rightarrow> map_option (\<lambda>ys. xs @ ys) (seguir_paginas ev cc r n c' t)))"

definition eventos_de :: "env \<Rightarrow> audit_pedido \<Rightarrow> db \<Rightarrow> audit_event list" where
  "eventos_de ev r s = rev (sort_key clave_auditoria
     (filter (evento_filtrado ev (ap_accion r) (ap_recurso_type r) (ap_desde r) (ap_hasta r)) (audit s)))"

lemma encode_not_Nil: "codec_ok cc \<Longrightarrow> encode_cursor cc c \<noteq> ''''"
proof
  assume cc: "codec_ok cc" and "encode_cursor cc c = ''''"
  then have "b64_dec True '''' = Some (cc_json cc c)" using b64_dec_enc[of True "cc_json cc c"] by (simp add: encode_cursor_def)
  moreover have "b64_dec True '''' = Some ''''" by code_simp
  ultimately have "cc_json cc c = ''''" by simp
  then show False using cc unfolding codec_ok_def by blast
qed

lemma decode_encode: "codec_ok cc \<Longrightarrow> decode_cursor cc (encode_cursor cc c) = Some (Some c)"
  using encode_not_Nil[of cc c] by (simp add: decode_cursor_def encode_cursor_def codec_ok_def)

text \<open>The events are in strictly decreasing order, so that the cursor cuts the list after its event.\<close>

lemma sorted_wrt_eventos:
  assumes "distinct (map au_id (audit s))"
  shows "sorted_wrt (\<lambda>x y. clave_auditoria y < clave_auditoria x) (eventos_de ev r s)"
proof -
  let ?xs = "filter (evento_filtrado ev (ap_accion r) (ap_recurso_type r) (ap_desde r) (ap_hasta r)) (audit s)"
  have "distinct (map au_id ?xs)" using assms by (simp add: distinct_map_filter)
  then have "distinct (map clave_auditoria ?xs)" by (auto simp: distinct_map inj_on_def clave_auditoria_def)
  then have "distinct (map clave_auditoria (sort_key clave_auditoria ?xs))"
    by (simp add: distinct_map)
  moreover have "sorted (map clave_auditoria (sort_key clave_auditoria ?xs))" by simp
  ultimately have "sorted_wrt (<) (map clave_auditoria (sort_key clave_auditoria ?xs))" by (simp add: strict_sorted_iff)
  then show ?thesis unfolding eventos_de_def by (simp add: sorted_wrt_rev sorted_wrt_map)
qed

lemma filter_antes:
  assumes "sorted_wrt (\<lambda>x y. k y < (k x :: 'k :: linorder)) xs" and "j < length xs"
  shows "filter (\<lambda>e. k e < k (xs ! j)) xs = drop (Suc j) xs"
  using assms
proof (induction xs arbitrary: j)
  case (Cons x xs)
  show ?case
  proof (cases j)
    case 0
    have "filter (\<lambda>e. k e < k x) xs = xs" using Cons.prems(1) by (simp add: filter_id_conv)
    then show ?thesis using 0 by simp
  next
    case (Suc i)
    then have "xs ! i \<in> set xs" using Cons.prems(2) by simp
    then have "k (xs ! i) < k x" using Cons.prems(1) by simp
    then show ?thesis using Cons Suc by (simp add: not_less_iff_gr_or_eq)
  qed
qed simp

lemma pagina_desde:
  assumes "distinct (map au_id (audit s))" and "k = 0 \<and> c = None \<or>
    0 < k \<and> k \<le> length (eventos_de ev r s) \<and> c = Some (au_created (eventos_de ev r s ! (k - 1)), Some (au_id (eventos_de ev r s ! (k - 1))))"
  shows "list_audit_events ev (ap_accion r) (ap_recurso_type r) (ap_desde r) (ap_hasta r) c n s
    = Inr (take n (drop k (eventos_de ev r s)), s)"
proof -
  let ?L = "eventos_de ev r s"
  let ?P = "evento_filtrado ev (ap_accion r) (ap_recurso_type r) (ap_desde r) (ap_hasta r)"
  have f: "rev (sort_key clave_auditoria (filter (\<lambda>e. ?P e \<and> tras_cursor c e) (audit s))) = filter (tras_cursor c) ?L"
    by (simp add: eventos_de_def rev_filter filter_sort[symmetric] conj_commute)
  have "filter (tras_cursor c) ?L = drop k ?L"
  proof (cases "k = 0")
    case True
    then have "c = None" using assms(2) by auto
    then have "tras_cursor c = (\<lambda>_. True)" by (simp add: fun_eq_iff tras_cursor_def)
    then show ?thesis using True by simp
  next
    case False
    then have k: "k - 1 < length ?L" and c: "tras_cursor c = (\<lambda>e. clave_auditoria e < clave_auditoria (?L ! (k - 1)))"
      using assms(2) by (auto simp: fun_eq_iff tras_cursor_def clave_auditoria_def)
    show ?thesis unfolding c using filter_antes[OF sorted_wrt_eventos[OF assms(1)] k] False by simp
  qed
  then show ?thesis unfolding list_audit_events_def tx_read_def f by simp
qed

lemma seguir_desde:
  assumes "env_ok ev" and "codec_ok cc" and "distinct (map au_id (audit s))"
    and "k = 0 \<and> c = '''' \<or> 0 < k \<and> k \<le> length (eventos_de ev r s) \<and>
      c = encode_cursor cc \<lparr>cu_created = au_created (eventos_de ev r s ! (k - 1)), cu_id = uuid_show ev (au_id (eventos_de ev r s ! (k - 1)))\<rparr>"
    and "length (eventos_de ev r s) - k < 50 * n"
  shows "seguir_paginas ev cc r n c s = Some (map (audit_to_dto ev) (drop k (eventos_de ev r s)))"
  using assms(4,5)
proof (induction n arbitrary: k c)
  case (Suc n)
  let ?L = "eventos_de ev r s"
  define q where "q = (if k = 0 then None else Some (au_created (?L ! (k - 1)), Some (au_id (?L ! (k - 1)))))"
  define d where "d = (if k = 0 then None else
    Some \<lparr>cu_created = au_created (?L ! (k - 1)), cu_id = uuid_show ev (au_id (?L ! (k - 1)))\<rparr>)"
  have dec: "decode_cursor cc c = Some d"
  proof (cases "k = 0")
    case True
    then show ?thesis using Suc.prems(1) by (simp add: d_def decode_cursor_def)
  next
    case False
    then show ?thesis using Suc.prems(1) decode_encode[OF assms(2)] by (simp add: d_def)
  qed
  have qd: "map_option (\<lambda>c. (cu_created c, uuid_parse ev (cu_id c))) d = q" using assms(1) by (simp add: d_def q_def)
  have page: "list_audit_events ev (ap_accion r) (ap_recurso_type r) (ap_desde r) (ap_hasta r) q 50 s = Inr (take 50 (drop k ?L), s)"
    by (rule pagina_desde[OF assms(3)]) (use Suc.prems(1) in \<open>auto simp: q_def\<close>)
  let ?xs = "take 50 (drop k ?L)"
  have h: "list_audit_handler ev cc (r\<lparr>ap_cursor := c\<rparr>) s = Inr ((map (audit_to_dto ev) ?xs,
      if length ?xs = 50 then Some (encode_cursor cc \<lparr>cu_created = au_created (last ?xs), cu_id = uuid_show ev (au_id (last ?xs))\<rparr>)
      else None), s)"
    by (simp add: list_audit_handler_def audit_list_def tx_bind_def tx_some_def tx_ret_def dec qd page Let_def
        del: length_take length_drop)
  show ?case
  proof (cases "length ?xs = 50")
    case True
    then have le: "k + 50 \<le> length ?L" by (auto simp: min_def split: if_splits)
    have "?xs \<noteq> []" using True by auto
    then have "last ?xs = ?xs ! (length ?xs - 1)" by (rule last_conv_nth)
    then have "last ?xs = ?xs ! (50 - 1)" unfolding True .
    also have "\<dots> = ?L ! (k + 50 - 1)" using le by (simp add: add.commute)
    finally have l: "last ?xs = ?L ! (k + 50 - 1)" .
    have "seguir_paginas ev cc r n (encode_cursor cc \<lparr>cu_created = au_created (last ?xs), cu_id = uuid_show ev (au_id (last ?xs))\<rparr>) s
        = Some (map (audit_to_dto ev) (drop (k + 50) ?L))"
      by (rule Suc.IH) (use le Suc.prems(2) l in auto)
    moreover have "drop k ?L = ?xs @ drop (k + 50) ?L" by (metis append_take_drop_id drop_drop add.commute)
    ultimately show ?thesis using h True by (simp del: length_take length_drop flip: map_append)
  next
    case False
    then have "?xs = drop k ?L" by auto
    then show ?thesis using h False by (simp del: length_take length_drop)
  qed
qed simp

text \<open>
  C18. Following the cursors ends, after at most one request more than there are full pages, and shows
  every event of the tenant that the filter admits exactly once, the newest first.
\<close>

theorem auditoria_completa:
  assumes "env_ok ev" and "codec_ok cc" and "distinct (map au_id (audit s))"
  shows "seguir_paginas ev cc r (Suc (length (eventos_de ev r s) div 50)) '''' s
    = Some (map (audit_to_dto ev) (eventos_de ev r s))"
proof -
  have "length (eventos_de ev r s) < 50 * Suc (length (eventos_de ev r s) div 50)"
    using dividend_less_times_div[of 50 "length (eventos_de ev r s)"] by simp
  then show ?thesis using seguir_desde[OF assms, of 0 "''''" r "Suc (length (eventos_de ev r s) div 50)"]
    by (simp del: seguir_paginas.simps)
qed

text \<open>A codec that writes the time before a comma, and 60 events, two in every microsecond.\<close>

definition ej_codec :: cursor_codec where
  "ej_codec = \<lparr>cc_json = (\<lambda>c. show_nat (cu_created c) @ CHR '','' # cu_id c),
     cc_parse = (\<lambda>s. Some \<lparr>cu_created = num (takeWhile digito s), cu_id = tl (dropWhile digito s)\<rparr>)\<rparr>"

definition ej_registro :: "nat \<Rightarrow> audit_event" where
  "ej_registro i = \<lparr>au_id = i, au_tenant = Some 1, au_actor = None, au_membership = None, au_accion = ''gastos.create'',
     au_recurso_type = ''gasto'', au_recurso = None, au_request = None, au_ip = None, au_agent = None, au_diff = None,
     au_created = i div 2\<rparr>"

definition ej_pedido :: audit_pedido where
  "ej_pedido = \<lparr>ap_cursor = '''', ap_accion = '''', ap_recurso_type = ''gasto'', ap_desde = None, ap_hasta = None\<rparr>"

definition ej_audit_db :: db where
  "ej_audit_db = ejemplo_db\<lparr>audit := map ej_registro [0..<60]\<rparr>"

lemma ej_codec_ok: "codec_ok ej_codec"
proof -
  have "takeWhile digito (show_nat n @ CHR '','' # s) = show_nat n" "dropWhile digito (show_nat n @ CHR '','' # s) = CHR '','' # s"
    for n s using digitos_show_nat[of n] by (simp_all add: takeWhile_append2 dropWhile_append2 digito_def)
  then show ?thesis by (simp add: codec_ok_def ej_codec_def)
qed

theorem auditoria_completa_witness:
  "seguir_paginas ejemplo_env ej_codec ej_pedido 2 '''' ej_audit_db =
   Some (map (audit_to_dto ejemplo_env) (rev (map ej_registro [0..<60])))"
proof -
  have "map clave_auditoria (map ej_registro [0..<60]) = map (\<lambda>i. (i div 2, i)) [0..<60]"
    by (simp add: clave_auditoria_def ej_registro_def)
  moreover have "sorted (map (\<lambda>i :: nat. (i div 2, i)) [0..<60])"
    by (rule sorted_map_mono[of "[0..<60]"]) (auto simp: less_eq_prod_def monotone_on_def div_le_mono order.strict_iff_order)
  ultimately have "sorted (map clave_auditoria (map ej_registro [0..<60]))" by (simp only:)
  then have "sort_key clave_auditoria (map ej_registro [0..<60]) = map ej_registro [0..<60]" by (rule sort_key_id_if_sorted)
  moreover have "filter (evento_filtrado ejemplo_env '''' ''gasto'' None None) (map ej_registro [0..<60]) = map ej_registro [0..<60]"
    by (simp add: evento_filtrado_def ej_registro_def filter_id_conv)
  ultimately have e: "eventos_de ejemplo_env ej_pedido ej_audit_db = rev (map ej_registro [0..<60])"
    by (simp add: eventos_de_def ej_pedido_def ej_audit_db_def)
  have "distinct (map au_id (audit ej_audit_db))" by (simp add: ej_audit_db_def ej_registro_def comp_def)
  from auditoria_completa[OF ejemplo_env_ok ej_codec_ok this, of ej_pedido] show ?thesis unfolding e
    by (simp add: numeral_2_eq_2 del: seguir_paginas.simps)
qed

end
