(* ===== verification/Gastos.thy ===== *)
theory Gastos
  imports Consorcios
begin

text \<open>
  The expenses of a consorcio and their concepts (\<open>internal/expensas/gastos.go\<close>, \<open>conceptos.go\<close>,
  \<open>gastos.sql.go\<close>, \<open>conceptos.sql.go\<close>).
\<close>

subsection \<open>Queries of the concepts\<close>

definition concepto_check :: "concepto \<Rightarrow> bool" where
  "concepto_check c \<longleftrightarrow> 1 \<le> runas (cp_nombre c) \<and> runas (cp_nombre c) \<le> 100 \<and>
     1 \<le> runas (cp_categoria c) \<and> runas (cp_categoria c) \<le> 50 \<and> cp_regla c = ''coeficiente''"

text \<open>The index has \<open>NULLS NOT DISTINCT\<close>.\<close>

definition clave_concepto :: "concepto \<Rightarrow> uuid \<times> uuid option \<times> string" where
  "clave_concepto c = (cp_tenant c, cp_consorcio c, cp_nombre c)"

definition mi_concepto :: "env \<Rightarrow> uuid \<Rightarrow> concepto \<Rightarrow> bool" where
  "mi_concepto ev i c \<longleftrightarrow> cp_tenant c = tenant ev \<and> cp_id c = i"

definition create_concepto_q :: "env \<Rightarrow> uuid \<Rightarrow> string \<Rightarrow> string \<Rightarrow> concepto query" where
  "create_concepto_q ev cid nombre categoria =
     tx_bind (nuevo_uuid ev) (\<lambda>i.
     tx_insert concepto_check
       (\<lambda>s r. if \<exists>x \<in> set (conceptos s). mi_concepto ev i x then Some ''conceptos_expensa_pkey''
              else if \<exists>x \<in> set (conceptos s). clave_concepto x = clave_concepto r
              then Some ''conceptos_expensa_tenant_nombre_idx'' else None)
       (\<lambda>s r. consorcio_existe ev cid s) conceptos_update
       \<lparr>cp_tenant = tenant ev, cp_consorcio = Some cid, cp_id = i, cp_nombre = nombre, cp_categoria = categoria,
        cp_regla = ''coeficiente'', cp_created = ahora ev, cp_updated = ahora ev\<rparr>)"

definition get_concepto_q :: "env \<Rightarrow> uuid \<Rightarrow> concepto query" where
  "get_concepto_q ev i = tx_row (\<lambda>s. List.find (mi_concepto ev i) (conceptos s))"

text \<open>A null identifier is equal to none: then only the concepts of the tenant are listed.\<close>

definition list_conceptos_q :: "env \<Rightarrow> uuid option \<Rightarrow> string \<Rightarrow> concepto list query" where
  "list_conceptos_q ev cid q = tx_read (\<lambda>s.
     sort_key cp_nombre (rev (sort_key cp_id (filter (\<lambda>c. cp_tenant c = tenant ev \<and>
       (cp_consorcio c = None \<or> (cid \<noteq> None \<and> cp_consorcio c = cid)) \<and> contiene_texto ev q (cp_nombre c))
       (conceptos s)))))"

subsection \<open>Operations of the concepts\<close>

record concepto_dto =
  qd_id :: string
  qd_consorcio :: "string option"
  qd_nombre :: string
  qd_categoria :: string
  qd_regla :: string
  qd_created :: ts

record concepto_input =
  qi_nombre :: string
  qi_categoria :: string

definition valid_concepto_categorias :: "string set" where
  "valid_concepto_categorias = {''administracion'', ''servicios'', ''mantenimiento'', ''fondos'', ''otros''}"

definition concepto_to_dto :: "env \<Rightarrow> concepto \<Rightarrow> concepto_dto" where
  "concepto_to_dto ev c = \<lparr>qd_id = uuid_show ev (cp_id c), qd_consorcio = map_option (uuid_show ev) (cp_consorcio c),
     qd_nombre = cp_nombre c, qd_categoria = cp_categoria c, qd_regla = cp_regla c, qd_created = cp_created c\<rparr>"

definition validate_concepto :: "concepto_input \<Rightarrow> (string \<times> string) query" where
  "validate_concepto inp =
     (let nombre = trim_space (qi_nombre inp); categoria = trim_space (qi_categoria inp) in
     tx_bind (tx_guard (nombre \<noteq> '''' \<and> length nombre \<le> 100) (Dom ErrConceptoInvalid)) (\<lambda>_.
     tx_bind (tx_guard (categoria \<in> valid_concepto_categorias) (Dom ErrConceptoInvalid)) (\<lambda>_.
     tx_ret (nombre, categoria))))"

definition list_conceptos :: "env \<Rightarrow> string \<Rightarrow> string \<Rightarrow> concepto_dto list query" where
  "list_conceptos ev consorcio q =
     tx_bind (if consorcio \<noteq> '''' then tx_bind (tx_some (Dom ErrConceptoInvalid) (uuid_parse ev consorcio)) (\<lambda>i. tx_ret (Some i))
       else tx_ret None) (\<lambda>cid.
     tx_bind (list_conceptos_q ev cid (trim_space q)) (\<lambda>rows. tx_ret (map (concepto_to_dto ev) rows)))"

definition create_concepto :: "env \<Rightarrow> string \<Rightarrow> concepto_input \<Rightarrow> concepto_dto query" where
  "create_concepto ev consorcio inp =
     tx_bind (validate_concepto inp) (\<lambda>(nombre, categoria).
     tx_bind (tx_some (Dom ErrConceptoInvalid) (uuid_parse ev consorcio)) (\<lambda>cid.
     tx_bind (tx_catch (unique_as (Dom ErrConceptoDuplicate)) (create_concepto_q ev cid nombre categoria)) (\<lambda>c.
     tx_ret (concepto_to_dto ev c))))"

definition get_concepto :: "env \<Rightarrow> string \<Rightarrow> concepto_dto query" where
  "get_concepto ev x =
     tx_bind (tx_some (Dom ErrConceptoNotFound) (uuid_parse ev x)) (\<lambda>i.
     tx_bind (tx_catch (no_rows_as (Dom ErrConceptoNotFound)) (get_concepto_q ev i)) (\<lambda>c.
     tx_ret (concepto_to_dto ev c)))"

subsection \<open>Queries of the expenses\<close>

definition gasto_check :: "gasto \<Rightarrow> bool" where
  "gasto_check g \<longleftrightarrow> 0 < g_importe g \<and> g_estado g \<in> {''registrado'', ''pagado'', ''anulado''} \<and>
     (case g_comprobante g of None \<Rightarrow> True | Some t \<Rightarrow> 1 \<le> runas t \<and> runas t \<le> 100)"

definition gasto_fk :: "env \<Rightarrow> db \<Rightarrow> gasto \<Rightarrow> bool" where
  "gasto_fk ev s g \<longleftrightarrow> consorcio_existe ev (g_consorcio g) s \<and>
     (\<exists>c \<in> set (conceptos s). mi_concepto ev (g_concepto g) c) \<and>
     (case g_proveedor g of None \<Rightarrow> True | Some p \<Rightarrow> \<exists>x \<in> set (proveedores s). mi_proveedor ev p x) \<and>
     (case g_documento g of None \<Rightarrow> True | Some d \<Rightarrow> \<exists>x \<in> set (documentos s). do_tenant x = tenant ev \<and> do_id x = d)"

definition create_gasto_q :: "env \<Rightarrow> uuid \<Rightarrow> uuid \<Rightarrow> uuid option \<Rightarrow> string option \<Rightarrow> int \<Rightarrow> fecha \<Rightarrow> uuid option \<Rightarrow>
    gasto query" where
  "create_gasto_q ev cid concepto proveedor comprobante importe f documento =
     tx_bind (nuevo_uuid ev) (\<lambda>i.
     tx_insert gasto_check
       (\<lambda>s r. if \<exists>x \<in> set (gastos s). g_tenant x = g_tenant r \<and> g_id x = g_id r then Some ''gastos_pkey'' else None)
       (gasto_fk ev) gastos_update
       \<lparr>g_tenant = tenant ev, g_consorcio = cid, g_id = i, g_concepto = concepto, g_proveedor = proveedor,
        g_comprobante = comprobante, g_importe = importe, g_fecha = f, g_estado = ''registrado'',
        g_documento = documento, g_created = ahora ev, g_updated = ahora ev\<rparr>)"

definition get_gasto_q :: "env \<Rightarrow> uuid \<Rightarrow> uuid \<Rightarrow> gasto query" where
  "get_gasto_q ev cid i = tx_row (\<lambda>s.
     List.find (\<lambda>g. g_tenant g = tenant ev \<and> g_consorcio g = cid \<and> g_id g = i) (gastos s))"

subsection \<open>Operations of the expenses\<close>

text \<open>The name of the concept is a field of the answer that no function sets.\<close>

record gasto_dto =
  gd_id :: string
  gd_consorcio :: string
  gd_concepto :: string
  gd_nombre :: string
  gd_proveedor :: "string option"
  gd_comprobante :: "string option"
  gd_importe :: int
  gd_fecha :: string
  gd_estado :: string
  gd_documento :: "string option"
  gd_created :: ts

record gasto_input =
  gi_concepto :: string
  gi_proveedor :: "string option"
  gi_comprobante :: "string option"
  gi_importe :: int
  gi_fecha :: string
  gi_documento :: "string option"

definition gasto_to_dto :: "env \<Rightarrow> gasto \<Rightarrow> gasto_dto" where
  "gasto_to_dto ev g = \<lparr>gd_id = uuid_show ev (g_id g), gd_consorcio = uuid_show ev (g_consorcio g),
     gd_concepto = uuid_show ev (g_concepto g), gd_nombre = '''',
     gd_proveedor = map_option (uuid_show ev) (g_proveedor g), gd_comprobante = g_comprobante g,
     gd_importe = g_importe g, gd_fecha = format_fecha (g_fecha g), gd_estado = g_estado g,
     gd_documento = map_option (uuid_show ev) (g_documento g), gd_created = g_created g\<rparr>"

text \<open>The midnight of the date is not after the present: the date is today or before.\<close>

definition validate_gasto :: "env \<Rightarrow> gasto_input \<Rightarrow> (int \<times> fecha) query" where
  "validate_gasto ev inp =
     tx_bind (tx_guard (0 < gi_importe inp) (Dom ErrGastoInvalid)) (\<lambda>_.
     tx_bind (tx_some (Dom ErrGastoInvalid) (parse_fecha (trim_space (gi_fecha inp)))) (\<lambda>f.
     tx_bind (tx_guard (f \<le> hoy ev) (Dom ErrGastoInvalid)) (\<lambda>_.
     tx_bind (tx_some (Dom ErrGastoInvalid) (date_scan ev (format_fecha f))) (\<lambda>d.
     tx_ret (gi_importe inp, d)))))"

definition opt_scan :: "env \<Rightarrow> string option \<Rightarrow> uuid option query" where
  "opt_scan ev x = (case x of None \<Rightarrow> tx_ret None
     | Some t \<Rightarrow> tx_bind (tx_some (Dom ErrGastoInvalid) (uuid_parse ev t)) (\<lambda>i. tx_ret (Some i)))"

definition list_gastos_op :: "env \<Rightarrow> string \<Rightarrow> string \<Rightarrow> string \<Rightarrow> gasto_dto list query" where
  "list_gastos_op ev consorcio m proveedor =
     tx_bind (tx_some (Dom ErrGastoInvalid) (uuid_parse ev consorcio)) (\<lambda>cid.
     tx_bind (if proveedor \<noteq> '''' then opt_scan ev (Some proveedor) else tx_ret None) (\<lambda>pid.
     tx_bind (list_gastos ev cid (trim_space m) pid) (\<lambda>rows. tx_ret (map (gasto_to_dto ev) rows))))"

definition create_gasto :: "env \<Rightarrow> string \<Rightarrow> gasto_input \<Rightarrow> gasto_dto query" where
  "create_gasto ev consorcio inp =
     tx_bind (validate_gasto ev inp) (\<lambda>(importe, f).
     tx_bind (tx_some (Dom ErrGastoInvalid) (uuid_parse ev consorcio)) (\<lambda>cid.
     tx_bind (tx_some (Dom ErrGastoInvalid) (uuid_parse ev (gi_concepto inp))) (\<lambda>concepto.
     tx_bind (opt_scan ev (gi_proveedor inp)) (\<lambda>proveedor.
     tx_bind (opt_scan ev (gi_documento inp)) (\<lambda>documento.
     tx_bind (create_gasto_q ev cid concepto proveedor (normalize_ptr (gi_comprobante inp)) importe f documento) (\<lambda>g.
     tx_ret (gasto_to_dto ev g)))))))"

definition get_gasto :: "env \<Rightarrow> string \<Rightarrow> string \<Rightarrow> gasto_dto query" where
  "get_gasto ev consorcio gasto =
     tx_bind (tx_some (Dom ErrGastoInvalid) (uuid_parse ev consorcio)) (\<lambda>cid.
     tx_bind (tx_some (Dom ErrGastoNotFound) (uuid_parse ev gasto)) (\<lambda>i.
     tx_bind (tx_catch (no_rows_as (Dom ErrGastoNotFound)) (get_gasto_q ev cid i)) (\<lambda>g.
     tx_ret (gasto_to_dto ev g))))"

end
