(* ===== verification/Personas.thy ===== *)
theory Personas
  imports Consorcios
begin

text \<open>
  The link between a person and the user who represents it (\<open>internal/personas/personas.go\<close>, the
  last queries of \<open>identity.sql.go\<close>): the portal shows a user the units of its person.
\<close>

subsection \<open>Queries\<close>

text \<open>The view \<open>app.v_tenant_members\<close>; the order of equal names is the one of the rows.\<close>

record miembro =
  mb_user :: uuid
  mb_tenant :: uuid
  mb_membership :: string
  mb_email :: string
  mb_name :: string
  mb_status :: string

definition list_tenant_members :: "env \<Rightarrow> miembro list query" where
  "list_tenant_members ev = tx_read (\<lambda>s. sort_key mb_name
     [\<lparr>mb_user = m_user m, mb_tenant = m_tenant m, mb_membership = m_status m, mb_email = us_email u,
       mb_name = us_name u, mb_status = us_status u\<rparr>.
      m \<leftarrow> memberships (ident s), m_tenant m = tenant ev, u \<leftarrow> users (ident s), us_id u = m_user m])"

definition mi_persona :: "env \<Rightarrow> uuid \<Rightarrow> persona \<Rightarrow> bool" where
  "mi_persona ev pid p \<longleftrightarrow> pe_id p = pid \<and> pe_tenant p = tenant ev"

definition get_persona_for_vinculo :: "env \<Rightarrow> uuid \<Rightarrow> persona query" where
  "get_persona_for_vinculo ev pid = tx_row (\<lambda>s. List.find (mi_persona ev pid) (personas s))"

definition con_usuario :: "env \<Rightarrow> uuid option \<Rightarrow> persona \<Rightarrow> persona" where
  "con_usuario ev u p = p\<lparr>pe_user := u, pe_updated := ahora ev\<rparr>"

text \<open>The index \<open>personas_user_id_unique\<close>: a user is of one person of the tenant.\<close>

definition set_persona_usuario :: "env \<Rightarrow> uuid \<Rightarrow> uuid \<Rightarrow> unit query" where
  "set_persona_usuario ev pid uid =
     tx_bind (tx_read (\<lambda>s. (\<exists>p \<in> set (personas s). mi_persona ev pid p) \<and>
       (\<exists>p \<in> set (personas s). pe_tenant p = tenant ev \<and> pe_id p \<noteq> pid \<and> pe_user p = Some uid))) (\<lambda>clash.
     tx_bind (tx_guard (\<not> clash) (PgUnique ''personas_user_id_unique'')) (\<lambda>_.
     tx_exec (tx_update (mi_persona ev pid) (con_usuario ev (Some uid)) persona_check personas personas_update)))"

definition unset_persona_usuario :: "env \<Rightarrow> uuid \<Rightarrow> unit query" where
  "unset_persona_usuario ev pid = tx_exec (tx_update (\<lambda>p. mi_persona ev pid p \<and> pe_user p \<noteq> None)
     (con_usuario ev None) persona_check personas personas_update)"

subsection \<open>Operations\<close>

text \<open>The field \<open>Vinculado\<close> of the answer is never set.\<close>

record miembro_dto =
  md_user :: string
  md_email :: string
  md_nombre :: string
  md_membresia :: string
  md_estado :: string
  md_vinculado :: "bool option"

definition listar_miembros :: "env \<Rightarrow> miembro_dto list query" where
  "listar_miembros ev = tx_bind (list_tenant_members ev) (\<lambda>rows.
     tx_ret (map (\<lambda>r. \<lparr>md_user = uuid_show ev (mb_user r), md_email = mb_email r, md_nombre = mb_name r,
       md_membresia = mb_membership r, md_estado = mb_status r, md_vinculado = None\<rparr>) rows))"

definition uuid_to_pg :: "env \<Rightarrow> string \<Rightarrow> uuid query" where
  "uuid_to_pg ev x = tx_some (Dom ErrVinculoInvalido) (uuid_google ev (trim_space x))"

definition persona_to_dto :: "env \<Rightarrow> persona \<Rightarrow> persona_dto" where
  "persona_to_dto ev p = \<lparr>pd_id = uuid_show ev (pe_id p), pd_nombre = pe_nombre p, pd_documento = pe_documento p,
     pd_email = pe_email p, pd_telefono = pe_telefono p, pd_user = map_option (uuid_show ev) (pe_user p)\<rparr>"

definition es_miembro :: "miembro list \<Rightarrow> uuid \<Rightarrow> bool" where
  "es_miembro rows u \<longleftrightarrow> (\<exists>r \<in> set rows. mb_user r = u)"

definition vincular :: "env \<Rightarrow> string \<Rightarrow> string \<Rightarrow> persona_dto query" where
  "vincular ev persona_id usuario_id =
     tx_bind (uuid_to_pg ev persona_id) (\<lambda>pid.
     tx_bind (uuid_to_pg ev usuario_id) (\<lambda>uid.
     tx_bind (tx_guard (trim_space persona_id \<noteq> '''' \<and> trim_space usuario_id \<noteq> '''') (Dom ErrVinculoInvalido)) (\<lambda>_.
     tx_bind (tx_catch (no_rows_as (Dom ErrPersonaNotFound)) (get_persona_for_vinculo ev pid)) (\<lambda>actual.
     tx_bind (list_tenant_members ev) (\<lambda>members.
     tx_bind (tx_guard (es_miembro members uid) (Dom ErrUsuarioNotFound)) (\<lambda>_.
     tx_bind (tx_catch (unique_as (Dom ErrUsuarioYaVinculado)) (set_persona_usuario ev pid uid)) (\<lambda>_.
     tx_ret (persona_to_dto ev (actual\<lparr>pe_user := Some uid\<rparr>)))))))))"

definition desvincular :: "env \<Rightarrow> string \<Rightarrow> persona_dto query" where
  "desvincular ev persona_id =
     tx_bind (uuid_to_pg ev persona_id) (\<lambda>pid.
     tx_bind (tx_catch (no_rows_as (Dom ErrPersonaNotFound)) (get_persona_for_vinculo ev pid)) (\<lambda>actual.
     if pe_user actual = None then tx_ret (persona_to_dto ev actual)
     else
       tx_bind (unset_persona_usuario ev pid) (\<lambda>_.
       tx_ret (persona_to_dto ev (actual\<lparr>pe_user := None\<rparr>)))))"

subsection \<open>Tenant isolation\<close>

lemma personas_aisladas:
  "tx_rel (aislado ev) (vincular ev a b)" "tx_rel (aislado ev) (desvincular ev a)"
  unfolding vincular_def desvincular_def uuid_to_pg_def get_persona_for_vinculo_def list_tenant_members_def
    set_persona_usuario_def unset_persona_usuario_def
  by (auto simp: aislado_def ajenas_def mi_persona_def con_usuario_def
      intro!: ais.rules rel_queries filter_upd_where_outside)

end
