(* ===== verification/Portal.thy ===== *)
theory Portal
  imports Personas Reclamos Comunicados CobConsultas
begin

text \<open>
  The portal of a neighbour (\<open>internal/portal/home.go\<close>, \<open>reclamos.go\<close>): what a user sees and does is
  limited by the server to the units with a current link of the person that the user represents.
\<close>

subsection \<open>The page\<close>

record portal_consorcio =
  hc_id :: string
  hc_nombre :: string
  hc_estado :: string
  hc_saldo :: int
  hc_cargos :: int
  hc_desde :: string

record portal_recibo =
  hr_consorcio :: string
  hr_nombre :: string
  hr_cobranza :: string
  hr_fecha :: string
  hr_importe :: int
  hr_estado :: string
  hr_saldo :: int
  hr_created :: ts

record portal_comunicado =
  hm_id :: string
  hm_consorcio :: string
  hm_nombre :: string
  hm_titulo :: string
  hm_estado :: string
  hm_publicado :: ts

record portal_reclamo =
  hq_id :: string
  hq_consorcio :: string
  hq_unidad :: string
  hq_categoria :: string
  hq_estado :: string
  hq_texto :: string
  hq_created :: ts

record portal_unidad =
  hu_id :: string
  hu_consorcio :: string
  hu_codigo :: string

record portal_home =
  ho_consorcios :: "portal_consorcio list"
  ho_unidades :: "portal_unidad list"
  ho_recibos :: "portal_recibo list"
  ho_comunicados :: "portal_comunicado list"
  ho_reclamos :: "portal_reclamo list"
  ho_total :: int

text \<open>What the loop over the consorcios of the user adds for one of them.\<close>

record portal_parte =
  pp_resumen :: portal_consorcio
  pp_recibos :: "portal_recibo list"
  pp_comunicados :: "portal_comunicado list"
  pp_reclamos :: "portal_reclamo list"

definition saldo_a_favor_from_allocations :: "payment \<Rightarrow> payment_allocation list \<Rightarrow> int" where
  "saldo_a_favor_from_allocations p allocs =
     (let remaining = sub64 (p_importe p) (sum64_from a_amount 0 allocs) in if remaining < 0 then 0 else remaining)"

text \<open>The maps of the code have the texts of the identifiers as keys.\<close>

definition de_mis_unidades :: "env \<Rightarrow> unidad list \<Rightarrow> uuid \<Rightarrow> bool" where
  "de_mis_unidades ev mias u \<longleftrightarrow> uuid_show ev u \<in> set (map (\<lambda>x. uuid_show ev (u_id x)) mias)"

text \<open>The consorcios of the units, each once, in the order of the units.\<close>

definition consorcios_de_usuario :: "unidad list \<Rightarrow> uuid list" where
  "consorcios_de_usuario mias = rev (remdups (rev (map u_consorcio mias)))"

definition vencido_desde :: "charge list \<Rightarrow> string" where
  "vencido_desde cs = foldl (\<lambda>d c. if d = '''' \<or> format_fecha (c_due c) < d then format_fecha (c_due c) else d) '''' cs"

definition recibos_de :: "env \<Rightarrow> unidad list \<Rightarrow> consorcio \<Rightarrow> payment list \<Rightarrow> portal_recibo list query" where
  "recibos_de ev mias c ps =
     tx_map (\<lambda>p. tx_bind (list_allocs_by_payment ev (p_id p)) (\<lambda>allocs.
       tx_ret \<lparr>hr_consorcio = uuid_show ev (co_id c), hr_nombre = co_nombre c, hr_cobranza = uuid_show ev (p_id p),
         hr_fecha = format_fecha (p_fecha p), hr_importe = p_importe p, hr_estado = p_estado p,
         hr_saldo = saldo_a_favor_from_allocations p allocs, hr_created = p_created p\<rparr>))
       (filter (\<lambda>p. de_mis_unidades ev mias (p_unidad p) \<and> p_estado p = ''acreditado'') ps)"

definition comunicados_de :: "env \<Rightarrow> consorcio \<Rightarrow> comunicado list \<Rightarrow> portal_comunicado list" where
  "comunicados_de ev c cs =
     [\<lparr>hm_id = uuid_show ev (cm_id m), hm_consorcio = uuid_show ev (co_id c), hm_nombre = co_nombre c,
       hm_titulo = cm_titulo m, hm_estado = cm_estado m, hm_publicado = the (cm_publicado m)\<rparr>.
      m \<leftarrow> cs, cm_estado m = ''publicado'' \<and> cm_publicado m \<noteq> None]"

definition reclamos_de :: "env \<Rightarrow> unidad list \<Rightarrow> consorcio \<Rightarrow> reclamo list \<Rightarrow> portal_reclamo list" where
  "reclamos_de ev mias c rs =
     [\<lparr>hq_id = uuid_show ev (r_id r), hq_consorcio = uuid_show ev (co_id c), hq_unidad = uuid_show ev (r_unidad r),
       hq_categoria = r_categoria r, hq_estado = r_estado r, hq_texto = r_texto r, hq_created = r_created r\<rparr>.
      r \<leftarrow> rs, de_mis_unidades ev mias (r_unidad r)]"

definition parte_de :: "env \<Rightarrow> unidad list \<Rightarrow> consorcio \<Rightarrow> portal_parte query" where
  "parte_de ev mias c =
     tx_bind (tx_map (\<lambda>u. list_open_charges_by_unidad ev (u_id u) (hoy ev))
       (filter (\<lambda>u. u_consorcio u = co_id c) mias)) (\<lambda>css.
     let cs = concat css in
     tx_bind (list_cobranzas_q ev (co_id c)) (\<lambda>payments.
     tx_bind (recibos_de ev mias c payments) (\<lambda>recibos.
     tx_bind (list_comunicados_q ev (co_id c)) (\<lambda>comunicados.
     tx_bind (list_reclamos_q ev (co_id c) '''') (\<lambda>reclamos.
     tx_ret \<lparr>pp_resumen = \<lparr>hc_id = uuid_show ev (co_id c), hc_nombre = co_nombre c, hc_estado = co_estado c,
         hc_saldo = sum64_from c_saldo 0 cs, hc_cargos = int (length cs), hc_desde = vencido_desde cs\<rparr>,
       pp_recibos = recibos, pp_comunicados = comunicados_de ev c comunicados,
       pp_reclamos = reclamos_de ev mias c reclamos\<rparr>)))))"

text \<open>\<open>sort.SliceStable\<close> with the newest first, cut to five.\<close>

definition recientes :: "('a \<Rightarrow> ts) \<Rightarrow> 'a list \<Rightarrow> 'a list" where
  "recientes k xs = take 5 (rev (sort_key k (rev xs)))"

definition home_vacio :: portal_home where
  "home_vacio = \<lparr>ho_consorcios = [], ho_unidades = [], ho_recibos = [], ho_comunicados = [], ho_reclamos = [], ho_total = 0\<rparr>"

text \<open>A later row of the list of consorcios takes the place of an earlier one in the map.\<close>

definition build_home :: "env \<Rightarrow> portal_home query" where
  "build_home ev =
     tx_bind (list_consorcios_q ev '''' '''') (\<lambda>cs.
     tx_bind (list_unidades_for_current_user ev) (\<lambda>mias.
     if mias = [] then tx_ret home_vacio
     else
       let mios = List.map_filter (\<lambda>cid. List.find (\<lambda>c. co_id c = cid) (rev cs)) (consorcios_de_usuario mias) in
       tx_bind (tx_map (parte_de ev mias) mios) (\<lambda>ps.
       tx_ret \<lparr>ho_consorcios = map pp_resumen ps,
         ho_unidades = map (\<lambda>u. \<lparr>hu_id = uuid_show ev (u_id u), hu_consorcio = uuid_show ev (u_consorcio u),
           hu_codigo = u_codigo u\<rparr>) mias,
         ho_recibos = recientes hr_created (concat (map pp_recibos ps)),
         ho_comunicados = recientes hm_publicado (concat (map pp_comunicados ps)),
         ho_reclamos = recientes hq_created (concat (map pp_reclamos ps)),
         ho_total = sum64_from (\<lambda>p. hc_saldo (pp_resumen p)) 0 ps\<rparr>)))"

subsection \<open>A claim from the portal\<close>

definition portal_crear_reclamo :: "env \<Rightarrow> create_input \<Rightarrow> reclamo_dto query" where
  "portal_crear_reclamo ev inp =
     tx_bind (tx_guard (trim_space (rci_unidad inp) \<noteq> '''') (Dom ErrSinVinculo)) (\<lambda>_.
     tx_bind (tx_some (Dom ErrSinVinculo) (uuid_parse ev (trim_space (rci_unidad inp)))) (\<lambda>uid.
     tx_bind (list_unidades_for_current_user ev) (\<lambda>mias.
     tx_bind (tx_some (Dom ErrSinVinculo) (List.find (\<lambda>u. u_id u = uid) mias)) (\<lambda>u.
     reclamos_create ev (uuid_show ev (u_consorcio u)) inp))))"

subsection \<open>The units of the user\<close>

definition vigente :: "env \<Rightarrow> vinculo \<Rightarrow> bool" where
  "vigente ev v \<longleftrightarrow> v_from v \<le> hoy ev \<and> (case v_to v of None \<Rightarrow> True | Some d \<Rightarrow> hoy ev \<le> d)"

lemma vigente_usuario: "vigente (ev\<lparr>usuario := x\<rparr>) v = vigente ev v"
  by (cases "v_to v") (simp_all add: vigente_def)

definition vinculada :: "env \<Rightarrow> db \<Rightarrow> uuid \<Rightarrow> unidad \<Rightarrow> bool" where
  "vinculada ev s pid u \<longleftrightarrow> (\<exists>v \<in> set (vinculos s). v_tenant v = u_tenant u \<and> v_unidad v = u_id u \<and>
     v_persona v = pid \<and> vigente ev v)"

text \<open>A unit of the tenant with a current link of the person of the user.\<close>

definition mia :: "env \<Rightarrow> db \<Rightarrow> unidad \<Rightarrow> bool" where
  "mia ev s u \<longleftrightarrow> u \<in> set (unidades s) \<and> u_tenant u = tenant ev \<and>
     (\<exists>p \<in> set (personas s). pe_tenant p = tenant ev \<and> pe_user p \<noteq> None \<and> pe_user p = usuario ev \<and>
       vinculada ev s (pe_id p) u)"

lemma list_mias_Inr: "list_unidades_for_current_user ev s = Inr (us, t) \<Longrightarrow> t = s \<and> (\<forall>u. u \<in> set us \<longleftrightarrow> mia ev s u)"
  unfolding list_unidades_for_current_user_def tx_read_Inr mia_def vinculada_def vigente_def by auto

subsection \<open>Reading\<close>

lemma tx_map_lee:
  assumes "tx_map f xs s = Inr (ys, t)" and "\<And>x y t. x \<in> set xs \<Longrightarrow> f x s = Inr (y, t) \<Longrightarrow> t = s \<and> P x y"
  shows "t = s \<and> (\<forall>y \<in> set ys. \<exists>x \<in> set xs. P x y)"
  using assms
proof (induction xs arbitrary: ys t)
  case (Cons x xs)
  then obtain y s1 ys' where y: "f x s = Inr (y, s1)" "tx_map f xs s1 = Inr (ys', t)" "ys = y # ys'"
    by (auto simp: tx_inv)
  have "s1 = s" "P x y" using Cons.prems(2)[of x y s1] y(1) by simp_all
  moreover have "tx_map f xs s = Inr (ys', t)" using y(2) \<open>s1 = s\<close> by simp
  then have "t = s \<and> (\<forall>y \<in> set ys'. \<exists>x \<in> set xs. P x y)"
    by (rule Cons.IH) (rule Cons.prems(2), simp, assumption)
  ultimately show ?case using y(3) by auto
qed simp

lemma set_recientes: "set (recientes k xs) \<subseteq> set xs"
  unfolding recientes_def using set_take_subset[of 5 "rev (sort_key k (rev xs))"] by simp

lemma length_recientes: "length (recientes k xs) \<le> 5"
  by (simp add: recientes_def)

lemma de_mis_unidades_env: "env_ok ev \<Longrightarrow> de_mis_unidades ev mias w \<longleftrightarrow> (\<exists>u \<in> set mias. w = u_id u)"
  by (auto simp: de_mis_unidades_def uuid_show_inj)

text \<open>The three lists of a consorcio.\<close>

definition recibo_mio :: "env \<Rightarrow> db \<Rightarrow> portal_recibo \<Rightarrow> bool" where
  "recibo_mio ev s x \<longleftrightarrow> (\<exists>p \<in> set (payments s). \<exists>u. mia ev s u \<and> p_tenant p = tenant ev \<and> p_unidad p = u_id u \<and>
     p_estado p = ''acreditado'' \<and> hr_cobranza x = uuid_show ev (p_id p) \<and> hr_importe x = p_importe p)"

definition comunicado_mio :: "env \<Rightarrow> db \<Rightarrow> portal_comunicado \<Rightarrow> bool" where
  "comunicado_mio ev s x \<longleftrightarrow> (\<exists>m \<in> set (comunicados s). \<exists>u. mia ev s u \<and> cm_tenant m = tenant ev \<and>
     cm_consorcio m = u_consorcio u \<and> cm_estado m = ''publicado'' \<and> hm_id x = uuid_show ev (cm_id m))"

definition reclamo_mio :: "env \<Rightarrow> db \<Rightarrow> portal_reclamo \<Rightarrow> bool" where
  "reclamo_mio ev s x \<longleftrightarrow> (\<exists>r \<in> set (reclamos s). \<exists>u. mia ev s u \<and> r_tenant r = tenant ev \<and> r_unidad r = u_id u \<and>
     hq_id x = uuid_show ev (r_id r) \<and> hq_texto x = r_texto r)"

lemma recibos_de_Inr:
  assumes "recibos_de ev mias c ps s = Inr (rs, t)"
  shows "t = s \<and> (\<forall>x \<in> set rs. \<exists>p \<in> set ps. de_mis_unidades ev mias (p_unidad p) \<and> p_estado p = ''acreditado'' \<and>
    hr_cobranza x = uuid_show ev (p_id p) \<and> hr_importe x = p_importe p)"
proof -
  have "t = s \<and> (\<forall>x \<in> set rs. \<exists>p \<in> set (filter (\<lambda>p. de_mis_unidades ev mias (p_unidad p) \<and> p_estado p = ''acreditado'') ps).
      hr_cobranza x = uuid_show ev (p_id p) \<and> hr_importe x = p_importe p)"
    using assms unfolding recibos_de_def
    by (rule tx_map_lee) (auto simp: list_allocs_by_payment_def tx_inv)
  then show ?thesis by auto
qed

lemma parte_de_Inr:
  assumes "parte_de ev mias c s = Inr (p, t)" and "env_ok ev" and "\<And>u. u \<in> set mias \<Longrightarrow> mia ev s u"
    and "w \<in> set mias" and "co_id c = u_consorcio w"
  shows "t = s \<and> list_all (recibo_mio ev s) (pp_recibos p) \<and> list_all (comunicado_mio ev s) (pp_comunicados p) \<and>
    list_all (reclamo_mio ev s) (pp_reclamos p)"
proof -
  obtain css s1 ps s2 rec s3 where q: "tx_map (\<lambda>u. list_open_charges_by_unidad ev (u_id u) (hoy ev))
       (filter (\<lambda>u. u_consorcio u = co_id c) mias) s = Inr (css, s1)" "list_cobranzas_q ev (co_id c) s1 = Inr (ps, s2)"
    "recibos_de ev mias c ps s2 = Inr (rec, s3)" "t = s3" "pp_recibos p = rec"
    "\<exists>cs. list_comunicados_q ev (co_id c) s3 = Inr (cs, s3) \<and> pp_comunicados p = comunicados_de ev c cs"
    "\<exists>rs. list_reclamos_q ev (co_id c) '''' s3 = Inr (rs, s3) \<and> pp_reclamos p = reclamos_de ev mias c rs"
    using assms(1) by (auto simp: parte_de_def tx_inv Let_def list_comunicados_q_def list_reclamos_q_def)
  have s1: "s1 = s" using tx_map_lee[OF q(1), of "\<lambda>_ _. True"] by (simp add: list_open_charges_by_unidad_def)
  have s2: "s2 = s" "\<forall>p \<in> set ps. p \<in> set (payments s) \<and> p_tenant p = tenant ev"
    using q(2) s1 by (auto simp: list_cobranzas_q_def)
  have s3: "s3 = s" using recibos_de_Inr[OF q(3)] s2(1) by simp
  have "list_all (recibo_mio ev s) (pp_recibos p)"
    using recibos_de_Inr[OF q(3)] s2(2) q(5) assms(3) de_mis_unidades_env[OF assms(2)]
    unfolding list_all_iff recibo_mio_def by blast
  moreover have "list_all (comunicado_mio ev s) (pp_comunicados p)"
    using q(6) s3 assms(3)[OF assms(4)] assms(5)
    by (auto simp: list_comunicados_q_def comunicados_de_def list_all_iff comunicado_mio_def)
  moreover have "list_all (reclamo_mio ev s) (pp_reclamos p)"
    using q(7) s3 assms(3) de_mis_unidades_env[OF assms(2)]
    by (fastforce simp: list_reclamos_q_def reclamos_de_def list_all_iff reclamo_mio_def)
  ultimately show ?thesis using q(4) s3 by simp
qed

lemma find_consorcio_mio:
  assumes "c \<in> set (List.map_filter (\<lambda>cid. List.find (\<lambda>c. co_id c = cid) (rev cs)) (consorcios_de_usuario mias))"
  shows "\<exists>w \<in> set mias. co_id c = u_consorcio w"
proof -
  obtain cid where "cid \<in> set (consorcios_de_usuario mias)" "List.find (\<lambda>c. co_id c = cid) (rev cs) = Some c"
    using assms by (auto simp: List.map_filter_def)
  then show ?thesis using find_SomeD[of "\<lambda>c. co_id c = cid" "rev cs" c] by (auto simp: consorcios_de_usuario_def)
qed

subsection \<open>Properties\<close>

text \<open>
  C10. The page of the portal changes nothing and shows a user nothing but its own: the units, the
  claims and the credited payments of units with a current link of its person, the published
  announcements of their consorcios, at most five of each.
\<close>

theorem portal_solo_propio:
  assumes "env_ok ev" and "build_home ev s = Inr (h, t)"
  shows "t = s \<and> list_all (\<lambda>x. \<exists>u. mia ev s u \<and> hu_id x = uuid_show ev (u_id u) \<and> hu_codigo x = u_codigo u) (ho_unidades h) \<and>
    list_all (recibo_mio ev s) (ho_recibos h) \<and> list_all (comunicado_mio ev s) (ho_comunicados h) \<and>
    list_all (reclamo_mio ev s) (ho_reclamos h) \<and>
    length (ho_recibos h) \<le> 5 \<and> length (ho_comunicados h) \<le> 5 \<and> length (ho_reclamos h) \<le> 5"
proof -
  obtain cs s1 mias s2 where q: "list_consorcios_q ev '''' '''' s = Inr (cs, s1)"
    "list_unidades_for_current_user ev s1 = Inr (mias, s2)"
    and r: "(if mias = [] then tx_ret home_vacio
     else
       let mios = List.map_filter (\<lambda>cid. List.find (\<lambda>c. co_id c = cid) (rev cs)) (consorcios_de_usuario mias) in
       tx_bind (tx_map (parte_de ev mias) mios) (\<lambda>ps.
       tx_ret \<lparr>ho_consorcios = map pp_resumen ps,
         ho_unidades = map (\<lambda>u. \<lparr>hu_id = uuid_show ev (u_id u), hu_consorcio = uuid_show ev (u_consorcio u),
           hu_codigo = u_codigo u\<rparr>) mias,
         ho_recibos = recientes hr_created (concat (map pp_recibos ps)),
         ho_comunicados = recientes hm_publicado (concat (map pp_comunicados ps)),
         ho_reclamos = recientes hq_created (concat (map pp_reclamos ps)),
         ho_total = sum64_from (\<lambda>p. hc_saldo (pp_resumen p)) 0 ps\<rparr>)) s2 = Inr (h, t)"
    using assms(2) unfolding build_home_def by (elim tx_bindE) (rule that; assumption)
  have s1: "s1 = s" using q(1) by (simp add: list_consorcios_q_def)
  have s2: "s2 = s" and m: "\<And>u. u \<in> set mias \<Longrightarrow> mia ev s u" using list_mias_Inr[OF q(2)] s1 by simp_all
  show ?thesis
  proof (cases "mias = []")
    case True
    then show ?thesis using r s2 by (simp add: home_vacio_def)
  next
    case False
    let ?mios = "List.map_filter (\<lambda>cid. List.find (\<lambda>c. co_id c = cid) (rev cs)) (consorcios_de_usuario mias)"
    obtain ps s3 where ps: "tx_map (parte_de ev mias) ?mios s = Inr (ps, s3)"
      and h: "h = \<lparr>ho_consorcios = map pp_resumen ps,
         ho_unidades = map (\<lambda>u. \<lparr>hu_id = uuid_show ev (u_id u), hu_consorcio = uuid_show ev (u_consorcio u),
           hu_codigo = u_codigo u\<rparr>) mias,
         ho_recibos = recientes hr_created (concat (map pp_recibos ps)),
         ho_comunicados = recientes hm_publicado (concat (map pp_comunicados ps)),
         ho_reclamos = recientes hq_created (concat (map pp_reclamos ps)),
         ho_total = sum64_from (\<lambda>p. hc_saldo (pp_resumen p)) 0 ps\<rparr>" and t: "t = s3"
      using r s2 False by (auto simp: Let_def tx_inv)
    have "s3 = s \<and> (\<forall>p \<in> set ps. \<exists>c \<in> set ?mios. list_all (recibo_mio ev s) (pp_recibos p) \<and>
        list_all (comunicado_mio ev s) (pp_comunicados p) \<and> list_all (reclamo_mio ev s) (pp_reclamos p))"
      using ps
    proof (rule tx_map_lee)
      fix c p u
      assume c: "c \<in> set ?mios" and p: "parte_de ev mias c s = Inr (p, u)"
      from find_consorcio_mio[OF c] obtain w where "w \<in> set mias" "co_id c = u_consorcio w" by blast
      then show "u = s \<and> list_all (recibo_mio ev s) (pp_recibos p) \<and> list_all (comunicado_mio ev s) (pp_comunicados p) \<and>
          list_all (reclamo_mio ev s) (pp_reclamos p)"
        using parte_de_Inr[OF p assms(1) m] by blast
    qed
    then have s3: "s3 = s" and todo: "\<forall>p \<in> set ps. list_all (recibo_mio ev s) (pp_recibos p) \<and>
        list_all (comunicado_mio ev s) (pp_comunicados p) \<and> list_all (reclamo_mio ev s) (pp_reclamos p)" by blast+
    have corta: "list_all P (recientes k (concat (map f ps)))" if "\<forall>p \<in> set ps. list_all P (f p)" for P k and f :: "portal_parte \<Rightarrow> 'b list"
      using that set_recientes[of k "concat (map f ps)"] unfolding list_all_iff by auto
    have us: "list_all (\<lambda>x. \<exists>u. mia ev s u \<and> hu_id x = uuid_show ev (u_id u) \<and> hu_codigo x = u_codigo u) (ho_unidades h)"
      unfolding h list_all_iff using m by fastforce
    have "list_all (recibo_mio ev s) (ho_recibos h)" "list_all (comunicado_mio ev s) (ho_comunicados h)"
      "list_all (reclamo_mio ev s) (ho_reclamos h)"
      unfolding h portal_home.simps by (rule corta, use todo in blast)+
    then show ?thesis using us t s3 unfolding h by (simp add: length_recientes)
  qed
qed

text \<open>
  C39. A claim that is filed in the portal is of a unit with a current link of the person of the
  user, and of the consorcio of that unit, whatever the client sends.
\<close>

theorem portal_reclamo_propio:
  assumes "env_ok ev" and "portal_crear_reclamo ev inp s = Inr (d, t)"
    and "\<And>u. uuid_parse ev (trim_space (rci_unidad inp)) = Some u \<Longrightarrow>
      uuid_google ev (trim_space (rci_unidad inp)) \<in> {None, Some u}"
  shows "\<exists>r u. reclamos t = reclamos s @ [r] \<and> mia ev s u \<and> r_tenant r = tenant ev \<and> r_unidad r = u_id u \<and>
    r_consorcio r = u_consorcio u \<and> r_estado r = ''abierto'' \<and> r_created_by r = usuario ev"
proof -
  obtain uid mias s1 u where q: "uuid_parse ev (trim_space (rci_unidad inp)) = Some uid"
    "list_unidades_for_current_user ev s = Inr (mias, s1)" "List.find (\<lambda>u. u_id u = uid) mias = Some u"
    "reclamos_create ev (uuid_show ev (u_consorcio u)) inp s1 = Inr (d, t)"
    using assms(2) unfolding portal_crear_reclamo_def by (auto simp: tx_inv list_unidades_for_current_user_def)
  have s1: "s1 = s" using list_mias_Inr[OF q(2)] by simp
  have u: "mia ev s u" "u_id u = uid" using find_SomeD[OF q(3)] list_mias_Inr[OF q(2)] by simp_all
  have g: "uuid_google ev (uuid_show ev (u_consorcio u)) = Some (u_consorcio u)" using assms(1) by (simp add: env_ok_def)
  obtain w r where "uuid_google ev (trim_space (rci_unidad inp)) = Some w" "reclamos t = reclamos s @ [r]"
    "r_tenant r = tenant ev" "r_unidad r = w" "r_consorcio r = u_consorcio u" "r_estado r = ''abierto''" "r_created_by r = usuario ev"
    using q(4) s1 g by (auto simp: reclamos_create_def google_uuid_def create_reclamo_q_def tx_inv)
  then show ?thesis using u assms(3)[OF q(1)] by auto
qed

text \<open>
  After a person is linked to a user, the portal of that user has exactly the units with a
  current link of that person.
\<close>

theorem portal_sigue_al_usuario:
  assumes "vincular ev persona_id usuario_id s = Inr (d, t)"
  shows "\<exists>pid uid us. uuid_google ev (trim_space persona_id) = Some pid \<and> uuid_google ev (trim_space usuario_id) = Some uid \<and>
    (\<exists>m \<in> set (memberships (ident s)). m_tenant m = tenant ev \<and> m_user m = uid) \<and>
    list_unidades_for_current_user (ev\<lparr>usuario := Some uid\<rparr>) t = Inr (us, t) \<and>
    set us = {u \<in> set (unidades s). u_tenant u = tenant ev \<and> vinculada ev s pid u}"
proof -
  obtain pid uid actual ms where q: "uuid_google ev (trim_space persona_id) = Some pid"
    "uuid_google ev (trim_space usuario_id) = Some uid" "List.find (mi_persona ev pid) (personas s) = Some actual"
    "list_tenant_members ev s = Inr (ms, s)" "es_miembro ms uid" "set_persona_usuario ev pid uid s = Inr ((), t)"
    using assms unfolding vincular_def uuid_to_pg_def get_persona_for_vinculo_def
    by (auto simp: tx_inv list_tenant_members_def)
  let ?e = "ev\<lparr>usuario := Some uid\<rparr>"
  have m: "\<exists>m \<in> set (memberships (ident s)). m_tenant m = tenant ev \<and> m_user m = uid"
    using q(4,5) by (auto simp: list_tenant_members_def es_miembro_def)
  have ex: "\<exists>p \<in> set (personas s). mi_persona ev pid p" using find_SomeD[OF q(3)] by blast
  then have t: "t = personas_update (upd_where (mi_persona ev pid) (con_usuario ev (Some uid))) s"
    and solo: "\<forall>p \<in> set (personas s). pe_tenant p = tenant ev \<and> pe_user p = Some uid \<longrightarrow> pe_id p = pid"
    using q(6) by (auto simp: set_persona_usuario_def tx_inv)
  obtain us where us: "list_unidades_for_current_user ?e t = Inr (us, t)"
    by (simp add: list_unidades_for_current_user_def tx_read_def)
  have uni: "unidades t = unidades s" and vin: "vinculos t = vinculos s" unfolding t by simp_all
  have p1: "\<exists>p \<in> set (personas t). pe_tenant p = tenant ev \<and> pe_user p = Some uid \<and> pe_id p = pid"
  proof -
    obtain p where p: "p \<in> set (personas s)" "mi_persona ev pid p" using ex by blast
    have "con_usuario ev (Some uid) p \<in> set (personas t)"
      unfolding t using p by (auto simp: set_upd_where intro!: image_eqI[of _ _ p])
    moreover have "pe_tenant (con_usuario ev (Some uid) p) = tenant ev \<and> pe_user (con_usuario ev (Some uid) p) = Some uid \<and>
        pe_id (con_usuario ev (Some uid) p) = pid" using p(2) by (simp add: mi_persona_def con_usuario_def)
    ultimately show ?thesis by blast
  qed
  have p2: "pe_id p = pid" if "p \<in> set (personas t)" "pe_tenant p = tenant ev" "pe_user p = Some uid" for p
    using that solo unfolding t by (auto simp: set_upd_where mi_persona_def con_usuario_def split: if_splits)
  have v: "vinculada ?e t x u = vinculada ev s x u" for x u by (simp add: vinculada_def vigente_usuario vin)
  have "(\<exists>p \<in> set (personas t). pe_tenant p = tenant ev \<and> pe_user p \<noteq> None \<and> pe_user p = Some uid \<and>
      vinculada ev s (pe_id p) u) \<longleftrightarrow> vinculada ev s pid u" for u
  proof
    assume "vinculada ev s pid u"
    with p1 show "\<exists>p \<in> set (personas t). pe_tenant p = tenant ev \<and> pe_user p \<noteq> None \<and> pe_user p = Some uid \<and>
      vinculada ev s (pe_id p) u" by (elim bexE, intro bexI) simp_all
  qed (metis p2)
  then have "mia ?e t u \<longleftrightarrow> u \<in> set (unidades s) \<and> u_tenant u = tenant ev \<and> vinculada ev s pid u" for u
    by (simp add: mia_def v uni)
  then have "set us = {u \<in> set (unidades s). u_tenant u = tenant ev \<and> vinculada ev s pid u}"
    using list_mias_Inr[OF us] by auto
  then show ?thesis using q(1,2) m us by blast
qed

subsection \<open>A concrete portal\<close>

text \<open>Ana, the user 7, owns the unit A; there are claims of both units.\<close>

definition portal_rec :: "uuid \<Rightarrow> uuid \<Rightarrow> reclamo" where
  "portal_rec i u = \<lparr>r_tenant = 1, r_consorcio = 10, r_unidad = u, r_id = i, r_categoria = ''agua'', r_texto = ''gotea'',
     r_estado = ''abierto'', r_responsable = None, r_sla = None, r_created_by = Some 7, r_created = 50, r_updated = 50\<rparr>"

definition portal_persona :: "uuid option \<Rightarrow> persona" where
  "portal_persona u = \<lparr>pe_tenant = 1, pe_id = 40, pe_nombre = ''Ana'', pe_documento = None, pe_email = None,
     pe_telefono = None, pe_user = u, pe_created = 1, pe_updated = 1\<rparr>"

definition portal_db :: "uuid option \<Rightarrow> db" where
  "portal_db u = ejemplo_db\<lparr>personas := [portal_persona u],
     vinculos := [\<lparr>v_tenant = 1, v_id = 41, v_unidad = 21, v_persona = 40, v_vinculo = ''propietario'', v_porcentaje = None,
       v_from = Fecha 2020 1 1, v_to = None, v_created = 1\<rparr>],
     reclamos := [portal_rec 60 21, portal_rec 61 22]\<rparr>"

definition portal_pagina :: portal_home where
  "portal_pagina = \<lparr>ho_consorcios = [\<lparr>hc_id = ''10'', hc_nombre = ''Edificio'', hc_estado = ''activo'', hc_saldo = 0,
       hc_cargos = 0, hc_desde = ''''\<rparr>],
     ho_unidades = [\<lparr>hu_id = ''21'', hu_consorcio = ''10'', hu_codigo = ''A''\<rparr>], ho_recibos = [], ho_comunicados = [],
     ho_reclamos = [\<lparr>hq_id = ''60'', hq_consorcio = ''10'', hq_unidad = ''21'', hq_categoria = ''agua'',
       hq_estado = ''abierto'', hq_texto = ''gotea'', hq_created = 50\<rparr>], ho_total = 0\<rparr>"

lemma portal_pagina_ok: "build_home ejemplo_env (portal_db (Some 7)) = Inr (portal_pagina, portal_db (Some 7))"
  by code_simp

theorem portal_solo_propio_witness:
  "list_all (reclamo_mio ejemplo_env (portal_db (Some 7))) (ho_reclamos portal_pagina) \<and> length (ho_reclamos portal_pagina) \<le> 5"
  using portal_solo_propio[OF ejemplo_env_ok portal_pagina_ok] by blast

definition portal_nuevo :: db where
  "portal_nuevo = (portal_db (Some 7))\<lparr>reclamos := [portal_rec 60 21, portal_rec 61 22,
     \<lparr>r_tenant = 1, r_consorcio = 10, r_unidad = 21, r_id = 1000, r_categoria = ''luz'', r_texto = ''no hay'',
      r_estado = ''abierto'', r_responsable = None, r_sla = Some (100 + sla_duracion), r_created_by = Some 7,
      r_created = 100, r_updated = 100\<rparr>], seq := 1\<rparr>"

lemma portal_unidad_ok:
  "list_unidades_for_current_user ejemplo_env (portal_db (Some 7)) = Inr ([ejemplo_unidad 21 ''A''], portal_db (Some 7))"
  by code_simp

lemma portal_nuevo_ok: "map_sum id snd (portal_crear_reclamo ejemplo_env
    \<lparr>rci_unidad = ''21'', rci_categoria = ''luz'', rci_texto = ''no hay''\<rparr> (portal_db (Some 7))) = Inr portal_nuevo"
proof -
  have "uuid_parse ejemplo_env ''21'' = Some 21" "uuid_google ejemplo_env ''21'' = Some 21"
    "uuid_google ejemplo_env ''10'' = Some 10" "uuid_show ejemplo_env 10 = ''10''" by code_simp+
  moreover have "trim_space ''21'' = ''21''" "trim_space ''luz'' = ''luz''" "trim_space ''no hay'' = ''no hay''"
    "runas ''no hay'' = 6" by code_simp+
  moreover from calculation have "portal_crear_reclamo ejemplo_env \<lparr>rci_unidad = ''21'', rci_categoria = ''luz'', rci_texto = ''no hay''\<rparr>
      (portal_db (Some 7)) = reclamos_create ejemplo_env ''10'' \<lparr>rci_unidad = ''21'', rci_categoria = ''luz'', rci_texto = ''no hay''\<rparr>
      (portal_db (Some 7))"
    by (simp add: portal_crear_reclamo_def tx_bind_def portal_unidad_ok tx_guard_def tx_some_def tx_ret_def ejemplo_unidad_def)
  ultimately show ?thesis
    by (simp add: reclamos_create_def google_uuid_def create_reclamo_q_def
        tx_eval portal_db_def portal_nuevo_def ejemplo_db_def ejemplo_unidad_def portal_rec_def reclamo_check_def
        reclamo_estados_def unidad_existe_def)
qed

theorem portal_reclamo_propio_witness:
  "\<exists>r u. reclamos portal_nuevo = reclamos (portal_db (Some 7)) @ [r] \<and> mia ejemplo_env (portal_db (Some 7)) u \<and>
    r_tenant r = tenant ejemplo_env \<and> r_unidad r = u_id u \<and> r_consorcio r = u_consorcio u \<and> r_estado r = ''abierto'' \<and>
    r_created_by r = usuario ejemplo_env"
proof -
  obtain d where "portal_crear_reclamo ejemplo_env \<lparr>rci_unidad = ''21'', rci_categoria = ''luz'', rci_texto = ''no hay''\<rparr>
      (portal_db (Some 7)) = Inr (d, portal_nuevo)" using mapsum_Inr[OF portal_nuevo_ok] by blast
  then show ?thesis by (rule portal_reclamo_propio[OF ejemplo_env_ok]) (simp add: ejemplo_env_def)
qed

lemma portal_vincular_ok: "\<not> isl (vincular ejemplo_env ''40'' ''7'' (portal_db None))"
  by (simp add: vincular_def uuid_to_pg_def get_persona_for_vinculo_def list_tenant_members_def set_persona_usuario_def
      es_miembro_def tx_eval ejemplo_env_def digitos_eval trim_space_def espacio_def portal_db_def portal_persona_def
      ejemplo_db_def ejemplo_ident_def mi_persona_def con_usuario_def persona_check_def runas_def)

theorem portal_sigue_al_usuario_witness:
  "\<exists>pid uid us t. list_unidades_for_current_user (ejemplo_env\<lparr>usuario := Some uid\<rparr>) t = Inr (us, t) \<and>
    set us = {u \<in> set (unidades (portal_db None)). u_tenant u = tenant ejemplo_env \<and> vinculada ejemplo_env (portal_db None) pid u}"
proof -
  obtain d t where "vincular ejemplo_env ''40'' ''7'' (portal_db None) = Inr (d, t)"
    using portal_vincular_ok by (cases "vincular ejemplo_env ''40'' ''7'' (portal_db None)") auto
  from portal_sigue_al_usuario[OF this] show ?thesis by blast
qed

end
