(* ===== verification/Documentos.thy ===== *)
theory Documentos
  imports Reclamos Comunicados
begin

text \<open>
  The private documents (\<open>internal/documentos/service.go\<close>, \<open>documentos.sql.go\<close>, the handlers of
  \<open>apps/api/transport/http/documentos.go\<close>): the backend gives the key of the stored object, the
  client uploads it, and a download is authorized after the object was scanned.
\<close>

subsection \<open>Storage and antivirus\<close>

text \<open>
  The storage signs the URLs and opens the objects; the scanner reads a content and says whether it is
  clean and of which MIME type. \<open>None\<close> stands for an error of the one or the other.
\<close>

record docs_env =
  presign_put :: "string \<Rightarrow> int \<Rightarrow> err + string"
  presign_get :: "string \<Rightarrow> string option"
  storage_get :: "string \<Rightarrow> string option"
  scan :: "string \<Rightarrow> err + (bool \<times> string)"
  max_upload :: int
  signed_ttl :: nat

fun contiene :: "string \<Rightarrow> string \<Rightarrow> bool" where
  "contiene p [] = (p = [])"
| "contiene p (c # s) = (take (length p) (c # s) = p \<or> contiene p s)"

definition eicar_signature :: string where
  "eicar_signature = ''X5O!P%@AP[4'' @ [CHR 0x5C] @ ''PZX54(P^)7CC)7}$EICAR-STANDARD-ANTIVIRUS-TEST-FILE!$H+H*''"

text \<open>The scanner of development and test, with the MIME detection of \<open>net/http\<close>, and the one that is off.\<close>

definition mock_scan :: "(string \<Rightarrow> string) \<Rightarrow> string \<Rightarrow> err + (bool \<times> string)" where
  "mock_scan detect content =
     (if contiene eicar_signature content then Inr (False, '''') else Inr (True, detect content))"

definition noop_scan :: "string \<Rightarrow> err + (bool \<times> string)" where
  "noop_scan content = Inr (True, '''')"

definition new_scanner :: "(string \<Rightarrow> string) \<Rightarrow> string \<Rightarrow> (string \<Rightarrow> err + (bool \<times> string)) option" where
  "new_scanner detect driver = (if driver = ''mock'' then Some (mock_scan detect)
     else if driver = ''none'' then Some noop_scan else None)"

text \<open>The storage of the tests: the objects by their key.\<close>

definition memory_presign_put :: "string \<Rightarrow> int \<Rightarrow> err + string" where
  "memory_presign_put key sz = Inr (''memory://put/'' @ key)"

definition memory_presign_get :: "(string \<rightharpoonup> string) \<Rightarrow> string \<Rightarrow> string option" where
  "memory_presign_get objects key = (if objects key = None then None else Some (''memory://get/'' @ key))"

definition memory_stat :: "(string \<rightharpoonup> string) \<Rightarrow> string \<Rightarrow> int option" where
  "memory_stat objects key = map_option (\<lambda>b. int (length b)) (objects key)"

definition memory_put :: "(string \<rightharpoonup> string) \<Rightarrow> string \<Rightarrow> string \<Rightarrow> (string \<rightharpoonup> string) option" where
  "memory_put objects key content = (if objects key \<noteq> None then None else Some (objects(key \<mapsto> content)))"

subsection \<open>Queries\<close>

definition hex_digito :: "char \<Rightarrow> bool" where
  "hex_digito c \<longleftrightarrow> digito c \<or> CHR ''a'' \<le> c \<and> c \<le> CHR ''f''"

definition sha256_hex :: "string \<Rightarrow> bool" where
  "sha256_hex s \<longleftrightarrow> length s = 64 \<and> list_all hex_digito s"

text \<open>The checks of the table (migration 00012).\<close>

definition documento_check :: "documento \<Rightarrow> bool" where
  "documento_check d \<longleftrightarrow> runas (do_nombre d) \<in> {1..255} \<and> runas (do_tipo d) \<in> {1..50} \<and> sha256_hex (do_sha256 d) \<and>
     0 \<le> do_size d \<and> do_antivirus d \<in> {''pendiente'', ''limpio'', ''en_cuarentena''}"

definition mi_documento :: "env \<Rightarrow> uuid \<Rightarrow> documento \<Rightarrow> bool" where
  "mi_documento ev did d \<longleftrightarrow> do_tenant d = tenant ev \<and> do_id d = did"

record documento_params =
  dp_id :: uuid
  dp_consorcio :: "uuid option"
  dp_owner_type :: "string option"
  dp_owner :: "uuid option"
  dp_tipo :: string
  dp_nombre :: string
  dp_key :: string
  dp_size :: int
  dp_sha256 :: string

definition insert_documento :: "env \<Rightarrow> documento_params \<Rightarrow> documento query" where
  "insert_documento ev p = tx_insert documento_check
     (\<lambda>s r. if \<exists>d \<in> set (documentos s). mi_documento ev (do_id r) d then Some ''documentos_pkey''
       else if \<exists>d \<in> set (documentos s). do_tenant d = tenant ev \<and> do_key d = do_key r then Some ''documentos_storage_key_idx''
       else None)
     (\<lambda>s r. case do_consorcio r of None \<Rightarrow> True | Some c \<Rightarrow> consorcio_existe ev c s) documentos_update
     \<lparr>do_tenant = tenant ev, do_id = dp_id p, do_consorcio = dp_consorcio p, do_owner_type = dp_owner_type p,
      do_owner = dp_owner p, do_tipo = dp_tipo p, do_nombre = dp_nombre p, do_key = dp_key p, do_mime = None,
      do_size = dp_size p, do_sha256 = dp_sha256 p, do_antivirus = ''pendiente'', do_created = ahora ev,
      do_updated = ahora ev\<rparr>"

definition update_documento_scan_result :: "env \<Rightarrow> string \<Rightarrow> string option \<Rightarrow> uuid \<Rightarrow> documento query" where
  "update_documento_scan_result ev antivirus mime did = tx_update_row (mi_documento ev did)
     (\<lambda>d. d\<lparr>do_antivirus := antivirus, do_mime := (case mime of None \<Rightarrow> do_mime d | Some m \<Rightarrow> Some m), do_updated := ahora ev\<rparr>)
     documento_check (\<lambda>_ _. None) documentos documentos_update"

subsection \<open>Service\<close>

record upload_input =
  upl_consorcio :: "string option"
  upl_owner_type :: "string option"
  upl_owner :: "string option"
  upl_tipo :: string
  upl_nombre :: string
  upl_size :: int
  upl_sha256 :: string

record upload_result =
  ur_documento :: string
  ur_url :: string

record download_result =
  dr_url :: string
  dr_expires :: ts

text \<open>An optional identifier of the request: \<open>uuid.MustParse\<close> panics on one that is none.\<close>

definition must_optional :: "env \<Rightarrow> string option \<Rightarrow> uuid option query" where
  "must_optional ev x = (case x of None \<Rightarrow> tx_ret None
     | Some t \<Rightarrow> if t = '''' then tx_ret None else tx_bind (must_parse ev t) (\<lambda>u. tx_ret (Some u)))"

definition create_upload_intent :: "env \<Rightarrow> docs_env \<Rightarrow> string \<Rightarrow> upload_input \<Rightarrow> upload_result query" where
  "create_upload_intent ev de tenant_id inp = (let tipo = trim_space (upl_tipo inp); nombre = trim_space (upl_nombre inp);
       sha = trim_space (upl_sha256 inp) in
     tx_bind (tx_guard (\<not> (tipo = '''' \<or> 50 < length tipo)) (Dom ErrDocumentoInvalid)) (\<lambda>_.
     tx_bind (tx_guard (\<not> (nombre = '''' \<or> 255 < length nombre)) (Dom ErrDocumentoInvalid)) (\<lambda>_.
     tx_bind (tx_guard (sha256_hex sha) (Dom ErrDocumentoInvalid)) (\<lambda>_.
     tx_bind (tx_guard (\<not> upl_size inp \<le> 0) (Dom ErrDocumentoInvalid)) (\<lambda>_.
     tx_bind (tx_guard (\<not> max_upload de < upl_size inp) (Dom ErrDocumentoTooLarge)) (\<lambda>_.
     tx_bind (nuevo_uuid ev) (\<lambda>i.
     let key = tenant_id @ ''/'' @ uuid_show ev i in
     tx_bind (must_optional ev (upl_consorcio inp)) (\<lambda>consorcio.
     tx_bind (must_optional ev (upl_owner inp)) (\<lambda>owner.
     tx_bind (insert_documento ev \<lparr>dp_id = i, dp_consorcio = consorcio,
       dp_owner_type = (if upl_owner_type inp = Some '''' then None else upl_owner_type inp), dp_owner = owner,
       dp_tipo = tipo, dp_nombre = nombre, dp_key = key, dp_size = upl_size inp, dp_sha256 = sha\<rparr>) (\<lambda>_.
     case presign_put de key (upl_size inp) of Inl e \<Rightarrow> tx_fail e
     | Inr url \<Rightarrow> tx_ret \<lparr>ur_documento = uuid_show ev i, ur_url = url\<rparr>))))))))))"

definition scan_and_update :: "env \<Rightarrow> docs_env \<Rightarrow> documento \<Rightarrow> unit query" where
  "scan_and_update ev de doc =
     tx_bind (tx_some (Dom ErrDocumentoNotFound) (storage_get de (do_key doc))) (\<lambda>r.
     case scan de r of Inl e \<Rightarrow> tx_fail e
     | Inr (limpio, mime) \<Rightarrow>
         tx_exec (update_documento_scan_result ev (if limpio then ''limpio'' else ''en_cuarentena'')
           (if mime \<noteq> '''' then Some mime else None) (do_id doc)))"

definition request_download_url :: "env \<Rightarrow> docs_env \<Rightarrow> string \<Rightarrow> download_result query" where
  "request_download_url ev de doc_id =
     tx_bind (must_parse ev doc_id) (\<lambda>did.
     tx_bind (tx_catch (\<lambda>_. Dom ErrDocumentoNotFound) (get_documento_q ev did)) (\<lambda>doc.
     tx_bind (tx_guard (do_antivirus doc \<noteq> ''en_cuarentena'') (Dom ErrDocumentoCuarentena)) (\<lambda>_.
     tx_bind (if do_antivirus doc = ''pendiente'' then
         tx_bind (scan_and_update ev de doc) (\<lambda>_. tx_catch (\<lambda>_. Dom ErrDocumentoNotFound) (get_documento_q ev did))
       else tx_ret doc) (\<lambda>doc.
     tx_bind (tx_guard (do_antivirus doc \<noteq> ''en_cuarentena'') (Dom ErrDocumentoCuarentena)) (\<lambda>_.
     tx_bind (tx_some (Dom ErrStorageUnavailable) (presign_get de (do_key doc))) (\<lambda>url.
     tx_ret \<lparr>dr_url = url, dr_expires = reloj ev + signed_ttl de\<rparr>))))))"

subsection \<open>Handlers\<close>

text \<open>The handler of the upload commits; the one of the download only rolls back.\<close>

definition create_document_upload_intent :: "env \<Rightarrow> docs_env \<Rightarrow> upload_input \<Rightarrow> upload_result query" where
  "create_document_upload_intent ev de inp = create_upload_intent ev de (uuid_show ev (tenant ev)) inp"

definition get_document_download_url :: "env \<Rightarrow> docs_env \<Rightarrow> string \<Rightarrow> download_result query" where
  "get_document_download_url ev de doc_id s = map_sum id (\<lambda>r. (fst r, s)) (request_download_url ev de doc_id s)"

definition write_doc_error :: "err \<Rightarrow> int \<times> string" where
  "write_doc_error e = (if e = Dom ErrDocumentoInvalid then (400, ''invalid_request'')
     else if e = Dom ErrDocumentoTooLarge then (413, ''entity_too_large'')
     else if e = Dom ErrDocumentoNotFound then (404, ''not_found'')
     else if e = Dom ErrDocumentoCuarentena then (410, ''gone'')
     else if e = Dom ErrStorageUnavailable then (503, ''storage_unavailable'')
     else (500, ''internal_error''))"

subsection \<open>What is served\<close>

text \<open>The scan keeps the row of the document and stores its result in it.\<close>

definition escaneado :: "env \<Rightarrow> bool \<Rightarrow> string \<Rightarrow> documento \<Rightarrow> documento" where
  "escaneado ev limpio mime d = d\<lparr>do_antivirus := if limpio then ''limpio'' else ''en_cuarentena'',
     do_mime := if mime \<noteq> '''' then Some mime else do_mime d, do_updated := ahora ev\<rparr>"

lemma scan_and_update_eq:
  assumes "List.find (mi_documento ev did) (documentos s) = Some d" and "do_id d = did" and "documento_check d"
  shows "scan_and_update ev de d s = (case storage_get de (do_key d) of None \<Rightarrow> Inl (Dom ErrDocumentoNotFound)
     | Some c \<Rightarrow> case scan de c of Inl e \<Rightarrow> Inl e
     | Inr (limpio, mime) \<Rightarrow> Inr ((), documentos_update (upd_where (mi_documento ev did) (escaneado ev limpio mime)) s))"
proof -
  have ck: "documento_check (escaneado ev limpio mime d)" for limpio mime
    using assms(3) by (simp add: documento_check_def escaneado_def)
  have f: "(\<lambda>d. d\<lparr>do_antivirus := if limpio then ''limpio'' else ''en_cuarentena'',
      do_mime := (case if mime \<noteq> '''' then Some mime else None of None \<Rightarrow> do_mime d | Some m \<Rightarrow> Some m), do_updated := ahora ev\<rparr>)
      = escaneado ev limpio mime" for limpio mime
    by (simp add: fun_eq_iff escaneado_def)
  have "update_documento_scan_result ev (if limpio then ''limpio'' else ''en_cuarentena'')
      (if mime \<noteq> '''' then Some mime else None) did s =
      Inr (escaneado ev limpio mime d, documentos_update (upd_where (mi_documento ev did) (escaneado ev limpio mime)) s)"
    for limpio mime
    unfolding update_documento_scan_result_def f by (simp add: assms(1) ck)
  then show ?thesis unfolding scan_and_update_def assms(2) tx_exec_def
    by (simp add: tx_bind_def tx_some_def tx_fail_def tx_ret_def split: option.split sum.split)
qed

lemma find_escaneado:
  "List.find (mi_documento ev did) (upd_where (mi_documento ev did) (escaneado ev limpio mime) ds) =
   map_option (escaneado ev limpio mime) (List.find (mi_documento ev did) ds)"
  by (induction ds) (auto simp: mi_documento_def escaneado_def)

lemma get_documento_Inr: "get_documento_q ev did s = Inr r \<longleftrightarrow>
    (\<exists>d. List.find (mi_documento ev did) (documentos s) = Some d \<and> r = (d, s))"
  by (simp add: get_documento_q_def mi_documento_def[abs_def])

text \<open>
  C20. A download is answered exactly when the identifier is of a document of the tenant that is stored as
  clean, or that is pending and whose stored object the antivirus finds clean, and the storage signs
  its key; a document in quarantine is never served.
\<close>

theorem descarga_limpia:
  assumes "list_all documento_check (documentos s)"
  shows "get_document_download_url ev de x s = Inr (r, t) \<longleftrightarrow> (\<exists>did d url. uuid_google ev x = Some did \<and>
    List.find (mi_documento ev did) (documentos s) = Some d \<and>
    (do_antivirus d = ''limpio'' \<or> do_antivirus d = ''pendiente'' \<and>
       (\<exists>c mime. storage_get de (do_key d) = Some c \<and> scan de c = Inr (True, mime))) \<and>
    presign_get de (do_key d) = Some url \<and>
    r = \<lparr>dr_url = url, dr_expires = reloj ev + signed_ttl de\<rparr> \<and> t = s)"
proof (cases "uuid_google ev x")
  case None
  then show ?thesis by (auto simp: get_document_download_url_def request_download_url_def must_parse_def tx_some_def
        tx_bind_def split: sum.splits)
next
  case (Some did)
  show ?thesis
  proof (cases "List.find (mi_documento ev did) (documentos s)")
    case None
    then show ?thesis using Some by (simp add: get_document_download_url_def request_download_url_def must_parse_def
          tx_some_def tx_bind_def tx_ret_def tx_catch_def get_documento_q_def tx_row_def mi_documento_def[abs_def])
  next
    case (Some d)
    note g = \<open>uuid_google ev x = Some did\<close>
    have id: "do_id d = did" and "d \<in> set (documentos s)" using find_SomeD[OF Some] by (auto simp: mi_documento_def)
    then have ok: "documento_check d" using assms by (simp add: list_all_iff)
    have q: "get_documento_q ev did s = Inr (d, s)" using Some by (simp add: get_documento_Inr)
    have e: "get_document_download_url ev de x s = Inr (r, t) \<longleftrightarrow>
        (\<exists>t'. request_download_url ev de x s = Inr (r, t')) \<and> t = s"
      by (auto simp: get_document_download_url_def map_sum_def split: sum.splits)
    have "do_antivirus d \<in> {''pendiente'', ''limpio'', ''en_cuarentena''}" using ok by (simp add: documento_check_def)
    then consider "do_antivirus d = ''pendiente''" | "do_antivirus d = ''limpio''" | "do_antivirus d = ''en_cuarentena''"
      by auto
    then show ?thesis
    proof cases
      case 1
      have q': "get_documento_q ev did (documentos_update (upd_where (mi_documento ev did) (escaneado ev l m)) s) =
          Inr (escaneado ev l m d, documentos_update (upd_where (mi_documento ev did) (escaneado ev l m)) s)" for l m
        by (simp add: get_documento_Inr find_escaneado Some)
      show ?thesis unfolding e request_download_url_def must_parse_def
        by (simp add: g tx_bind_def tx_some_def tx_ret_def tx_catch_def tx_guard_def tx_fail_def q 1 scan_and_update_eq[OF Some id ok] q' Some
            split: option.split sum.split) (auto simp: escaneado_def)
    next
      case 2
      show ?thesis unfolding e request_download_url_def must_parse_def
        by (simp add: g tx_bind_def tx_some_def tx_ret_def tx_catch_def tx_guard_def tx_fail_def q 2 Some split: option.split) auto
    next
      case 3
      show ?thesis unfolding e request_download_url_def must_parse_def
        by (simp add: g tx_bind_def tx_some_def tx_ret_def tx_catch_def tx_guard_def tx_fail_def q 3 Some)
    qed
  qed
qed

subsection \<open>The result of the scan is lost\<close>

text \<open>The two requests, for any tenant; \<open>sh\<close> is how an identifier is written.\<close>

inductive doc_paso :: "(uuid \<Rightarrow> string) \<Rightarrow> db \<Rightarrow> db \<Rightarrow> bool" for sh where
  subida: "uuid_show ev = sh \<Longrightarrow> create_document_upload_intent ev de inp s = Inr (d, t) \<Longrightarrow> doc_paso sh s t"
| bajada: "uuid_show ev = sh \<Longrightarrow> get_document_download_url ev de x s = Inr (r, t) \<Longrightarrow> doc_paso sh s t"

text \<open>A document is pending, and its key is of its own tenant and identifier.\<close>

definition sin_escanear :: "(uuid \<Rightarrow> string) \<Rightarrow> documento \<Rightarrow> bool" where
  "sin_escanear sh d \<longleftrightarrow> do_antivirus d = ''pendiente'' \<and> do_key d = sh (do_tenant d) @ ''/'' @ sh (do_id d)"

definition documentos_ok :: "(uuid \<Rightarrow> string) \<Rightarrow> db \<Rightarrow> bool" where
  "documentos_ok sh s \<longleftrightarrow> list_all (sin_escanear sh) (documentos s) \<and>
     distinct (map (\<lambda>d. (do_tenant d, do_id d)) (documentos s))"

lemma insert_documento_keeps:
  assumes "insert_documento ev p s = Inr (d, t)" and "dp_key p = sh (tenant ev) @ ''/'' @ sh (dp_id p)" and "documentos_ok sh s"
  shows "documentos_ok sh t"
  using assms by (auto simp: insert_documento_def documentos_ok_def sin_escanear_def mi_documento_def split: if_splits)

lemma must_optional_id: "must_optional ev x s = Inr (u, t) \<Longrightarrow> t = s"
  by (auto simp: must_optional_def must_parse_def tx_inv split: option.splits if_splits)

lemma subida_inserta:
  assumes "create_document_upload_intent ev de inp s = Inr (d, t)"
  obtains p u s' where "insert_documento ev p s' = Inr (u, t)" "documentos s' = documentos s"
    "dp_key p = uuid_show ev (tenant ev) @ ''/'' @ uuid_show ev (dp_id p)"
  using assms unfolding create_document_upload_intent_def create_upload_intent_def Let_def
  by (elim tx_bindE) (auto split: sum.splits dest!: must_optional_id elim!: that)

lemma doc_paso_ok:
  assumes "doc_paso sh s t" and "documentos_ok sh s"
  shows "documentos_ok sh t"
  using assms(1)
proof cases
  case (subida ev de inp d)
  obtain p u s' where "insert_documento ev p s' = Inr (u, t)" "documentos s' = documentos s"
    "dp_key p = sh (tenant ev) @ ''/'' @ sh (dp_id p)" using subida_inserta[OF subida(2)] unfolding subida(1) .
  moreover from this(2) have "documentos_ok sh s'" using assms(2) by (simp add: documentos_ok_def)
  ultimately show ?thesis by (blast intro: insert_documento_keeps)
next
  case (bajada ev de x r)
  then show ?thesis using assms(2) by (auto simp: get_document_download_url_def map_sum_def split: sum.splits)
qed

text \<open>
  C40. From an empty table, whatever is uploaded and downloaded by whomever, every document stays pending:
  no result of a scan is ever stored. The object of a document is of its own tenant, and no two
  documents share one.
\<close>

theorem escaneo_no_guardado:
  assumes "inj sh" and "\<And>u. CHR ''/'' \<notin> set (sh u)" and "(doc_paso sh)\<^sup>*\<^sup>* s t" and "documentos s = []"
  shows "list_all (sin_escanear sh) (documentos t) \<and> distinct (map do_key (documentos t))"
proof -
  have ok: "documentos_ok sh t" using assms(3)
    by (induction rule: rtranclp_induct) (simp_all add: documentos_ok_def assms(4) doc_paso_ok[unfolded documentos_ok_def])
  have "inj (\<lambda>(a, b). sh a @ ''/'' @ sh b)"
  proof (rule injI, clarify)
    fix a b c d assume e: "sh a @ ''/'' @ sh b = sh c @ ''/'' @ sh d"
    have t: "takeWhile (\<lambda>x. x \<noteq> CHR ''/'') (sh u @ ''/'' @ r) = sh u" for u r
      using assms(2)[of u] by (subst takeWhile_append2) auto
    have "sh a = sh c" using arg_cong[OF e, of "takeWhile (\<lambda>x. x \<noteq> CHR ''/'')"] unfolding t .
    then show "a = c \<and> b = d" using e by (simp add: inj_eq[OF assms(1)])
  qed
  then have "distinct (map (\<lambda>(a, b). sh a @ ''/'' @ sh b) (map (\<lambda>d. (do_tenant d, do_id d)) (documentos t)))"
    using ok unfolding documentos_ok_def distinct_map[of "\<lambda>(a, b). sh a @ ''/'' @ sh b"] by (auto intro: inj_on_subset)
  moreover have "map do_key (documentos t) =
      map (\<lambda>(a, b). sh a @ ''/'' @ sh b) (map (\<lambda>d. (do_tenant d, do_id d)) (documentos t))"
    using ok by (simp add: documentos_ok_def sin_escanear_def list_all_iff)
  ultimately have "distinct (map do_key (documentos t))" by (simp only:)
  then show ?thesis using ok by (simp add: documentos_ok_def)
qed

subsection \<open>Examples\<close>

text \<open>A storage with two objects, one of them infected, and the scanner of development.\<close>

definition ej_docs :: docs_env where
  "ej_docs = \<lparr>presign_put = memory_presign_put,
     presign_get = memory_presign_get [''1/1000'' \<mapsto> ''hola'', ''1/1001'' \<mapsto> eicar_signature],
     storage_get = [''1/1000'' \<mapsto> ''hola'', ''1/1001'' \<mapsto> eicar_signature],
     scan = mock_scan (\<lambda>_. ''text/plain''), max_upload = 1000, signed_ttl = 60\<rparr>"

definition ej_subida :: upload_input where
  "ej_subida = \<lparr>upl_consorcio = Some ''10'', upl_owner_type = None, upl_owner = None, upl_tipo = ''factura'', upl_nombre = ''a.txt'',
     upl_size = 4, upl_sha256 = replicate 64 CHR ''a''\<rparr>"

definition ej_documento :: "uuid \<Rightarrow> documento" where
  "ej_documento i = \<lparr>do_tenant = 1, do_id = i, do_consorcio = Some 10, do_owner_type = None, do_owner = None, do_tipo = ''factura'',
     do_nombre = ''a.txt'', do_key = ''1/'' @ show_nat i, do_mime = None, do_size = 4, do_sha256 = replicate 64 CHR ''a'',
     do_antivirus = ''pendiente'', do_created = 100, do_updated = 100\<rparr>"

definition ej_docs_db :: "documento list \<Rightarrow> db" where
  "ej_docs_db ds = ejemplo_db\<lparr>documentos := ds, seq := length ds\<rparr>"


lemma ej_google: "uuid_google ejemplo_env s = (if s \<noteq> [] \<and> list_all digito s then Some (num s) else None)"
  by (simp add: ejemplo_env_def)

lemma ej_subidas:
  "map_sum id snd (create_document_upload_intent ejemplo_env ej_docs ej_subida (ej_docs_db [])) = Inr (ej_docs_db [ej_documento 1000])"
  "map_sum id snd (create_document_upload_intent ejemplo_env ej_docs ej_subida (ej_docs_db [ej_documento 1000]))
    = Inr (ej_docs_db [ej_documento 1000, ej_documento 1001])"
  by code_simp+

theorem descarga_limpia_witness:
  "get_document_download_url ejemplo_env ej_docs ''1000'' (ej_docs_db [ej_documento 1000, ej_documento 1001]) =
     Inr (\<lparr>dr_url = ''memory://get/1/1000'', dr_expires = 160\<rparr>, ej_docs_db [ej_documento 1000, ej_documento 1001]) \<and>
   get_document_download_url ejemplo_env ej_docs ''1001'' (ej_docs_db [ej_documento 1000, ej_documento 1001]) \<noteq>
     Inr (\<lparr>dr_url = ''memory://get/1/1001'', dr_expires = 160\<rparr>, ej_docs_db [ej_documento 1000, ej_documento 1001])"
proof -
  let ?s = "ej_docs_db [ej_documento 1000, ej_documento 1001]"
  have ck: "list_all documento_check (documentos ?s)" by code_simp
  have u: "uuid_google ejemplo_env ''1000'' = Some 1000" "uuid_google ejemplo_env ''1001'' = Some 1001"
    by (simp_all add: ej_google digitos_eval)
  have f: "List.find (mi_documento ejemplo_env 1000) (documentos ?s) = Some (ej_documento 1000)"
    "List.find (mi_documento ejemplo_env 1001) (documentos ?s) = Some (ej_documento 1001)" by code_simp+
  have o1: "storage_get ej_docs (do_key (ej_documento 1000)) = Some ''hola''" "scan ej_docs ''hola'' = Inr (True, ''text/plain'')"
    "presign_get ej_docs (do_key (ej_documento 1000)) = Some ''memory://get/1/1000''" "reloj ejemplo_env + signed_ttl ej_docs = 160"
    "do_antivirus (ej_documento 1000) = ''pendiente''" by code_simp+
  have o2: "storage_get ej_docs (do_key (ej_documento 1001)) = Some eicar_signature"
    "scan ej_docs eicar_signature = Inr (False, '''')" "do_antivirus (ej_documento 1001) = ''pendiente''" by code_simp+
  have "get_document_download_url ejemplo_env ej_docs ''1000'' ?s = Inr (\<lparr>dr_url = ''memory://get/1/1000'', dr_expires = 160\<rparr>, ?s)"
    unfolding descarga_limpia[OF ck] using u(1) f(1) o1 by auto
  moreover have "get_document_download_url ejemplo_env ej_docs ''1001'' ?s \<noteq> Inr (\<lparr>dr_url = ''memory://get/1/1001'', dr_expires = 160\<rparr>, ?s)"
    unfolding descarga_limpia[OF ck] using u(2) f(2) o2 by auto
  ultimately show ?thesis by blast
qed

theorem escaneo_no_guardado_witness:
  "list_all (sin_escanear show_nat) [ej_documento 1000, ej_documento 1001] \<and>
   distinct (map do_key [ej_documento 1000, ej_documento 1001])"
proof -
  have i: "inj show_nat" by (rule inj_on_inverseI[of _ num]) simp
  have n: "CHR ''/'' \<notin> set (show_nat u)" for u using digitos_show_nat[of u] by (auto simp: digito_def)
  have sh: "uuid_show ejemplo_env = show_nat" by simp
  obtain d1 where p1: "create_document_upload_intent ejemplo_env ej_docs ej_subida (ej_docs_db []) = Inr (d1, ej_docs_db [ej_documento 1000])"
    using mapsum_Inr[OF ej_subidas(1)] by blast
  obtain d2 where p2: "create_document_upload_intent ejemplo_env ej_docs ej_subida (ej_docs_db [ej_documento 1000]) =
      Inr (d2, ej_docs_db [ej_documento 1000, ej_documento 1001])"
    using mapsum_Inr[OF ej_subidas(2)] by blast
  have "(doc_paso show_nat)\<^sup>*\<^sup>* (ej_docs_db []) (ej_docs_db [ej_documento 1000, ej_documento 1001])"
    by (rule converse_rtranclp_into_rtranclp[OF doc_paso.subida[OF sh p1] r_into_rtranclp[of "doc_paso show_nat", OF doc_paso.subida[OF sh p2]]])
  from escaneo_no_guardado[OF i n this] show ?thesis by (simp add: ej_docs_db_def)
qed

end
