(* ===== verification/Aislamiento.thy ===== *)
theory Aislamiento
  imports Liquidaciones UfPropiedades Gastos Portal Documentos Notificaciones
begin

text \<open>
  The operations of the administration (consorcios, suppliers, concepts, expenses, units, imports,
  persons, documents) and the claims of the portal leave the rows of the other tenants as they are.
\<close>

lemma ais_consorcios:
  "tx_rel (aislado ev) (consorcios_create ev a)" "tx_rel (aislado ev) (consorcios_update_op ev i a)"
  unfolding consorcios_create_def consorcios_update_op_def validate_consorcio_def check_nombre_def Let_def
    create_consorcio_q_def update_consorcio_q_def get_consorcio_q_def
  by (auto simp: aislado_def ajenas_def mi_consorcio_def consorcio_editado_def split: option.split
      intro!: ais.rules rel_queries filter_upd_where_outside)

lemma ais_proveedores:
  "tx_rel (aislado ev) (create_proveedor ev co b)" "tx_rel (aislado ev) (update_proveedor ev i b)"
  "tx_rel (aislado ev) (set_proveedor_estado ev i e)"
  unfolding create_proveedor_def update_proveedor_def set_proveedor_estado_def validate_proveedor_def Let_def
    create_proveedor_q_def update_proveedor_q_def update_proveedor_estado_q_def get_proveedor_q_def
  by (auto simp: aislado_def ajenas_def mi_proveedor_def proveedor_editado_def split: option.split
      intro!: ais.rules rel_queries filter_upd_where_outside)

lemma ais_gastos:
  "tx_rel (aislado ev) (create_concepto ev co c)" "tx_rel (aislado ev) (create_gasto ev co g)"
  unfolding create_concepto_def validate_concepto_def create_concepto_q_def create_gasto_def validate_gasto_def opt_scan_def
    create_gasto_q_def Let_def
  by (auto simp: aislado_def ajenas_def split: option.split prod.split intro!: ais.rules rel_queries)

lemma ais_subida: "tx_rel (aislado ev) (create_document_upload_intent ev de u)"
  unfolding create_document_upload_intent_def create_upload_intent_def must_optional_def must_parse_def insert_documento_def Let_def
  by (auto simp: aislado_def ajenas_def split: option.split sum.split intro!: ais.rules rel_queries)

lemma ais_bajada: "tx_rel (aislado ev) (get_document_download_url ev de x)"
  by (auto simp: tx_rel_def get_document_download_url_def map_sum_def split: sum.splits)

lemma ais_portal: "tx_rel (aislado ev) (portal_crear_reclamo ev r)"
  unfolding portal_crear_reclamo_def list_unidades_for_current_user_def
  by (intro ais.rules reclamos_aislados_ops)

lemma ais_notificacion: "tx_rel (aislado ev) (notificaciones_marcar ev i)"
  unfolding notificaciones_marcar_def aviso_uuid_def marcar_leida_q_def Let_def
  by (auto simp: aislado_def ajenas_def mi_aviso_def intro!: ais.rules rel_queries filter_upd_where_outside)


end
