(* ===== verification/Spec2Isabelle.thy ===== *)
theory Spec2Isabelle
  imports LiqEjemplo CobEjemplo RecPropiedades IdentEjemplo AvisosEjemplo ImpEjemplo Auditoria Aislamiento
begin

text \<open>
  Verification development of consorcioabierto, a server in Go for the administration of buildings
  in joint ownership (consorcios): the expenses of a period are settled and shared out among the
  units, the units owe charges, pay them, and their owners file claims; every tenant sees its own rows
  only, by the row-level security of PostgreSQL.

  \<^bold>\<open>How the program is modelled.\<close> A table is a list of records in the state \<open>db\<close> (or \<open>ident_db\<close> for the
  identity), a query of \<open>internal/database/gen\<close> is a function on it, and an operation is a function of
  the environment, the input and the state that returns an error or a result with the new state; the
  surrounding transaction is rolled back on an error, so that an error has no state. The identity
  manager runs several transactions per operation and keeps its state on errors. \<open>env\<close> holds what a
  request fixes (tenant, user, clock) and the third-party functions (parsing and printing of UUIDs and
  dates, digests, \<open>NUMERIC\<close> conversions), with their documented laws in \<open>env_ok\<close>; \<open>auth_env\<close> holds
  the configuration and the cryptography of the identity, with \<open>auth_ok\<close>. Amounts are \<open>int\<close> reduced to
  64 bits where Go wraps around; \<open>float64\<close> is modelled exactly in \<open>Float64\<close>.

  \<^bold>\<open>Theories.\<close>
  \<^item> \<open>Prelude\<close>: 64-bit integers, tables (\<open>upd_where\<close>, \<open>del_where\<close>), the transaction monad, the locale
    \<open>step_rel\<close> of relations that transactions respect, the locale \<open>maquina\<close> of state machines.
  \<^item> \<open>Float64\<close>, \<open>Fechas\<close>: binary64 arithmetic and dates, numbers and blanks in strings.
  \<^item> \<open>Calculo\<close> (\<open>expensas/calculo.go\<close>): the distribution of the expenses.
  \<^item> \<open>Modelo\<close> (\<open>gen/models.go\<close>, migrations): rows, errors, environment, state, statements.
  \<^item> \<open>CuentaCorriente\<close> (\<open>cuenta_corriente/\<close>): charges, entries, arrears. \<open>Idempotencia\<close>: keys.
  \<^item> \<open>LiqConsultas\<close>, \<open>Liquidaciones\<close>, \<open>LiqInvariante\<close>, \<open>LiqCiclo\<close>, \<open>LiqEjemplo\<close>
    (\<open>expensas/liquidacion.go\<close>, \<open>expensas/transiciones.go\<close>): queries, operations, the invariant of the
    reachable states, the abstract life cycle that the operations refine, concrete runs.
  \<^item> \<open>CobConsultas\<close>, \<open>Cobranzas\<close>, \<open>MercadoPago\<close>, \<open>CobInvariante\<close>, \<open>CobPropiedades\<close>, \<open>CobCiclo\<close>,
    \<open>CobTeoremas\<close>, \<open>CobEjemplo\<close> (\<open>cobranzas/\<close>): the payments and their allocations in the same way.
  \<^item> \<open>Reclamos\<close>, \<open>RecPropiedades\<close> (\<open>reclamos/reclamos.go\<close>): the claims, their messages and history.
  \<^item> \<open>Base64\<close>, \<open>Credenciales\<close> (\<open>identity/password.go\<close>, \<open>jwt.go\<close>), \<open>Permisos\<close> (\<open>permissions.go\<close>,
    \<open>permissions_cache.go\<close>), \<open>IdentConsultas\<close> (\<open>identity.sql.go\<close>, \<open>attempts.go\<close>), \<open>Identidad\<close> (\<open>auth.go\<close>,
    \<open>mfa.go\<close>, the middleware), \<open>IdentTokens\<close>, \<open>IdentPropiedades\<close>, \<open>IdentEjemplo\<close>: credentials,
    roles, sessions, refresh tokens and the second factor.
  \<^item> \<open>Comunicados\<close> (\<open>comunicaciones/comunicados.go\<close>), \<open>Notificaciones\<close>
    (\<open>notificaciones/notificaciones.go\<close>), \<open>Pdf\<close> (\<open>outbox/pdf.go\<close>, the receipt of \<open>cobranzas/ledger.go\<close>),
    \<open>Outbox\<close> (\<open>outbox/outbox.go\<close>, \<open>apps/worker\<close>), \<open>OutboxPropiedades\<close>, \<open>Avisos\<close>, \<open>AvisosEjemplo\<close>: the
    announcements, the events that a publication leaves, the worker that claims and processes them and
    the notices that it delivers, as one system in which requests and workers interleave.
  \<^item> \<open>Decimales\<close>: the decimal numbers of \<open>consorcios/ufs.go\<close> (\<open>parseNumeric\<close>, \<open>floatToNumeric\<close>) with the
    functions of \<open>strconv\<close> that read and print a \<open>float64\<close>. \<open>Unidades\<close> (\<open>consorcios/ufs.go\<close>,
    \<open>ufs.sql.go\<close>), \<open>Consorcios\<close> (\<open>consorcios.go\<close>, \<open>proveedores.go\<close>), \<open>Gastos\<close> (\<open>expensas/gastos.go\<close>,
    \<open>conceptos.go\<close>): the units with their persons and links, the consorcios, suppliers, concepts and expenses.
  \<^item> \<open>Importaciones\<close> (\<open>consorcios/imports.go\<close>, \<open>import_jobs.sql.go\<close>): the reader of \<open>encoding/csv\<close>, the
    preview of a file, its job and the confirmation; \<open>UfPropiedades\<close> has a hierarchy of locales for what
    the operations on units may change, \<open>ImpTeoremas\<close> the properties, \<open>ImpEjemplo\<close> concrete runs.
  \<^item> \<open>Personas\<close> (\<open>personas/personas.go\<close>), \<open>Portal\<close> (\<open>portal/home.go\<close>, \<open>portal/reclamos.go\<close>): the users of
    the persons, and what a user sees and files. \<open>Auditoria\<close> (\<open>audit/\<close>, the handler of the list):
    events and their pages. \<open>Documentos\<close> (\<open>documentos/\<close> and its handlers): upload, scan and download.
  \<^item> \<open>Aislamiento\<close>: the isolation of the tenants, for the operations of the requests together.

  \<^bold>\<open>What the lemmas show.\<close> Of the settlements: the distribution is exact, the charges of a confirmed
  settlement total its snapshot, an annulled one leaves no debt, the states follow the life cycle, at
  most one settlement of a period is active. Of the payments: crediting allocates to the due charges
  by age and within the payment, is repeatable, keys make the creation idempotent, a notification
  credits once. Of the claims: the history is a path of the state machine, an action answers exactly
  what the table of transitions says. Of the identity: tokens and hashes are read back, the roles have
  the documented permissions, a family of refresh tokens has at most one live token, the reuse of a
  token kills its family, failed logins are limited. Of the publications: an announcement has one event,
  an event is tried at most three times and is final afterwards, a processed event notifies everyone with
  a current link, once. The PDF files are read back along their table of objects. Of the administration:
  the preview of an import judges every row, its confirmation creates a unit for exactly the rows that it
  counts and never changes a unit that the mode protects, its counts agree, a person has one open link of a
  kind to a unit and the links are a history; the portal shows and accepts what is the user's own; following the
  cursors of the audit ends and shows every event once; a download is answered for clean documents
  only. The invariants are proved for every sequence of
  operations by induction on the steps; the isolation of the tenants by the locale \<open>step_rel\<close>. Some
  theorems state what the code does against its documents: they are named in the findings.

  \<^bold>\<open>Bounds and fuel.\<close> No operation needs fuel: the loops of the code are over lists. A client that
  follows the cursors of the audit (\<open>seguir_paginas\<close>) has fuel for its requests, and one more than there are
  full pages is proved to be enough. The rounding of a share is exact for the amounts that the
  hypotheses of \<open>Calculo\<close> bound.

  \<^bold>\<open>Not modelled.\<close> The HTTP handlers that only decode a request, call an operation and encode its
  answer (those of the authentication, of the audit and of the documents are modelled); the object storage,
  whose methods are parameters of \<open>Documentos\<close>; start-up, configuration, observability, and the web
  client, which are input and output. Operations run one after another, except where a theorem
  interleaves the transactions of one operation with others.
\<close>

end
